(* ===== verification/JsValue.thy ===== *)
theory JsValue
  imports Prelude "HOL-Library.Char_ord" "HOL-Library.List_Lexorder"
begin

section \<open>JavaScript values: what the contracts read of untyped input\<close>

text \<open>
  The contracts of \<open>core-sdk\<close> receive \<open>unknown\<close>. A value is one of the constructors of
  \<open>js_value\<close>; an object is its list of own enumerable properties in enumeration order.
  Strings are lists of code units; the type \<open>string\<close> holds the code units below 256, so
  every statement of the development is about that part of the string space, on which
  \<open>length\<close>, the UTF-8 byte length, trimming and code-unit comparison are computed exactly.
  A number is a whole number, another finite number (its value with the text
  \<open>Number.prototype.toString\<close> gives it), \<open>NaN\<close> or an infinity.

  The theory models the parts of the language the validators use: property reads,
  \<open>Object.hasOwn\<close>, \<open>Number.isSafeInteger\<close>, \<open>String(x)\<close>, \<open>JSON.stringify\<close>,
  \<open>Buffer.byteLength\<close>, the identifier and digest patterns, and the canonical instants
  \<open>new Date(Date.parse(s)).toISOString() === s\<close>. \<open>Date.parse\<close> on any other string is
  defined by the host engine, so it is the parameter \<open>host_date\<close> of the functions that call
  it.
\<close>

datatype js_number = Whole int | Fraction rat string | NaN | Infinite bool

datatype js_value =
    JUndef
  | JNull
  | JBool bool
  | JNum js_number
  | JStr string
  | JArr "js_value list"
  | JObj "(string \<times> js_value) list"

subsection \<open>Property reads\<close>

type_synonym js_record = "(string \<times> js_value) list"

definition getProp :: "js_record \<Rightarrow> string \<Rightarrow> js_value" where
  "getProp ps k = (case map_of ps k of None \<Rightarrow> JUndef | Some v \<Rightarrow> v)"

definition hasOwn :: "js_record \<Rightarrow> string \<Rightarrow> bool" where
  "hasOwn ps k = (map_of ps k \<noteq> None)"

definition optional :: "js_value \<Rightarrow> js_value option" where
  "optional v = (if v = JUndef then None else Some v)"

fun is_bool :: "js_value \<Rightarrow> bool" where
  "is_bool (JBool b) = True"
| "is_bool _ = False"

fun is_string :: "js_value \<Rightarrow> bool" where
  "is_string (JStr s) = True"
| "is_string _ = False"

fun is_array :: "js_value \<Rightarrow> bool" where
  "is_array (JArr xs) = True"
| "is_array _ = False"

fun is_record :: "js_value \<Rightarrow> bool" where
  "is_record (JObj ps) = True"
| "is_record _ = False"

fun the_bool :: "js_value \<Rightarrow> bool" where
  "the_bool (JBool b) = b"
| "the_bool _ = False"

fun the_string :: "js_value \<Rightarrow> string" where
  "the_string (JStr s) = s"
| "the_string _ = []"

fun the_array :: "js_value \<Rightarrow> js_value list" where
  "the_array (JArr xs) = xs"
| "the_array _ = []"

fun the_int :: "js_value \<Rightarrow> int" where
  "the_int (JNum (Whole i)) = i"
| "the_int _ = 0"

definition the_nat :: "js_value \<Rightarrow> nat" where
  "the_nat v = nat (the_int v)"

definition jnat :: "nat \<Rightarrow> js_value" where
  "jnat n = JNum (Whole (int n))"

lemma is_stringE: "is_string v \<Longrightarrow> (\<And>s. v = JStr s \<Longrightarrow> P) \<Longrightarrow> P"
  by (cases v) auto

lemma is_arrayE: "is_array v \<Longrightarrow> (\<And>xs. v = JArr xs \<Longrightarrow> P) \<Longrightarrow> P"
  by (cases v) auto

lemma is_boolE: "is_bool v \<Longrightarrow> (\<And>b. v = JBool b \<Longrightarrow> P) \<Longrightarrow> P"
  by (cases v) auto

lemma optional_simps [simp]:
  "optional JUndef = None"
  "v \<noteq> JUndef \<Longrightarrow> optional v = Some v"
  by (simp_all add: optional_def)

lemma the_nat_jnat [simp]: "the_nat (jnat n) = n"
  by (simp add: the_nat_def jnat_def)

lemma jnat_not_undef [simp]: "jnat n \<noteq> JUndef"
  by (simp add: jnat_def)

lemma getProp_Nil [simp]: "getProp [] k = JUndef"
  by (simp add: getProp_def)

lemma getProp_Cons: "getProp ((k, v) # ps) k' = (if k' = k then v else getProp ps k')"
  by (simp add: getProp_def)

lemma getProp_append: "getProp (ps @ qs) k = (if hasOwn ps k then getProp ps k else getProp qs k)"
  by (simp add: getProp_def hasOwn_def map_add_def split: option.splits)

lemma hasOwn_Nil [simp]: "\<not> hasOwn [] k"
  by (simp add: hasOwn_def)

lemma hasOwn_Cons: "hasOwn ((k, v) # ps) k' \<longleftrightarrow> k' = k \<or> hasOwn ps k'"
  by (simp add: hasOwn_def)

lemma hasOwn_append: "hasOwn (ps @ qs) k \<longleftrightarrow> hasOwn ps k \<or> hasOwn qs k"
  by (auto simp: hasOwn_def map_add_def split: option.splits)

lemmas record_simps = getProp_Cons getProp_append hasOwn_Cons hasOwn_append

subsection \<open>Numbers\<close>

definition MAX_SAFE_INTEGER :: int where
  "MAX_SAFE_INTEGER = 9007199254740991"

fun isSafeInteger :: "js_value \<Rightarrow> bool" where
  "isSafeInteger (JNum (Whole i)) = (\<bar>i\<bar> \<le> MAX_SAFE_INTEGER)"
| "isSafeInteger _ = False"

definition positiveInteger :: "js_value \<Rightarrow> bool" where
  "positiveInteger v = (isSafeInteger v \<and> the_int v > 0)"

definition nonNegativeInteger :: "js_value \<Rightarrow> bool" where
  "nonNegativeInteger v = (isSafeInteger v \<and> the_int v \<ge> 0)"

definition safe_nat :: "nat \<Rightarrow> bool" where
  "safe_nat n = (int n \<le> MAX_SAFE_INTEGER)"

lemma isSafeInteger_iff: "isSafeInteger v \<longleftrightarrow> (\<exists>i. v = JNum (Whole i) \<and> \<bar>i\<bar> \<le> MAX_SAFE_INTEGER)"
  by (cases v rule: isSafeInteger.cases) auto

lemma positiveInteger_iff:
  "positiveInteger v \<longleftrightarrow> (\<exists>n. v = jnat n \<and> 0 < n \<and> safe_nat n)"
  by (auto simp: positiveInteger_def isSafeInteger_iff jnat_def safe_nat_def
      dest!: zero_less_imp_eq_int)

lemma nonNegativeInteger_iff:
  "nonNegativeInteger v \<longleftrightarrow> (\<exists>n. v = jnat n \<and> safe_nat n)"
  by (auto simp: nonNegativeInteger_def isSafeInteger_iff jnat_def safe_nat_def
      dest!: zero_le_imp_eq_int)

lemma positiveInteger_the_nat:
  "positiveInteger v \<longleftrightarrow> v = jnat (the_nat v) \<and> 0 < the_nat v \<and> safe_nat (the_nat v)"
  by (auto simp: positiveInteger_iff)

lemma nonNegativeInteger_the_nat:
  "nonNegativeInteger v \<longleftrightarrow> v = jnat (the_nat v) \<and> safe_nat (the_nat v)"
  by (auto simp: nonNegativeInteger_iff)

subsection \<open>Strings\<close>

definition char_code :: "char \<Rightarrow> nat" where
  "char_code c = of_char c"

definition utf8_length :: "string \<Rightarrow> nat" where
  "utf8_length s = sum_list (map (\<lambda>c. if char_code c < 128 then 1 else 2) s)"

definition js_space :: "char \<Rightarrow> bool" where
  "js_space c = (char_code c \<in> {9, 10, 11, 12, 13, 32, 160})"

definition blank :: "string \<Rightarrow> bool" where
  "blank s = list_all js_space s"

definition is_alnum :: "char \<Rightarrow> bool" where
  "is_alnum c = (let n = char_code c in
     (48 \<le> n \<and> n \<le> 57) \<or> (65 \<le> n \<and> n \<le> 90) \<or> (97 \<le> n \<and> n \<le> 122))"

definition is_digit :: "char \<Rightarrow> bool" where
  "is_digit c = (48 \<le> char_code c \<and> char_code c \<le> 57)"

definition is_hex_digit :: "char \<Rightarrow> bool" where
  "is_hex_digit c = (is_digit c \<or> (97 \<le> char_code c \<and> char_code c \<le> 102))"

text \<open>The pattern \<open>[A-Za-z0-9][A-Za-z0-9._:/@+-]{0,127}\<close>, anchored at both ends.\<close>

definition safe_id_string :: "string \<Rightarrow> bool" where
  "safe_id_string s = (case s of [] \<Rightarrow> False | c # cs \<Rightarrow>
     is_alnum c \<and> length cs \<le> 127 \<and> list_all (\<lambda>d. is_alnum d \<or> d \<in> set ''._:/@+-'') cs)"

text \<open>The pattern \<open>sha256:[a-f0-9]{64}\<close>, anchored at both ends.\<close>

definition sha256_string :: "string \<Rightarrow> bool" where
  "sha256_string s = (take 7 s = ''sha256:'' \<and> length s = 71 \<and> list_all is_hex_digit (drop 7 s))"

fun safeId :: "js_value \<Rightarrow> bool" where
  "safeId (JStr s) = safe_id_string s"
| "safeId _ = False"

fun sha256_digest :: "js_value \<Rightarrow> bool" where
  "sha256_digest (JStr s) = sha256_string s"
| "sha256_digest _ = False"

lemma safeId_iff: "safeId v \<longleftrightarrow> (\<exists>s. v = JStr s \<and> safe_id_string s)"
  by (cases v) auto

lemma sha256_digest_iff: "sha256_digest v \<longleftrightarrow> (\<exists>s. v = JStr s \<and> sha256_string s)"
  by (cases v) auto

lemma safe_id_string_nonempty: "safe_id_string s \<Longrightarrow> s \<noteq> []"
  by (auto simp: safe_id_string_def)

lemma safe_id_string_length: "safe_id_string s \<Longrightarrow> length s \<le> 128"
  by (auto simp: safe_id_string_def split: list.splits)

fun joinWith :: "string \<Rightarrow> string list \<Rightarrow> string" where
  "joinWith sep [] = []"
| "joinWith sep [x] = x"
| "joinWith sep (x # y # ys) = x @ sep @ joinWith sep (y # ys)"

fun split_on :: "char \<Rightarrow> string \<Rightarrow> string list" where
  "split_on d [] = [[]]"
| "split_on d (c # cs) =
     (if c = d then [] # split_on d cs
      else (case split_on d cs of [] \<Rightarrow> [[c]] | w # ws \<Rightarrow> (c # w) # ws))"

definition starts_with :: "string \<Rightarrow> string \<Rightarrow> bool" where
  "starts_with p s = (take (length p) s = p)"

lemma split_on_nonempty: "split_on d s \<noteq> []"
  by (induction s) (auto split: list.splits)

subsection \<open>Numerals and \<open>String(x)\<close>\<close>

fun nat_to_string :: "nat \<Rightarrow> string" where
  "nat_to_string n =
     (if n < 10 then [char_of (48 + n)] else nat_to_string (n div 10) @ [char_of (48 + n mod 10)])"

declare nat_to_string.simps [simp del]

definition int_to_string :: "int \<Rightarrow> string" where
  "int_to_string i = (if i < 0 then CHR ''-'' # nat_to_string (nat (- i)) else nat_to_string (nat i))"

fun number_to_string :: "js_number \<Rightarrow> string" where
  "number_to_string (Whole i) = int_to_string i"
| "number_to_string (Fraction q s) = s"
| "number_to_string NaN = ''NaN''"
| "number_to_string (Infinite neg) = (if neg then ''-Infinity'' else ''Infinity'')"

text \<open>
  \<open>String(x)\<close>: an array prints its elements joined by commas (\<open>null\<close> and \<open>undefined\<close> as
  nothing), a plain object as \<open>[object Object]\<close>. In particular a one-element array prints as
  its element.
\<close>

fun js_String :: "js_value \<Rightarrow> string"
  and js_String_elems :: "js_value list \<Rightarrow> string list" where
  "js_String JUndef = ''undefined''"
| "js_String JNull = ''null''"
| "js_String (JBool b) = (if b then ''true'' else ''false'')"
| "js_String (JNum n) = number_to_string n"
| "js_String (JStr s) = s"
| "js_String (JArr xs) = joinWith '','' (js_String_elems xs)"
| "js_String (JObj ps) = ''[object Object]''"
| "js_String_elems [] = []"
| "js_String_elems (x # xs) =
     (if x = JUndef \<or> x = JNull then [] else js_String x) # js_String_elems xs"

subsection \<open>JSON.stringify and byte sizes\<close>

definition hex_char :: "nat \<Rightarrow> char" where
  "hex_char n = (if n < 10 then char_of (48 + n) else char_of (87 + n))"

definition json_escape :: "char \<Rightarrow> string" where
  "json_escape c = (let n = char_code c in
     if n = 34 then [CHR 92, CHR 34] else if n = 92 then [CHR 92, CHR 92]
     else if n = 8 then [CHR 92, CHR ''b''] else if n = 12 then [CHR 92, CHR ''f'']
     else if n = 10 then [CHR 92, CHR ''n''] else if n = 13 then [CHR 92, CHR ''r'']
     else if n = 9 then [CHR 92, CHR ''t'']
     else if n < 32 then CHR 92 # ''u00'' @ [hex_char (n div 16), hex_char (n mod 16)]
     else [c])"

definition json_quote :: "string \<Rightarrow> string" where
  "json_quote s = [CHR 34] @ concat (map json_escape s) @ [CHR 34]"

fun stringify :: "js_value \<Rightarrow> string option"
  and stringify_elems :: "js_value list \<Rightarrow> string list"
  and stringify_props :: "(string \<times> js_value) list \<Rightarrow> string list" where
  "stringify JUndef = None"
| "stringify JNull = Some ''null''"
| "stringify (JBool b) = Some (if b then ''true'' else ''false'')"
| "stringify (JNum n) = Some (case n of NaN \<Rightarrow> ''null'' | Infinite _ \<Rightarrow> ''null''
      | _ \<Rightarrow> number_to_string n)"
| "stringify (JStr s) = Some (json_quote s)"
| "stringify (JArr xs) = Some (''['' @ joinWith '','' (stringify_elems xs) @ '']'')"
| "stringify (JObj ps) = Some (''{'' @ joinWith '','' (stringify_props ps) @ ''}'')"
| "stringify_elems [] = []"
| "stringify_elems (x # xs) =
     (case stringify x of None \<Rightarrow> ''null'' | Some t \<Rightarrow> t) # stringify_elems xs"
| "stringify_props [] = []"
| "stringify_props ((k, v) # ps) =
     (case stringify v of None \<Rightarrow> stringify_props ps
      | Some t \<Rightarrow> (json_quote k @ '':'' @ t) # stringify_props ps)"

text \<open>
  \<open>jsonBytes\<close> is the UTF-8 size of \<open>JSON.stringify\<close>; a value that has no JSON text makes
  \<open>Buffer.byteLength\<close> throw, which the source turns into \<open>Infinity\<close>. \<open>json_within n v\<close>
  is the comparison \<open>jsonBytes(v) <= n\<close>.
\<close>

definition json_within :: "nat \<Rightarrow> js_value \<Rightarrow> bool" where
  "json_within n v = (case stringify v of None \<Rightarrow> False | Some t \<Rightarrow> utf8_length t \<le> n)"

subsection \<open>Canonical instants\<close>

definition leap_year :: "int \<Rightarrow> bool" where
  "leap_year y = ((y mod 4 = 0 \<and> y mod 100 \<noteq> 0) \<or> y mod 400 = 0)"

definition days_in_month :: "int \<Rightarrow> nat \<Rightarrow> nat" where
  "days_in_month y m =
     (if m = 2 then (if leap_year y then 29 else 28) else if m \<in> {4, 6, 9, 11} then 30 else 31)"

definition digits_value :: "string \<Rightarrow> nat" where
  "digits_value s = foldl (\<lambda>acc c. 10 * acc + (char_code c - 48)) 0 s"

text \<open>
  The four-digit-year instants \<open>YYYY-MM-DDTHH:mm:ss.sssZ\<close> that \<open>toISOString\<close> writes for the
  years 0 to 9999, and the six-digit signed form it writes outside that range, within the
  time range of \<open>Date\<close>.
\<close>

definition time_of_day_ok :: "string \<Rightarrow> bool" where
  "time_of_day_ok s = (length s = 14 \<and> s ! 0 = CHR ''T'' \<and> s ! 3 = CHR '':'' \<and> s ! 6 = CHR '':''
     \<and> s ! 9 = CHR ''.'' \<and> s ! 13 = CHR ''Z''
     \<and> list_all is_digit (take 2 (drop 1 s) @ take 2 (drop 4 s) @ take 2 (drop 7 s) @ take 3 (drop 10 s))
     \<and> digits_value (take 2 (drop 1 s)) \<le> 23 \<and> digits_value (take 2 (drop 4 s)) \<le> 59
     \<and> digits_value (take 2 (drop 7 s)) \<le> 59)"

definition month_day_ok :: "int \<Rightarrow> string \<Rightarrow> bool" where
  "month_day_ok y s = (length s = 6 \<and> s ! 0 = CHR ''-'' \<and> s ! 3 = CHR ''-''
     \<and> list_all is_digit (take 2 (drop 1 s) @ take 2 (drop 4 s))
     \<and> (let m = digits_value (take 2 (drop 1 s)); d = digits_value (take 2 (drop 4 s)) in
          1 \<le> m \<and> m \<le> 12 \<and> 1 \<le> d \<and> d \<le> days_in_month y m))"

definition canonical_instant_string :: "string \<Rightarrow> bool" where
  "canonical_instant_string s =
     (if length s = 24 then
        list_all is_digit (take 4 s) \<and> month_day_ok (int (digits_value (take 4 s))) (take 6 (drop 4 s))
        \<and> time_of_day_ok (drop 10 s)
      else if length s = 27 then
        (s ! 0 = CHR ''+'' \<or> s ! 0 = CHR ''-'') \<and> list_all is_digit (take 6 (drop 1 s))
        \<and> (let n = int (digits_value (take 6 (drop 1 s))); y = (if s ! 0 = CHR ''-'' then - n else n);
               rest = drop 7 s in
             (y < 0 \<or> 9999 < y) \<and> month_day_ok y (take 6 rest) \<and> time_of_day_ok (drop 6 rest)
             \<and> (y < 275760 \<or> (y = 275760 \<and> rest \<le> ''-09-13T00:00:00.000Z''))
             \<and> (- 271821 < y \<or> (y = - 271821 \<and> ''-04-20T00:00:00.000Z'' \<le> rest)))
      else False)"

fun canonicalInstant :: "js_value \<Rightarrow> bool" where
  "canonicalInstant (JStr s) = canonical_instant_string s"
| "canonicalInstant _ = False"

text \<open>\<open>Number.isFinite(Date.parse(v))\<close>, the host engine deciding the non-canonical strings.\<close>

fun timestamp :: "(string \<Rightarrow> bool) \<Rightarrow> js_value \<Rightarrow> bool" where
  "timestamp host_date (JStr s) = (canonical_instant_string s \<or> host_date s)"
| "timestamp host_date _ = False"

lemma canonicalInstant_iff:
  "canonicalInstant v \<longleftrightarrow> (\<exists>s. v = JStr s \<and> canonical_instant_string s)"
  by (cases v) auto

lemma timestamp_iff:
  "timestamp h v \<longleftrightarrow> (\<exists>s. v = JStr s \<and> (canonical_instant_string s \<or> h s))"
  by (cases v) auto

end
