(* ===== verification/Acyclicity.thy ===== *)
theory Acyclicity
  imports Prelude
begin

section \<open>Cycle checks: the two algorithms of the repository and their common contract\<close>

text \<open>
  Two parts of the program reject cyclic graphs. \<open>assertAcyclic\<close> of \<open>workflow.ts\<close> peels off
  nodes of indegree zero with a queue (\<open>kahn_visited\<close>); \<open>assertAcyclic\<close> of
  \<open>planValidator.ts\<close> and \<open>assertPlanDependencies\<close> of \<open>session-journal.ts\<close> walk the
  dependencies depth first with a visiting and a visited set (\<open>dfs_steps\<close>). Both satisfy the
  locale \<open>acyclicity_check\<close>: on a graph whose edges join listed nodes they accept exactly
  the acyclic ones. The locale derives once what the schedulers rely on: a topological
  rank, and in every nonempty set of nodes one whose predecessors lie outside it.

  An edge is a pair (predecessor, successor).
\<close>

subsection \<open>The contract\<close>

locale acyclicity_check =
  fixes accepts :: "'a list \<Rightarrow> ('a \<times> 'a) list \<Rightarrow> bool"
  assumes accepts_iff:
    "distinct ids \<Longrightarrow> set es \<subseteq> set ids \<times> set ids \<Longrightarrow> accepts ids es \<longleftrightarrow> acyclic (set es)"
begin

lemma accepted_wf:
  assumes "distinct ids" "set es \<subseteq> set ids \<times> set ids" "accepts ids es"
  shows "wf (set es)"
  using assms by (simp add: accepts_iff finite_acyclic_wf)

lemma accepted_source:
  assumes "distinct ids" "set es \<subseteq> set ids \<times> set ids" "accepts ids es" and "x \<in> S"
  shows "\<exists>z\<in>S. \<forall>y. (y, z) \<in> set es \<longrightarrow> y \<notin> S"
  using accepted_wf[OF assms(1-3)] assms(4) unfolding wf_eq_minimal by blast

lemma accepted_irreflexive:
  assumes "distinct ids" "set es \<subseteq> set ids \<times> set ids" "accepts ids es"
  shows "(x, x) \<notin> set es"
  using assms by (auto simp: accepts_iff acyclic_def)

lemma accepted_induct:
  assumes "distinct ids" "set es \<subseteq> set ids \<times> set ids" "accepts ids es"
    and "\<And>x. (\<And>y. (y, x) \<in> set es \<Longrightarrow> P y) \<Longrightarrow> P x"
  shows "P x"
  using wf_induct[OF accepted_wf[OF assms(1-3)]] assms(4) by blast

end

subsection \<open>Queue of indegree-zero nodes\<close>

definition map_get :: "('a \<times> 'b) list \<Rightarrow> 'a \<Rightarrow> 'b \<Rightarrow> 'b" where
  "map_get m k d = (case map_of m k of None \<Rightarrow> d | Some v \<Rightarrow> v)"

definition outgoing_of :: "('a \<times> 'a) list \<Rightarrow> ('a \<times> 'a list) list" where
  "outgoing_of es = fold (\<lambda>(f, t) m. AList.update f (map_get m f [] @ [t]) m) es []"

definition indegree_of :: "'a list \<Rightarrow> ('a \<times> 'a) list \<Rightarrow> ('a \<times> int) list" where
  "indegree_of ids es =
     fold (\<lambda>(f, t) m. AList.update t (map_get m t 0 + 1) m) es (fold (\<lambda>i m. AList.update i 0 m) ids [])"

fun relax :: "'a list \<Rightarrow> ('a \<times> int) list \<Rightarrow> 'a list \<Rightarrow> ('a \<times> int) list \<times> 'a list" where
  "relax [] indegree ready = (indegree, ready)"
| "relax (n # ns) indegree ready =
     (let c = map_get indegree n 0 - 1
      in relax ns (AList.update n c indegree) (if c = 0 then ready @ [n] else ready))"

definition positive_entries :: "('a \<times> int) list \<Rightarrow> nat" where
  "positive_entries m = length (filter (\<lambda>(k, c). 0 < c) m)"

lemma positive_entries_update:
  "positive_entries (AList.update n (map_get m n 0 - 1) m) + (if map_get m n 0 = 1 then 1 else 0)
    \<le> positive_entries m"
  by (induction m) (auto simp: positive_entries_def map_get_def split: if_splits)

lemma relax_measure:
  "relax ns indegree ready = (indegree', ready') \<Longrightarrow>
    length ready' + positive_entries indegree' \<le> length ready + positive_entries indegree"
proof (induction ns arbitrary: indegree ready)
  case (Cons n ns)
  from Cons.IH[OF Cons.prems[unfolded relax.simps Let_def]] positive_entries_update[of n indegree]
  show ?case by (auto split: if_splits)
qed simp

function kahn_loop :: "('a \<times> 'a list) list \<Rightarrow> ('a \<times> int) list \<Rightarrow> 'a list \<Rightarrow> nat \<Rightarrow> nat" where
  "kahn_loop outgoing indegree [] visited = visited"
| "kahn_loop outgoing indegree (x # ready) visited =
     (let (indegree', ready') = relax (map_get outgoing x []) indegree ready
      in kahn_loop outgoing indegree' ready' (visited + 1))"
  by pat_completeness auto
termination
proof (relation "measure (\<lambda>(out, m, ready, v). length ready + positive_entries m)", goal_cases)
  case (2 out m x ready v p m' ready')
  then show ?case using relax_measure[of "map_get out x []" m ready m' ready'] by auto
qed simp

definition kahn_visited :: "'a list \<Rightarrow> ('a \<times> 'a) list \<Rightarrow> nat" where
  "kahn_visited ids es =
     (let indegree = indegree_of ids es
      in kahn_loop (outgoing_of es) indegree (map fst (filter (\<lambda>(i, c). c = 0) indegree)) 0)"

definition kahn_accepts :: "'a list \<Rightarrow> ('a \<times> 'a) list \<Rightarrow> bool" where
  "kahn_accepts ids es = (kahn_visited ids es = length ids)"

subsection \<open>Correctness of the queue\<close>

definition targets :: "('a \<times> 'a) list \<Rightarrow> 'a \<Rightarrow> 'a list" where
  "targets es x = map snd (filter (\<lambda>(f, t). f = x) es)"

definition open_in :: "('a \<times> 'a) list \<Rightarrow> 'a set \<Rightarrow> 'a \<Rightarrow> nat" where
  "open_in es D n = length (filter (\<lambda>(f, t). t = n \<and> f \<notin> D) es)"

lemma map_get_Nil [simp]: "map_get [] k d = d"
  by (simp add: map_get_def)

lemma map_get_update: "map_get (AList.update k v m) k' d = (if k' = k then v else map_get m k' d)"
  by (simp add: map_get_def)

lemma map_get_outgoing_fold:
  "map_get (fold (\<lambda>(f, t) m. AList.update f (map_get m f [] @ [t]) m) es m) x []
    = map_get m x [] @ targets es x"
  by (induction es arbitrary: m) (auto simp: targets_def map_get_update)

lemma map_get_outgoing [simp]: "map_get (outgoing_of es) x [] = targets es x"
  by (simp add: outgoing_of_def map_get_outgoing_fold)

lemma map_of_indegree_fold:
  "set es \<subseteq> UNIV \<times> dom (map_of m) \<Longrightarrow>
    map_of (fold (\<lambda>(f, t) m. AList.update t (map_get m t 0 + 1) m) es m) n
      = map_option (\<lambda>c. c + int (open_in es {} n)) (map_of m n)"
proof (induction es arbitrary: m)
  case Nil
  show ?case by (cases "map_of m n") (simp_all add: open_in_def)
next
  case (Cons e es)
  obtain f t where [simp]: "e = (f, t)" by force
  have "set es \<subseteq> UNIV \<times> dom (map_of (AList.update t (map_get m t 0 + 1) m))"
    using Cons.prems by auto
  from Cons.IH[OF this] show ?case
    using Cons.prems by (cases "map_of m n") (auto simp: open_in_def map_get_def)
qed

lemma map_of_zero_fold:
  "map_of (fold (\<lambda>i m. AList.update i (0::int) m) ids m) n
    = (if n \<in> set ids then Some 0 else map_of m n)"
  by (induction ids arbitrary: m) auto

lemma keys_zero_fold:
  "set (map fst (fold (\<lambda>i m. AList.update i (0::int) m) ids m)) = set ids \<union> set (map fst m)"
  by (induction ids arbitrary: m) (auto simp: update_keys simp flip: set_map)

lemma distinct_zero_fold:
  "distinct (map fst m) \<Longrightarrow> distinct (map fst (fold (\<lambda>i m. AList.update i (0::int) m) ids m))"
  by (induction ids arbitrary: m) (auto intro: distinct_keys_update)

lemma distinct_count_fold:
  "distinct (map fst m) \<Longrightarrow>
    distinct (map fst (fold (\<lambda>(f, t) m. AList.update t (map_get m t (0::int) + 1) m) es m))"
  by (induction es arbitrary: m) (auto intro: distinct_keys_update)

lemma map_of_indegree:
  assumes "set es \<subseteq> set ids \<times> set ids"
  shows "map_of (indegree_of ids es) n = (if n \<in> set ids then Some (int (open_in es {} n)) else None)"
proof -
  have "set es \<subseteq> UNIV \<times> dom (map_of (fold (\<lambda>i m. AList.update i (0::int) m) ids []))"
    using assms by (auto simp: map_of_zero_fold)
  then show ?thesis
    unfolding indegree_of_def by (subst map_of_indegree_fold) (auto simp: map_of_zero_fold)
qed

lemma distinct_indegree: "distinct (map fst (indegree_of ids es))"
  unfolding indegree_of_def by (intro distinct_count_fold distinct_zero_fold) simp

lemma relax_spec:
  assumes "relax ns m ready = (m', ready')"
    and "\<And>n. n \<in> set ids \<Longrightarrow> map_of m n = Some (int (c n))"
    and "set ns \<subseteq> set ids" and "\<And>n. count_list ns n \<le> c n"
  shows "(\<forall>n\<in>set ids. map_of m' n = Some (int (c n - count_list ns n)))
    \<and> set ready' = set ready \<union> {n \<in> set ns. c n = count_list ns n}
    \<and> (distinct ready \<and> (\<forall>n\<in>set ns. n \<notin> set ready) \<longrightarrow> distinct ready')"
  using assms
proof (induction ns arbitrary: m ready c)
  case (Cons n ns)
  define c' where "c' = c(n := c n - 1)"
  have n: "n \<in> set ids" and pos: "0 < c n" using Cons.prems(3) Cons.prems(4)[of n] by auto
  have get: "map_get m n 0 = int (c n)" using Cons.prems(2)[OF n] by (simp add: map_get_def)
  have m: "\<And>k. k \<in> set ids \<Longrightarrow> map_of (AList.update n (map_get m n 0 - 1) m) k = Some (int (c' k))"
    using Cons.prems(2) pos by (simp add: c'_def get of_nat_diff)
  have le: "count_list ns k \<le> c' k" for k
    using Cons.prems(4)[of k] by (auto simp: c'_def split: if_splits)
  have le': "count_list ns n \<le> c n - 1" using le[of n] by (simp add: c'_def)
  let ?ready = "if map_get m n 0 - 1 = 0 then ready @ [n] else ready"
  have step: "relax ns (AList.update n (map_get m n 0 - 1) m) ?ready = (m', ready')"
    using Cons.prems(1) by (simp add: Let_def)
  have only: "c n = 1 \<Longrightarrow> n \<notin> set ns" using le' by (auto simp: count_list_0_iff)
  have sub: "set ns \<subseteq> set ids" using Cons.prems(3) by simp
  have counts: "\<And>k. c' k - count_list ns k = c k - count_list (n # ns) k" by (auto simp: c'_def)
  have hit: "set ?ready \<union> {k \<in> set ns. c' k = count_list ns k}
      = set ready \<union> {k \<in> set (n # ns). c k = count_list (n # ns) k}"
  proof -
    have "k \<noteq> n \<Longrightarrow> (c' k = count_list ns k) = (c k = count_list (n # ns) k)" for k
      by (simp add: c'_def)
    moreover have "c' n = count_list ns n \<longleftrightarrow> c n = count_list (n # ns) n"
      using pos by (auto simp: c'_def)
    moreover have "n \<notin> set ns \<Longrightarrow> map_get m n 0 - 1 = 0 \<longleftrightarrow> c n = count_list (n # ns) n"
      using get pos by (auto simp: count_notin)
    moreover have "n \<in> set ns \<Longrightarrow> map_get m n 0 - 1 \<noteq> 0"
      using only get by auto
    ultimately show ?thesis by (cases "n \<in> set ns") (auto simp: count_notin split: if_splits)
  qed
  have disj: "distinct ready \<and> (\<forall>k\<in>set (n # ns). k \<notin> set ready) \<longrightarrow>
      distinct ?ready \<and> (\<forall>k\<in>set ns. k \<notin> set ?ready)"
    using only get by auto
  show ?case using Cons.IH[OF step m sub le] hit disj by (simp add: counts)
qed simp

definition kahn_inv :: "'a list \<Rightarrow> ('a \<times> 'a) list \<Rightarrow> 'a set \<Rightarrow> ('a \<times> int) list \<Rightarrow> 'a list \<Rightarrow> bool" where
  "kahn_inv ids es D m ready \<longleftrightarrow>
     D \<union> set ready \<subseteq> set ids \<and> distinct ready \<and> D \<inter> set ready = {}
     \<and> (\<forall>n\<in>set ids. map_of m n = Some (int (open_in es D n)))
     \<and> (\<forall>n\<in>set ids. n \<in> D \<union> set ready \<longleftrightarrow> open_in es D n = 0)
     \<and> (\<exists>rank. (\<forall>d\<in>D. rank d < card D) \<and> (\<forall>f t. (f, t) \<in> set es \<longrightarrow> t \<in> D \<longrightarrow> rank f < (rank t :: nat)))"

lemma open_in_insert:
  "x \<notin> D \<Longrightarrow> open_in es (insert x D) n = open_in es D n - count_list (targets es x) n
    \<and> count_list (targets es x) n \<le> open_in es D n"
  by (induction es) (auto simp: open_in_def targets_def)

lemma open_in_zero: "open_in es D n = 0 \<longleftrightarrow> (\<forall>f. (f, n) \<in> set es \<longrightarrow> f \<in> D)"
  by (auto simp: open_in_def filter_empty_conv)

lemma kahn_inv_step:
  assumes inv: "kahn_inv ids es D m (x # ready)" and es: "set es \<subseteq> set ids \<times> set ids"
    and r: "relax (targets es x) m ready = (m', ready')"
  shows "kahn_inv ids es (insert x D) m' ready'"
proof -
  have x: "x \<in> set ids" "x \<notin> D" "x \<notin> set ready" and fin: "finite D"
    and cnt: "\<And>n. n \<in> set ids \<Longrightarrow> map_of m n = Some (int (open_in es D n))"
    and zero: "\<And>n. n \<in> set ids \<Longrightarrow> n \<in> D \<union> set (x # ready) \<longleftrightarrow> open_in es D n = 0"
    and dis: "distinct ready" "D \<inter> set ready = {}" "D \<union> set ready \<subseteq> set ids"
    using inv finite_subset[of D "set ids"] by (auto simp: kahn_inv_def)
  obtain rank where rank: "\<And>d. d \<in> D \<Longrightarrow> rank d < card D"
      "\<And>f t. (f, t) \<in> set es \<Longrightarrow> t \<in> D \<Longrightarrow> rank f < (rank t :: nat)"
    using inv unfolding kahn_inv_def by blast
  have pred_x: "\<And>f. (f, x) \<in> set es \<Longrightarrow> f \<in> D" using zero[OF x(1)] by (simp add: open_in_zero)
  have sub: "set (targets es x) \<subseteq> set ids" using es by (auto simp: targets_def)
  have le: "\<And>n. count_list (targets es x) n \<le> open_in es D n"
    using open_in_insert[OF x(2)] by blast
  note spec = relax_spec[OF r cnt sub le]
  have tgt: "\<And>n. n \<in> set (targets es x) \<Longrightarrow> n \<notin> D \<union> set (x # ready)"
    using zero sub x(2) unfolding open_in_zero targets_def by fastforce
  have opn: "\<And>n. open_in es (insert x D) n = open_in es D n - count_list (targets es x) n"
    using open_in_insert[OF x(2)] by blast
  have closed: "\<And>f t. (f, t) \<in> set es \<Longrightarrow> t \<in> D \<Longrightarrow> f \<in> D"
    using zero dis by (auto simp: open_in_zero)
  let ?rank = "rank(x := card D)"
  have "\<exists>rank. (\<forall>d\<in>insert x D. rank d < card (insert x D))
      \<and> (\<forall>f t. (f, t) \<in> set es \<longrightarrow> t \<in> insert x D \<longrightarrow> rank f < (rank t :: nat))"
    using rank pred_x closed x(2) fin
    by (intro exI[of _ ?rank]) (auto simp: less_SucI)
  moreover have "\<forall>n\<in>set ids. n \<in> insert x D \<union> set ready' \<longleftrightarrow> open_in es (insert x D) n = 0"
  proof
    fix n assume n: "n \<in> set ids"
    show "n \<in> insert x D \<union> set ready' \<longleftrightarrow> open_in es (insert x D) n = 0"
      using spec zero[OF n] le[of n] tgt[of n] unfolding opn
      by (cases "n \<in> set (targets es x)") (auto simp: count_notin)
  qed
  moreover have "\<forall>n\<in>set ids. map_of m' n = Some (int (open_in es (insert x D) n))"
    using spec unfolding opn by blast
  moreover have "distinct ready'" using spec dis(1) tgt by auto
  moreover have "insert x D \<union> set ready' \<subseteq> set ids" using spec sub dis(3) x(1) by blast
  moreover have "insert x D \<inter> set ready' = {}" using spec dis(2) tgt x(3) by auto
  ultimately show ?thesis unfolding kahn_inv_def by blast
qed

lemma kahn_loop_inv:
  assumes "kahn_inv ids es D m ready" and "set es \<subseteq> set ids \<times> set ids"
  shows "\<exists>D' m'. kahn_inv ids es D' m' [] \<and> kahn_loop (outgoing_of es) m ready (card D) = card D'"
  using assms
proof (induction "outgoing_of es" m ready "card D" arbitrary: D rule: kahn_loop.induct)
  case (2 m x ready)
  obtain m' ready' where r: "relax (targets es x) m ready = (m', ready')" by force
  have inv: "kahn_inv ids es (insert x D) m' ready'"
    using kahn_inv_step[OF "2.prems" r] .
  have card: "card (insert x D) = card D + 1"
    using "2.prems"(1) finite_subset[of D "set ids"] by (auto simp: kahn_inv_def)
  show ?case
    using "2.hyps"[of "(m', ready')" m' ready' "insert x D"] inv "2.prems"(2) card r by simp
qed auto

lemma kahn_inv_initial:
  assumes "set es \<subseteq> set ids \<times> set ids"
  shows "kahn_inv ids es {} (indegree_of ids es)
    (map fst (filter (\<lambda>(i, c). c = 0) (indegree_of ids es)))"
proof -
  let ?m = "indegree_of ids es"
  have mem: "(i, c) \<in> set ?m \<longleftrightarrow> map_of ?m i = Some c" for i c
    using distinct_indegree by (metis map_of_eq_Some_iff)
  show ?thesis
    unfolding kahn_inv_def
    by (auto simp: mem map_of_indegree[OF assms] distinct_indegree distinct_map_filter
        image_iff split: if_splits)
qed

theorem kahn_accepts_iff:
  assumes "distinct ids" and "set es \<subseteq> set ids \<times> set ids"
  shows "kahn_accepts ids es \<longleftrightarrow> acyclic (set es)"
proof -
  obtain D m where inv: "kahn_inv ids es D m []" and v: "kahn_visited ids es = card D"
    using kahn_loop_inv[OF kahn_inv_initial[OF assms(2)] assms(2)]
    by (auto simp: kahn_visited_def Let_def)
  have D: "D \<subseteq> set ids" and zero: "\<And>n. n \<in> set ids \<Longrightarrow> n \<in> D \<longleftrightarrow> open_in es D n = 0"
    using inv by (auto simp: kahn_inv_def)
  obtain rank where rank: "\<And>f t. (f, t) \<in> set es \<Longrightarrow> t \<in> D \<Longrightarrow> rank f < (rank t :: nat)"
    using inv unfolding kahn_inv_def by blast
  have "kahn_accepts ids es \<longleftrightarrow> D = set ids"
    using assms(1) D v unfolding kahn_accepts_def
    by (metis List.finite_set card_subset_eq distinct_card)
  also have "\<dots> \<longleftrightarrow> acyclic (set es)"
  proof
    assume "D = set ids"
    then have "set es \<subseteq> measure rank" using rank assms(2) by (auto simp: subset_iff)
    then show "acyclic (set es)" by (meson acyclic_subset wf_acyclic wf_measure)
  next
    assume "acyclic (set es)"
    then have "wf (set es)" by (simp add: finite_acyclic_wf)
    have "n \<in> D" if "n \<in> set ids" for n
      using \<open>wf (set es)\<close> that
    proof (induction n rule: wf_induct_rule)
      case (less n)
      have "f \<in> D" if "(f, n) \<in> set es" for f using less.IH[OF that] assms(2) that by blast
      then show ?case using zero[OF less.prems] by (simp add: open_in_zero)
    qed
    then show "D = set ids" using D by blast
  qed
  finally show ?thesis .
qed

interpretation kahn: acyclicity_check kahn_accepts
  by unfold_locales (rule kahn_accepts_iff)

subsection \<open>Depth-first walk with a visiting set\<close>

text \<open>
  \<open>visiting\<close> and \<open>visited\<close> are the two sets of the source, as lists. The walk throws when it
  meets a key it is visiting (\<open>None\<close>); leaving a key removes it from \<open>visiting\<close>, so the
  caller's list is the one passed down.
\<close>

function dfs_visit :: "('a \<times> 'a list) list \<Rightarrow> 'a list \<Rightarrow> 'a list \<Rightarrow> 'a \<Rightarrow> 'a list option"
  and dfs_all :: "('a \<times> 'a list) list \<Rightarrow> 'a list \<Rightarrow> 'a list \<Rightarrow> 'a list \<Rightarrow> 'a list option" where
  "dfs_visit deps visiting visited key =
     (if key \<in> set visited then Some visited
      else if key \<in> set visiting then None
      else (case dfs_all deps (key # visiting) visited (map_get deps key []) of
              None \<Rightarrow> None | Some visited' \<Rightarrow> Some (key # visited')))"
| "dfs_all deps visiting visited [] = Some visited"
| "dfs_all deps visiting visited (key # keys) =
     (case dfs_visit deps visiting visited key of
        None \<Rightarrow> None | Some visited' \<Rightarrow> dfs_all deps visiting visited' keys)"
  by pat_completeness auto
termination
proof (relation "inv_image (less_than <*lex*> less_than)
    (case_sum (\<lambda>(deps, vg, vd, k). (card (fst ` set deps - set vg), 1::nat))
              (\<lambda>(deps, vg, vd, ks). (card (fst ` set deps - set vg), 2 * length ks)))", goal_cases)
  case (2 deps vg vd k)
  show ?case
  proof (cases "k \<in> fst ` set deps")
    case True
    with 2 have "fst ` set deps - set (k # vg) \<subset> fst ` set deps - set vg" by auto
    then have "card (fst ` set deps - set (k # vg)) < card (fst ` set deps - set vg)"
      by (intro psubset_card_mono) auto
    then show ?thesis by simp
  next
    case False
    then have "map_get deps k [] = []" by (simp add: map_get_def map_of_eq_None_iff[THEN iffD2])
    moreover from False have "fst ` set deps - set (k # vg) = fst ` set deps - set vg" by auto
    ultimately show ?thesis by simp
  qed
qed auto

declare dfs_visit.simps [simp del]

definition dfs_ok :: "('a \<times> 'a list) list \<Rightarrow> 'a list \<Rightarrow> bool" where
  "dfs_ok deps keys = (dfs_all deps [] [] keys \<noteq> None)"

subsection \<open>Correctness of the walk\<close>

text \<open>
  What the walk has visited is a list in which every key comes before its dependencies, all
  of them visited: a reverse topological order.
\<close>

fun ordered_visit :: "('a \<times> 'a list) list \<Rightarrow> 'a list \<Rightarrow> bool" where
  "ordered_visit deps [] = True"
| "ordered_visit deps (k # ks) =
     (k \<notin> set ks \<and> set (map_get deps k []) \<subseteq> set ks \<and> ordered_visit deps ks)"

definition dep_rel :: "('a \<times> 'a list) list \<Rightarrow> ('a \<times> 'a) set" where
  "dep_rel deps = {(d, k). d \<in> set (map_get deps k [])}"

lemma dfs_sound:
  "dfs_visit deps vg vd k = Some vd' \<Longrightarrow> ordered_visit deps vd \<Longrightarrow>
     ordered_visit deps vd' \<and> set vd \<subseteq> set vd' \<and> k \<in> set vd' \<and> (set vd' - set vd) \<inter> set vg = {}"
  "dfs_all deps vg vd ks = Some vd' \<Longrightarrow> ordered_visit deps vd \<Longrightarrow>
     ordered_visit deps vd' \<and> set vd \<subseteq> set vd' \<and> set ks \<subseteq> set vd' \<and> (set vd' - set vd) \<inter> set vg = {}"
proof (induction deps vg vd k and deps vg vd ks arbitrary: vd' and vd' rule: dfs_visit_dfs_all.induct)
  case (1 deps vg vd k)
  show ?case
  proof (cases "k \<in> set vd")
    case True
    then show ?thesis using "1.prems" by (simp add: dfs_visit.simps[of deps vg vd k])
  next
    case False
    then have nvg: "k \<notin> set vg" using "1.prems"(1)
      by (auto simp: dfs_visit.simps[of deps vg vd k] split: if_splits)
    obtain w where w: "dfs_all deps (k # vg) vd (map_get deps k []) = Some w" and v: "vd' = k # w"
      using "1.prems"(1) False nvg
      by (auto simp: dfs_visit.simps[of deps vg vd k] split: option.splits)
    from "1.IH"[OF False nvg w "1.prems"(2)] False nvg v show ?thesis by auto
  qed
next
  case (3 deps vg vd k ks)
  then obtain w where "dfs_visit deps vg vd k = Some w" "dfs_all deps vg w ks = Some vd'"
    by (auto split: option.splits)
  note w = this
  note a = "3.IH"(1)[OF w(1) "3.prems"(2)]
  note b = "3.IH"(2)[OF w(1) w(2) conjunct1[OF a]]
  show ?case using a b by auto
qed auto

lemma ordered_visit_rank:
  assumes "ordered_visit deps vd"
  shows "\<exists>rank. (\<forall>k\<in>set vd. rank k < length vd) \<and>
    (\<forall>d k. k \<in> set vd \<longrightarrow> d \<in> set (map_get deps k []) \<longrightarrow> rank d < (rank k :: nat))"
  using assms
proof (induction vd)
  case (Cons k ks)
  then obtain rank where r: "\<forall>j\<in>set ks. rank j < length ks"
      "\<forall>d j. j \<in> set ks \<longrightarrow> d \<in> set (map_get deps j []) \<longrightarrow> rank d < (rank j :: nat)" by auto
  have closed: "j \<in> set ks \<Longrightarrow> ordered_visit deps ks \<Longrightarrow> set (map_get deps j []) \<subseteq> set ks" for j
    by (induction ks) auto
  show ?case
    using r closed Cons.prems
    by (intro exI[of _ "rank(k := length ks)"]) (fastforce simp: less_Suc_eq)
qed simp

text \<open>
  \<open>visiting\<close> is a path: its head depends on nothing visited yet below it, each key is a
  dependency of the next.
\<close>

fun dep_path :: "('a \<times> 'a list) list \<Rightarrow> 'a list \<Rightarrow> bool" where
  "dep_path deps (a # b # rest) = ((a, b) \<in> dep_rel deps \<and> dep_path deps (b # rest))"
| "dep_path deps _ = True"

lemma dep_path_reaches:
  "dep_path deps (a # vg) \<Longrightarrow> b \<in> set (a # vg) \<Longrightarrow> (a, b) \<in> (dep_rel deps)\<^sup>*"
proof (induction vg arbitrary: a)
  case (Cons c vg)
  then show ?case by (auto intro: converse_rtrancl_into_rtrancl)
qed simp

lemma dfs_complete:
  "dfs_visit deps vg vd k = None \<Longrightarrow> dep_path deps vg \<Longrightarrow> (vg \<noteq> [] \<longrightarrow> (k, hd vg) \<in> dep_rel deps)
    \<Longrightarrow> \<not> acyclic (dep_rel deps)"
  "dfs_all deps vg vd ks = None \<Longrightarrow> dep_path deps vg
    \<Longrightarrow> (vg \<noteq> [] \<longrightarrow> set ks \<subseteq> set (map_get deps (hd vg) [])) \<Longrightarrow> \<not> acyclic (dep_rel deps)"
proof (induction deps vg vd k and deps vg vd ks rule: dfs_visit_dfs_all.induct)
  case (1 deps vg vd k)
  show ?case
  proof (cases "k \<in> set vg")
    case True
    then obtain a rest where vg: "vg = a # rest" by (cases vg) auto
    have "(a, k) \<in> (dep_rel deps)\<^sup>*" using dep_path_reaches "1.prems"(2) True vg by metis
    moreover have "(k, a) \<in> dep_rel deps" using "1.prems"(3) vg by simp
    ultimately have "(k, k) \<in> (dep_rel deps)\<^sup>+" by (rule rtrancl_into_trancl2[rotated])
    then show ?thesis by (auto simp: acyclic_def)
  next
    case False
    then have nvd: "k \<notin> set vd" and w: "dfs_all deps (k # vg) vd (map_get deps k []) = None"
      using "1.prems"(1) by (auto simp: dfs_visit.simps[of deps vg vd k] split: if_splits option.splits)
    have "dep_path deps (k # vg)" using "1.prems"(2,3) by (cases vg) auto
    from "1.IH"[OF nvd False w this] show ?thesis by simp
  qed
next
  case (3 deps vg vd k ks)
  then show ?case by (auto simp: dep_rel_def split: option.splits)
qed auto

theorem dfs_ok_iff:
  assumes "fst ` set deps \<subseteq> set keys"
  shows "dfs_ok deps keys \<longleftrightarrow> acyclic (dep_rel deps)"
proof
  assume "dfs_ok deps keys"
  then obtain vd where "dfs_all deps [] [] keys = Some vd" by (auto simp: dfs_ok_def)
  from dfs_sound(2)[OF this] have ord: "ordered_visit deps vd" and all: "set keys \<subseteq> set vd" by auto
  obtain rank where r: "\<forall>d k. k \<in> set vd \<longrightarrow> d \<in> set (map_get deps k []) \<longrightarrow> rank d < (rank k :: nat)"
    using ordered_visit_rank[OF ord] by blast
  have "dep_rel deps \<subseteq> measure rank"
  proof safe
    fix d k assume "(d, k) \<in> dep_rel deps"
    then have d: "d \<in> set (map_get deps k [])" by (simp add: dep_rel_def)
    then have "map_of deps k \<noteq> None" by (cases "map_of deps k") (auto simp: map_get_def)
    then have "k \<in> fst ` set deps" by (simp add: map_of_eq_None_iff)
    then have "k \<in> set vd" using all assms by blast
    with r d show "(d, k) \<in> measure rank" by simp
  qed
  then show "acyclic (dep_rel deps)" by (meson acyclic_subset wf_acyclic wf_measure)
next
  assume "acyclic (dep_rel deps)"
  then show "dfs_ok deps keys" using dfs_complete(2)[of deps "[]" "[]" keys] by (auto simp: dfs_ok_def)
qed

text \<open>The walk on a list of nodes and edges: the dependencies of a node are its predecessors.\<close>

definition deps_of_edges :: "'a list \<Rightarrow> ('a \<times> 'a) list \<Rightarrow> ('a \<times> 'a list) list" where
  "deps_of_edges ids es = map (\<lambda>k. (k, map fst (filter (\<lambda>(d, k'). k' = k) es))) ids"

definition dfs_accepts :: "'a list \<Rightarrow> ('a \<times> 'a) list \<Rightarrow> bool" where
  "dfs_accepts ids es = dfs_ok (deps_of_edges ids es) ids"

lemma map_get_deps_of_edges:
  "map_get (deps_of_edges ids es) k [] = (if k \<in> set ids then map fst (filter (\<lambda>(d, k'). k' = k) es) else [])"
  by (induction ids) (auto simp: deps_of_edges_def map_get_def)

lemma dep_rel_deps_of_edges:
  "set es \<subseteq> set ids \<times> set ids \<Longrightarrow> dep_rel (deps_of_edges ids es) = set es"
  by (auto simp: dep_rel_def map_get_deps_of_edges image_iff)

interpretation dfs: acyclicity_check dfs_accepts
proof
  fix ids :: "'a list" and es
  assume "distinct ids" and es: "set es \<subseteq> set ids \<times> set ids"
  have "fst ` set (deps_of_edges ids es) \<subseteq> set ids" by (auto simp: deps_of_edges_def)
  then show "dfs_accepts ids es \<longleftrightarrow> acyclic (set es)"
    by (simp add: dfs_accepts_def dfs_ok_iff dep_rel_deps_of_edges[OF es])
qed

end
