(* ===== verification/WorkflowSpec.thy ===== *)
theory WorkflowSpec
  imports JsValue Acyclicity
begin

section \<open>Workflow contract: data model and validation of specifications\<close>

text \<open>
  The first half of \<open>packages/core-sdk/src/workflow.ts\<close>: the types of a Workflow
  specification and \<open>validateWorkflowSpecV1\<close> with its helpers, in the order of the source.
  A validator takes the untyped value and returns either the error code it throws or the
  typed record. Where the source checks a field only through \<open>String(x)\<close>, or does not check
  it at all before the cast, the record keeps the raw value. Properties that are copied
  through a cast and are not fields of the declared type are not part of the records.

  \<open>spec_json\<close> is the object a typed specification is at run time. It is needed because the
  reducer validates specifications it has itself built, and it gives the round trip of the
  last section: validating an accepted specification again returns it unchanged.
\<close>

subsection \<open>Error codes\<close>

datatype workflow_error =
    WORKFLOW_SPEC_INVALID
  | WORKFLOW_NODE_INVALID
  | WORKFLOW_NODE_DUPLICATE
  | WORKFLOW_JOIN_INVALID
  | MODE_OVERRIDE_INCOMPATIBLE
  | WORKFLOW_EDGE_INVALID
  | WORKFLOW_GRAPH_CYCLE
  | WORKFLOW_BUDGET_INVALID
  | WORKFLOW_CAPABILITY_INVALID
  | WORKFLOW_EFFECT_INVALID
  | WORKFLOW_RETRY_INVALID
  | WORKFLOW_TIMEOUT_INVALID
  | WORKFLOW_CRITERION_INVALID
  | WORKFLOW_REF_INVALID
  | WORKFLOW_HISTORY_INVALID
  | WORKFLOW_TRANSITION_INVALID
  | WORKFLOW_NODE_NOT_FOUND
  | WORKFLOW_ATTEMPT_NOT_FOUND
  | WORKFLOW_ATTEMPT_DUPLICATE
  | WORKFLOW_ATTEMPT_INVALID
  | WORKFLOW_TASK_REQUEST_CONFLICT
  | WORKFLOW_GRAPH_PATCH_REJECTED
  | TYPE_ERROR

type_synonym 'a wf_result = "workflow_error + 'a"

subsection \<open>Enumerations\<close>

datatype mode_policy = Mode_auto | Mode_solo | Mode_workflow

datatype topology = Single_agent | Delegated_agents | Workflow_graph

datatype node_kind = Agent_task | Tool_activity | Decision | Verification | Human_task | Timer
  | Signal_wait | Subworkflow | Compensation | Synthesis

datatype effect_class = Pure | Read | Workspace_write | External_idempotent | External_non_idempotent

datatype completion = All_required | First_success | Explicit_synthesis

text \<open>Membership in the constant sets of the file: a string of the list, compared with \<open>===\<close>.\<close>

definition mode_policies :: "(string \<times> mode_policy) list" where
  "mode_policies = [(''auto'', Mode_auto), (''solo'', Mode_solo), (''workflow'', Mode_workflow)]"

definition topologies :: "(string \<times> topology) list" where
  "topologies = [(''single_agent'', Single_agent), (''delegated_agents'', Delegated_agents),
     (''workflow_graph'', Workflow_graph)]"

definition completion_policies :: "(string \<times> completion) list" where
  "completion_policies = [(''all_required'', All_required), (''first_success'', First_success),
     (''explicit_synthesis'', Explicit_synthesis)]"

definition node_kinds :: "(string \<times> node_kind) list" where
  "node_kinds = [(''agent_task'', Agent_task), (''tool_activity'', Tool_activity),
     (''decision'', Decision), (''verification'', Verification), (''human_task'', Human_task),
     (''timer'', Timer), (''signal_wait'', Signal_wait), (''subworkflow'', Subworkflow),
     (''compensation'', Compensation), (''synthesis'', Synthesis)]"

definition effect_classes :: "(string \<times> effect_class) list" where
  "effect_classes = [(''pure'', Pure), (''read'', Read), (''workspace_write'', Workspace_write),
     (''external_idempotent'', External_idempotent),
     (''external_non_idempotent'', External_non_idempotent)]"

fun member_of :: "(string \<times> 'a) list \<Rightarrow> js_value \<Rightarrow> 'a option" where
  "member_of table (JStr s) = map_of table s"
| "member_of table _ = None"

fun name_in :: "(string \<times> 'a) list \<Rightarrow> 'a \<Rightarrow> string" where
  "name_in [] x = []"
| "name_in ((s, y) # table) x = (if x = y then s else name_in table x)"

lemmas enum_tables = mode_policies_def topologies_def completion_policies_def node_kinds_def
  effect_classes_def

lemma name_in_key: "x \<in> set (map snd table) \<Longrightarrow> name_in table x \<in> set (map fst table)"
proof (induction table)
  case (Cons e table)
  then show ?case by (cases e) (auto simp del: set_map simp: set_map[symmetric])
qed simp

lemma member_of_name_in:
  "x \<in> set (map snd table) \<Longrightarrow> distinct (map fst table) \<Longrightarrow> member_of table (JStr (name_in table x)) = Some x"
proof (induction table)
  case (Cons e table)
  obtain s y where e: "e = (s, y)" by (cases e)
  show ?case
  proof (cases "x = y")
    case False
    then have x: "x \<in> set (map snd table)" using Cons.prems(1) e by auto
    have "name_in table x \<noteq> s" using name_in_key[OF x] Cons.prems(2) e by auto
    then show ?thesis using Cons.IH[OF x] Cons.prems(2) e False by simp
  qed (simp add: e)
qed simp

lemma enum_complete:
  "m \<in> set (map snd mode_policies)" "t \<in> set (map snd topologies)"
  "c \<in> set (map snd completion_policies)" "k \<in> set (map snd node_kinds)"
  "e \<in> set (map snd effect_classes)"
  by (cases m, auto simp: enum_tables) (cases t, auto, cases c, auto, cases k, auto, cases e, auto)

lemma enum_distinct:
  "distinct (map fst mode_policies)" "distinct (map fst topologies)"
  "distinct (map fst completion_policies)" "distinct (map fst node_kinds)"
  "distinct (map fst effect_classes)"
  by (simp_all add: enum_tables)

lemma member_of_name [simp]:
  "member_of mode_policies (JStr (name_in mode_policies m)) = Some m"
  "member_of topologies (JStr (name_in topologies t)) = Some t"
  "member_of completion_policies (JStr (name_in completion_policies c)) = Some c"
  "member_of node_kinds (JStr (name_in node_kinds k)) = Some k"
  "member_of effect_classes (JStr (name_in effect_classes e)) = Some e"
  by (rule member_of_name_in[OF enum_complete(1) enum_distinct(1)]
      member_of_name_in[OF enum_complete(2) enum_distinct(2)]
      member_of_name_in[OF enum_complete(3) enum_distinct(3)]
      member_of_name_in[OF enum_complete(4) enum_distinct(4)]
      member_of_name_in[OF enum_complete(5) enum_distinct(5)])+

declare member_of.simps [simp del]

lemma member_of_Some_string: "member_of table v = Some x \<Longrightarrow> \<exists>s. v = JStr s"
  by (cases v) (auto simp: member_of.simps)

subsection \<open>Records of the contract\<close>

record versioned_ref =
  vr_id :: string
  vr_version :: nat
  vr_digest :: "string option"

record artifact_ref =
  ar_artifactId :: string
  ar_digest :: string
  ar_mediaType :: string

record workflow_budget =
  wb_maxWallClockMs :: nat
  wb_maxTokens :: nat
  wb_maxToolCalls :: nat
  wb_maxAgentTasks :: nat
  wb_maxParallelTasks :: nat
  wb_maxCostUsd :: "js_number option"

record capacity_group =
  cg_key :: string
  cg_limit :: nat

record capability_request =
  cr_tools :: "string list"
  cr_skills :: "string list"
  cr_mcpServers :: "string list"
  cr_workspace :: js_value
  cr_network :: bool
  cr_mayDelegate :: bool

record effect_contract =
  ec_class :: effect_class
  ec_idempotencyKey :: js_value
  ec_receiptSchemaRef :: js_value
  ec_compensationRef :: js_value
  ec_requiresApproval :: bool

record retry_policy =
  rp_maxAttempts :: nat
  rp_initialBackoffMs :: nat
  rp_maxBackoffMs :: nat
  rp_retryableCodes :: "string list"

record timeout_policy =
  tp_totalMs :: nat
  tp_noProgressMs :: nat
  tp_heartbeatMs :: nat

record verification_criterion =
  vc_criterionId :: string
  vc_kind :: js_value
  vc_description :: string
  vc_ref :: js_value

datatype join_policy = Join_all | Join_any | Join_quorum nat

record node_spec =
  ns_nodeId :: string
  ns_kind :: node_kind
  ns_title :: string
  ns_required :: "bool option"
  ns_profileRef :: "versioned_ref option"
  ns_inputRefs :: "artifact_ref list"
  ns_outputSchemaRef :: "versioned_ref option"
  ns_grantRequest :: capability_request
  ns_effect :: effect_contract
  ns_retry :: retry_policy
  ns_timeout :: timeout_policy
  ns_criteria :: "verification_criterion list"
  ns_maxIterations :: "nat option"
  ns_join :: "join_policy option"

record edge_condition =
  co_operator :: js_value
  co_pointer :: "string option"
  co_value :: js_value

record workflow_edge =
  we_from :: string
  we_to :: string
  we_condition :: "edge_condition option"

record workflow_spec =
  ws_workflowId :: string
  ws_runId :: string
  ws_sessionId :: string
  ws_parent :: "(string \<times> string) option"
  ws_executionTarget :: "(string \<times> string) option"
  ws_scheduling :: "capacity_group list option"
  ws_workspace :: string
  ws_objective :: string
  ws_modePolicy :: mode_policy
  ws_topology :: topology
  ws_revision :: nat
  ws_nodes :: "node_spec list"
  ws_edges :: "workflow_edge list"
  ws_completion :: completion
  ws_budget :: workflow_budget
  ws_maxGraphMutations :: nat
  ws_createdAt :: string

subsection \<open>Shared checks\<close>

definition MAX_TEXT_BYTES :: nat where
  "MAX_TEXT_BYTES = 32 * 1024"

fun asRecord :: "js_value \<Rightarrow> workflow_error \<Rightarrow> js_record wf_result" where
  "asRecord (JObj ps) code = Inr ps"
| "asRecord _ code = Inl code"

definition text_string :: "string \<Rightarrow> bool" where
  "text_string s = (\<not> blank s \<and> utf8_length s \<le> MAX_TEXT_BYTES)"

fun isText :: "js_value \<Rightarrow> bool" where
  "isText (JStr s) = text_string s"
| "isText _ = False"

definition assertUnique :: "'a list \<Rightarrow> workflow_error \<Rightarrow> unit wf_result" where
  "assertUnique values code = require (card (set values) = length values) code"

fun negative_number :: "js_value \<Rightarrow> bool" where
  "negative_number (JNum (Whole i)) = (i < 0)"
| "negative_number (JNum (Fraction q s)) = (q < 0)"
| "negative_number (JNum (Infinite neg)) = neg"
| "negative_number _ = False"

fun is_number :: "js_value \<Rightarrow> bool" where
  "is_number (JNum n) = True"
| "is_number _ = False"

fun the_number :: "js_value \<Rightarrow> js_number" where
  "the_number (JNum n) = n"
| "the_number _ = NaN"

definition string_member :: "string list \<Rightarrow> js_value \<Rightarrow> bool" where
  "string_member names v = (js_String v \<in> set names)"

subsection \<open>Validators of the parts of a node\<close>

definition validateVersionedRef :: "js_value \<Rightarrow> versioned_ref wf_result" where
  "validateVersionedRef value =
     andThen (asRecord value WORKFLOW_REF_INVALID) (\<lambda>input.
     if \<not> safeId (getProp input ''id'') \<or> \<not> positiveInteger (getProp input ''version'')
        \<or> (getProp input ''digest'' \<noteq> JUndef \<and> \<not> sha256_digest (getProp input ''digest''))
     then Inl WORKFLOW_REF_INVALID
     else Inr \<lparr>vr_id = the_string (getProp input ''id''), vr_version = the_nat (getProp input ''version''),
       vr_digest = map_option the_string (optional (getProp input ''digest''))\<rparr>)"

definition validateArtifactRef :: "js_value \<Rightarrow> artifact_ref wf_result" where
  "validateArtifactRef value =
     andThen (asRecord value WORKFLOW_REF_INVALID) (\<lambda>input.
     if \<not> safeId (getProp input ''artifactId'') \<or> \<not> sha256_digest (getProp input ''digest'')
        \<or> \<not> isText (getProp input ''mediaType'')
     then Inl WORKFLOW_REF_INVALID
     else Inr \<lparr>ar_artifactId = the_string (getProp input ''artifactId''),
       ar_digest = the_string (getProp input ''digest''),
       ar_mediaType = the_string (getProp input ''mediaType'')\<rparr>)"

definition capability_item :: "js_value \<Rightarrow> bool" where
  "capability_item v = (v = JStr ''*'' \<or> safeId v)"

definition validateCapabilityRequest :: "js_value \<Rightarrow> capability_request wf_result" where
  "validateCapabilityRequest value =
     andThen (asRecord value WORKFLOW_CAPABILITY_INVALID) (\<lambda>input.
     if \<not> is_array (getProp input ''tools'') \<or> \<not> is_array (getProp input ''skills'')
        \<or> \<not> is_array (getProp input ''mcpServers'')
        \<or> \<not> string_member [''none'', ''read'', ''write''] (getProp input ''workspace'')
        \<or> \<not> is_bool (getProp input ''network'') \<or> \<not> is_bool (getProp input ''mayDelegate'')
     then Inl WORKFLOW_CAPABILITY_INVALID
     else if \<not> list_all capability_item (the_array (getProp input ''tools'')
               @ the_array (getProp input ''skills'') @ the_array (getProp input ''mcpServers''))
     then Inl WORKFLOW_CAPABILITY_INVALID
     else Inr \<lparr>cr_tools = map the_string (the_array (getProp input ''tools'')),
       cr_skills = map the_string (the_array (getProp input ''skills'')),
       cr_mcpServers = map the_string (the_array (getProp input ''mcpServers'')),
       cr_workspace = getProp input ''workspace'',
       cr_network = the_bool (getProp input ''network''),
       cr_mayDelegate = the_bool (getProp input ''mayDelegate'')\<rparr>)"

definition validateEffect :: "js_value \<Rightarrow> effect_contract wf_result" where
  "validateEffect value =
     andThen (asRecord value WORKFLOW_EFFECT_INVALID) (\<lambda>input.
     case member_of effect_classes (getProp input ''class'') of
       None \<Rightarrow> Inl WORKFLOW_EFFECT_INVALID
     | Some cls \<Rightarrow>
         if \<not> is_bool (getProp input ''requiresApproval'') then Inl WORKFLOW_EFFECT_INVALID
         else if cls = External_idempotent \<and> \<not> safeId (getProp input ''idempotencyKey'')
         then Inl WORKFLOW_EFFECT_INVALID
         else Inr \<lparr>ec_class = cls, ec_idempotencyKey = getProp input ''idempotencyKey'',
           ec_receiptSchemaRef = getProp input ''receiptSchemaRef'',
           ec_compensationRef = getProp input ''compensationRef'',
           ec_requiresApproval = the_bool (getProp input ''requiresApproval'')\<rparr>)"

definition validateRetry :: "js_value \<Rightarrow> retry_policy wf_result" where
  "validateRetry value =
     andThen (asRecord value WORKFLOW_RETRY_INVALID) (\<lambda>input.
     if \<not> positiveInteger (getProp input ''maxAttempts'')
        \<or> \<not> nonNegativeInteger (getProp input ''initialBackoffMs'')
        \<or> \<not> nonNegativeInteger (getProp input ''maxBackoffMs'')
        \<or> the_int (getProp input ''maxBackoffMs'') < the_int (getProp input ''initialBackoffMs'')
        \<or> \<not> is_array (getProp input ''retryableCodes'')
        \<or> \<not> list_all safeId (the_array (getProp input ''retryableCodes''))
     then Inl WORKFLOW_RETRY_INVALID
     else Inr \<lparr>rp_maxAttempts = the_nat (getProp input ''maxAttempts''),
       rp_initialBackoffMs = the_nat (getProp input ''initialBackoffMs''),
       rp_maxBackoffMs = the_nat (getProp input ''maxBackoffMs''),
       rp_retryableCodes = map the_string (the_array (getProp input ''retryableCodes''))\<rparr>)"

definition validateTimeout :: "js_value \<Rightarrow> timeout_policy wf_result" where
  "validateTimeout value =
     andThen (asRecord value WORKFLOW_TIMEOUT_INVALID) (\<lambda>input.
     if \<not> positiveInteger (getProp input ''totalMs'')
        \<or> \<not> positiveInteger (getProp input ''noProgressMs'')
        \<or> \<not> positiveInteger (getProp input ''heartbeatMs'')
        \<or> the_int (getProp input ''totalMs'') < the_int (getProp input ''noProgressMs'')
        \<or> the_int (getProp input ''noProgressMs'') \<le> the_int (getProp input ''heartbeatMs'')
     then Inl WORKFLOW_TIMEOUT_INVALID
     else Inr \<lparr>tp_totalMs = the_nat (getProp input ''totalMs''),
       tp_noProgressMs = the_nat (getProp input ''noProgressMs''),
       tp_heartbeatMs = the_nat (getProp input ''heartbeatMs'')\<rparr>)"

definition validateWorkflowCriterion :: "js_value \<Rightarrow> verification_criterion wf_result" where
  "validateWorkflowCriterion value =
     andThen (asRecord value WORKFLOW_CRITERION_INVALID) (\<lambda>input.
     if \<not> safeId (getProp input ''criterionId'')
        \<or> \<not> string_member [''schema'', ''digest'', ''receipt'', ''rule'', ''check'', ''semantic'', ''human'']
             (getProp input ''kind'')
        \<or> \<not> isText (getProp input ''description'')
     then Inl WORKFLOW_CRITERION_INVALID
     else Inr \<lparr>vc_criterionId = the_string (getProp input ''criterionId''),
       vc_kind = getProp input ''kind'', vc_description = the_string (getProp input ''description''),
       vc_ref = getProp input ''ref''\<rparr>)"

definition validateJoin :: "js_value \<Rightarrow> join_policy wf_result" where
  "validateJoin value =
     andThen (asRecord value WORKFLOW_JOIN_INVALID) (\<lambda>input.
     if getProp input ''kind'' = JStr ''all'' then Inr Join_all
     else if getProp input ''kind'' = JStr ''any'' then Inr Join_any
     else if getProp input ''kind'' = JStr ''quorum'' \<and> positiveInteger (getProp input ''minimum'')
     then Inr (Join_quorum (the_nat (getProp input ''minimum'')))
     else Inl WORKFLOW_JOIN_INVALID)"

definition validateNode :: "js_value \<Rightarrow> node_spec wf_result" where
  "validateNode value =
     andThen (asRecord value WORKFLOW_NODE_INVALID) (\<lambda>input.
     if \<not> safeId (getProp input ''nodeId'') \<or> member_of node_kinds (getProp input ''kind'') = None
        \<or> \<not> isText (getProp input ''title'') \<or> \<not> is_array (getProp input ''inputRefs'')
        \<or> \<not> is_array (getProp input ''criteria'')
        \<or> (getProp input ''required'' \<noteq> JUndef \<and> \<not> is_bool (getProp input ''required''))
        \<or> (getProp input ''maxIterations'' \<noteq> JUndef \<and> \<not> positiveInteger (getProp input ''maxIterations''))
     then Inl WORKFLOW_NODE_INVALID
     else
       andThen (optR validateVersionedRef (optional (getProp input ''profileRef''))) (\<lambda>profileRef.
       andThen (mapR validateArtifactRef (the_array (getProp input ''inputRefs''))) (\<lambda>inputRefs.
       andThen (optR validateVersionedRef (optional (getProp input ''outputSchemaRef''))) (\<lambda>outputSchemaRef.
       andThen (validateCapabilityRequest (getProp input ''grantRequest'')) (\<lambda>grantRequest.
       andThen (validateEffect (getProp input ''effect'')) (\<lambda>effect.
       andThen (validateRetry (getProp input ''retry'')) (\<lambda>retry.
       andThen (validateTimeout (getProp input ''timeout'')) (\<lambda>timeout.
       andThen (mapR validateWorkflowCriterion (the_array (getProp input ''criteria''))) (\<lambda>criteria.
       andThen (optR validateJoin (optional (getProp input ''join''))) (\<lambda>join.
       Inr \<lparr>ns_nodeId = the_string (getProp input ''nodeId''),
         ns_kind = the (member_of node_kinds (getProp input ''kind'')),
         ns_title = the_string (getProp input ''title''),
         ns_required = map_option the_bool (optional (getProp input ''required'')),
         ns_profileRef = profileRef, ns_inputRefs = inputRefs, ns_outputSchemaRef = outputSchemaRef,
         ns_grantRequest = grantRequest, ns_effect = effect, ns_retry = retry, ns_timeout = timeout,
         ns_criteria = criteria,
         ns_maxIterations = map_option the_nat (optional (getProp input ''maxIterations'')),
         ns_join = join\<rparr>))))))))))"

subsection \<open>Edges, graph, budget, scheduling\<close>

definition validateEdge :: "string list \<Rightarrow> js_value \<Rightarrow> workflow_edge wf_result" where
  "validateEdge nodeIds value =
     andThen (asRecord value WORKFLOW_EDGE_INVALID) (\<lambda>input.
     if \<not> safeId (getProp input ''from'') \<or> \<not> safeId (getProp input ''to'')
        \<or> getProp input ''from'' = getProp input ''to''
        \<or> the_string (getProp input ''from'') \<notin> set nodeIds
        \<or> the_string (getProp input ''to'') \<notin> set nodeIds
     then Inl WORKFLOW_EDGE_INVALID
     else andThen (optR (\<lambda>c. andThen (asRecord c WORKFLOW_EDGE_INVALID) (\<lambda>condition.
            if \<not> string_member [''status_is'', ''exists'', ''eq'', ''in''] (getProp condition ''operator'')
            then Inl WORKFLOW_EDGE_INVALID
            else if getProp condition ''pointer'' \<noteq> JUndef
                 \<and> (\<not> is_string (getProp condition ''pointer'')
                    \<or> \<not> starts_with ''/'' (the_string (getProp condition ''pointer'')))
            then Inl WORKFLOW_EDGE_INVALID
            else Inr \<lparr>co_operator = getProp condition ''operator'',
              co_pointer = map_option the_string (optional (getProp condition ''pointer'')),
              co_value = getProp condition ''value''\<rparr>))
          (optional (getProp input ''condition''))) (\<lambda>condition.
     Inr \<lparr>we_from = the_string (getProp input ''from''), we_to = the_string (getProp input ''to''),
       we_condition = condition\<rparr>))"

definition edge_pairs :: "workflow_edge list \<Rightarrow> (string \<times> string) list" where
  "edge_pairs edges = map (\<lambda>e. (we_from e, we_to e)) edges"

definition assertAcyclic :: "node_spec list \<Rightarrow> workflow_edge list \<Rightarrow> unit wf_result" where
  "assertAcyclic nodes edges =
     require (kahn_visited (map ns_nodeId nodes) (edge_pairs edges) = length nodes) WORKFLOW_GRAPH_CYCLE"

definition validateWorkflowBudget :: "js_value \<Rightarrow> workflow_budget wf_result" where
  "validateWorkflowBudget value =
     andThen (asRecord value WORKFLOW_BUDGET_INVALID) (\<lambda>input.
     if \<not> list_all (\<lambda>key. positiveInteger (getProp input key))
          [''maxWallClockMs'', ''maxTokens'', ''maxToolCalls'', ''maxAgentTasks'', ''maxParallelTasks'']
     then Inl WORKFLOW_BUDGET_INVALID
     else if getProp input ''maxCostUsd'' \<noteq> JUndef
          \<and> (\<not> is_number (getProp input ''maxCostUsd'') \<or> negative_number (getProp input ''maxCostUsd''))
     then Inl WORKFLOW_BUDGET_INVALID
     else Inr \<lparr>wb_maxWallClockMs = the_nat (getProp input ''maxWallClockMs''),
       wb_maxTokens = the_nat (getProp input ''maxTokens''),
       wb_maxToolCalls = the_nat (getProp input ''maxToolCalls''),
       wb_maxAgentTasks = the_nat (getProp input ''maxAgentTasks''),
       wb_maxParallelTasks = the_nat (getProp input ''maxParallelTasks''),
       wb_maxCostUsd = map_option the_number (optional (getProp input ''maxCostUsd''))\<rparr>)"

definition validateSchedulingPolicy :: "js_value \<Rightarrow> capacity_group list wf_result" where
  "validateSchedulingPolicy value =
     andThen (asRecord value WORKFLOW_SPEC_INVALID) (\<lambda>input.
     if \<not> is_array (getProp input ''capacityGroups'')
        \<or> 16 < length (the_array (getProp input ''capacityGroups''))
     then Inl WORKFLOW_SPEC_INVALID
     else andThen (mapR (\<lambda>v. andThen (asRecord v WORKFLOW_SPEC_INVALID) (\<lambda>group.
            if \<not> safeId (getProp group ''key'') \<or> \<not> positiveInteger (getProp group ''limit'')
            then Inl WORKFLOW_SPEC_INVALID
            else Inr \<lparr>cg_key = the_string (getProp group ''key''),
              cg_limit = the_nat (getProp group ''limit'')\<rparr>))
          (the_array (getProp input ''capacityGroups''))) (\<lambda>capacityGroups.
     andThen (assertUnique (map cg_key capacityGroups) WORKFLOW_SPEC_INVALID) (\<lambda>_.
     Inr capacityGroups)))"

subsection \<open>The specification\<close>

definition assertJoin :: "workflow_edge list \<Rightarrow> node_spec \<Rightarrow> unit wf_result" where
  "assertJoin edges node =
     (case ns_join node of None \<Rightarrow> Inr ()
      | Some join \<Rightarrow>
          if ns_kind node \<noteq> Decision \<and> ns_kind node \<noteq> Synthesis then Inl WORKFLOW_JOIN_INVALID
          else let incoming = length (filter (\<lambda>e. we_to e = ns_nodeId node) edges) in
            require (\<not> (incoming = 0 \<or> (case join of Join_quorum m \<Rightarrow> incoming < m | _ \<Rightarrow> False)))
              WORKFLOW_JOIN_INVALID)"

definition spec_fields_ok :: "(string \<Rightarrow> bool) \<Rightarrow> js_record \<Rightarrow> js_record option \<Rightarrow> bool" where
  "spec_fields_ok host_date input executionTarget =
     (getProp input ''schemaVersion'' = JNum (Whole 1)
      \<and> safeId (getProp input ''workflowId'') \<and> safeId (getProp input ''runId'')
      \<and> safeId (getProp input ''sessionId'')
      \<and> (getProp input ''parentWorkflowId'' = JUndef \<longleftrightarrow> getProp input ''parentNodeId'' = JUndef)
      \<and> (getProp input ''parentWorkflowId'' \<noteq> JUndef \<longrightarrow> safeId (getProp input ''parentWorkflowId''))
      \<and> (getProp input ''parentNodeId'' \<noteq> JUndef \<longrightarrow> safeId (getProp input ''parentNodeId''))
      \<and> (case executionTarget of None \<Rightarrow> True
          | Some t \<Rightarrow> isText (getProp t ''providerId'') \<and> isText (getProp t ''model''))
      \<and> is_string (getProp input ''workspace'') \<and> the_string (getProp input ''workspace'') \<noteq> []
      \<and> isText (getProp input ''objective'')
      \<and> member_of mode_policies (getProp input ''modePolicy'') \<noteq> None
      \<and> member_of topologies (getProp input ''topology'') \<noteq> None
      \<and> positiveInteger (getProp input ''revision'')
      \<and> is_array (getProp input ''nodes'') \<and> the_array (getProp input ''nodes'') \<noteq> []
      \<and> is_array (getProp input ''edges'')
      \<and> member_of completion_policies (getProp input ''completion'') \<noteq> None
      \<and> nonNegativeInteger (getProp input ''maxGraphMutations'')
      \<and> timestamp host_date (getProp input ''createdAt''))"

text \<open>The object that \<open>validateWorkflowSpecV1\<close> returns, from the input and the validated parts.\<close>

definition assembled_spec :: "js_record \<Rightarrow> js_record option \<Rightarrow> capacity_group list option \<Rightarrow> node_spec list
    \<Rightarrow> workflow_edge list \<Rightarrow> workflow_budget \<Rightarrow> workflow_spec" where
  "assembled_spec input executionTarget scheduling nodes edges budget =
     \<lparr>ws_workflowId = the_string (getProp input ''workflowId''),
      ws_runId = the_string (getProp input ''runId''),
      ws_sessionId = the_string (getProp input ''sessionId''),
      ws_parent = (if getProp input ''parentWorkflowId'' = JUndef then None
        else Some (the_string (getProp input ''parentWorkflowId''),
                   the_string (getProp input ''parentNodeId''))),
      ws_executionTarget = map_option (\<lambda>t. (the_string (getProp t ''providerId''),
                   the_string (getProp t ''model''))) executionTarget,
      ws_scheduling = scheduling,
      ws_workspace = the_string (getProp input ''workspace''),
      ws_objective = the_string (getProp input ''objective''),
      ws_modePolicy = the (member_of mode_policies (getProp input ''modePolicy'')),
      ws_topology = the (member_of topologies (getProp input ''topology'')),
      ws_revision = the_nat (getProp input ''revision''),
      ws_nodes = nodes, ws_edges = edges,
      ws_completion = the (member_of completion_policies (getProp input ''completion'')),
      ws_budget = budget,
      ws_maxGraphMutations = the_nat (getProp input ''maxGraphMutations''),
      ws_createdAt = the_string (getProp input ''createdAt'')\<rparr>"

definition validateWorkflowSpecV1 :: "(string \<Rightarrow> bool) \<Rightarrow> js_value \<Rightarrow> workflow_spec wf_result" where
  "validateWorkflowSpecV1 host_date value =
     andThen (asRecord value WORKFLOW_SPEC_INVALID) (\<lambda>input.
     andThen (optR (\<lambda>v. asRecord v WORKFLOW_SPEC_INVALID) (optional (getProp input ''executionTarget'')))
       (\<lambda>executionTarget.
     andThen (optR validateSchedulingPolicy (optional (getProp input ''scheduling''))) (\<lambda>scheduling.
     if \<not> spec_fields_ok host_date input executionTarget then Inl WORKFLOW_SPEC_INVALID
     else
       andThen (mapR validateNode (the_array (getProp input ''nodes''))) (\<lambda>nodes.
       andThen (assertUnique (map ns_nodeId nodes) WORKFLOW_NODE_DUPLICATE) (\<lambda>_.
       andThen (mapR (validateEdge (map ns_nodeId nodes)) (the_array (getProp input ''edges''))) (\<lambda>edges.
       andThen (assertAcyclic nodes edges) (\<lambda>_.
       andThen (mapR (assertJoin edges) nodes) (\<lambda>_.
       if the (member_of mode_policies (getProp input ''modePolicy'')) = Mode_solo
          \<and> list_ex (\<lambda>n. ns_nodeId n \<noteq> ''root'' \<and> ns_kind n \<noteq> Tool_activity) nodes
       then Inl MODE_OVERRIDE_INCOMPATIBLE
       else
         andThen (validateWorkflowBudget (getProp input ''budget'')) (\<lambda>budget.
         Inr (assembled_spec input executionTarget scheduling nodes edges budget))))))))))"

subsection \<open>Typed specifications as run-time objects\<close>

definition opt_prop :: "string \<Rightarrow> ('a \<Rightarrow> js_value) \<Rightarrow> 'a option \<Rightarrow> js_record" where
  "opt_prop k f v = (case v of None \<Rightarrow> [] | Some x \<Rightarrow> [(k, f x)])"

definition jstrs :: "string list \<Rightarrow> js_value" where
  "jstrs xs = JArr (map JStr xs)"

definition versioned_ref_json :: "versioned_ref \<Rightarrow> js_value" where
  "versioned_ref_json r = JObj ([(''id'', JStr (vr_id r)), (''version'', jnat (vr_version r))]
     @ opt_prop ''digest'' JStr (vr_digest r))"

definition artifact_ref_json :: "artifact_ref \<Rightarrow> js_value" where
  "artifact_ref_json r = JObj [(''artifactId'', JStr (ar_artifactId r)), (''digest'', JStr (ar_digest r)),
     (''mediaType'', JStr (ar_mediaType r))]"

definition capability_json :: "capability_request \<Rightarrow> js_value" where
  "capability_json c = JObj [(''tools'', jstrs (cr_tools c)), (''skills'', jstrs (cr_skills c)),
     (''mcpServers'', jstrs (cr_mcpServers c)), (''workspace'', cr_workspace c),
     (''network'', JBool (cr_network c)), (''mayDelegate'', JBool (cr_mayDelegate c))]"

definition effect_json :: "effect_contract \<Rightarrow> js_value" where
  "effect_json e = JObj [(''class'', JStr (name_in effect_classes (ec_class e))),
     (''idempotencyKey'', ec_idempotencyKey e), (''receiptSchemaRef'', ec_receiptSchemaRef e),
     (''compensationRef'', ec_compensationRef e), (''requiresApproval'', JBool (ec_requiresApproval e))]"

definition retry_json :: "retry_policy \<Rightarrow> js_value" where
  "retry_json r = JObj [(''maxAttempts'', jnat (rp_maxAttempts r)),
     (''initialBackoffMs'', jnat (rp_initialBackoffMs r)), (''maxBackoffMs'', jnat (rp_maxBackoffMs r)),
     (''retryableCodes'', jstrs (rp_retryableCodes r))]"

definition timeout_json :: "timeout_policy \<Rightarrow> js_value" where
  "timeout_json t = JObj [(''totalMs'', jnat (tp_totalMs t)), (''noProgressMs'', jnat (tp_noProgressMs t)),
     (''heartbeatMs'', jnat (tp_heartbeatMs t))]"

definition criterion_json :: "verification_criterion \<Rightarrow> js_value" where
  "criterion_json c = JObj [(''criterionId'', JStr (vc_criterionId c)), (''kind'', vc_kind c),
     (''description'', JStr (vc_description c)), (''ref'', vc_ref c)]"

definition join_json :: "join_policy \<Rightarrow> js_value" where
  "join_json j = (case j of Join_all \<Rightarrow> JObj [(''kind'', JStr ''all'')]
     | Join_any \<Rightarrow> JObj [(''kind'', JStr ''any'')]
     | Join_quorum m \<Rightarrow> JObj [(''kind'', JStr ''quorum''), (''minimum'', jnat m)])"

definition node_json :: "node_spec \<Rightarrow> js_value" where
  "node_json n = JObj ([(''nodeId'', JStr (ns_nodeId n)), (''kind'', JStr (name_in node_kinds (ns_kind n))),
     (''title'', JStr (ns_title n))] @ opt_prop ''required'' JBool (ns_required n)
     @ opt_prop ''profileRef'' versioned_ref_json (ns_profileRef n)
     @ [(''inputRefs'', JArr (map artifact_ref_json (ns_inputRefs n)))]
     @ opt_prop ''outputSchemaRef'' versioned_ref_json (ns_outputSchemaRef n)
     @ [(''grantRequest'', capability_json (ns_grantRequest n)), (''effect'', effect_json (ns_effect n)),
        (''retry'', retry_json (ns_retry n)), (''timeout'', timeout_json (ns_timeout n)),
        (''criteria'', JArr (map criterion_json (ns_criteria n)))]
     @ opt_prop ''maxIterations'' jnat (ns_maxIterations n) @ opt_prop ''join'' join_json (ns_join n))"

definition condition_json :: "edge_condition \<Rightarrow> js_value" where
  "condition_json c = JObj ([(''operator'', co_operator c)] @ opt_prop ''pointer'' JStr (co_pointer c)
     @ [(''value'', co_value c)])"

definition edge_json :: "workflow_edge \<Rightarrow> js_value" where
  "edge_json e = JObj ([(''from'', JStr (we_from e)), (''to'', JStr (we_to e))]
     @ opt_prop ''condition'' condition_json (we_condition e))"

definition budget_json :: "workflow_budget \<Rightarrow> js_value" where
  "budget_json b = JObj ([(''maxWallClockMs'', jnat (wb_maxWallClockMs b)), (''maxTokens'', jnat (wb_maxTokens b)),
     (''maxToolCalls'', jnat (wb_maxToolCalls b)), (''maxAgentTasks'', jnat (wb_maxAgentTasks b)),
     (''maxParallelTasks'', jnat (wb_maxParallelTasks b))] @ opt_prop ''maxCostUsd'' JNum (wb_maxCostUsd b))"

definition scheduling_json :: "capacity_group list \<Rightarrow> js_value" where
  "scheduling_json gs = JObj [(''capacityGroups'',
     JArr (map (\<lambda>g. JObj [(''key'', JStr (cg_key g)), (''limit'', jnat (cg_limit g))]) gs))]"

definition spec_json :: "workflow_spec \<Rightarrow> js_value" where
  "spec_json s = JObj ([(''schemaVersion'', JNum (Whole 1)), (''workflowId'', JStr (ws_workflowId s)),
     (''runId'', JStr (ws_runId s)), (''sessionId'', JStr (ws_sessionId s))]
     @ opt_prop ''parentWorkflowId'' (\<lambda>(w, n). JStr w) (ws_parent s)
     @ opt_prop ''parentNodeId'' (\<lambda>(w, n). JStr n) (ws_parent s)
     @ opt_prop ''executionTarget''
         (\<lambda>(p, m). JObj [(''providerId'', JStr p), (''model'', JStr m)]) (ws_executionTarget s)
     @ opt_prop ''scheduling'' scheduling_json (ws_scheduling s)
     @ [(''workspace'', JStr (ws_workspace s)), (''objective'', JStr (ws_objective s)),
        (''modePolicy'', JStr (name_in mode_policies (ws_modePolicy s))),
        (''topology'', JStr (name_in topologies (ws_topology s))),
        (''revision'', jnat (ws_revision s)), (''nodes'', JArr (map node_json (ws_nodes s))),
        (''edges'', JArr (map edge_json (ws_edges s))),
        (''completion'', JStr (name_in completion_policies (ws_completion s))),
        (''budget'', budget_json (ws_budget s)),
        (''maxGraphMutations'', jnat (ws_maxGraphMutations s)), (''createdAt'', JStr (ws_createdAt s))])"

lemma getProp_opt_prop: "getProp (opt_prop k f v) k' = (if k' = k then (case v of None \<Rightarrow> JUndef | Some x \<Rightarrow> f x) else JUndef)"
  by (simp add: opt_prop_def getProp_Cons split: option.splits)

lemma hasOwn_opt_prop: "hasOwn (opt_prop k f v) k' \<longleftrightarrow> k' = k \<and> v \<noteq> None"
  by (auto simp: opt_prop_def hasOwn_Cons split: option.splits)

lemmas object_simps = record_simps getProp_opt_prop hasOwn_opt_prop

end
