(* ===== verification/WorkflowValidity.thy ===== *)
theory WorkflowValidity
  imports WorkflowSpec
begin

section \<open>What an accepted Workflow specification satisfies\<close>

text \<open>
  For every validator of \<open>WorkflowSpec\<close> a predicate on the typed result. Each comes with two
  facts: the validator returns only records that satisfy it (\<open>..._sound\<close>), and the validator
  returns such a record unchanged when given its run-time object (\<open>..._again\<close>). Together they
  say that validation is idempotent and that the predicate is exactly what is accepted.
\<close>

named_theorems validator_sound
named_theorems validator_again

subsection \<open>The parts of a node\<close>

definition valid_versioned_ref :: "versioned_ref \<Rightarrow> bool" where
  "valid_versioned_ref r \<longleftrightarrow> safe_id_string (vr_id r) \<and> 0 < vr_version r \<and> safe_nat (vr_version r)
     \<and> pred_option sha256_string (vr_digest r)"

definition valid_artifact_ref :: "artifact_ref \<Rightarrow> bool" where
  "valid_artifact_ref r \<longleftrightarrow> safe_id_string (ar_artifactId r) \<and> sha256_string (ar_digest r)
     \<and> text_string (ar_mediaType r)"

definition capability_name :: "string \<Rightarrow> bool" where
  "capability_name s \<longleftrightarrow> s = ''*'' \<or> safe_id_string s"

definition valid_capability :: "capability_request \<Rightarrow> bool" where
  "valid_capability c \<longleftrightarrow> list_all capability_name (cr_tools c @ cr_skills c @ cr_mcpServers c)
     \<and> string_member [''none'', ''read'', ''write''] (cr_workspace c)"

definition valid_effect :: "effect_contract \<Rightarrow> bool" where
  "valid_effect e \<longleftrightarrow> (ec_class e = External_idempotent \<longrightarrow> safeId (ec_idempotencyKey e))"

definition valid_retry :: "retry_policy \<Rightarrow> bool" where
  "valid_retry r \<longleftrightarrow> 0 < rp_maxAttempts r \<and> rp_initialBackoffMs r \<le> rp_maxBackoffMs r
     \<and> safe_nat (rp_maxAttempts r) \<and> safe_nat (rp_maxBackoffMs r)
     \<and> list_all safe_id_string (rp_retryableCodes r)"

definition valid_timeout :: "timeout_policy \<Rightarrow> bool" where
  "valid_timeout t \<longleftrightarrow> 0 < tp_heartbeatMs t \<and> tp_heartbeatMs t < tp_noProgressMs t
     \<and> tp_noProgressMs t \<le> tp_totalMs t \<and> safe_nat (tp_totalMs t)"

definition valid_criterion :: "verification_criterion \<Rightarrow> bool" where
  "valid_criterion c \<longleftrightarrow> safe_id_string (vc_criterionId c) \<and> text_string (vc_description c)
     \<and> string_member [''schema'', ''digest'', ''receipt'', ''rule'', ''check'', ''semantic'', ''human''] (vc_kind c)"

fun valid_join :: "join_policy \<Rightarrow> bool" where
  "valid_join (Join_quorum m) = (0 < m \<and> safe_nat m)"
| "valid_join _ = True"

definition valid_node :: "node_spec \<Rightarrow> bool" where
  "valid_node n \<longleftrightarrow> safe_id_string (ns_nodeId n) \<and> text_string (ns_title n)
     \<and> pred_option valid_versioned_ref (ns_profileRef n) \<and> list_all valid_artifact_ref (ns_inputRefs n)
     \<and> pred_option valid_versioned_ref (ns_outputSchemaRef n) \<and> valid_capability (ns_grantRequest n)
     \<and> valid_effect (ns_effect n) \<and> valid_retry (ns_retry n) \<and> valid_timeout (ns_timeout n)
     \<and> list_all valid_criterion (ns_criteria n) \<and> pred_option valid_join (ns_join n)
     \<and> pred_option (\<lambda>m. 0 < m \<and> safe_nat m) (ns_maxIterations n)"

definition valid_condition :: "edge_condition \<Rightarrow> bool" where
  "valid_condition c \<longleftrightarrow> string_member [''status_is'', ''exists'', ''eq'', ''in''] (co_operator c)
     \<and> pred_option (starts_with ''/'') (co_pointer c)"

definition valid_edge :: "string list \<Rightarrow> workflow_edge \<Rightarrow> bool" where
  "valid_edge ids e \<longleftrightarrow> safe_id_string (we_from e) \<and> safe_id_string (we_to e) \<and> we_from e \<noteq> we_to e
     \<and> we_from e \<in> set ids \<and> we_to e \<in> set ids \<and> pred_option valid_condition (we_condition e)"

definition valid_budget :: "workflow_budget \<Rightarrow> bool" where
  "valid_budget b \<longleftrightarrow>
     list_all (\<lambda>n. 0 < n \<and> safe_nat n) [wb_maxWallClockMs b, wb_maxTokens b, wb_maxToolCalls b,
       wb_maxAgentTasks b, wb_maxParallelTasks b]
     \<and> pred_option (\<lambda>c. \<not> negative_number (JNum c)) (wb_maxCostUsd b)"

definition valid_scheduling :: "capacity_group list \<Rightarrow> bool" where
  "valid_scheduling gs \<longleftrightarrow> length gs \<le> 16 \<and> distinct (map cg_key gs)
     \<and> list_all (\<lambda>g. safe_id_string (cg_key g) \<and> 0 < cg_limit g \<and> safe_nat (cg_limit g)) gs"

lemmas valid_part_defs = valid_versioned_ref_def valid_artifact_ref_def capability_name_def
  valid_capability_def valid_effect_def valid_retry_def valid_timeout_def valid_criterion_def
  valid_condition_def valid_edge_def valid_budget_def valid_scheduling_def

subsection \<open>Shared facts about the readers\<close>

lemma asRecord_return_iff [result_iff]: "asRecord v code = Inr ps \<longleftrightarrow> v = JObj ps"
  by (cases v) auto

lemma isText_iff: "isText v \<longleftrightarrow> (\<exists>s. v = JStr s \<and> text_string s)"
  by (cases v) auto

lemma assertUnique_return_iff [result_iff]: "assertUnique xs code = Inr u \<longleftrightarrow> distinct xs"
  by (auto simp: assertUnique_def result_iff card_distinct distinct_card)

lemma assertUnique_distinct [simp]: "distinct xs \<Longrightarrow> assertUnique xs code = Inr ()"
  by (simp add: assertUnique_def distinct_card)

lemma positive_the_nat:
  "positiveInteger v \<Longrightarrow> 0 < the_nat v \<and> safe_nat (the_nat v) \<and> the_int v = int (the_nat v)"
  by (auto simp: positiveInteger_iff) (simp add: jnat_def)

lemma nonNegative_the_nat: "nonNegativeInteger v \<Longrightarrow> safe_nat (the_nat v) \<and> the_int v = int (the_nat v)"
  by (auto simp: nonNegativeInteger_iff) (simp add: jnat_def)

lemma positive_jnat [simp]: "positiveInteger (jnat n) \<longleftrightarrow> 0 < n \<and> safe_nat n"
  by (auto simp: positiveInteger_iff jnat_def)

lemma nonNegative_jnat [simp]: "nonNegativeInteger (jnat n) \<longleftrightarrow> safe_nat n"
  by (auto simp: nonNegativeInteger_iff jnat_def)

lemma the_int_jnat [simp]: "the_int (jnat n) = int n"
  by (simp add: jnat_def)

lemma safe_nat_mono: "m \<le> n \<Longrightarrow> safe_nat n \<Longrightarrow> safe_nat m"
  by (simp add: safe_nat_def)

lemma list_all_the_string:
  "list_all safeId xs \<Longrightarrow> list_all safe_id_string (map the_string xs)"
  by (induction xs) (auto simp: safeId_iff)

lemma list_all_capability:
  "list_all capability_item xs \<Longrightarrow> list_all capability_name (map the_string xs)"
  by (induction xs) (auto simp: capability_item_def capability_name_def safeId_iff)

lemma list_all_safeId_JStr [simp]: "list_all safeId (map JStr xs) \<longleftrightarrow> list_all safe_id_string xs"
  by (induction xs) auto

lemma list_all_capability_JStr [simp]:
  "list_all capability_item (map JStr xs) \<longleftrightarrow> list_all capability_name xs"
  by (induction xs) (auto simp: capability_item_def capability_name_def)

lemma the_string_comp_JStr [simp]: "the_string \<circ> JStr = id"
  by (simp add: fun_eq_iff)

lemma string_member_not_undef:
  "string_member names v \<Longrightarrow> ''undefined'' \<notin> set names \<Longrightarrow> v \<noteq> JUndef"
  by (auto simp: string_member_def)

lemma json_not_undef [simp]:
  "versioned_ref_json r \<noteq> JUndef" "condition_json c \<noteq> JUndef" "scheduling_json gs \<noteq> JUndef"
  "join_json j \<noteq> JUndef"
  by (simp_all add: versioned_ref_json_def condition_json_def scheduling_json_def join_json_def
      split: join_policy.splits)

subsection \<open>Soundness and idempotence of the part validators\<close>

lemma versioned_ref_sound [validator_sound]:
  "validateVersionedRef v = Inr r \<Longrightarrow> valid_versioned_ref r"
  by (auto simp: validateVersionedRef_def valid_versioned_ref_def result_iff safeId_iff
      sha256_digest_iff positive_the_nat optional_def split: if_splits)

lemma versioned_ref_again [validator_again]:
  "valid_versioned_ref r \<Longrightarrow> validateVersionedRef (versioned_ref_json r) = Inr r"
  by (cases r) (auto simp: validateVersionedRef_def versioned_ref_json_def valid_versioned_ref_def
      object_simps optional_def split: option.splits)

lemma artifact_ref_sound [validator_sound]:
  "validateArtifactRef v = Inr r \<Longrightarrow> valid_artifact_ref r"
  by (auto simp: validateArtifactRef_def valid_artifact_ref_def result_iff safeId_iff
      sha256_digest_iff isText_iff split: if_splits)

lemma artifact_ref_again [validator_again]:
  "valid_artifact_ref r \<Longrightarrow> validateArtifactRef (artifact_ref_json r) = Inr r"
  by (cases r) (auto simp: validateArtifactRef_def artifact_ref_json_def valid_artifact_ref_def
      object_simps)

lemma capability_sound [validator_sound]:
  "validateCapabilityRequest v = Inr c \<Longrightarrow> valid_capability c"
  by (auto simp: validateCapabilityRequest_def valid_capability_def result_iff list_all_capability
      split: if_splits)

lemma capability_again [validator_again]:
  "valid_capability c \<Longrightarrow> validateCapabilityRequest (capability_json c) = Inr c"
  by (cases c) (auto simp: validateCapabilityRequest_def capability_json_def valid_capability_def
      object_simps jstrs_def)

lemma effect_sound [validator_sound]:
  assumes "validateEffect v = Inr e" shows "valid_effect e"
proof -
  obtain input where v: "v = JObj input" using assms by (cases v) (auto simp: validateEffect_def)
  obtain cls where "member_of effect_classes (getProp input ''class'') = Some cls"
    using assms v by (cases "member_of effect_classes (getProp input ''class'')")
      (auto simp: validateEffect_def)
  with assms v show ?thesis
    by (cases "is_bool (getProp input ''requiresApproval'')";
        cases "cls = External_idempotent \<and> \<not> safeId (getProp input ''idempotencyKey'')")
      (auto simp: validateEffect_def valid_effect_def)
qed

lemma effect_again [validator_again]: "valid_effect e \<Longrightarrow> validateEffect (effect_json e) = Inr e"
  by (cases e) (auto simp: validateEffect_def effect_json_def valid_effect_def object_simps)

lemma retry_sound [validator_sound]: "validateRetry v = Inr r \<Longrightarrow> valid_retry r"
  by (auto simp: validateRetry_def valid_retry_def result_iff list_all_the_string
      dest!: positive_the_nat nonNegative_the_nat split: if_splits)

lemma retry_again [validator_again]: "valid_retry r \<Longrightarrow> validateRetry (retry_json r) = Inr r"
  by (cases r) (auto simp: validateRetry_def retry_json_def valid_retry_def object_simps jstrs_def
      safe_nat_def)

lemma timeout_sound [validator_sound]: "validateTimeout v = Inr t \<Longrightarrow> valid_timeout t"
  by (auto simp: validateTimeout_def valid_timeout_def result_iff dest!: positive_the_nat split: if_splits)

lemma timeout_again [validator_again]: "valid_timeout t \<Longrightarrow> validateTimeout (timeout_json t) = Inr t"
  by (cases t) (auto simp: validateTimeout_def timeout_json_def valid_timeout_def object_simps
      safe_nat_def)

lemma criterion_sound [validator_sound]: "validateWorkflowCriterion v = Inr c \<Longrightarrow> valid_criterion c"
  by (auto simp: validateWorkflowCriterion_def valid_criterion_def result_iff safeId_iff isText_iff
      split: if_splits)

lemma criterion_again [validator_again]:
  "valid_criterion c \<Longrightarrow> validateWorkflowCriterion (criterion_json c) = Inr c"
  by (cases c) (auto simp: validateWorkflowCriterion_def criterion_json_def valid_criterion_def
      object_simps)

lemma join_sound [validator_sound]: "validateJoin v = Inr j \<Longrightarrow> valid_join j"
  by (auto simp: validateJoin_def result_iff positive_the_nat split: if_splits)

lemma join_again [validator_again]: "valid_join j \<Longrightarrow> validateJoin (join_json j) = Inr j"
  by (cases j) (auto simp: validateJoin_def join_json_def object_simps)

lemma budget_sound [validator_sound]: "validateWorkflowBudget v = Inr b \<Longrightarrow> valid_budget b"
proof -
  have num: "is_number x \<Longrightarrow> JNum (the_number x) = x" for x by (cases x) auto
  show "validateWorkflowBudget v = Inr b \<Longrightarrow> valid_budget b"
    by (auto simp: validateWorkflowBudget_def valid_budget_def result_iff num positive_the_nat
        optional_def split: if_splits)
qed

lemma budget_again [validator_again]: "valid_budget b \<Longrightarrow> validateWorkflowBudget (budget_json b) = Inr b"
  by (cases b) (auto simp: validateWorkflowBudget_def budget_json_def valid_budget_def object_simps
      optional_def split: option.splits)

lemma scheduling_sound [validator_sound]: "validateSchedulingPolicy v = Inr gs \<Longrightarrow> valid_scheduling gs"
proof -
  have "list_all2 (\<lambda>v g. andThen (asRecord v WORKFLOW_SPEC_INVALID) (\<lambda>group.
            if \<not> safeId (getProp group ''key'') \<or> \<not> positiveInteger (getProp group ''limit'')
            then Inl WORKFLOW_SPEC_INVALID
            else Inr \<lparr>cg_key = the_string (getProp group ''key''),
              cg_limit = the_nat (getProp group ''limit'')\<rparr>) = Inr g) vs gs
     \<Longrightarrow> length gs = length vs
       \<and> list_all (\<lambda>g. safe_id_string (cg_key g) \<and> 0 < cg_limit g \<and> safe_nat (cg_limit g)) gs" for vs gs
    by (induction rule: list_all2_induct)
      (auto simp: result_iff safeId_iff positive_the_nat split: if_splits)
  then show "validateSchedulingPolicy v = Inr gs \<Longrightarrow> valid_scheduling gs"
    by (fastforce simp: validateSchedulingPolicy_def valid_scheduling_def result_iff split: if_splits)
qed

lemma scheduling_again [validator_again]:
  assumes "valid_scheduling gs" shows "validateSchedulingPolicy (scheduling_json gs) = Inr gs"
proof -
  have "mapR (\<lambda>v. andThen (asRecord v WORKFLOW_SPEC_INVALID) (\<lambda>group.
            if \<not> safeId (getProp group ''key'') \<or> \<not> positiveInteger (getProp group ''limit'')
            then Inl WORKFLOW_SPEC_INVALID
            else Inr \<lparr>cg_key = the_string (getProp group ''key''),
              cg_limit = the_nat (getProp group ''limit'')\<rparr>))
     (map (\<lambda>g. JObj [(''key'', JStr (cg_key g)), (''limit'', jnat (cg_limit g))]) gs) = Inr gs"
    using assms by (intro mapR_all_ok) (auto simp: valid_scheduling_def object_simps list_all_iff)
  with assms show ?thesis
    by (simp add: validateSchedulingPolicy_def scheduling_json_def object_simps valid_scheduling_def)
qed

subsection \<open>Nodes and edges\<close>

lemma mapR_list_all:
  "mapR f xs = Inr ys \<Longrightarrow> (\<And>x y. f x = Inr y \<Longrightarrow> P y) \<Longrightarrow> list_all P ys"
  by (auto simp: list_all_iff elim!: mapR_memberE)

lemma optR_pred_option:
  "optR f v = Inr w \<Longrightarrow> (\<And>x y. f x = Inr y \<Longrightarrow> P y) \<Longrightarrow> pred_option P w"
  by (auto simp: optR_return_iff)

lemma optR_again:
  assumes "pred_option P w" and "\<And>x. P x \<Longrightarrow> f (g x) = Inr x" and "\<And>x. g x \<noteq> JUndef"
  shows "optR f (optional (case w of None \<Rightarrow> JUndef | Some x \<Rightarrow> g x)) = Inr w"
  using assms by (cases w) auto

lemma mapR_again: "list_all P xs \<Longrightarrow> (\<And>x. P x \<Longrightarrow> f (g x) = Inr x) \<Longrightarrow> mapR f (map g xs) = Inr xs"
  by (intro mapR_all_ok) (auto simp: list_all_iff)

lemma if_error_iff: "(if c then Inl e else m) = Inr y \<longleftrightarrow> \<not> c \<and> m = Inr y"
  by simp

lemma node_sound [validator_sound]: assumes "validateNode v = Inr n" shows "valid_node n"
proof -
  from assms obtain input p i so g e r t c j where
    input: "safeId (getProp input ''nodeId'')" "isText (getProp input ''title'')"
      "getProp input ''maxIterations'' = JUndef \<or> positiveInteger (getProp input ''maxIterations'')"
    and parts: "optR validateVersionedRef (optional (getProp input ''profileRef'')) = Inr p"
      "mapR validateArtifactRef (the_array (getProp input ''inputRefs'')) = Inr i"
      "optR validateVersionedRef (optional (getProp input ''outputSchemaRef'')) = Inr so"
      "validateCapabilityRequest (getProp input ''grantRequest'') = Inr g"
      "validateEffect (getProp input ''effect'') = Inr e" "validateRetry (getProp input ''retry'') = Inr r"
      "validateTimeout (getProp input ''timeout'') = Inr t"
      "mapR validateWorkflowCriterion (the_array (getProp input ''criteria'')) = Inr c"
      "optR validateJoin (optional (getProp input ''join'')) = Inr j"
    and n: "ns_nodeId n = the_string (getProp input ''nodeId'')"
      "ns_title n = the_string (getProp input ''title'')"
      "ns_maxIterations n = map_option the_nat (optional (getProp input ''maxIterations''))"
      "ns_profileRef n = p" "ns_inputRefs n = i" "ns_outputSchemaRef n = so" "ns_grantRequest n = g"
      "ns_effect n = e" "ns_retry n = r" "ns_timeout n = t" "ns_criteria n = c" "ns_join n = j"
    unfolding validateNode_def andThen_return_iff if_error_iff by auto
  have "pred_option valid_versioned_ref p" "pred_option valid_versioned_ref so" "pred_option valid_join j"
    "list_all valid_artifact_ref i" "list_all valid_criterion c"
    using parts by (auto intro: optR_pred_option mapR_list_all validator_sound simp del: pred_option_def)
  moreover have "valid_capability g" "valid_effect e" "valid_retry r" "valid_timeout t"
    using parts by (simp_all add: validator_sound)
  moreover have "safe_id_string (ns_nodeId n)" "text_string (ns_title n)"
    "pred_option (\<lambda>m. 0 < m \<and> safe_nat m) (ns_maxIterations n)"
    using input n(1-3) by (auto simp: safeId_iff isText_iff optional_def positive_the_nat)
  ultimately show ?thesis by (simp add: valid_node_def n)
qed

lemma node_again [validator_again]:
  assumes "valid_node n" shows "validateNode (node_json n) = Inr n"
proof -
  note parts = assms[unfolded valid_node_def]
  have "optR validateVersionedRef
      (optional (case ns_profileRef n of None \<Rightarrow> JUndef | Some x \<Rightarrow> versioned_ref_json x)) = Inr (ns_profileRef n)"
    "optR validateVersionedRef
      (optional (case ns_outputSchemaRef n of None \<Rightarrow> JUndef | Some x \<Rightarrow> versioned_ref_json x))
       = Inr (ns_outputSchemaRef n)"
    "optR validateJoin (optional (case ns_join n of None \<Rightarrow> JUndef | Some x \<Rightarrow> join_json x)) = Inr (ns_join n)"
    using parts by (auto intro!: optR_again validator_again)
  moreover have "mapR validateArtifactRef (map artifact_ref_json (ns_inputRefs n)) = Inr (ns_inputRefs n)"
    "mapR validateWorkflowCriterion (map criterion_json (ns_criteria n)) = Inr (ns_criteria n)"
    using parts by (auto intro: mapR_again validator_again)
  ultimately show ?thesis
    using parts
    by (simp add: validateNode_def node_json_def object_simps validator_again)
      (auto simp: optional_def split: option.splits)
qed

lemma edge_sound [validator_sound]: "validateEdge ids v = Inr e \<Longrightarrow> valid_edge ids e"
  by (auto simp: validateEdge_def valid_edge_def valid_condition_def andThen_return_iff optR_return_iff
      asRecord_return_iff safeId_iff optional_def split: if_split_asm)

lemma edge_again [validator_again]:
  assumes "valid_edge ids e" shows "validateEdge ids (edge_json e) = Inr e"
proof -
  have "string_member [''status_is'', ''exists'', ''eq'', ''in''] v \<Longrightarrow> v \<noteq> JUndef" for v
    by (auto simp: string_member_def)
  then show ?thesis
    using assms
    by (cases e; cases "we_condition e")
      (auto simp: validateEdge_def edge_json_def condition_json_def valid_edge_def valid_condition_def
        object_simps optional_def split: option.splits)
qed

lemma edge_ends: "validateEdge ids v = Inr e \<Longrightarrow> we_from e \<in> set ids \<and> we_to e \<in> set ids"
  by (auto dest!: edge_sound simp: valid_edge_def)

subsection \<open>The specification\<close>

definition join_ok :: "workflow_edge list \<Rightarrow> node_spec \<Rightarrow> bool" where
  "join_ok edges node \<longleftrightarrow> (case ns_join node of None \<Rightarrow> True
     | Some join \<Rightarrow> (ns_kind node = Decision \<or> ns_kind node = Synthesis)
         \<and> 0 < length (filter (\<lambda>e. we_to e = ns_nodeId node) edges)
         \<and> (\<forall>m. join = Join_quorum m \<longrightarrow> m \<le> length (filter (\<lambda>e. we_to e = ns_nodeId node) edges)))"

lemma assertJoin_iff: "assertJoin edges node = Inr u \<longleftrightarrow> join_ok edges node"
  by (auto simp: assertJoin_def join_ok_def Let_def require_return_iff split: option.splits join_policy.splits)

definition spec_node_ids :: "workflow_spec \<Rightarrow> string list" where
  "spec_node_ids s = map ns_nodeId (ws_nodes s)"

definition valid_graph :: "node_spec list \<Rightarrow> workflow_edge list \<Rightarrow> bool" where
  "valid_graph nodes edges \<longleftrightarrow> distinct (map ns_nodeId nodes) \<and> list_all (valid_edge (map ns_nodeId nodes)) edges
     \<and> acyclic (set (edge_pairs edges)) \<and> list_all (join_ok edges) nodes"

definition valid_spec :: "(string \<Rightarrow> bool) \<Rightarrow> workflow_spec \<Rightarrow> bool" where
  "valid_spec host_date s \<longleftrightarrow>
     safe_id_string (ws_workflowId s) \<and> safe_id_string (ws_runId s) \<and> safe_id_string (ws_sessionId s)
     \<and> pred_option (\<lambda>(w, n). safe_id_string w \<and> safe_id_string n) (ws_parent s)
     \<and> pred_option (\<lambda>(p, m). text_string p \<and> text_string m) (ws_executionTarget s)
     \<and> pred_option valid_scheduling (ws_scheduling s)
     \<and> ws_workspace s \<noteq> [] \<and> text_string (ws_objective s)
     \<and> 0 < ws_revision s \<and> safe_nat (ws_revision s)
     \<and> ws_nodes s \<noteq> [] \<and> list_all valid_node (ws_nodes s) \<and> valid_graph (ws_nodes s) (ws_edges s)
     \<and> (ws_modePolicy s = Mode_solo \<longrightarrow>
          list_all (\<lambda>n. ns_nodeId n = ''root'' \<or> ns_kind n = Tool_activity) (ws_nodes s))
     \<and> valid_budget (ws_budget s) \<and> safe_nat (ws_maxGraphMutations s)
     \<and> (canonical_instant_string (ws_createdAt s) \<or> host_date (ws_createdAt s))"

lemma edge_pairs_within:
  "list_all (valid_edge ids) edges \<Longrightarrow> set (edge_pairs edges) \<subseteq> set ids \<times> set ids"
  by (auto simp: edge_pairs_def list_all_iff valid_edge_def)

lemma assertAcyclic_iff:
  assumes "distinct (map ns_nodeId nodes)" "list_all (valid_edge (map ns_nodeId nodes)) edges"
  shows "assertAcyclic nodes edges = Inr u \<longleftrightarrow> acyclic (set (edge_pairs edges))"
  using kahn.accepts_iff[OF assms(1) edge_pairs_within[OF assms(2)]]
  by (simp add: assertAcyclic_def require_return_iff kahn_accepts_def)

lemma mapR_assertJoin_iff: "mapR (assertJoin edges) nodes = Inr us \<longleftrightarrow>
    list_all (join_ok edges) nodes \<and> length us = length nodes"
  by (induction nodes arbitrary: us) (auto simp: andThen_return_iff assertJoin_iff length_Suc_conv)

text \<open>The graph checks of the validator accept exactly the well-formed graphs.\<close>

lemma graph_checks_iff:
  "(assertUnique (map ns_nodeId nodes) code = Inr () \<and> mapR (validateEdge (map ns_nodeId nodes)) vs = Inr edges
     \<and> assertAcyclic nodes edges = Inr () \<and> (\<exists>us. mapR (assertJoin edges) nodes = Inr us))
   \<longleftrightarrow> mapR (validateEdge (map ns_nodeId nodes)) vs = Inr edges \<and> valid_graph nodes edges"
proof -
  have "mapR (validateEdge (map ns_nodeId nodes)) vs = Inr edges
    \<Longrightarrow> list_all (valid_edge (map ns_nodeId nodes)) edges"
    by (rule mapR_list_all) (auto intro: edge_sound)
  then show ?thesis
    by (auto simp: valid_graph_def assertUnique_return_iff assertAcyclic_iff mapR_assertJoin_iff Ex_list_of_length)
qed

lemma spec_fields_sound:
  assumes "spec_fields_ok h input target"
  shows "safe_id_string (the_string (getProp input ''workflowId''))"
    "safe_id_string (the_string (getProp input ''runId''))"
    "safe_id_string (the_string (getProp input ''sessionId''))"
    "the_string (getProp input ''workspace'') \<noteq> []" "text_string (the_string (getProp input ''objective''))"
    "0 < the_nat (getProp input ''revision'')" "safe_nat (the_nat (getProp input ''revision''))"
    "safe_nat (the_nat (getProp input ''maxGraphMutations''))"
    "canonical_instant_string (the_string (getProp input ''createdAt''))
      \<or> h (the_string (getProp input ''createdAt''))"
    "the_array (getProp input ''nodes'') \<noteq> []"
    "getProp input ''parentWorkflowId'' \<noteq> JUndef \<Longrightarrow>
      safe_id_string (the_string (getProp input ''parentWorkflowId''))
      \<and> safe_id_string (the_string (getProp input ''parentNodeId''))"
    "target = Some t \<Longrightarrow> text_string (the_string (getProp t ''providerId''))
      \<and> text_string (the_string (getProp t ''model''))"
  using assms
  by (auto simp: spec_fields_ok_def safeId_iff isText_iff positive_the_nat nonNegative_the_nat timestamp_iff)

lemma spec_returnE:
  assumes "validateWorkflowSpecV1 h v = Inr s"
  obtains input target sched nodes edges us budget where "v = JObj input" "spec_fields_ok h input target"
    "optR (\<lambda>v. asRecord v WORKFLOW_SPEC_INVALID) (optional (getProp input ''executionTarget'')) = Inr target"
    "optR validateSchedulingPolicy (optional (getProp input ''scheduling'')) = Inr sched"
    "mapR validateNode (the_array (getProp input ''nodes'')) = Inr nodes"
    "assertUnique (map ns_nodeId nodes) WORKFLOW_NODE_DUPLICATE = Inr ()"
    "mapR (validateEdge (map ns_nodeId nodes)) (the_array (getProp input ''edges'')) = Inr edges"
    "assertAcyclic nodes edges = Inr ()" "mapR (assertJoin edges) nodes = Inr us"
    "the (member_of mode_policies (getProp input ''modePolicy'')) = Mode_solo \<longrightarrow>
      \<not> list_ex (\<lambda>n. ns_nodeId n \<noteq> ''root'' \<and> ns_kind n \<noteq> Tool_activity) nodes"
    "validateWorkflowBudget (getProp input ''budget'') = Inr budget"
    "s = assembled_spec input target sched nodes edges budget"
  using assms unfolding validateWorkflowSpecV1_def andThen_return_iff if_error_iff asRecord_return_iff
  by auto

lemma spec_sound [validator_sound]:
  assumes "validateWorkflowSpecV1 h v = Inr s" shows "valid_spec h s"
  using assms
proof (rule spec_returnE)
  fix input target sched nodes edges us budget
  assume fields: "spec_fields_ok h input target"
    and sched: "optR validateSchedulingPolicy (optional (getProp input ''scheduling'')) = Inr sched"
    and nodes: "mapR validateNode (the_array (getProp input ''nodes'')) = Inr nodes"
    and graph: "assertUnique (map ns_nodeId nodes) WORKFLOW_NODE_DUPLICATE = Inr ()"
      "mapR (validateEdge (map ns_nodeId nodes)) (the_array (getProp input ''edges'')) = Inr edges"
      "assertAcyclic nodes edges = Inr ()" "mapR (assertJoin edges) nodes = Inr us"
    and solo: "the (member_of mode_policies (getProp input ''modePolicy'')) = Mode_solo \<longrightarrow>
      \<not> list_ex (\<lambda>n. ns_nodeId n \<noteq> ''root'' \<and> ns_kind n \<noteq> Tool_activity) nodes"
    and budget: "validateWorkflowBudget (getProp input ''budget'') = Inr budget"
    and s: "s = assembled_spec input target sched nodes edges budget"
  have "valid_graph nodes edges" using graph graph_checks_iff by blast
  moreover have "pred_option valid_scheduling sched" using sched scheduling_sound by (rule optR_pred_option)
  moreover have "list_all valid_node nodes" using nodes node_sound by (rule mapR_list_all)
  moreover have "nodes \<noteq> []" using mapR_length[OF nodes] spec_fields_sound(10)[OF fields] by auto
  ultimately show ?thesis
    using spec_fields_sound[OF fields] budget_sound[OF budget] solo
    by (simp add: valid_spec_def s assembled_spec_def option.pred_set list_all_iff list_ex_iff)
      (auto split: option.splits)
qed

lemma spec_json_get:
  assumes "spec_json s = JObj input"
  shows "getProp input ''schemaVersion'' = JNum (Whole 1)"
    "getProp input ''workflowId'' = JStr (ws_workflowId s)" "getProp input ''runId'' = JStr (ws_runId s)"
    "getProp input ''sessionId'' = JStr (ws_sessionId s)"
    "getProp input ''parentWorkflowId'' = (case ws_parent s of None \<Rightarrow> JUndef | Some x \<Rightarrow> JStr (fst x))"
    "getProp input ''parentNodeId'' = (case ws_parent s of None \<Rightarrow> JUndef | Some x \<Rightarrow> JStr (snd x))"
    "getProp input ''executionTarget'' = (case ws_executionTarget s of None \<Rightarrow> JUndef
       | Some t \<Rightarrow> JObj [(''providerId'', JStr (fst t)), (''model'', JStr (snd t))])"
    "getProp input ''scheduling'' = (case ws_scheduling s of None \<Rightarrow> JUndef | Some x \<Rightarrow> scheduling_json x)"
    "getProp input ''workspace'' = JStr (ws_workspace s)" "getProp input ''objective'' = JStr (ws_objective s)"
    "getProp input ''modePolicy'' = JStr (name_in mode_policies (ws_modePolicy s))"
    "getProp input ''topology'' = JStr (name_in topologies (ws_topology s))"
    "getProp input ''revision'' = jnat (ws_revision s)"
    "getProp input ''nodes'' = JArr (map node_json (ws_nodes s))"
    "getProp input ''edges'' = JArr (map edge_json (ws_edges s))"
    "getProp input ''completion'' = JStr (name_in completion_policies (ws_completion s))"
    "getProp input ''budget'' = budget_json (ws_budget s)"
    "getProp input ''maxGraphMutations'' = jnat (ws_maxGraphMutations s)"
    "getProp input ''createdAt'' = JStr (ws_createdAt s)"
  by (simp_all add: assms[symmetric, unfolded spec_json_def js_value.inject] object_simps case_prod_unfold
      split: option.splits)

lemma spec_fields_again:
  assumes "valid_spec h s" and "spec_json s = JObj input"
  shows "spec_fields_ok h input (map_option (\<lambda>t. [(''providerId'', JStr (fst t)), (''model'', JStr (snd t))])
     (ws_executionTarget s))"
  using assms(1) unfolding spec_fields_ok_def spec_json_get[OF assms(2)]
  by (auto simp: valid_spec_def object_simps timestamp_iff split: option.splits)

text \<open>What the validator reads of the object of an accepted specification.\<close>

lemma spec_json_read:
  assumes "valid_spec h s" and input: "spec_json s = JObj input"
  defines "target \<equiv> map_option (\<lambda>t. [(''providerId'', JStr (fst t)), (''model'', JStr (snd t))])
     (ws_executionTarget s)"
  shows "spec_fields_ok h input target"
    "optR (\<lambda>v. asRecord v WORKFLOW_SPEC_INVALID) (optional (getProp input ''executionTarget'')) = Inr target"
    "optR validateSchedulingPolicy (optional (getProp input ''scheduling'')) = Inr (ws_scheduling s)"
    "mapR validateNode (map node_json (ws_nodes s)) = Inr (ws_nodes s)"
    "mapR (validateEdge (map ns_nodeId (ws_nodes s))) (map edge_json (ws_edges s)) = Inr (ws_edges s)"
    "validateWorkflowBudget (getProp input ''budget'') = Inr (ws_budget s)"
    "assembled_spec input target (ws_scheduling s) nodes edges (ws_budget s) = s\<lparr>ws_nodes := nodes, ws_edges := edges\<rparr>"
proof -
  note parts = assms(1)[unfolded valid_spec_def] and get = spec_json_get[OF input]
  show "spec_fields_ok h input target" unfolding target_def by (rule spec_fields_again[OF assms(1,2)])
  show "optR (\<lambda>v. asRecord v WORKFLOW_SPEC_INVALID) (optional (getProp input ''executionTarget'')) = Inr target"
    by (auto simp: get target_def split: option.splits)
  show "optR validateSchedulingPolicy (optional (getProp input ''scheduling'')) = Inr (ws_scheduling s)"
    unfolding get(8) using parts
    by (intro optR_again[where P = valid_scheduling]) (simp_all add: scheduling_again)
  show "mapR validateNode (map node_json (ws_nodes s)) = Inr (ws_nodes s)"
    using parts by (intro mapR_again[where P = valid_node]) (simp_all add: node_again)
  show "mapR (validateEdge (map ns_nodeId (ws_nodes s))) (map edge_json (ws_edges s)) = Inr (ws_edges s)"
    using parts by (intro mapR_again[where P = "valid_edge (map ns_nodeId (ws_nodes s))"])
      (simp_all add: valid_graph_def edge_again)
  show "validateWorkflowBudget (getProp input ''budget'') = Inr (ws_budget s)"
    using parts by (simp add: get budget_again)
  show "assembled_spec input target (ws_scheduling s) nodes edges (ws_budget s) = s\<lparr>ws_nodes := nodes, ws_edges := edges\<rparr>"
    by (cases "ws_parent s"; cases "ws_executionTarget s")
      (simp_all add: assembled_spec_def target_def get object_simps)
qed

lemma spec_again [validator_again]:
  assumes "valid_spec h s" shows "validateWorkflowSpecV1 h (spec_json s) = Inr s"
proof -
  obtain input where input: "spec_json s = JObj input" by (auto simp: spec_json_def)
  note read = spec_json_read[OF assms input] and get = spec_json_get[OF input]
  have "valid_graph (ws_nodes s) (ws_edges s)" using assms by (simp add: valid_spec_def)
  then obtain us where checks: "assertUnique (map ns_nodeId (ws_nodes s)) WORKFLOW_NODE_DUPLICATE = Inr ()"
    "assertAcyclic (ws_nodes s) (ws_edges s) = Inr ()"
    "mapR (assertJoin (ws_edges s)) (ws_nodes s) = Inr us"
    using read(5) graph_checks_iff by blast
  have "\<not> (ws_modePolicy s = Mode_solo
      \<and> list_ex (\<lambda>n. ns_nodeId n \<noteq> ''root'' \<and> ns_kind n \<noteq> Tool_activity) (ws_nodes s))"
    using assms by (auto simp: valid_spec_def list_all_iff list_ex_iff)
  then show ?thesis
    by (simp add: validateWorkflowSpecV1_def input read checks get(11,14,15))
qed

end
