(* ===== verification/StateMachines.thy ===== *)
theory StateMachines
  imports Prelude
begin

section \<open>Interfaces of the state machines and of the event logs\<close>

text \<open>
  Every durable object of the system is a state machine given by a constant table of allowed
  transitions, and every projection is the fold of a reducer over an append-only event log.
  The two interfaces below state what the components rely on; they are interpreted on the
  Workflow, node and attempt tables, on the Plan and Plan-step tables and on the reducers.

  \<^item> \<open>transition_table\<close>: the states with no way out are exactly the declared terminal ones.
  \<^item> \<open>event_log\<close>: a reducer that may reject an event, keeps an invariant and counts what it
    accepted.
\<close>

subsection \<open>Transition tables\<close>

locale transition_table =
  fixes transitions :: "'s \<Rightarrow> 's list"
    and terminal :: "'s \<Rightarrow> bool"
  assumes terminal_iff: "terminal s \<longleftrightarrow> transitions s = []"
begin

definition step :: "('s \<times> 's) set" where
  "step = {(s, t). t \<in> set (transitions s)}"

lemma step_iff: "(s, t) \<in> step \<longleftrightarrow> t \<in> set (transitions s)"
  by (simp add: step_def)

lemma terminal_stuck: "terminal s \<Longrightarrow> (s, t) \<notin> step"
  by (simp add: step_def terminal_iff)

lemma absorbing: "(s, t) \<in> step\<^sup>* \<Longrightarrow> terminal s \<Longrightarrow> t = s"
  by (induction rule: converse_rtrancl_induct) (auto simp: terminal_stuck)

lemma alive_has_step: "\<not> terminal s \<Longrightarrow> \<exists>t. (s, t) \<in> step"
  by (cases "transitions s") (auto simp: step_def terminal_iff)

end

subsection \<open>Event logs\<close>

text \<open>Replay of a log: the first rejected event rejects the whole log.\<close>

fun foldR :: "('s \<Rightarrow> 'v \<Rightarrow> 'e + 's) \<Rightarrow> 's \<Rightarrow> 'v list \<Rightarrow> 'e + 's" where
  "foldR f s [] = Inr s"
| "foldR f s (v # vs) = andThen (f s v) (\<lambda>s'. foldR f s' vs)"

lemma foldR_append: "foldR f s (vs @ ws) = andThen (foldR f s vs) (\<lambda>s'. foldR f s' ws)"
proof (induction vs arbitrary: s)
  case (Cons v vs)
  then show ?case by (cases "f s v") simp_all
qed simp

lemma foldR_rel:
  assumes "foldR f s vs = Inr s'" and "R s s" and "\<And>a b c v. R a b \<Longrightarrow> f b v = Inr c \<Longrightarrow> R a c"
  shows "R s s'"
proof -
  have "foldR f b vs = Inr s' \<Longrightarrow> R a b \<Longrightarrow> R a s'" for a b
    by (induction vs arbitrary: b) (auto simp: andThen_return_iff intro: assms(3))
  then show ?thesis using assms by blast
qed

locale event_log =
  fixes apply_event :: "'s \<Rightarrow> 'v \<Rightarrow> 'e + 's"
    and inv :: "'s \<Rightarrow> bool"
    and count :: "'s \<Rightarrow> nat"
  assumes keeps: "inv s \<Longrightarrow> apply_event s v = Inr s' \<Longrightarrow> inv s'"
    and counts: "inv s \<Longrightarrow> apply_event s v = Inr s' \<Longrightarrow> count s' = Suc (count s)"
begin

lemma replay_keeps: "foldR apply_event s vs = Inr s' \<Longrightarrow> inv s \<Longrightarrow> inv s'"
  by (induction vs arbitrary: s) (auto simp: andThen_return_iff dest: keeps)

lemma replay_counts: "foldR apply_event s vs = Inr s' \<Longrightarrow> inv s \<Longrightarrow> count s' = count s + length vs"
proof (induction vs arbitrary: s)
  case (Cons v vs)
  then obtain t where t: "apply_event s v = Inr t" "foldR apply_event t vs = Inr s'"
    by (auto simp: andThen_return_iff)
  then show ?case using Cons.IH[OF t(2)] Cons.prems(2) keeps counts by fastforce
qed simp

text \<open>Every prefix of a replayable log is replayable: a crash between two appends loses nothing.\<close>

lemma replay_prefix: "is_ok (foldR apply_event s (vs @ ws)) \<Longrightarrow> is_ok (foldR apply_event s vs)"
  by (cases "foldR apply_event s vs") (simp_all add: foldR_append)

end

end
