(* ===== verification/WorkflowMachine.thy ===== *)
theory WorkflowMachine
  imports WorkflowValidity StateMachines
begin

section \<open>The Workflow projection and its reducer\<close>

text \<open>
  The second half of \<open>packages/core-sdk/src/workflow.ts\<close>: the projection of a Workflow, the
  durable events and \<open>applyWorkflowEventV1\<close> with the helpers it calls. An event is the typed
  object of the source; the payloads that the reducer validates itself (a specification, a
  node) are untyped values. Counters are exact integers. \<open>host_date\<close> is the host's
  \<open>Date.parse\<close> on strings that are not canonical instants.
\<close>

subsection \<open>States and transition tables\<close>

datatype workflow_state = W_created | W_running | W_waiting | W_paused | W_cancelling | W_cancelled
  | W_completed | W_failed | W_terminated

datatype node_state = N_proposed | N_admitted | N_scheduled | N_leased | N_running | N_waiting
  | N_verifying | N_retry_wait | N_unknown | N_skipped | N_succeeded | N_failed | N_cancelled
  | N_manual_intervention

datatype attempt_state = A_scheduled | A_leased | A_running | A_waiting | A_verifying | A_retry_wait
  | A_unknown | A_succeeded | A_failed | A_cancelled | A_manual_intervention

fun WORKFLOW_TRANSITIONS :: "workflow_state \<Rightarrow> workflow_state list" where
  "WORKFLOW_TRANSITIONS W_created = [W_running, W_cancelled, W_terminated]"
| "WORKFLOW_TRANSITIONS W_running = [W_waiting, W_paused, W_cancelling, W_completed, W_failed, W_terminated]"
| "WORKFLOW_TRANSITIONS W_waiting = [W_running, W_paused, W_cancelling, W_failed, W_terminated]"
| "WORKFLOW_TRANSITIONS W_paused = [W_running, W_cancelling, W_terminated]"
| "WORKFLOW_TRANSITIONS W_cancelling = [W_cancelled, W_failed, W_terminated]"
| "WORKFLOW_TRANSITIONS W_cancelled = []"
| "WORKFLOW_TRANSITIONS W_completed = []"
| "WORKFLOW_TRANSITIONS W_failed = []"
| "WORKFLOW_TRANSITIONS W_terminated = []"

fun NODE_TRANSITIONS :: "node_state \<Rightarrow> node_state list" where
  "NODE_TRANSITIONS N_proposed = [N_admitted, N_cancelled, N_failed]"
| "NODE_TRANSITIONS N_admitted = [N_scheduled, N_waiting, N_skipped, N_cancelled, N_failed]"
| "NODE_TRANSITIONS N_scheduled = [N_leased, N_succeeded, N_cancelled, N_failed]"
| "NODE_TRANSITIONS N_leased = [N_running, N_scheduled, N_unknown, N_cancelled]"
| "NODE_TRANSITIONS N_running = [N_waiting, N_verifying, N_retry_wait, N_unknown, N_succeeded, N_failed,
     N_cancelled]"
| "NODE_TRANSITIONS N_waiting = [N_scheduled, N_succeeded, N_cancelled, N_failed]"
| "NODE_TRANSITIONS N_verifying = [N_succeeded, N_retry_wait, N_failed, N_manual_intervention]"
| "NODE_TRANSITIONS N_retry_wait = [N_scheduled, N_failed, N_cancelled]"
| "NODE_TRANSITIONS N_unknown = [N_succeeded, N_failed, N_manual_intervention]"
| "NODE_TRANSITIONS N_skipped = []"
| "NODE_TRANSITIONS N_succeeded = []"
| "NODE_TRANSITIONS N_failed = [N_retry_wait]"
| "NODE_TRANSITIONS N_cancelled = []"
| "NODE_TRANSITIONS N_manual_intervention = []"

fun ATTEMPT_TRANSITIONS :: "attempt_state \<Rightarrow> attempt_state list" where
  "ATTEMPT_TRANSITIONS A_scheduled = [A_leased, A_cancelled]"
| "ATTEMPT_TRANSITIONS A_leased = [A_running, A_scheduled, A_unknown, A_cancelled]"
| "ATTEMPT_TRANSITIONS A_running = [A_waiting, A_verifying, A_retry_wait, A_unknown, A_succeeded, A_failed,
     A_cancelled]"
| "ATTEMPT_TRANSITIONS A_waiting = [A_running, A_retry_wait, A_succeeded, A_failed, A_cancelled]"
| "ATTEMPT_TRANSITIONS A_verifying = [A_succeeded, A_retry_wait, A_failed, A_manual_intervention]"
| "ATTEMPT_TRANSITIONS A_retry_wait = [A_scheduled, A_failed, A_cancelled]"
| "ATTEMPT_TRANSITIONS A_unknown = [A_succeeded, A_failed, A_manual_intervention]"
| "ATTEMPT_TRANSITIONS A_succeeded = []"
| "ATTEMPT_TRANSITIONS A_failed = []"
| "ATTEMPT_TRANSITIONS A_cancelled = []"
| "ATTEMPT_TRANSITIONS A_manual_intervention = []"

definition TERMINAL_ATTEMPTS :: "attempt_state list" where
  "TERMINAL_ATTEMPTS = [A_succeeded, A_failed, A_cancelled, A_manual_intervention]"

definition workflow_terminal :: "workflow_state \<Rightarrow> bool" where
  "workflow_terminal s \<longleftrightarrow> s \<in> {W_cancelled, W_completed, W_failed, W_terminated}"

definition node_final :: "node_state \<Rightarrow> bool" where
  "node_final s \<longleftrightarrow> s \<in> {N_skipped, N_succeeded, N_cancelled, N_manual_intervention}"

interpretation workflow_table: transition_table WORKFLOW_TRANSITIONS workflow_terminal
  by unfold_locales (simp add: workflow_terminal_def split: workflow_state.split, case_tac s, auto)

interpretation node_table: transition_table NODE_TRANSITIONS node_final
  by unfold_locales (case_tac s, auto simp: node_final_def)

interpretation attempt_table: transition_table ATTEMPT_TRANSITIONS "\<lambda>s. s \<in> set TERMINAL_ATTEMPTS"
  by unfold_locales (case_tac s, auto simp: TERMINAL_ATTEMPTS_def)

definition assertWorkflowStateTransitionV1 :: "workflow_state \<Rightarrow> workflow_state \<Rightarrow> unit wf_result" where
  "assertWorkflowStateTransitionV1 from to = require (to \<in> set (WORKFLOW_TRANSITIONS from)) WORKFLOW_TRANSITION_INVALID"

definition assertWorkflowNodeTransitionV1 :: "node_state \<Rightarrow> node_state \<Rightarrow> unit wf_result" where
  "assertWorkflowNodeTransitionV1 from to = require (to \<in> set (NODE_TRANSITIONS from)) WORKFLOW_TRANSITION_INVALID"

subsection \<open>Projection and events\<close>

record node_projection =
  np_nodeId :: string
  np_state :: node_state
  np_attemptIds :: "string list"
  np_resultRef :: "artifact_ref option"
  np_errorCode :: "string option"

record attempt_projection =
  ap_attemptId :: string
  ap_nodeId :: string
  ap_ordinal :: int
  ap_state :: attempt_state
  ap_leaseToken :: "string option"
  ap_workerId :: "string option"
  ap_startedAt :: "string option"
  ap_lastProgressAt :: "string option"
  ap_finishedAt :: "string option"
  ap_resultRef :: "artifact_ref option"
  ap_receiptRef :: "artifact_ref option"
  ap_errorCode :: "string option"

record workflow_usage =
  us_turns :: int
  us_toolCalls :: int
  us_inputTokens :: int
  us_outputTokens :: int
  us_agentTasks :: int

record workflow_projection =
  wp_workflowId :: string
  wp_runId :: string
  wp_sessionId :: string
  wp_revision :: nat
  wp_sequence :: nat
  wp_state :: workflow_state
  wp_spec :: workflow_spec
  wp_nodes :: "node_projection list"
  wp_attempts :: "attempt_projection list"
  wp_graphMutations :: nat
  wp_usage :: workflow_usage
  wp_updatedAt :: string
  wp_terminalCode :: "string option"

record node_change =
  nc_nodeId :: string
  nc_state :: node_state
  nc_errorCode :: "string option"
  nc_resultRef :: "artifact_ref option"

record attempt_change =
  ac_attemptId :: string
  ac_state :: attempt_state
  ac_leaseToken :: "string option"
  ac_workerId :: "string option"
  ac_at :: string
  ac_errorCode :: "string option"
  ac_resultRef :: "artifact_ref option"
  ac_receiptRef :: "artifact_ref option"

datatype workflow_event_data =
    Workflow_created js_record
  | Workflow_started
  | Workflow_waiting
  | Workflow_paused
  | Workflow_resumed
  | Workflow_cancelling string
  | Workflow_terminal workflow_state "string option"
  | Workflow_topology_changed topology
  | Budget_charged workflow_usage
  | Signal_received string string
  | Effect_receipt_recorded string string string
  | Effect_reserved string string string string
  | Effect_replayed string string string
  | Execution_snapshot_bound string string artifact_ref
  | Effect_compensated string string string
  | Timer_fired string string
  | Human_task_resolved string string string
  | Graph_patched js_value
  | Execution_task_admitted string string js_record attempt_projection
  | Node_state_changed node_change
  | Attempt_created attempt_projection
  | Attempt_state_changed attempt_change

record workflow_event =
  ev_schemaVersion :: int
  ev_eventId :: string
  ev_workflowId :: string
  ev_runId :: string
  ev_sequence :: int
  ev_occurredAt :: string
  ev_data :: workflow_event_data

subsection \<open>The reducer\<close>

definition zero_usage :: workflow_usage where
  "zero_usage = \<lparr>us_turns = 0, us_toolCalls = 0, us_inputTokens = 0, us_outputTokens = 0, us_agentTasks = 0\<rparr>"

definition add_usage :: "workflow_usage \<Rightarrow> workflow_usage \<Rightarrow> workflow_usage" where
  "add_usage u d = \<lparr>us_turns = us_turns u + us_turns d, us_toolCalls = us_toolCalls u + us_toolCalls d,
     us_inputTokens = us_inputTokens u + us_inputTokens d,
     us_outputTokens = us_outputTokens u + us_outputTokens d,
     us_agentTasks = us_agentTasks u + us_agentTasks d\<rparr>"

definition proposed_node :: "string \<Rightarrow> node_projection" where
  "proposed_node nodeId = \<lparr>np_nodeId = nodeId, np_state = N_proposed, np_attemptIds = [],
     np_resultRef = None, np_errorCode = None\<rparr>"

definition initialWorkflowProjectionV1 :: "(string \<Rightarrow> bool) \<Rightarrow> js_value \<Rightarrow> workflow_projection wf_result" where
  "initialWorkflowProjectionV1 host_date specValue =
     andThen (validateWorkflowSpecV1 host_date specValue) (\<lambda>spec.
     Inr \<lparr>wp_workflowId = ws_workflowId spec, wp_runId = ws_runId spec, wp_sessionId = ws_sessionId spec,
       wp_revision = ws_revision spec, wp_sequence = 0, wp_state = W_created, wp_spec = spec,
       wp_nodes = map (\<lambda>n. proposed_node (ns_nodeId n)) (ws_nodes spec), wp_attempts = [],
       wp_graphMutations = 0, wp_usage = zero_usage, wp_updatedAt = ws_createdAt spec,
       wp_terminalCode = None\<rparr>)"

definition updateNode :: "node_projection list \<Rightarrow> node_change \<Rightarrow> node_projection list wf_result" where
  "updateNode nodes data =
     andThen (mapR (\<lambda>node.
       if np_nodeId node \<noteq> nc_nodeId data then Inr node
       else andThen (assertWorkflowNodeTransitionV1 (np_state node) (nc_state data)) (\<lambda>_.
         Inr (node\<lparr>np_state := nc_state data, np_errorCode := nc_errorCode data,
           np_resultRef := nc_resultRef data\<rparr>))) nodes) (\<lambda>updated.
     andThen (require (nc_nodeId data \<in> set (map np_nodeId nodes)) WORKFLOW_NODE_NOT_FOUND) (\<lambda>_.
     Inr updated))"

definition or_else :: "'a option \<Rightarrow> 'a option \<Rightarrow> 'a option" where
  "or_else a b = (case a of None \<Rightarrow> b | Some x \<Rightarrow> Some x)"

definition updateAttempt :: "attempt_projection list \<Rightarrow> attempt_change \<Rightarrow> attempt_projection list wf_result" where
  "updateAttempt attempts data =
     andThen (mapR (\<lambda>attempt.
       if ap_attemptId attempt \<noteq> ac_attemptId data then Inr attempt
       else andThen (require (ac_state data \<in> set (ATTEMPT_TRANSITIONS (ap_state attempt)))
           WORKFLOW_TRANSITION_INVALID) (\<lambda>_.
         Inr (attempt\<lparr>ap_state := ac_state data,
           ap_leaseToken := or_else (ac_leaseToken data) (ap_leaseToken attempt),
           ap_workerId := or_else (ac_workerId data) (ap_workerId attempt),
           ap_startedAt := (if ac_state data = A_running then Some (ac_at data) else ap_startedAt attempt),
           ap_lastProgressAt := Some (ac_at data),
           ap_finishedAt := (if ac_state data \<in> set TERMINAL_ATTEMPTS then Some (ac_at data)
             else ap_finishedAt attempt),
           ap_errorCode := ac_errorCode data, ap_resultRef := ac_resultRef data,
           ap_receiptRef := ac_receiptRef data\<rparr>))) attempts) (\<lambda>updated.
     andThen (require (ac_attemptId data \<in> set (map ap_attemptId attempts)) WORKFLOW_ATTEMPT_NOT_FOUND) (\<lambda>_.
     Inr updated))"

text \<open>\<open>new Map(current.nodes.map(...))\<close> followed by \<open>get\<close>: the last entry of a key wins.\<close>

definition existing_node :: "node_projection list \<Rightarrow> string \<Rightarrow> node_projection option" where
  "existing_node nodes nodeId = map_of (rev (map (\<lambda>n. (np_nodeId n, n)) nodes)) nodeId"

definition patch_nodes :: "node_projection list \<Rightarrow> workflow_spec \<Rightarrow> node_projection list" where
  "patch_nodes nodes spec = map (\<lambda>n. case existing_node nodes (ns_nodeId n) of
       Some node \<Rightarrow> node | None \<Rightarrow> proposed_node (ns_nodeId n)) (ws_nodes spec)"

text \<open>The object \<open>{...current.spec, nodes: [...current.spec.nodes, data.node]}\<close>.\<close>

fun spec_with_node :: "js_value \<Rightarrow> js_record \<Rightarrow> js_value" where
  "spec_with_node (JObj ps) node =
     JObj (AList.update ''nodes'' (JArr (the_array (getProp ps ''nodes'') @ [JObj node])) ps)"
| "spec_with_node v node = v"

definition admit_task :: "(string \<Rightarrow> bool) \<Rightarrow> workflow_projection \<Rightarrow> string \<Rightarrow> string \<Rightarrow> js_record
    \<Rightarrow> attempt_projection \<Rightarrow> workflow_projection \<Rightarrow> workflow_projection wf_result" where
  "admit_task host_date current requestId requestDigest node attempt next =
     (if \<not> safe_id_string requestId \<or> \<not> sha256_string requestDigest
         \<or> list_ex (\<lambda>n. JStr (np_nodeId n) = getProp node ''nodeId'') (wp_nodes current)
         \<or> list_ex (\<lambda>a. ap_attemptId a = ap_attemptId attempt) (wp_attempts current)
         \<or> JStr (ap_nodeId attempt) \<noteq> getProp node ''nodeId'' \<or> ap_ordinal attempt \<noteq> 1
      then Inl WORKFLOW_TASK_REQUEST_CONFLICT
      else andThen (validateWorkflowSpecV1 host_date (spec_with_node (spec_json (wp_spec current)) node)) (\<lambda>spec.
        Inr (next\<lparr>wp_spec := spec,
          wp_nodes := wp_nodes current @ [\<lparr>np_nodeId = the_string (getProp node ''nodeId''),
            np_state = N_scheduled, np_attemptIds = [ap_attemptId attempt],
            np_resultRef = None, np_errorCode = None\<rparr>],
          wp_attempts := wp_attempts current @ [attempt]\<rparr>)))"

definition create_attempt :: "workflow_projection \<Rightarrow> attempt_projection \<Rightarrow> workflow_projection
    \<Rightarrow> workflow_projection wf_result" where
  "create_attempt current attempt next =
     (if list_ex (\<lambda>a. ap_attemptId a = ap_attemptId attempt) (wp_attempts current)
      then Inl WORKFLOW_ATTEMPT_DUPLICATE
      else case List.find (\<lambda>n. np_nodeId n = ap_nodeId attempt) (wp_nodes current) of
        None \<Rightarrow> Inl WORKFLOW_ATTEMPT_INVALID
      | Some node \<Rightarrow>
          if ap_ordinal attempt \<noteq> int (length (np_attemptIds node)) + 1 then Inl WORKFLOW_ATTEMPT_INVALID
          else Inr (next\<lparr>wp_attempts := wp_attempts current @ [attempt],
            wp_nodes := map (\<lambda>c. if np_nodeId c = np_nodeId node
              then c\<lparr>np_attemptIds := np_attemptIds c @ [ap_attemptId attempt]\<rparr> else c) (wp_nodes current)\<rparr>))"

definition move_workflow :: "workflow_projection \<Rightarrow> workflow_state \<Rightarrow> workflow_projection
    \<Rightarrow> workflow_projection wf_result" where
  "move_workflow current to next =
     andThen (assertWorkflowStateTransitionV1 (wp_state current) to) (\<lambda>_. Inr (next\<lparr>wp_state := to\<rparr>))"

definition apply_data :: "(string \<Rightarrow> bool) \<Rightarrow> workflow_projection \<Rightarrow> workflow_projection
    \<Rightarrow> workflow_event_data \<Rightarrow> workflow_projection wf_result" where
  "apply_data host_date current next data = (case data of
       Workflow_created spec \<Rightarrow>
         if wp_sequence current \<noteq> 0 \<or> getProp spec ''workflowId'' \<noteq> JStr (wp_workflowId current)
         then Inl WORKFLOW_HISTORY_INVALID else Inr next
     | Workflow_started \<Rightarrow> move_workflow current W_running next
     | Workflow_waiting \<Rightarrow> move_workflow current W_waiting next
     | Workflow_paused \<Rightarrow> move_workflow current W_paused next
     | Workflow_resumed \<Rightarrow> move_workflow current W_running next
     | Workflow_cancelling code \<Rightarrow>
         move_workflow current W_cancelling (next\<lparr>wp_terminalCode := Some code\<rparr>)
     | Workflow_terminal state code \<Rightarrow> move_workflow current state (next\<lparr>wp_terminalCode := code\<rparr>)
     | Workflow_topology_changed topology \<Rightarrow>
         Inr (next\<lparr>wp_spec := (wp_spec current)\<lparr>ws_topology := topology\<rparr>\<rparr>)
     | Budget_charged usage \<Rightarrow> Inr (next\<lparr>wp_usage := add_usage (wp_usage current) usage\<rparr>)
     | Graph_patched specValue \<Rightarrow>
         andThen (validateWorkflowSpecV1 host_date specValue) (\<lambda>spec.
         if ws_revision spec \<noteq> wp_revision current + 1
            \<or> ws_maxGraphMutations (wp_spec current) \<le> wp_graphMutations current
         then Inl WORKFLOW_GRAPH_PATCH_REJECTED
         else Inr (next\<lparr>wp_revision := ws_revision spec, wp_spec := spec,
           wp_graphMutations := wp_graphMutations current + 1,
           wp_nodes := patch_nodes (wp_nodes current) spec\<rparr>))
     | Execution_task_admitted requestId requestDigest node attempt \<Rightarrow>
         admit_task host_date current requestId requestDigest node attempt next
     | Node_state_changed change \<Rightarrow>
         andThen (updateNode (wp_nodes current) change) (\<lambda>nodes. Inr (next\<lparr>wp_nodes := nodes\<rparr>))
     | Attempt_created attempt \<Rightarrow> create_attempt current attempt next
     | Attempt_state_changed change \<Rightarrow>
         andThen (updateAttempt (wp_attempts current) change) (\<lambda>attempts.
           Inr (next\<lparr>wp_attempts := attempts\<rparr>))
     | _ \<Rightarrow> Inr next)"

definition applyWorkflowEventV1 :: "(string \<Rightarrow> bool) \<Rightarrow> workflow_projection \<Rightarrow> workflow_event
    \<Rightarrow> workflow_projection wf_result" where
  "applyWorkflowEventV1 host_date current event =
     (if ev_schemaVersion event \<noteq> 1 \<or> \<not> safe_id_string (ev_eventId event)
         \<or> ev_workflowId event \<noteq> wp_workflowId current \<or> ev_runId event \<noteq> wp_runId current
         \<or> ev_sequence event \<noteq> int (wp_sequence current) + 1
         \<or> \<not> timestamp host_date (JStr (ev_occurredAt event))
      then Inl WORKFLOW_HISTORY_INVALID
      else apply_data host_date current
        (current\<lparr>wp_sequence := nat (ev_sequence event), wp_updatedAt := ev_occurredAt event\<rparr>)
        (ev_data event))"

definition reduceWorkflowEventsV1 :: "(string \<Rightarrow> bool) \<Rightarrow> workflow_event list \<Rightarrow> workflow_projection wf_result" where
  "reduceWorkflowEventsV1 host_date events = (case events of
       [] \<Rightarrow> Inl WORKFLOW_HISTORY_INVALID
     | first # rest \<Rightarrow> (case ev_data first of
           Workflow_created spec \<Rightarrow>
             andThen (initialWorkflowProjectionV1 host_date (JObj spec)) (\<lambda>projection.
             foldR (applyWorkflowEventV1 host_date) projection events)
         | _ \<Rightarrow> Inl WORKFLOW_HISTORY_INVALID))"

end
