(* ===== verification/WorkflowProjection.thy ===== *)
theory WorkflowProjection
  imports WorkflowMachine
begin

section \<open>Invariants of the Workflow projection\<close>

text \<open>
  What every replayed Workflow history satisfies: the projection invariant, the discipline of
  the transition tables, the accounting equations and the composition of replays.
\<close>

subsection \<open>The invariant\<close>

definition attempts_listed :: "attempt_projection list \<Rightarrow> node_projection \<Rightarrow> bool" where
  "attempts_listed attempts node \<longleftrightarrow> (\<forall>i < length (np_attemptIds node). \<exists>a \<in> set attempts.
     ap_attemptId a = np_attemptIds node ! i \<and> ap_nodeId a = np_nodeId node \<and> ap_ordinal a = int i + 1)"

definition projection_inv :: "(string \<Rightarrow> bool) \<Rightarrow> workflow_projection \<Rightarrow> bool" where
  "projection_inv h p \<longleftrightarrow> valid_spec h (wp_spec p)
     \<and> map np_nodeId (wp_nodes p) = spec_node_ids (wp_spec p)
     \<and> wp_revision p = ws_revision (wp_spec p)
     \<and> distinct (map ap_attemptId (wp_attempts p))
     \<and> list_all (attempts_listed (wp_attempts p)) (wp_nodes p)"

lemma projection_inv_distinct: "projection_inv h p \<Longrightarrow> distinct (map np_nodeId (wp_nodes p))"
  by (simp add: projection_inv_def valid_spec_def valid_graph_def spec_node_ids_def)

subsection \<open>The helpers of the reducer\<close>

definition node_moved :: "node_projection \<Rightarrow> node_projection \<Rightarrow> bool" where
  "node_moved n n' \<longleftrightarrow> np_nodeId n' = np_nodeId n \<and> np_attemptIds n' = np_attemptIds n
     \<and> (n' = n \<or> (np_state n, np_state n') \<in> node_table.step)"

definition attempt_moved :: "attempt_projection \<Rightarrow> attempt_projection \<Rightarrow> bool" where
  "attempt_moved a a' \<longleftrightarrow> ap_attemptId a' = ap_attemptId a \<and> ap_nodeId a' = ap_nodeId a
     \<and> ap_ordinal a' = ap_ordinal a \<and> (a' = a \<or> (ap_state a, ap_state a') \<in> attempt_table.step)"

lemma updateNode_moved: "updateNode nodes d = Inr nodes' \<Longrightarrow> list_all2 node_moved nodes nodes'"
  by (auto simp: updateNode_def andThen_return_iff mapR_return_iff node_moved_def node_table.step_iff
      assertWorkflowNodeTransitionV1_def require_return_iff split: if_splits elim!: list_all2_mono)

lemma updateAttempt_moved: "updateAttempt attempts d = Inr attempts' \<Longrightarrow> list_all2 attempt_moved attempts attempts'"
  by (auto simp: updateAttempt_def andThen_return_iff mapR_return_iff attempt_moved_def
      attempt_table.step_iff require_return_iff split: if_splits elim!: list_all2_mono)

lemma moved_node_ids: "list_all2 node_moved nodes nodes' \<Longrightarrow> map np_nodeId nodes' = map np_nodeId nodes"
  by (induction rule: list_all2_induct) (auto simp: node_moved_def)

lemma moved_attempt_ids:
  "list_all2 attempt_moved attempts attempts' \<Longrightarrow> map ap_attemptId attempts' = map ap_attemptId attempts"
  by (induction rule: list_all2_induct) (auto simp: attempt_moved_def)

lemma moved_attempt_member:
  "list_all2 attempt_moved attempts attempts' \<Longrightarrow> a \<in> set attempts \<Longrightarrow> \<exists>a' \<in> set attempts'. attempt_moved a a'"
  by (induction rule: list_all2_induct) auto

lemma attempts_listed_moved:
  assumes "list_all2 attempt_moved attempts attempts'" and "attempts_listed attempts n"
  shows "attempts_listed attempts' n"
  unfolding attempts_listed_def
proof (intro allI impI)
  fix i assume "i < length (np_attemptIds n)"
  then obtain a where a: "a \<in> set attempts" "ap_attemptId a = np_attemptIds n ! i"
      "ap_nodeId a = np_nodeId n" "ap_ordinal a = int i + 1"
    using assms(2) by (auto simp: attempts_listed_def)
  with moved_attempt_member[OF assms(1) a(1)]
  show "\<exists>a \<in> set attempts'. ap_attemptId a = np_attemptIds n ! i \<and> ap_nodeId a = np_nodeId n
      \<and> ap_ordinal a = int i + 1"
    by (auto simp: attempt_moved_def)
qed

lemma attempts_listed_cong:
  "np_nodeId n' = np_nodeId n \<Longrightarrow> np_attemptIds n' = np_attemptIds n
    \<Longrightarrow> attempts_listed attempts n' = attempts_listed attempts n"
  by (simp add: attempts_listed_def)

lemma attempts_listed_more: "attempts_listed attempts n \<Longrightarrow> attempts_listed (attempts @ later) n"
  by (fastforce simp: attempts_listed_def)

lemma attempts_listed_none [simp]: "attempts_listed attempts (proposed_node k)"
  by (simp add: attempts_listed_def proposed_node_def)

lemma attempts_listed_snoc:
  assumes "attempts_listed attempts n" "ap_nodeId a = np_nodeId n"
    "ap_ordinal a = int (length (np_attemptIds n)) + 1"
  shows "attempts_listed (attempts @ [a]) (n\<lparr>np_attemptIds := np_attemptIds n @ [ap_attemptId a]\<rparr>)"
  using assms by (fastforce simp: attempts_listed_def nth_append less_Suc_eq)

lemma existing_node_SomeD: "existing_node nodes k = Some n \<Longrightarrow> n \<in> set nodes \<and> np_nodeId n = k"
  by (auto simp: existing_node_def dest!: map_of_SomeD)

lemma existing_node_None: "existing_node nodes k = None \<longleftrightarrow> k \<notin> set (map np_nodeId nodes)"
  by (simp add: existing_node_def map_of_eq_None_iff image_image)

lemma existing_node_member:
  "distinct (map np_nodeId nodes) \<Longrightarrow> n \<in> set nodes \<Longrightarrow> existing_node nodes (np_nodeId n) = Some n"
  by (simp add: existing_node_def) (auto intro!: map_of_is_SomeI simp: comp_def rev_map[symmetric])

lemma patch_nodes_ids: "map np_nodeId (patch_nodes nodes spec) = spec_node_ids spec"
  by (auto simp: patch_nodes_def spec_node_ids_def proposed_node_def dest!: existing_node_SomeD
      split: option.splits)

lemma patch_nodes_member:
  assumes "n \<in> set (patch_nodes nodes spec)"
  shows "n \<in> set nodes \<or> (\<exists>k. n = proposed_node k \<and> k \<notin> set (map np_nodeId nodes))"
proof -
  from assms obtain k where "n = (case existing_node nodes k of Some m \<Rightarrow> m | None \<Rightarrow> proposed_node k)"
    by (auto simp: patch_nodes_def)
  then show ?thesis
    using existing_node_None[of nodes k] existing_node_SomeD[of nodes k]
    by (cases "existing_node nodes k") auto
qed

text \<open>Admitting a task revalidates the whole specification and only appends the new node.\<close>

lemma getProp_update: "getProp (AList.update k v ps) k' = (if k' = k then v else getProp ps k')"
  by (simp add: getProp_def)

lemma mapR_append_return:
  "mapR f (xs @ ys) = Inr zs \<longleftrightarrow> (\<exists>us vs. mapR f xs = Inr us \<and> mapR f ys = Inr vs \<and> zs = us @ vs)"
  by (induction xs arbitrary: zs) (auto simp: andThen_return_iff)

lemma validate_spec_with_node:
  assumes valid: "valid_spec h s"
    and result: "validateWorkflowSpecV1 h (spec_with_node (spec_json s) node) = Inr s'"
  obtains n where "validateNode (JObj node) = Inr n" "s' = s\<lparr>ws_nodes := ws_nodes s @ [n]\<rparr>"
proof -
  obtain input where input: "spec_json s = JObj input" by (auto simp: spec_json_def)
  note read = spec_json_read[OF valid input] and get = spec_json_get[OF input]
  let ?input = "AList.update ''nodes'' (JArr (map node_json (ws_nodes s) @ [JObj node])) input"
  have "spec_with_node (spec_json s) node = JObj ?input" by (simp add: input get)
  with result obtain target sched nodes edges budget where
    target: "optR (\<lambda>v. asRecord v WORKFLOW_SPEC_INVALID) (optional (getProp ?input ''executionTarget'')) = Inr target"
    and sched: "optR validateSchedulingPolicy (optional (getProp ?input ''scheduling'')) = Inr sched"
    and nodes: "mapR validateNode (the_array (getProp ?input ''nodes'')) = Inr nodes"
    and edges: "mapR (validateEdge (map ns_nodeId nodes)) (the_array (getProp ?input ''edges'')) = Inr edges"
    and budget: "validateWorkflowBudget (getProp ?input ''budget'') = Inr budget"
    and s': "s' = assembled_spec ?input target sched nodes edges budget"
    by (elim spec_returnE) auto
  from nodes read(4) obtain n where n: "validateNode (JObj node) = Inr n" "nodes = ws_nodes s @ [n]"
    by (auto simp: getProp_update mapR_append_return andThen_return_iff)
  have "list_all (valid_edge (map ns_nodeId nodes)) (ws_edges s)"
    using valid n(2) by (auto simp: valid_spec_def valid_graph_def list_all_iff valid_edge_def)
  then have "mapR (validateEdge (map ns_nodeId nodes)) (map edge_json (ws_edges s)) = Inr (ws_edges s)"
    by (rule mapR_again) (rule edge_again)
  then have "edges = ws_edges s" using edges by (simp add: getProp_update get)
  then have "s' = assembled_spec input target (ws_scheduling s) nodes (ws_edges s) (ws_budget s)"
    using s' sched budget read(3,6) by (simp add: getProp_update assembled_spec_def)
  then have "s' = s\<lparr>ws_nodes := nodes, ws_edges := ws_edges s\<rparr>"
    using target read(2,7) by (simp add: getProp_update)
  then show thesis using that n by simp
qed

subsection \<open>Preservation\<close>

lemma keep_topology: "valid_spec h (s\<lparr>ws_topology := t\<rparr>) \<longleftrightarrow> valid_spec h s"
  by (simp add: valid_spec_def)

lemma keep_node_ids: "spec_node_ids (s\<lparr>ws_topology := t\<rparr>) = spec_node_ids s"
  by (simp add: spec_node_ids_def)

lemma inv_by_attempts:
  assumes "projection_inv h p" "list_all2 attempt_moved (wp_attempts p) attempts"
  shows "projection_inv h (p\<lparr>wp_attempts := attempts\<rparr>)"
  using assms moved_attempt_ids[OF assms(2)]
  by (auto simp: projection_inv_def list_all_iff intro: attempts_listed_moved)

lemma inv_by_nodes:
  assumes "projection_inv h p" "list_all2 node_moved (wp_nodes p) nodes"
  shows "projection_inv h (p\<lparr>wp_nodes := nodes\<rparr>)"
proof -
  have "list_all2 node_moved ns ns' \<Longrightarrow> list_all (attempts_listed as) ns \<Longrightarrow> list_all (attempts_listed as) ns'"
    for ns ns' as
    by (induction rule: list_all2_induct) (auto simp: node_moved_def cong: attempts_listed_cong)
  then show ?thesis using assms moved_node_ids[OF assms(2)] by (auto simp: projection_inv_def)
qed

lemma inv_patched:
  assumes "projection_inv h p" "valid_spec h spec" "ws_revision spec = r"
  shows "projection_inv h (p\<lparr>wp_revision := r, wp_spec := spec, wp_graphMutations := m,
     wp_nodes := patch_nodes (wp_nodes p) spec\<rparr>)"
  using assms by (auto simp: projection_inv_def patch_nodes_ids list_all_iff dest!: patch_nodes_member)

lemma inv_created:
  assumes "projection_inv h p" "create_attempt p a p0 = Inr p'" "p0 = p\<lparr>wp_sequence := k, wp_updatedAt := u\<rparr>"
  shows "projection_inv h p'"
proof -
  obtain node where fresh: "\<forall>b\<in>set (wp_attempts p). ap_attemptId b \<noteq> ap_attemptId a"
    and node: "node \<in> set (wp_nodes p)" "np_nodeId node = ap_nodeId a"
      "ap_ordinal a = int (length (np_attemptIds node)) + 1"
    and p': "p' = p0\<lparr>wp_attempts := wp_attempts p @ [a],
      wp_nodes := map (\<lambda>c. if np_nodeId c = np_nodeId node
        then c\<lparr>np_attemptIds := np_attemptIds c @ [ap_attemptId a]\<rparr> else c) (wp_nodes p)\<rparr>"
    using assms(2)
    by (auto simp: create_attempt_def list_ex_iff split: if_splits option.splits dest!: find_Some_iff_member)
  have unique: "c \<in> set (wp_nodes p) \<Longrightarrow> np_nodeId c = np_nodeId node \<Longrightarrow> c = node" for c
    using projection_inv_distinct[OF assms(1)] node(1) by (auto simp: distinct_map dest: inj_onD)
  have "attempts_listed (wp_attempts p @ [a]) (if np_nodeId c = np_nodeId node
      then c\<lparr>np_attemptIds := np_attemptIds c @ [ap_attemptId a]\<rparr> else c)" if c: "c \<in> set (wp_nodes p)" for c
  proof -
    have "attempts_listed (wp_attempts p) c" using assms(1) c by (simp add: projection_inv_def list_all_iff)
    then show ?thesis
      using unique[OF c] node by (auto intro: attempts_listed_more attempts_listed_snoc)
  qed
  then have "list_all (attempts_listed (wp_attempts p @ [a])) (wp_nodes p')"
    by (simp add: p' list.pred_map) (simp add: list_all_iff)
  moreover have "map np_nodeId (wp_nodes p') = map np_nodeId (wp_nodes p)" by (simp add: p')
  moreover have "wp_attempts p' = wp_attempts p @ [a]" "wp_spec p' = wp_spec p" "wp_revision p' = wp_revision p"
    by (simp_all add: p' assms(3))
  ultimately show ?thesis using assms(1) fresh by (auto simp: projection_inv_def)
qed

lemma inv_admitted:
  assumes "projection_inv h p" "admit_task h p r d node a p0 = Inr p'" "p0 = p\<lparr>wp_sequence := k, wp_updatedAt := u\<rparr>"
  shows "projection_inv h p'"
proof -
  obtain spec where spec: "validateWorkflowSpecV1 h (spec_with_node (spec_json (wp_spec p)) node) = Inr spec"
    and fresh: "\<forall>b\<in>set (wp_attempts p). ap_attemptId b \<noteq> ap_attemptId a"
    and a: "JStr (ap_nodeId a) = getProp node ''nodeId''" "ap_ordinal a = 1"
    and p': "p' = p0\<lparr>wp_spec := spec,
        wp_nodes := wp_nodes p @ [\<lparr>np_nodeId = the_string (getProp node ''nodeId''), np_state = N_scheduled,
            np_attemptIds = [ap_attemptId a], np_resultRef = None, np_errorCode = None\<rparr>],
        wp_attempts := wp_attempts p @ [a]\<rparr>"
    using assms(2)
    by (auto simp: admit_task_def list_ex_iff andThen_return_iff split: if_splits)
  have valid: "valid_spec h (wp_spec p)" using assms(1) by (simp add: projection_inv_def)
  from validate_spec_with_node[OF valid spec] obtain n where
    n: "validateNode (JObj node) = Inr n" "spec = (wp_spec p)\<lparr>ws_nodes := ws_nodes (wp_spec p) @ [n]\<rparr>" .
  have "ns_nodeId n = ap_nodeId a"
    using n(1) by (auto simp: validateNode_def andThen_return_iff if_error_iff a(1)[symmetric])
  moreover have "valid_spec h spec" using spec by (rule spec_sound)
  moreover have "list_all (attempts_listed (wp_attempts p @ [a])) (wp_nodes p)"
    using assms(1) by (auto simp: projection_inv_def list_all_iff intro: attempts_listed_more)
  moreover have "attempts_listed (wp_attempts p @ [a]) \<lparr>np_nodeId = ap_nodeId a, np_state = N_scheduled,
            np_attemptIds = [ap_attemptId a], np_resultRef = None, np_errorCode = None\<rparr>"
    using a(2) by (simp add: attempts_listed_def)
  ultimately show ?thesis
    using assms(1,3) fresh n(2) by (auto simp: projection_inv_def p' spec_node_ids_def a(1)[symmetric])
qed

text \<open>The header check and the bookkeeping fields are the same for every event.\<close>

definition stamped :: "workflow_projection \<Rightarrow> workflow_event \<Rightarrow> workflow_projection" where
  "stamped p e = p\<lparr>wp_sequence := Suc (wp_sequence p), wp_updatedAt := ev_occurredAt e\<rparr>"

lemma apply_return_iff:
  "applyWorkflowEventV1 h p e = Inr p' \<longleftrightarrow>
     ev_schemaVersion e = 1 \<and> safe_id_string (ev_eventId e) \<and> ev_workflowId e = wp_workflowId p
     \<and> ev_runId e = wp_runId p \<and> ev_sequence e = int (wp_sequence p) + 1
     \<and> timestamp h (JStr (ev_occurredAt e)) \<and> apply_data h p (stamped p e) (ev_data e) = Inr p'"
  by (auto simp: applyWorkflowEventV1_def stamped_def nat_add_distrib)

lemma stamped_inv [simp]: "projection_inv h (stamped p e) \<longleftrightarrow> projection_inv h p"
  by (simp add: projection_inv_def stamped_def)

lemma stamped_fields [simp]:
  "wp_nodes (stamped p e) = wp_nodes p" "wp_attempts (stamped p e) = wp_attempts p"
  "wp_spec (stamped p e) = wp_spec p" "wp_state (stamped p e) = wp_state p"
  "wp_usage (stamped p e) = wp_usage p" "wp_revision (stamped p e) = wp_revision p"
  "wp_graphMutations (stamped p e) = wp_graphMutations p" "wp_sequence (stamped p e) = Suc (wp_sequence p)"
  "wp_workflowId (stamped p e) = wp_workflowId p" "wp_runId (stamped p e) = wp_runId p"
  "wp_sessionId (stamped p e) = wp_sessionId p"
  by (simp_all add: stamped_def)

lemma move_workflow_return_iff:
  "move_workflow p to q = Inr p' \<longleftrightarrow> (wp_state p, to) \<in> workflow_table.step \<and> p' = q\<lparr>wp_state := to\<rparr>"
  by (auto simp: move_workflow_def assertWorkflowStateTransitionV1_def andThen_return_iff
      require_return_iff workflow_table.step_iff)

lemma inv_frame:
  "projection_inv h p \<Longrightarrow> wp_spec p' = wp_spec p \<Longrightarrow> wp_nodes p' = wp_nodes p \<Longrightarrow> wp_attempts p' = wp_attempts p
    \<Longrightarrow> wp_revision p' = wp_revision p \<Longrightarrow> projection_inv h p'"
  by (simp add: projection_inv_def)

lemma apply_keeps_inv:
  assumes inv: "projection_inv h p" and "applyWorkflowEventV1 h p e = Inr p'"
  shows "projection_inv h p'"
proof -
  let ?q = "stamped p e"
  have data: "apply_data h p ?q (ev_data e) = Inr p'" and q: "projection_inv h ?q"
    using assms by (auto simp: apply_return_iff)
  show ?thesis
  proof (cases "ev_data e")
    case (Workflow_topology_changed t)
    then show ?thesis using data inv
      by (auto simp: apply_data_def projection_inv_def keep_topology keep_node_ids stamped_def)
  next
    case (Graph_patched v)
    then show ?thesis
      using data inv_patched[OF q spec_sound]
      by (auto simp: apply_data_def andThen_return_iff split: if_splits)
  next
    case (Execution_task_admitted r d n a)
    then show ?thesis using data inv_admitted[OF inv] by (simp add: apply_data_def stamped_def)
  next
    case (Node_state_changed c)
    then show ?thesis using data inv_by_nodes[OF q]
      by (auto simp: apply_data_def andThen_return_iff dest!: updateNode_moved)
  next
    case (Attempt_created a)
    then show ?thesis using data inv_created[OF inv] by (simp add: apply_data_def stamped_def)
  next
    case (Attempt_state_changed c)
    then show ?thesis using data inv_by_attempts[OF q]
      by (auto simp: apply_data_def andThen_return_iff dest!: updateAttempt_moved)
  qed (use data in \<open>auto simp: apply_data_def move_workflow_return_iff split: if_splits intro!: inv_frame[OF inv]\<close>)
qed

lemma create_attempt_frame:
  "create_attempt p a q = Inr p' \<Longrightarrow> wp_sequence p' = wp_sequence q \<and> wp_state p' = wp_state q \<and> wp_usage p' = wp_usage q
     \<and> wp_revision p' = wp_revision q \<and> wp_graphMutations p' = wp_graphMutations q \<and> wp_workflowId p' = wp_workflowId q
     \<and> wp_runId p' = wp_runId q \<and> wp_sessionId p' = wp_sessionId q"
  by (auto simp: create_attempt_def split: if_splits option.splits)

lemma admit_task_frame:
  "admit_task h p r d n a q = Inr p' \<Longrightarrow> wp_sequence p' = wp_sequence q \<and> wp_state p' = wp_state q \<and> wp_usage p' = wp_usage q
     \<and> wp_revision p' = wp_revision q \<and> wp_graphMutations p' = wp_graphMutations q \<and> wp_workflowId p' = wp_workflowId q
     \<and> wp_runId p' = wp_runId q \<and> wp_sessionId p' = wp_sessionId q"
  by (auto simp: admit_task_def andThen_return_iff split: if_splits)

lemma apply_counts: "applyWorkflowEventV1 h p e = Inr p' \<Longrightarrow> wp_sequence p' = Suc (wp_sequence p)"
  by (cases "ev_data e")
    (auto simp: apply_return_iff apply_data_def move_workflow_return_iff andThen_return_iff
      split: if_splits dest!: create_attempt_frame admit_task_frame)

lemma apply_identity: "applyWorkflowEventV1 h p e = Inr p' \<Longrightarrow>
    wp_workflowId p' = wp_workflowId p \<and> wp_runId p' = wp_runId p \<and> wp_sessionId p' = wp_sessionId p"
  by (cases "ev_data e")
    (auto simp: apply_return_iff apply_data_def move_workflow_return_iff andThen_return_iff
      split: if_splits dest!: create_attempt_frame admit_task_frame)

interpretation workflow_log: event_log "applyWorkflowEventV1 h" "projection_inv h" wp_sequence for h
  by unfold_locales (auto intro: apply_keeps_inv dest: apply_counts)

lemma initial_inv: "initialWorkflowProjectionV1 h v = Inr p \<Longrightarrow> projection_inv h p"
  by (auto simp: initialWorkflowProjectionV1_def andThen_return_iff projection_inv_def spec_node_ids_def
      proposed_node_def attempts_listed_def comp_def list_all_iff dest: spec_sound)

lemma initial_fields: "initialWorkflowProjectionV1 h v = Inr p \<Longrightarrow>
    wp_sequence p = 0 \<and> wp_graphMutations p = 0 \<and> wp_usage p = zero_usage \<and> wp_state p = W_created"
  by (auto simp: initialWorkflowProjectionV1_def andThen_return_iff)

lemma reduce_returnE:
  assumes "reduceWorkflowEventsV1 h events = Inr p"
  obtains spec e0 rest p0 where "events = e0 # rest" "ev_data e0 = Workflow_created spec"
    "initialWorkflowProjectionV1 h (JObj spec) = Inr p0" "foldR (applyWorkflowEventV1 h) p0 events = Inr p"
  using assms
  by (auto simp: reduceWorkflowEventsV1_def andThen_return_iff split: list.splits workflow_event_data.splits)

subsection \<open>Transitions along the tables\<close>

lemma apply_workflow_state: "applyWorkflowEventV1 h p e = Inr p' \<Longrightarrow>
    wp_state p' = wp_state p \<or> (wp_state p, wp_state p') \<in> workflow_table.step"
  by (cases "ev_data e")
    (auto simp: apply_return_iff apply_data_def move_workflow_return_iff andThen_return_iff
      split: if_splits dest!: create_attempt_frame admit_task_frame)

lemma apply_revision: "applyWorkflowEventV1 h p e = Inr p' \<Longrightarrow>
    int (wp_revision p') - int (wp_graphMutations p') = int (wp_revision p) - int (wp_graphMutations p)"
  by (cases "ev_data e")
    (auto simp: apply_return_iff apply_data_def move_workflow_return_iff andThen_return_iff
      split: if_splits dest!: create_attempt_frame admit_task_frame)

definition charge_of :: "workflow_event \<Rightarrow> workflow_usage" where
  "charge_of e = (case ev_data e of Budget_charged u \<Rightarrow> u | _ \<Rightarrow> zero_usage)"

lemma add_usage_zero [simp]: "add_usage u zero_usage = u"
  by (simp add: add_usage_def zero_usage_def)

lemma apply_usage: "applyWorkflowEventV1 h p e = Inr p' \<Longrightarrow> wp_usage p' = add_usage (wp_usage p) (charge_of e)"
  by (cases "ev_data e")
    (auto simp: apply_return_iff apply_data_def move_workflow_return_iff andThen_return_iff charge_of_def
      split: if_splits dest!: create_attempt_frame admit_task_frame)

lemma list_all2_source: "list_all2 P xs ys \<Longrightarrow> y \<in> set ys \<Longrightarrow> \<exists>x \<in> set xs. P x y"
  by (induction rule: list_all2_induct) auto

text \<open>A node keeps its identity; its state moves along the table, or the node is new, or it left the graph.\<close>

lemma create_attempt_nodes:
  assumes "create_attempt p a q = Inr p'" and "n' \<in> set (wp_nodes p')"
  shows "\<exists>n \<in> set (wp_nodes p). np_nodeId n = np_nodeId n' \<and> np_state n = np_state n'"
  using assms by (auto simp: create_attempt_def split: if_splits option.splits) blast+

lemma admit_task_nodes:
  assumes "admit_task h p r d node a q = Inr p'" and "n' \<in> set (wp_nodes p')"
  shows "n' \<in> set (wp_nodes p) \<or> np_nodeId n' \<notin> set (map np_nodeId (wp_nodes p)) \<and> np_state n' = N_scheduled"
proof -
  have fresh: "\<forall>n \<in> set (wp_nodes p). JStr (np_nodeId n) \<noteq> getProp node ''nodeId''"
    using assms(1) by (auto simp: admit_task_def list_ex_iff split: if_splits)
  have "getProp node ''nodeId'' = JStr (ap_nodeId a)"
    using assms(1) by (auto simp: admit_task_def split: if_splits)
  then show ?thesis
    using assms fresh by (auto simp: admit_task_def andThen_return_iff split: if_splits)
qed

lemma apply_node_state:
  assumes "applyWorkflowEventV1 h p e = Inr p'" and n': "n' \<in> set (wp_nodes p')"
  shows "(\<exists>n \<in> set (wp_nodes p). np_nodeId n = np_nodeId n'
            \<and> (np_state n' = np_state n \<or> (np_state n, np_state n') \<in> node_table.step))
    \<or> np_nodeId n' \<notin> set (map np_nodeId (wp_nodes p)) \<and> np_state n' \<in> {N_proposed, N_scheduled}"
proof -
  have data: "apply_data h p (stamped p e) (ev_data e) = Inr p'" using assms(1) by (simp add: apply_return_iff)
  have same: ?thesis if "wp_nodes p' = wp_nodes p" using n' that by auto
  show ?thesis
  proof (cases "ev_data e")
    case (Graph_patched v)
    then show ?thesis using data n'
      by (auto simp: apply_data_def andThen_return_iff proposed_node_def split: if_splits dest!: patch_nodes_member)
  next
    case (Execution_task_admitted r d m a)
    then show ?thesis using data n' by (auto simp: apply_data_def dest!: admit_task_nodes)
  next
    case (Node_state_changed c)
    then have "list_all2 node_moved (wp_nodes p) (wp_nodes p')"
      using data by (auto simp: apply_data_def andThen_return_iff dest: updateNode_moved)
    from list_all2_source[OF this n'] obtain n where "n \<in> set (wp_nodes p)" "node_moved n n'"
      by blast
    then show ?thesis by (auto simp: node_moved_def)
  next
    case (Attempt_created a)
    then show ?thesis using data n' by (fastforce simp: apply_data_def dest: create_attempt_nodes)
  qed (rule same; use data in \<open>force simp: apply_data_def move_workflow_return_iff andThen_return_iff
         split: if_splits dest!: updateAttempt_moved\<close>)+
qed

lemma replay_from_terminal:
  assumes "foldR (applyWorkflowEventV1 h) p events = Inr p'" "workflow_terminal (wp_state p)"
  shows "wp_state p' = wp_state p"
proof -
  have "(wp_state p, wp_state p') \<in> workflow_table.step\<^sup>*"
    using assms(1) by (rule foldR_rel[where R = "\<lambda>a b. (wp_state a, wp_state b) \<in> workflow_table.step\<^sup>*"])
      (auto dest!: apply_workflow_state intro: rtrancl_into_rtrancl)
  then show ?thesis using workflow_table.absorbing assms(2) by blast
qed

end
