(* ===== verification/WorkflowSamples.thy ===== *)
theory WorkflowSamples
  imports WorkflowProjection
begin

section \<open>Concrete Workflow histories\<close>

text \<open>
  A small Workflow used to instantiate the theorems: a planner node, two independent workers
  and a synthesis node that joins them with a quorum of one, and a history that runs it.
\<close>

definition sample_node :: "string \<Rightarrow> string \<Rightarrow> js_record \<Rightarrow> js_record" where
  "sample_node nodeId kind extra = [(''nodeId'', JStr nodeId), (''kind'', JStr kind), (''title'', JStr ''work''),
     (''inputRefs'', JArr []),
     (''grantRequest'', JObj [(''tools'', JArr [JStr ''*'']), (''skills'', JArr []), (''mcpServers'', JArr []),
        (''workspace'', JStr ''read''), (''network'', JBool False), (''mayDelegate'', JBool False)]),
     (''effect'', JObj [(''class'', JStr ''read''), (''requiresApproval'', JBool False)]),
     (''retry'', JObj [(''maxAttempts'', jnat 2), (''initialBackoffMs'', jnat 10), (''maxBackoffMs'', jnat 20),
        (''retryableCodes'', JArr [])]),
     (''timeout'', JObj [(''totalMs'', jnat 9), (''noProgressMs'', jnat 5), (''heartbeatMs'', jnat 2)]),
     (''criteria'', JArr [])] @ extra"

definition sample_edge :: "string \<Rightarrow> string \<Rightarrow> js_value" where
  "sample_edge f t = JObj [(''from'', JStr f), (''to'', JStr t)]"

definition sample_spec :: "nat \<Rightarrow> js_value list \<Rightarrow> js_value list \<Rightarrow> js_record" where
  "sample_spec revision nodes edges = [(''schemaVersion'', JNum (Whole 1)), (''workflowId'', JStr ''wf''),
     (''runId'', JStr ''run''), (''sessionId'', JStr ''sess''), (''workspace'', JStr ''ws''),
     (''objective'', JStr ''goal''), (''modePolicy'', JStr ''workflow''), (''topology'', JStr ''workflow_graph''),
     (''revision'', jnat revision), (''nodes'', JArr nodes), (''edges'', JArr edges),
     (''completion'', JStr ''all_required''),
     (''budget'', JObj [(''maxWallClockMs'', jnat 9), (''maxTokens'', jnat 9), (''maxToolCalls'', jnat 9),
        (''maxAgentTasks'', jnat 9), (''maxParallelTasks'', jnat 9)]),
     (''maxGraphMutations'', jnat 1), (''createdAt'', JStr ''2026-01-01T00:00:00.000Z'')]"

definition sample_nodes :: "js_value list" where
  "sample_nodes = [JObj (sample_node ''plan'' ''agent_task'' []), JObj (sample_node ''left'' ''agent_task'' []),
     JObj (sample_node ''right'' ''agent_task'' []),
     JObj (sample_node ''join'' ''synthesis''
       [(''join'', JObj [(''kind'', JStr ''quorum''), (''minimum'', jnat 1)])])]"

definition sample_edges :: "js_value list" where
  "sample_edges = [sample_edge ''plan'' ''left'', sample_edge ''plan'' ''right'', sample_edge ''left'' ''join'',
     sample_edge ''right'' ''join'']"

definition sample_event :: "int \<Rightarrow> workflow_event_data \<Rightarrow> workflow_event" where
  "sample_event sequence data = \<lparr>ev_schemaVersion = 1, ev_eventId = ''ev'', ev_workflowId = ''wf'', ev_runId = ''run'',
     ev_sequence = sequence, ev_occurredAt = ''2026-01-01T00:00:00.000Z'', ev_data = data\<rparr>"

definition sample_attempt :: "string \<Rightarrow> string \<Rightarrow> int \<Rightarrow> attempt_projection" where
  "sample_attempt attemptId nodeId ordinal = \<lparr>ap_attemptId = attemptId, ap_nodeId = nodeId, ap_ordinal = ordinal,
     ap_state = A_scheduled, ap_leaseToken = None, ap_workerId = None, ap_startedAt = None, ap_lastProgressAt = None,
     ap_finishedAt = None, ap_resultRef = None, ap_receiptRef = None, ap_errorCode = None\<rparr>"

definition sample_move :: "string \<Rightarrow> node_state \<Rightarrow> workflow_event_data" where
  "sample_move nodeId state = Node_state_changed \<lparr>nc_nodeId = nodeId, nc_state = state, nc_errorCode = None,
     nc_resultRef = None\<rparr>"

definition sample_usage :: "int \<Rightarrow> workflow_usage" where
  "sample_usage n = \<lparr>us_turns = n, us_toolCalls = 0, us_inputTokens = 3 * n, us_outputTokens = n, us_agentTasks = 0\<rparr>"

text \<open>The planner runs and succeeds, usage is charged twice and the Workflow is cancelled.\<close>

definition sample_history :: "workflow_event list" where
  "sample_history = map (\<lambda>(i, d). sample_event (int i + 1) d) (enumerate 0
     [Workflow_created (sample_spec 1 sample_nodes sample_edges), Workflow_started, sample_move ''plan'' N_admitted,
      sample_move ''plan'' N_scheduled, Attempt_created (sample_attempt ''a1'' ''plan'' 1),
      Budget_charged (sample_usage 2), Budget_charged (sample_usage 5), sample_move ''plan'' N_succeeded,
      Workflow_cancelling ''stop'', Workflow_terminal W_cancelled None])"


definition sample_final :: workflow_projection where
  "sample_final = (case reduceWorkflowEventsV1 (\<lambda>_. False) sample_history of Inr p \<Rightarrow> p | Inl _ \<Rightarrow> undefined)"

lemma sample_reduces: "is_ok (reduceWorkflowEventsV1 (\<lambda>_. False) sample_history)"
  by code_simp

lemma sample_history_replays: "reduceWorkflowEventsV1 (\<lambda>_. False) sample_history = Inr sample_final"
  using sample_reduces by (auto simp: is_ok_iff sample_final_def)

lemma sample_is_cancelled: "case reduceWorkflowEventsV1 (\<lambda>_. False) sample_history of
    Inr p \<Rightarrow> wp_state p = W_cancelled \<and> us_turns (wp_usage p) = 7 \<and> wp_revision p = 1 | Inl _ \<Rightarrow> False"
  by code_simp

lemma sample_final_state: "wp_state sample_final = W_cancelled" "us_turns (wp_usage sample_final) = 7"
  "wp_revision sample_final = 1"
  using sample_is_cancelled by (simp_all add: sample_history_replays)

end
