(* ===== verification/WorkflowProperties.thy ===== *)
theory WorkflowProperties
  imports WorkflowSamples
begin

section \<open>Properties of Workflow specifications and histories\<close>

text \<open>
  The claims about \<open>workflow.ts\<close> that the components above establish, each with an instance
  on the histories of \<open>WorkflowSamples\<close> where it has hypotheses.
\<close>

subsection \<open>Facts about replays\<close>

lemma reduce_append:
  assumes "events \<noteq> []"
  shows "reduceWorkflowEventsV1 h (events @ later)
    = andThen (reduceWorkflowEventsV1 h events) (\<lambda>p. foldR (applyWorkflowEventV1 h) p later)"
proof -
  obtain e rest where e: "events = e # rest" using assms by (cases events) auto
  show ?thesis
  proof (cases "ev_data e")
    case (Workflow_created spec)
    then show ?thesis using foldR_append[of "applyWorkflowEventV1 h" _ events later]
      by (cases "initialWorkflowProjectionV1 h (JObj spec)") (simp_all add: reduceWorkflowEventsV1_def e)
  qed (simp_all add: reduceWorkflowEventsV1_def e)
qed

lemma replay_sequences:
  assumes "foldR (applyWorkflowEventV1 h) p events = Inr p'" "e \<in> set events"
  shows "int (wp_sequence p) < ev_sequence e \<and> ev_sequence e \<le> int (wp_sequence p) + int (length events)"
  using assms
proof (induction events arbitrary: p)
  case (Cons x events)
  then obtain q where q: "applyWorkflowEventV1 h p x = Inr q" "foldR (applyWorkflowEventV1 h) q events = Inr p'"
    by (auto simp: andThen_return_iff)
  have "wp_sequence q = Suc (wp_sequence p)" "ev_sequence x = int (wp_sequence p) + 1"
    using apply_counts[OF q(1)] q(1) by (auto simp: apply_return_iff)
  then show ?case using Cons.IH[OF q(2)] Cons.prems(2) by auto
qed simp

lemma reduce_nonempty: "reduceWorkflowEventsV1 h events = Inr p \<Longrightarrow> events \<noteq> []"
  by (auto simp: reduceWorkflowEventsV1_def)

lemma reduce_counts:
  assumes "reduceWorkflowEventsV1 h events = Inr p" shows "wp_sequence p = length events"
proof -
  obtain p0 spec where p0: "initialWorkflowProjectionV1 h (JObj spec) = Inr p0"
      "foldR (applyWorkflowEventV1 h) p0 events = Inr p"
    using assms by (elim reduce_returnE)
  show ?thesis using workflow_log.replay_counts[OF p0(2) initial_inv[OF p0(1)]] initial_fields[OF p0(1)] by simp
qed

lemma replay_usage:
  "foldR (applyWorkflowEventV1 h) p events = Inr p' \<Longrightarrow> wp_usage p' = foldl add_usage (wp_usage p) (map charge_of events)"
  by (induction events arbitrary: p) (auto simp: andThen_return_iff dest!: apply_usage)

lemma replay_revision:
  assumes "foldR (applyWorkflowEventV1 h) p events = Inr p'"
  shows "int (wp_revision p') - int (wp_graphMutations p') = int (wp_revision p) - int (wp_graphMutations p)"
  using assms by (rule foldR_rel) (auto dest: apply_revision)

subsection \<open>Specifications\<close>

text \<open>C1: \<open>validateWorkflowSpecV1\<close> accepts exactly well-formed specifications and is idempotent: what it
  returns satisfies every rule of the contract, and validating the returned object again
  returns the same specification.\<close>

theorem workflow_spec_roundtrip:
  assumes "validateWorkflowSpecV1 h value = Inr spec"
  shows "valid_spec h spec \<and> validateWorkflowSpecV1 h (spec_json spec) = Inr spec"
  using spec_sound[OF assms] spec_again by blast

theorem workflow_spec_roundtrip_witness:
  "\<exists>spec. validateWorkflowSpecV1 (\<lambda>_. False) (JObj (sample_spec 1 sample_nodes sample_edges)) = Inr spec
     \<and> validateWorkflowSpecV1 (\<lambda>_. False) (spec_json spec) = Inr spec"
proof -
  have "is_ok (validateWorkflowSpecV1 (\<lambda>_. False) (JObj (sample_spec 1 sample_nodes sample_edges)))"
    by code_simp
  then show ?thesis using workflow_spec_roundtrip unfolding is_ok_iff by blast
qed

text \<open>C2: The queue-based \<open>assertAcyclic\<close> is a decision procedure for acyclicity: on a graph with
  distinct node ids and edges between its nodes it passes exactly when the edge relation has
  no cycle, and otherwise reports \<open>WORKFLOW_GRAPH_CYCLE\<close>.\<close>

theorem workflow_acyclicity_decided:
  assumes "distinct (map ns_nodeId nodes)"
    and "set (edge_pairs edges) \<subseteq> set (map ns_nodeId nodes) \<times> set (map ns_nodeId nodes)"
  shows "assertAcyclic nodes edges
    = (if acyclic (set (edge_pairs edges)) then Inr () else Inl WORKFLOW_GRAPH_CYCLE)"
  using kahn.accepts_iff[OF assms] by (simp add: assertAcyclic_def require_def kahn_accepts_def)

theorem workflow_acyclicity_decided_witness:
  "\<not> acyclic (set (edge_pairs [\<lparr>we_from = ''a'', we_to = ''b'', we_condition = None\<rparr>,
     \<lparr>we_from = ''b'', we_to = ''a'', we_condition = None\<rparr>]))"
proof -
  define node where "node k = (case validateNode (JObj (sample_node k ''timer'' [])) of Inr n \<Rightarrow> n | Inl _ \<Rightarrow> undefined)"
    for k
  let ?edges = "[\<lparr>we_from = ''a'', we_to = ''b'', we_condition = None\<rparr>,
     \<lparr>we_from = ''b'', we_to = ''a'', we_condition = None\<rparr>]"
  have ids: "map ns_nodeId [node ''a'', node ''b''] = [''a'', ''b'']" unfolding node_def by code_simp
  have "kahn_visited [''a'', ''b''] (edge_pairs ?edges) = 0" by code_simp
  then have "assertAcyclic [node ''a'', node ''b''] ?edges = Inl WORKFLOW_GRAPH_CYCLE"
    unfolding assertAcyclic_def ids by simp
  moreover have "set (edge_pairs ?edges) \<subseteq> set [''a'', ''b''] \<times> set [''a'', ''b'']" by (simp add: edge_pairs_def)
  ultimately show ?thesis
    using workflow_acyclicity_decided[of "[node ''a'', node ''b'']" ?edges] unfolding ids
    by (auto split: if_splits)
qed

subsection \<open>Histories\<close>

text \<open>C3: Every history that replays leaves a consistent projection: the specification is
  well-formed, the projected nodes are exactly its nodes in order, attempt ids are unique,
  the i-th attempt id of a node names an attempt of that node with ordinal i, the revision is
  the one of the specification, and the sequence number is the number of events.\<close>

theorem workflow_replay_invariant:
  assumes "reduceWorkflowEventsV1 h events = Inr p"
  shows "projection_inv h p \<and> wp_sequence p = length events"
  using assms reduce_counts[OF assms] initial_inv workflow_log.replay_keeps by (elim reduce_returnE) blast

theorem workflow_replay_invariant_witness:
  "projection_inv (\<lambda>_. False) sample_final \<and> wp_sequence sample_final = length sample_history"
  using workflow_replay_invariant[OF sample_history_replays] .

text \<open>Incremental application equals replay: appending events to a stored history and applying
  them one by one to the stored projection gives the projection (or the error) of the whole
  history.\<close>

theorem workflow_replay_incremental:
  assumes "events \<noteq> []"
  shows "reduceWorkflowEventsV1 h (events @ later)
    = andThen (reduceWorkflowEventsV1 h events) (\<lambda>p. foldR (applyWorkflowEventV1 h) p later)"
  using assms by (rule reduce_append)

theorem workflow_replay_incremental_witness:
  "reduceWorkflowEventsV1 (\<lambda>_. False) (sample_history @ [sample_event 11 Workflow_started])
     = applyWorkflowEventV1 (\<lambda>_. False) sample_final (sample_event 11 Workflow_started)"
  using workflow_replay_incremental[OF reduce_nonempty[OF sample_history_replays],
      of "\<lambda>_. False" "[sample_event 11 Workflow_started]"]
  by (cases "applyWorkflowEventV1 (\<lambda>_. False) sample_final (sample_event 11 Workflow_started)")
    (simp_all add: sample_history_replays)

text \<open>C4: A terminal Workflow stays terminal: whatever events a history is extended with, if the
  extension replays at all, the state is still the terminal one.\<close>

theorem workflow_terminal_absorbing:
  assumes "reduceWorkflowEventsV1 h events = Inr p" and "workflow_terminal (wp_state p)"
    and "reduceWorkflowEventsV1 h (events @ later) = Inr p'"
  shows "wp_state p' = wp_state p"
  using assms replay_from_terminal reduce_append[OF reduce_nonempty[OF assms(1)]] by simp

theorem workflow_terminal_absorbing_witness:
  "\<exists>p'. reduceWorkflowEventsV1 (\<lambda>_. False) (sample_history @ [sample_event 11 (Timer_fired ''t'' ''plan'')]) = Inr p'
     \<and> wp_state p' = W_cancelled"
proof -
  have "is_ok (reduceWorkflowEventsV1 (\<lambda>_. False) (sample_history @ [sample_event 11 (Timer_fired ''t'' ''plan'')]))"
    by code_simp
  then obtain p' where
    p': "reduceWorkflowEventsV1 (\<lambda>_. False) (sample_history @ [sample_event 11 (Timer_fired ''t'' ''plan'')]) = Inr p'"
    by (auto simp: is_ok_iff)
  from workflow_terminal_absorbing[OF sample_history_replays _ p'] sample_final_state p'
  show ?thesis by (simp add: workflow_terminal_def)
qed

text \<open>C5: No event is applied twice: appending any event that a replayed history already contains is
  rejected with \<open>WORKFLOW_HISTORY_INVALID\<close>.\<close>

theorem workflow_no_double_apply:
  assumes "reduceWorkflowEventsV1 h events = Inr p" and "e \<in> set events"
  shows "reduceWorkflowEventsV1 h (events @ [e]) = Inl WORKFLOW_HISTORY_INVALID"
proof -
  obtain p0 spec where p0: "initialWorkflowProjectionV1 h (JObj spec) = Inr p0"
      "foldR (applyWorkflowEventV1 h) p0 events = Inr p"
    using assms(1) by (elim reduce_returnE)
  have "ev_sequence e \<le> int (length events)"
    using replay_sequences[OF p0(2) assms(2)] initial_fields[OF p0(1)] by simp
  then have "applyWorkflowEventV1 h p e = Inl WORKFLOW_HISTORY_INVALID"
    using reduce_counts[OF assms(1)] by (simp add: applyWorkflowEventV1_def)
  then show ?thesis using assms(1) reduce_append[OF reduce_nonempty[OF assms(1)]] by simp
qed

theorem workflow_no_double_apply_witness:
  "reduceWorkflowEventsV1 (\<lambda>_. False) (sample_history @ [hd sample_history]) = Inl WORKFLOW_HISTORY_INVALID"
  using workflow_no_double_apply[OF sample_history_replays] by (simp add: sample_history_def)

text \<open>Usage is exact accounting: the recorded usage is the component-wise sum of the charges of
  the history, whatever else happened, and nothing caps or drops a charge.\<close>

theorem workflow_usage_accounting:
  assumes "reduceWorkflowEventsV1 h events = Inr p"
  shows "wp_usage p = foldl add_usage zero_usage (map charge_of events)"
  using assms initial_fields replay_usage by (elim reduce_returnE) metis

theorem workflow_usage_accounting_witness:
  "us_turns (foldl add_usage zero_usage (map charge_of sample_history)) = 7"
  using workflow_usage_accounting[OF sample_history_replays] sample_final_state by simp

text \<open>The revision counts the accepted graph patches: it is the revision of the specification the
  Workflow was created with plus the number of graph mutations.\<close>

theorem workflow_revision_counts_patches:
  assumes "reduceWorkflowEventsV1 h events = Inr p"
    and "initialWorkflowProjectionV1 h (JObj spec) = Inr p0" and "ev_data (hd events) = Workflow_created spec"
  shows "wp_revision p = wp_revision p0 + wp_graphMutations p"
proof -
  have "foldR (applyWorkflowEventV1 h) p0 events = Inr p"
    using assms by (elim reduce_returnE) auto
  then show ?thesis using replay_revision initial_fields[OF assms(2)] by fastforce
qed

theorem workflow_revision_counts_patches_witness:
  "wp_graphMutations sample_final = 0"
proof -
  have "is_ok (initialWorkflowProjectionV1 (\<lambda>_. False) (JObj (sample_spec 1 sample_nodes sample_edges)))"
    by code_simp
  then obtain p0 where p0: "initialWorkflowProjectionV1 (\<lambda>_. False) (JObj (sample_spec 1 sample_nodes sample_edges)) = Inr p0"
    by (auto simp: is_ok_iff)
  moreover have "0 < wp_revision p0"
    using initial_inv[OF p0] by (simp add: projection_inv_def valid_spec_def)
  moreover have "wp_revision sample_final = wp_revision p0 + wp_graphMutations sample_final"
    by (rule workflow_revision_counts_patches[OF sample_history_replays p0])
      (simp add: sample_history_def sample_event_def)
  ultimately show ?thesis using sample_final_state by linarith
qed

text \<open>C6: A node only moves along \<open>NODE_TRANSITIONS\<close>: in one event a projected node keeps its state,
  takes one step of the table, or is a node that was not in the graph before and starts as
  proposed or, for an admitted task, as scheduled.\<close>

theorem workflow_node_lifecycle:
  assumes "applyWorkflowEventV1 h p e = Inr p'" and "n' \<in> set (wp_nodes p')"
  shows "(\<exists>n \<in> set (wp_nodes p). np_nodeId n = np_nodeId n'
            \<and> (np_state n' = np_state n \<or> np_state n' \<in> set (NODE_TRANSITIONS (np_state n))))
    \<or> np_nodeId n' \<notin> set (map np_nodeId (wp_nodes p)) \<and> np_state n' \<in> {N_proposed, N_scheduled}"
  using apply_node_state[OF assms] by (simp add: node_table.step_iff)

theorem workflow_node_lifecycle_witness:
  "\<exists>p p' n'. reduceWorkflowEventsV1 (\<lambda>_. False) (take 3 sample_history) = Inr p
     \<and> applyWorkflowEventV1 (\<lambda>_. False) p (sample_event 4 (sample_move ''plan'' N_scheduled)) = Inr p'
     \<and> n' \<in> set (wp_nodes p') \<and> np_state n' = N_scheduled
     \<and> (\<exists>n \<in> set (wp_nodes p). N_scheduled \<in> set (NODE_TRANSITIONS (np_state n)))"
proof -
  have "case andThen (reduceWorkflowEventsV1 (\<lambda>_. False) (take 3 sample_history))
      (\<lambda>p. andThen (applyWorkflowEventV1 (\<lambda>_. False) p (sample_event 4 (sample_move ''plan'' N_scheduled)))
        (\<lambda>p'. Inr (p, p'))) of
      Inl _ \<Rightarrow> False
    | Inr (p, p') \<Rightarrow> wp_nodes p' \<noteq> [] \<and> np_state (hd (wp_nodes p')) = N_scheduled
        \<and> np_nodeId (hd (wp_nodes p')) \<in> set (map np_nodeId (wp_nodes p))
        \<and> N_scheduled \<notin> set (map np_state (wp_nodes p))"
    by code_simp
  then obtain p p' where p: "reduceWorkflowEventsV1 (\<lambda>_. False) (take 3 sample_history) = Inr p"
      "applyWorkflowEventV1 (\<lambda>_. False) p (sample_event 4 (sample_move ''plan'' N_scheduled)) = Inr p'"
    and hd: "hd (wp_nodes p') \<in> set (wp_nodes p')" "np_state (hd (wp_nodes p')) = N_scheduled"
      "np_nodeId (hd (wp_nodes p')) \<in> set (map np_nodeId (wp_nodes p))"
      "N_scheduled \<notin> set (map np_state (wp_nodes p))"
    by (auto split: sum.splits prod.splits simp: andThen_def)
  have "\<exists>n \<in> set (wp_nodes p). N_scheduled \<in> set (NODE_TRANSITIONS (np_state n))"
    using workflow_node_lifecycle[OF p(2) hd(1)] hd(2-4) unfolding set_map by (metis image_eqI)
  with p hd show ?thesis by blast
qed

text \<open>A finished node is never resurrected while it stays in the graph: skipped, succeeded, cancelled
  and manual-intervention nodes keep their state under every event.\<close>

theorem workflow_final_node_kept:
  assumes "projection_inv h p" and "applyWorkflowEventV1 h p e = Inr p'"
    and "n \<in> set (wp_nodes p)" and "node_final (np_state n)"
    and "n' \<in> set (wp_nodes p')" and "np_nodeId n' = np_nodeId n"
  shows "np_state n' = np_state n"
proof -
  have "m = n" if "m \<in> set (wp_nodes p)" "np_nodeId m = np_nodeId n" for m
    using projection_inv_distinct[OF assms(1)] assms(3) that by (auto simp: distinct_map dest: inj_onD)
  then show ?thesis
    using apply_node_state[OF assms(2,5)] assms(3,6) node_table.terminal_stuck[OF assms(4)] by force
qed

theorem workflow_final_node_kept_witness:
  "\<exists>p p' n n'. reduceWorkflowEventsV1 (\<lambda>_. False) (take 8 sample_history) = Inr p
     \<and> applyWorkflowEventV1 (\<lambda>_. False) p (sample_event 9 Workflow_waiting) = Inr p'
     \<and> n \<in> set (wp_nodes p) \<and> np_state n = N_succeeded \<and> n' \<in> set (wp_nodes p') \<and> np_state n' = N_succeeded"
proof -
  have "case andThen (reduceWorkflowEventsV1 (\<lambda>_. False) (take 8 sample_history))
      (\<lambda>p. andThen (applyWorkflowEventV1 (\<lambda>_. False) p (sample_event 9 Workflow_waiting)) (\<lambda>p'. Inr (p, p'))) of
      Inl _ \<Rightarrow> False
    | Inr (p, p') \<Rightarrow> np_nodeId (hd (wp_nodes p')) = np_nodeId (hd (wp_nodes p))
        \<and> np_state (hd (wp_nodes p)) = N_succeeded \<and> wp_nodes p \<noteq> [] \<and> wp_nodes p' \<noteq> []"
    by code_simp
  then obtain p p' where p: "reduceWorkflowEventsV1 (\<lambda>_. False) (take 8 sample_history) = Inr p"
      "applyWorkflowEventV1 (\<lambda>_. False) p (sample_event 9 Workflow_waiting) = Inr p'"
    and hd: "np_nodeId (hd (wp_nodes p')) = np_nodeId (hd (wp_nodes p))"
      "np_state (hd (wp_nodes p)) = N_succeeded" "hd (wp_nodes p) \<in> set (wp_nodes p)"
      "hd (wp_nodes p') \<in> set (wp_nodes p')"
    by (auto split: sum.splits prod.splits simp: andThen_def)
  have "projection_inv (\<lambda>_. False) p"
    using p(1) initial_inv workflow_log.replay_keeps by (elim reduce_returnE) blast
  from workflow_final_node_kept[OF this p(2) hd(3) _ hd(4) hd(1)] p hd show ?thesis
    by (auto simp: node_final_def)
qed

end
