(* ===== verification/WorkflowReadiness.thy ===== *)
theory WorkflowReadiness
  imports WorkflowProjection
begin

section \<open>Readiness of Workflow nodes\<close>

text \<open>
  \<open>readyWorkflowNodeIdsV1\<close>, \<open>workflowNodeReadinessV1\<close> and the evaluation of edge conditions
  (\<open>edgeMatches\<close>, \<open>jsonPointer\<close>, \<open>deepEqual\<close>) of \<open>packages/core-sdk/src/workflow.ts\<close>.

  \<open>jsonPointer\<close> tests \<open>token in current\<close>, which also finds inherited properties, so a
  pointer may select a built-in function or prototype object. These are the extra values of
  \<open>pointed\<close>.
\<close>

subsection \<open>The run-time object of a node projection\<close>

definition node_states :: "(string \<times> node_state) list" where
  "node_states = [(''proposed'', N_proposed), (''admitted'', N_admitted), (''scheduled'', N_scheduled),
     (''leased'', N_leased), (''running'', N_running), (''waiting'', N_waiting), (''verifying'', N_verifying),
     (''retry_wait'', N_retry_wait), (''unknown'', N_unknown), (''skipped'', N_skipped),
     (''succeeded'', N_succeeded), (''failed'', N_failed), (''cancelled'', N_cancelled),
     (''manual_intervention'', N_manual_intervention)]"

definition projection_json :: "node_projection \<Rightarrow> js_value" where
  "projection_json n = JObj [(''nodeId'', JStr (np_nodeId n)), (''state'', JStr (name_in node_states (np_state n))),
     (''attemptIds'', jstrs (np_attemptIds n)),
     (''errorCode'', case np_errorCode n of None \<Rightarrow> JUndef | Some c \<Rightarrow> JStr c),
     (''resultRef'', case np_resultRef n of None \<Rightarrow> JUndef | Some r \<Rightarrow> artifact_ref_json r)]"

subsection \<open>Edge conditions\<close>

datatype pointed = Json js_value | Host_function | Object_prototype | Array_prototype

definition object_methods :: "string list" where
  "object_methods = [''constructor'', ''__defineGetter__'', ''__defineSetter__'', ''hasOwnProperty'',
     ''__lookupGetter__'', ''__lookupSetter__'', ''isPrototypeOf'', ''propertyIsEnumerable'', ''toString'',
     ''valueOf'', ''toLocaleString'']"

definition array_methods :: "string list" where
  "array_methods = [''at'', ''concat'', ''copyWithin'', ''fill'', ''find'', ''findIndex'', ''findLast'',
     ''findLastIndex'', ''lastIndexOf'', ''pop'', ''push'', ''reverse'', ''shift'', ''unshift'', ''slice'',
     ''sort'', ''splice'', ''includes'', ''indexOf'', ''join'', ''keys'', ''entries'', ''values'', ''forEach'',
     ''filter'', ''flat'', ''flatMap'', ''map'', ''every'', ''some'', ''reduce'', ''reduceRight'',
     ''toReversed'', ''toSorted'', ''toSpliced'', ''with'']"

definition array_index :: "js_value list \<Rightarrow> string \<Rightarrow> js_value option" where
  "array_index xs token = map_of (map (\<lambda>i. (nat_to_string i, xs ! i)) [0..<length xs]) token"

text \<open>One step of the pointer: \<open>None\<close> when the token is not \<open>in\<close> the current value.\<close>

fun pointer_step :: "pointed \<Rightarrow> string \<Rightarrow> pointed option" where
  "pointer_step (Json (JObj ps)) token =
     (if hasOwn ps token then Some (Json (getProp ps token))
      else if token \<in> set object_methods then Some Host_function
      else if token = ''__proto__'' then Some Object_prototype else None)"
| "pointer_step (Json (JArr xs)) token =
     (case array_index xs token of Some v \<Rightarrow> Some (Json v)
      | None \<Rightarrow> if token = ''length'' then Some (Json (jnat (length xs)))
          else if token \<in> set array_methods \<union> set object_methods then Some Host_function
          else if token = ''__proto__'' then Some Array_prototype else None)"
| "pointer_step Object_prototype token =
     (if token \<in> set object_methods then Some Host_function
      else if token = ''__proto__'' then Some (Json JNull) else None)"
| "pointer_step Array_prototype token =
     (if token = ''length'' then Some (Json (jnat 0))
      else if token \<in> set array_methods \<union> set object_methods then Some Host_function
      else if token = ''__proto__'' then Some Object_prototype else None)"
| "pointer_step _ token = None"

fun replaceAll :: "char \<Rightarrow> char \<Rightarrow> char \<Rightarrow> string \<Rightarrow> string" where
  "replaceAll a b r (x # y # s) = (if x = a \<and> y = b then r # replaceAll a b r s else x # replaceAll a b r (y # s))"
| "replaceAll a b r s = s"

fun follow :: "pointed \<Rightarrow> string list \<Rightarrow> pointed" where
  "follow current [] = current"
| "follow current (token # tokens) =
     (case pointer_step current token of None \<Rightarrow> Json JUndef | Some v \<Rightarrow> follow v tokens)"

definition jsonPointer :: "js_value \<Rightarrow> string \<Rightarrow> pointed" where
  "jsonPointer value pointer =
     (if pointer = [] then Json value
      else follow (Json value) (map (\<lambda>part. replaceAll (CHR ''~'') (CHR ''0'') (CHR ''~'')
             (replaceAll (CHR ''~'') (CHR ''1'') (CHR ''/'') part)) (split_on (CHR ''/'') (drop 1 pointer))))"

fun pointed_text :: "pointed \<Rightarrow> string option" where
  "pointed_text (Json v) = stringify v"
| "pointed_text Host_function = None"
| "pointed_text Object_prototype = Some ''{}''"
| "pointed_text Array_prototype = Some ''[]''"

definition deepEqual :: "pointed \<Rightarrow> js_value \<Rightarrow> bool" where
  "deepEqual left right = (pointed_text left = stringify right)"

definition edgeMatches :: "node_projection \<Rightarrow> workflow_edge \<Rightarrow> bool" where
  "edgeMatches source edge = (case we_condition edge of None \<Rightarrow> True
     | Some condition \<Rightarrow>
         if co_operator condition = JStr ''status_is''
         then co_value condition = JStr (name_in node_states (np_state source))
         else let selected = (case co_pointer condition of None \<Rightarrow> Json (projection_json source)
                | Some pointer \<Rightarrow> jsonPointer (projection_json source) pointer) in
           if co_operator condition = JStr ''exists'' then selected \<noteq> Json JUndef
           else if co_operator condition = JStr ''eq'' then deepEqual selected (co_value condition)
           else is_array (co_value condition) \<and> list_ex (deepEqual selected) (the_array (co_value condition)))"

subsection \<open>Readiness\<close>

datatype readiness = Waiting | Ready | Skipped | Blocked

definition settled_states :: "node_state list" where
  "settled_states = [N_unknown, N_skipped, N_succeeded, N_failed, N_cancelled, N_manual_intervention]"

definition edge_selected :: "node_projection \<Rightarrow> workflow_edge \<Rightarrow> bool" where
  "edge_selected source edge = (case we_condition edge of
     None \<Rightarrow> np_state source \<noteq> N_skipped | Some _ \<Rightarrow> edgeMatches source edge)"

text \<open>The loop over the incoming edges; \<open>None\<close> is the early return for an unknown source.\<close>

record edge_tally =
  active :: nat
  succeeded :: nat
  pending :: nat

fun tally_edges :: "node_projection list \<Rightarrow> workflow_edge list \<Rightarrow> edge_tally \<Rightarrow> edge_tally option" where
  "tally_edges nodes [] t = Some t"
| "tally_edges nodes (edge # edges) t =
     (case existing_node nodes (we_from edge) of
        None \<Rightarrow> None
      | Some source \<Rightarrow>
          if np_state source \<notin> set settled_states
          then tally_edges nodes edges (t\<lparr>active := active t + 1, pending := pending t + 1\<rparr>)
          else if \<not> edge_selected source edge then tally_edges nodes edges t
          else tally_edges nodes edges (t\<lparr>active := active t + 1,
            succeeded := (if np_state source = N_succeeded then succeeded t + 1 else succeeded t)\<rparr>))"

definition node_join :: "workflow_spec \<Rightarrow> string \<Rightarrow> join_policy option" where
  "node_join spec nodeId = (case List.find (\<lambda>n. ns_nodeId n = nodeId) (ws_nodes spec) of
     None \<Rightarrow> None | Some node \<Rightarrow> ns_join node)"

definition join_decision :: "join_policy option \<Rightarrow> edge_tally \<Rightarrow> readiness" where
  "join_decision join t =
     (if active t = 0 then (if join = None \<or> join = Some Join_all then Skipped else Blocked)
      else let minimum = (case join of Some Join_any \<Rightarrow> 1 | Some (Join_quorum m) \<Rightarrow> m | _ \<Rightarrow> active t) in
        if minimum \<le> succeeded t then Ready
        else if succeeded t + pending t < minimum then Blocked else Waiting)"

definition incoming_edges :: "workflow_spec \<Rightarrow> string \<Rightarrow> workflow_edge list" where
  "incoming_edges spec nodeId = filter (\<lambda>e. we_to e = nodeId) (ws_edges spec)"

definition workflowNodeReadinessV1 :: "workflow_projection \<Rightarrow> string \<Rightarrow> readiness" where
  "workflowNodeReadinessV1 projection nodeId =
     (let incoming = incoming_edges (wp_spec projection) nodeId in
      if incoming = [] then Ready
      else case tally_edges (wp_nodes projection) incoming \<lparr>active = 0, succeeded = 0, pending = 0\<rparr> of
        None \<Rightarrow> Blocked
      | Some t \<Rightarrow> join_decision (node_join (wp_spec projection) nodeId) t)"

definition readyWorkflowNodeIdsV1 :: "workflow_projection \<Rightarrow> string list" where
  "readyWorkflowNodeIdsV1 projection =
     (if wp_state projection \<noteq> W_running then []
      else filter (\<lambda>nodeId.
          (case List.find (\<lambda>n. np_nodeId n = nodeId) (wp_nodes projection) of
             None \<Rightarrow> False
           | Some node \<Rightarrow> np_state node \<in> {N_proposed, N_admitted, N_retry_wait})
          \<and> workflowNodeReadinessV1 projection nodeId = Ready)
        (map ns_nodeId (ws_nodes (wp_spec projection))))"

subsection \<open>The tally in closed form\<close>

definition edge_source :: "node_projection list \<Rightarrow> workflow_edge \<Rightarrow> node_projection" where
  "edge_source nodes edge = the (existing_node nodes (we_from edge))"

definition edge_pending :: "node_projection list \<Rightarrow> workflow_edge \<Rightarrow> bool" where
  "edge_pending nodes edge \<longleftrightarrow> np_state (edge_source nodes edge) \<notin> set settled_states"

definition edge_active :: "node_projection list \<Rightarrow> workflow_edge \<Rightarrow> bool" where
  "edge_active nodes edge \<longleftrightarrow> edge_pending nodes edge \<or> edge_selected (edge_source nodes edge) edge"

definition edge_succeeded :: "node_projection list \<Rightarrow> workflow_edge \<Rightarrow> bool" where
  "edge_succeeded nodes edge \<longleftrightarrow> edge_active nodes edge \<and> np_state (edge_source nodes edge) = N_succeeded"

definition count_if :: "('a \<Rightarrow> bool) \<Rightarrow> 'a list \<Rightarrow> nat" where
  "count_if P xs = length (filter P xs)"

lemma count_if_simps [simp]:
  "count_if P [] = 0" "count_if P (x # xs) = (if P x then Suc (count_if P xs) else count_if P xs)"
  by (simp_all add: count_if_def)

lemma count_if_mono: "(\<And>x. x \<in> set xs \<Longrightarrow> P x \<Longrightarrow> Q x) \<Longrightarrow> count_if P xs \<le> count_if Q xs"
  by (induction xs) auto

lemma count_if_cong: "(\<And>x. x \<in> set xs \<Longrightarrow> P x = Q x) \<Longrightarrow> count_if P xs = count_if Q xs"
  by (induction xs) auto

lemma count_if_zero: "count_if P xs = 0 \<longleftrightarrow> (\<forall>x \<in> set xs. \<not> P x)"
  by (induction xs) auto

definition edge_counts :: "node_projection list \<Rightarrow> workflow_edge list \<Rightarrow> edge_tally" where
  "edge_counts nodes edges = \<lparr>active = count_if (edge_active nodes) edges,
     succeeded = count_if (edge_succeeded nodes) edges, pending = count_if (edge_pending nodes) edges\<rparr>"

lemma settled_succeeded [simp]: "N_succeeded \<in> set settled_states"
  by (simp add: settled_states_def)

lemma tally_edges_closed:
  assumes "\<forall>e \<in> set edges. existing_node nodes (we_from e) \<noteq> None"
  shows "tally_edges nodes edges t = Some (t\<lparr>active := active t + count_if (edge_active nodes) edges,
     succeeded := succeeded t + count_if (edge_succeeded nodes) edges,
     pending := pending t + count_if (edge_pending nodes) edges\<rparr>)"
  using assms
proof (induction edges arbitrary: t)
  case (Cons e edges)
  then obtain source where "existing_node nodes (we_from e) = Some source" by auto
  with Cons show ?case
    by (auto simp: edge_pending_def edge_active_def edge_succeeded_def edge_source_def)
qed simp

lemma tally_edges_None: "tally_edges nodes edges t = None \<longleftrightarrow> (\<exists>e \<in> set edges. existing_node nodes (we_from e) = None)"
  by (induction edges arbitrary: t) (auto split: option.splits)

lemma readiness_closed:
  assumes "\<forall>e \<in> set (incoming_edges (wp_spec p) k). existing_node (wp_nodes p) (we_from e) \<noteq> None"
    and "incoming_edges (wp_spec p) k \<noteq> []"
  shows "workflowNodeReadinessV1 p k
    = join_decision (node_join (wp_spec p) k) (edge_counts (wp_nodes p) (incoming_edges (wp_spec p) k))"
  using assms tally_edges_closed[OF assms(1)] by (simp add: workflowNodeReadinessV1_def edge_counts_def Let_def)

text \<open>An active edge is pending, has succeeded or has failed.\<close>

definition edge_failed :: "node_projection list \<Rightarrow> workflow_edge \<Rightarrow> bool" where
  "edge_failed nodes edge \<longleftrightarrow> edge_active nodes edge \<and> \<not> edge_pending nodes edge \<and> \<not> edge_succeeded nodes edge"

lemma active_split: "count_if (edge_active nodes) edges = count_if (edge_pending nodes) edges
    + count_if (edge_succeeded nodes) edges + count_if (edge_failed nodes) edges"
  by (induction edges) (auto simp: edge_failed_def edge_succeeded_def edge_active_def edge_pending_def)

subsection \<open>Decisions are final\<close>

text \<open>
  \<open>settles p p'\<close>: from \<open>p\<close> to \<open>p'\<close> only nodes that had not settled may have changed, in
  whatever way.
\<close>

definition settles :: "workflow_projection \<Rightarrow> workflow_projection \<Rightarrow> bool" where
  "settles p p' \<longleftrightarrow> wp_spec p' = wp_spec p \<and> (\<forall>k. case existing_node (wp_nodes p) k of
       None \<Rightarrow> existing_node (wp_nodes p') k = None
     | Some n \<Rightarrow> if np_state n \<in> set settled_states then existing_node (wp_nodes p') k = Some n
         else existing_node (wp_nodes p') k \<noteq> None)"

lemma projection_sources:
  assumes "projection_inv h p" "e \<in> set (ws_edges (wp_spec p))"
  shows "existing_node (wp_nodes p) (we_from e) \<noteq> None"
proof -
  have "we_from e \<in> set (spec_node_ids (wp_spec p))"
    using assms by (auto simp: projection_inv_def valid_spec_def valid_graph_def list_all_iff valid_edge_def
        spec_node_ids_def)
  then show ?thesis using assms(1) unfolding existing_node_None by (simp add: projection_inv_def)
qed

lemma settles_sources:
  "settles p p' \<Longrightarrow> existing_node (wp_nodes p) k \<noteq> None \<Longrightarrow> existing_node (wp_nodes p') k \<noteq> None"
  unfolding settles_def by (auto split: option.splits if_splits dest!: spec[of _ k])

lemma settled_edge_same:
  assumes "settles p p'" "existing_node (wp_nodes p) (we_from e) \<noteq> None" "\<not> edge_pending (wp_nodes p) e"
  shows "edge_source (wp_nodes p') e = edge_source (wp_nodes p) e"
  using assms unfolding settles_def edge_pending_def edge_source_def
  by (auto split: option.splits if_splits dest!: spec[of _ "we_from e"])

lemma edge_flags_same:
  assumes "edge_source nodes' e = edge_source nodes e"
  shows "edge_pending nodes' e = edge_pending nodes e" "edge_active nodes' e = edge_active nodes e"
    "edge_succeeded nodes' e = edge_succeeded nodes e" "edge_failed nodes' e = edge_failed nodes e"
  using assms by (simp_all add: edge_pending_def edge_active_def edge_succeeded_def edge_failed_def)

lemma count_if_disjoint:
  "(\<And>x. x \<in> set xs \<Longrightarrow> \<not> (P x \<and> Q x)) \<Longrightarrow> count_if (\<lambda>x. P x \<or> Q x) xs = count_if P xs + count_if Q xs"
  by (induction xs) auto

lemma pending_not_succeeded: "edge_pending nodes e \<Longrightarrow> \<not> edge_succeeded nodes e"
  by (auto simp: edge_pending_def edge_succeeded_def)

lemma settles_counts:
  assumes "settles p p'" and sources: "\<forall>e \<in> set es. existing_node (wp_nodes p) (we_from e) \<noteq> None"
  defines "n \<equiv> wp_nodes p" and "n' \<equiv> wp_nodes p'"
  shows "count_if (edge_succeeded n) es \<le> count_if (edge_succeeded n') es"
    "count_if (edge_failed n) es \<le> count_if (edge_failed n') es"
    "count_if (edge_pending n') es + count_if (edge_succeeded n') es
      \<le> count_if (edge_pending n) es + count_if (edge_succeeded n) es"
    "count_if (edge_pending n) es = 0 \<Longrightarrow> edge_counts n' es = edge_counts n es"
proof -
  have same: "edge_pending n' e = edge_pending n e \<and> edge_active n' e = edge_active n e
      \<and> edge_succeeded n' e = edge_succeeded n e \<and> edge_failed n' e = edge_failed n e"
    if "e \<in> set es" "\<not> edge_pending n e" for e
    using that sources edge_flags_same[OF settled_edge_same[OF assms(1)]] by (auto simp: n_def n'_def)
  show "count_if (edge_succeeded n) es \<le> count_if (edge_succeeded n') es"
    using same pending_not_succeeded by (intro count_if_mono) blast
  show "count_if (edge_failed n) es \<le> count_if (edge_failed n') es"
    using same by (intro count_if_mono) (auto simp: edge_failed_def)
  have "count_if (\<lambda>e. edge_pending n' e \<or> edge_succeeded n' e) es
      \<le> count_if (\<lambda>e. edge_pending n e \<or> edge_succeeded n e) es"
    using same by (intro count_if_mono) blast
  then show "count_if (edge_pending n') es + count_if (edge_succeeded n') es
      \<le> count_if (edge_pending n) es + count_if (edge_succeeded n) es"
    using pending_not_succeeded by (subst (asm) (1 2) count_if_disjoint) blast+
  show "edge_counts n' es = edge_counts n es" if "count_if (edge_pending n) es = 0"
    using same that unfolding edge_counts_def count_if_zero
    by (auto intro!: count_if_cong)
qed

lemma join_decision_stable:
  assumes "join_decision j \<lparr>active = p + s + f, succeeded = s, pending = p\<rparr> \<noteq> Waiting"
    and "s \<le> s'" "f \<le> f'" "p' + s' \<le> p + s" "p = 0 \<Longrightarrow> p' = 0 \<and> s' = s \<and> f' = f" "\<forall>m. j = Some (Join_quorum m) \<longrightarrow> 0 < m"
  shows "join_decision j \<lparr>active = p' + s' + f', succeeded = s', pending = p'\<rparr>
    = join_decision j \<lparr>active = p + s + f, succeeded = s, pending = p\<rparr>"
proof (cases "p = 0")
  case False
  then show ?thesis using assms
    by (cases j; cases "the j") (auto simp: join_decision_def Let_def split: if_splits)
qed (use assms in simp)

lemma node_join_quorum:
  assumes "projection_inv h p" "node_join (wp_spec p) k = Some (Join_quorum m)" shows "0 < m"
  using assms
  by (auto simp: node_join_def projection_inv_def valid_spec_def valid_node_def list_all_iff
      split: option.splits dest!: find_Some_iff_member)

lemma readiness_stable:
  assumes inv: "projection_inv h p" and "settles p p'" and "workflowNodeReadinessV1 p k \<noteq> Waiting"
  shows "workflowNodeReadinessV1 p' k = workflowNodeReadinessV1 p k"
proof (cases "incoming_edges (wp_spec p) k = []")
  case True
  then show ?thesis using assms(2) by (simp add: workflowNodeReadinessV1_def settles_def)
next
  case False
  let ?es = "incoming_edges (wp_spec p) k"
  have src: "\<forall>e \<in> set ?es. existing_node (wp_nodes p) (we_from e) \<noteq> None"
    using projection_sources[OF inv] by (simp add: incoming_edges_def)
  have spec: "wp_spec p' = wp_spec p" using assms(2) by (simp add: settles_def)
  have src': "\<forall>e \<in> set ?es. existing_node (wp_nodes p') (we_from e) \<noteq> None"
    using src settles_sources[OF assms(2)] by blast
  note closed = readiness_closed[OF src False] readiness_closed[of p' k, unfolded spec, OF src' False]
  note counts = settles_counts[OF assms(2) src]
  have "join_decision (node_join (wp_spec p) k) (edge_counts (wp_nodes p') ?es)
      = join_decision (node_join (wp_spec p) k) (edge_counts (wp_nodes p) ?es)"
    unfolding edge_counts_def active_split
  proof (rule join_decision_stable[OF _ counts(1-3)])
    show "join_decision (node_join (wp_spec p) k) \<lparr>active = count_if (edge_pending (wp_nodes p)) ?es
        + count_if (edge_succeeded (wp_nodes p)) ?es + count_if (edge_failed (wp_nodes p)) ?es,
        succeeded = count_if (edge_succeeded (wp_nodes p)) ?es, pending = count_if (edge_pending (wp_nodes p)) ?es\<rparr>
        \<noteq> Waiting"
      using assms(3) closed(1) by (simp add: edge_counts_def active_split)
    show "\<forall>m. node_join (wp_spec p) k = Some (Join_quorum m) \<longrightarrow> 0 < m"
      using node_join_quorum[OF inv] by blast
  qed (use counts(4) in \<open>auto simp: edge_counts_def active_split\<close>)
  then show ?thesis by (simp add: closed spec)
qed

subsection \<open>What a ready node has behind it\<close>

lemma ready_ids_iff:
  "k \<in> set (readyWorkflowNodeIdsV1 p) \<longleftrightarrow> wp_state p = W_running \<and> k \<in> set (spec_node_ids (wp_spec p))
     \<and> (\<exists>n. List.find (\<lambda>n. np_nodeId n = k) (wp_nodes p) = Some n \<and> np_state n \<in> {N_proposed, N_admitted, N_retry_wait})
     \<and> workflowNodeReadinessV1 p k = Ready"
  by (auto simp: readyWorkflowNodeIdsV1_def spec_node_ids_def split: option.splits)

lemma ready_all_succeeded:
  assumes inv: "projection_inv h p" and ready: "workflowNodeReadinessV1 p k = Ready"
    and join: "node_join (wp_spec p) k \<in> {None, Some Join_all}" and e: "e \<in> set (incoming_edges (wp_spec p) k)"
  shows "\<not> edge_pending (wp_nodes p) e \<and>
    (edge_selected (edge_source (wp_nodes p) e) e \<longrightarrow> np_state (edge_source (wp_nodes p) e) = N_succeeded)"
proof -
  let ?es = "incoming_edges (wp_spec p) k"
  have src: "\<forall>e \<in> set ?es. existing_node (wp_nodes p) (we_from e) \<noteq> None"
    using projection_sources[OF inv] by (simp add: incoming_edges_def)
  have "?es \<noteq> []" using e by auto
  from ready[unfolded readiness_closed[OF src this]] join
  have "count_if (edge_pending (wp_nodes p)) ?es = 0 \<and> count_if (edge_failed (wp_nodes p)) ?es = 0"
    by (auto simp: join_decision_def edge_counts_def active_split Let_def split: if_splits)
  then have "\<not> edge_pending (wp_nodes p) e" "\<not> edge_failed (wp_nodes p) e" using e by (auto simp: count_if_zero)
  then show ?thesis by (auto simp: edge_failed_def edge_active_def edge_succeeded_def)
qed

lemma ready_minimum:
  assumes inv: "projection_inv h p" and "incoming_edges (wp_spec p) k \<noteq> []"
    and "node_join (wp_spec p) k = Some (Join_quorum m) \<or> node_join (wp_spec p) k = Some Join_any \<and> m = 1"
  shows "workflowNodeReadinessV1 p k = Ready
    \<longleftrightarrow> m \<le> count_if (edge_succeeded (wp_nodes p)) (incoming_edges (wp_spec p) k)"
proof -
  have src: "\<forall>e \<in> set (incoming_edges (wp_spec p) k). existing_node (wp_nodes p) (we_from e) \<noteq> None"
    using projection_sources[OF inv] by (simp add: incoming_edges_def)
  have "0 < m" using assms(3) node_join_quorum[OF inv] by auto
  then show ?thesis using assms(3) unfolding readiness_closed[OF src assms(2)]
    by (auto simp: join_decision_def edge_counts_def active_split Let_def split: if_splits)
qed

subsection \<open>No silent deadlock\<close>

lemma ready_when_sources_succeeded:
  assumes inv: "projection_inv h p" and k: "k \<in> set (spec_node_ids (wp_spec p))"
    and all: "\<forall>e \<in> set (incoming_edges (wp_spec p) k). we_condition e = None
      \<and> np_state (edge_source (wp_nodes p) e) = N_succeeded"
  shows "workflowNodeReadinessV1 p k = Ready"
proof (cases "incoming_edges (wp_spec p) k = []")
  case False
  let ?es = "incoming_edges (wp_spec p) k"
  have src: "\<forall>e \<in> set ?es. existing_node (wp_nodes p) (we_from e) \<noteq> None"
    using projection_sources[OF inv] by (simp add: incoming_edges_def)
  have edge: "edge_succeeded (wp_nodes p) e \<and> edge_active (wp_nodes p) e" if "e \<in> set ?es" for e
    using all that by (auto simp: edge_succeeded_def edge_active_def edge_selected_def)
  have "count_if (edge_succeeded (wp_nodes p)) ?es = length ?es" "count_if (edge_active (wp_nodes p)) ?es = length ?es"
    using edge by (auto simp: count_if_def filter_id_conv)
  moreover have "m \<le> length ?es" if "node_join (wp_spec p) k = Some (Join_quorum m)" for m
    using inv that
    by (auto simp: node_join_def projection_inv_def valid_spec_def valid_graph_def list_all_iff join_ok_def
        incoming_edges_def split: option.splits dest!: find_Some_iff_member)
  ultimately show ?thesis using False
    unfolding readiness_closed[OF src False] join_decision_def edge_counts_def Let_def
    by (auto simp: Suc_le_eq split: option.splits join_policy.splits)
qed (simp add: workflowNodeReadinessV1_def)

lemma find_distinct:
  "distinct (map f xs) \<Longrightarrow> x \<in> set xs \<Longrightarrow> List.find (\<lambda>y. f y = f x) xs = Some x"
  by (induction xs) (auto simp: image_iff)

lemma progress:
  assumes inv: "projection_inv h p" and "wp_state p = W_running"
    and states: "\<forall>n \<in> set (wp_nodes p). np_state n \<in> {N_proposed, N_admitted, N_retry_wait, N_succeeded}"
    and plain: "\<forall>e \<in> set (ws_edges (wp_spec p)). we_condition e = None"
    and n: "n \<in> set (wp_nodes p)" "np_state n \<noteq> N_succeeded"
  shows "readyWorkflowNodeIdsV1 p \<noteq> []"
proof -
  let ?ids = "spec_node_ids (wp_spec p)" and ?edges = "ws_edges (wp_spec p)"
  let ?open = "np_nodeId ` {n \<in> set (wp_nodes p). np_state n \<noteq> N_succeeded}"
  have dist: "distinct (map np_nodeId (wp_nodes p))" by (rule projection_inv_distinct[OF inv])
  have graph: "valid_graph (ws_nodes (wp_spec p)) ?edges" and ids: "map np_nodeId (wp_nodes p) = ?ids"
    using inv by (auto simp: projection_inv_def valid_spec_def)
  have within: "set (edge_pairs ?edges) \<subseteq> set ?ids \<times> set ?ids"
    unfolding spec_node_ids_def using graph by (intro edge_pairs_within) (simp add: valid_graph_def)
  have acc: "kahn_accepts ?ids (edge_pairs ?edges)"
    using kahn.accepts_iff[OF dist[unfolded ids] within] graph by (simp add: valid_graph_def)
  obtain k where k: "k \<in> ?open" "\<And>y. (y, k) \<in> set (edge_pairs ?edges) \<Longrightarrow> y \<notin> ?open"
    using kahn.accepted_source[OF dist[unfolded ids] within acc, of "np_nodeId n" ?open] n by blast
  then obtain m where m: "m \<in> set (wp_nodes p)" "np_nodeId m = k" "np_state m \<noteq> N_succeeded" by auto
  have "np_state (edge_source (wp_nodes p) e) = N_succeeded" if "e \<in> set (incoming_edges (wp_spec p) k)" for e
  proof -
    have e: "e \<in> set ?edges" "we_to e = k" using that by (auto simp: incoming_edges_def)
    then obtain s where s: "existing_node (wp_nodes p) (we_from e) = Some s"
      using projection_sources[OF inv] by blast
    have "(we_from e, k) \<in> set (edge_pairs ?edges)" using e by (force simp: edge_pairs_def)
    then have "we_from e \<notin> ?open" by (rule k(2))
    then show ?thesis using existing_node_SomeD[OF s] s by (auto simp: edge_source_def image_iff)
  qed
  moreover have in_ids: "k \<in> set ?ids" using m ids by (metis image_eqI set_map)
  ultimately have "workflowNodeReadinessV1 p k = Ready"
    using plain by (intro ready_when_sources_succeeded[OF inv]) (auto simp: incoming_edges_def)
  moreover have "List.find (\<lambda>n. np_nodeId n = k) (wp_nodes p) = Some m"
    using find_distinct[OF dist m(1)] m(2) by simp
  ultimately have "k \<in> set (readyWorkflowNodeIdsV1 p)"
    using m states assms(2) in_ids by (auto simp: ready_ids_iff)
  then show ?thesis by auto
qed

end
