(* ===== verification/ReadinessProperties.thy ===== *)
theory ReadinessProperties
  imports WorkflowSamples WorkflowReadiness
begin

section \<open>Properties of Workflow readiness\<close>

text \<open>
  The scheduling decisions of \<open>workflow.ts\<close>: they are final once made, a ready node has its
  predecessors behind it, and a healthy acyclic Workflow always has a ready node.
\<close>

subsection \<open>A running sample\<close>

definition running_history :: "workflow_event list" where
  "running_history = take 8 sample_history"

definition running_projection :: workflow_projection where
  "running_projection = (case reduceWorkflowEventsV1 (\<lambda>_. False) running_history of Inr p \<Rightarrow> p | Inl _ \<Rightarrow> undefined)"

lemma running_facts: "case reduceWorkflowEventsV1 (\<lambda>_. False) running_history of Inl _ \<Rightarrow> False
   | Inr p \<Rightarrow> wp_state p = W_running \<and> map np_state (wp_nodes p) = [N_succeeded, N_proposed, N_proposed, N_proposed]
       \<and> map np_nodeId (wp_nodes p) = [''plan'', ''left'', ''right'', ''join'']
       \<and> list_all (\<lambda>e. we_condition e = None) (ws_edges (wp_spec p))
       \<and> readyWorkflowNodeIdsV1 p = [''left'', ''right''] \<and> workflowNodeReadinessV1 p ''left'' = Ready
       \<and> workflowNodeReadinessV1 p ''join'' = Waiting \<and> node_join (wp_spec p) ''left'' = None
       \<and> map we_from (incoming_edges (wp_spec p) ''left'') = [''plan'']"
  by code_simp

lemma running_replays: "reduceWorkflowEventsV1 (\<lambda>_. False) running_history = Inr running_projection"
  using running_facts by (auto simp: running_projection_def split: sum.splits)

lemmas running_state = running_facts[unfolded running_replays, simplified]

lemma running_inv: "projection_inv (\<lambda>_. False) running_projection"
  using running_replays initial_inv workflow_log.replay_keeps by (elim reduce_returnE) blast

subsection \<open>The properties\<close>

text \<open>C7: A readiness decision is final: once \<open>workflowNodeReadinessV1\<close> answers ready, skipped or
  blocked, it gives the same answer after any further progress of the sources that had not
  settled yet. Ready nodes are never retracted and blocked ones cannot be rescued by waiting.\<close>

theorem readiness_decision_final:
  assumes "projection_inv h p" and "settles p p'" and "workflowNodeReadinessV1 p nodeId \<noteq> Waiting"
  shows "workflowNodeReadinessV1 p' nodeId = workflowNodeReadinessV1 p nodeId"
  using assms by (rule readiness_stable)

theorem readiness_decision_final_witness:
  "workflowNodeReadinessV1 (running_projection\<lparr>wp_nodes := map (\<lambda>n. if np_nodeId n = ''right''
      then n\<lparr>np_state := N_failed\<rparr> else n) (wp_nodes running_projection)\<rparr>) ''left'' = Ready"
proof -
  obtain a b c d where nodes: "wp_nodes running_projection = [a, b, c, d]"
    and ids: "np_nodeId a = ''plan''" "np_nodeId b = ''left''" "np_nodeId c = ''right''" "np_nodeId d = ''join''"
    and st: "np_state c = N_proposed"
    using running_state by (auto simp: map_eq_Cons_conv)
  let ?p' = "running_projection\<lparr>wp_nodes := map (\<lambda>n. if np_nodeId n = ''right''
      then n\<lparr>np_state := N_failed\<rparr> else n) (wp_nodes running_projection)\<rparr>"
  have "settles running_projection ?p'"
    by (auto simp: settles_def existing_node_def nodes ids st settled_states_def)
  moreover have "workflowNodeReadinessV1 running_projection ''left'' = Ready" using running_state by simp
  ultimately show ?thesis using readiness_decision_final[OF running_inv, of ?p' "''left''"] by simp
qed

text \<open>C8: A ready node has its predecessors behind it: without a join, or with an all-join, every incoming
  edge comes from a settled source, and every selected one from a source that succeeded; with
  an any- or quorum-join at least the required number of selected sources succeeded.\<close>

theorem ready_node_sound:
  assumes "projection_inv h p" and "nodeId \<in> set (readyWorkflowNodeIdsV1 p)"
  shows "case node_join (wp_spec p) nodeId of
      Some (Join_quorum m) \<Rightarrow> incoming_edges (wp_spec p) nodeId = []
        \<or> m \<le> count_if (edge_succeeded (wp_nodes p)) (incoming_edges (wp_spec p) nodeId)
    | Some Join_any \<Rightarrow> incoming_edges (wp_spec p) nodeId = []
        \<or> 1 \<le> count_if (edge_succeeded (wp_nodes p)) (incoming_edges (wp_spec p) nodeId)
    | _ \<Rightarrow> list_all (\<lambda>e. np_state (edge_source (wp_nodes p) e) \<in> set settled_states
        \<and> (np_state (edge_source (wp_nodes p) e) = N_succeeded \<or> \<not> edge_selected (edge_source (wp_nodes p) e) e))
      (incoming_edges (wp_spec p) nodeId)"
proof -
  have ready: "workflowNodeReadinessV1 p nodeId = Ready" using assms(2) by (simp add: ready_ids_iff)
  show ?thesis
  proof (cases "node_join (wp_spec p) nodeId \<in> {None, Some Join_all}")
    case True
    then show ?thesis using ready_all_succeeded[OF assms(1) ready True]
      by (auto simp: list_all_iff edge_pending_def)
  next
    case False
    then show ?thesis using ready ready_minimum[OF assms(1), of nodeId]
      by (cases "incoming_edges (wp_spec p) nodeId = []") (auto split: option.splits join_policy.splits)
  qed
qed

theorem ready_node_sound_witness:
  "np_state (edge_source (wp_nodes running_projection) (hd (incoming_edges (wp_spec running_projection) ''left'')))
     = N_succeeded"
proof -
  obtain e where e: "incoming_edges (wp_spec running_projection) ''left'' = [e]" "we_from e = ''plan''"
    using running_state by (auto simp: map_eq_Cons_conv)
  have "we_condition e = None"
    using running_state e(1) by (auto simp: list_all_iff incoming_edges_def filter_eq_Cons_iff)
  moreover obtain a b c d where nodes: "wp_nodes running_projection = [a, b, c, d]"
    and ids: "np_nodeId a = ''plan''" "np_nodeId b = ''left''" "np_nodeId c = ''right''" "np_nodeId d = ''join''"
    and st: "np_state a = N_succeeded"
    using running_state by (auto simp: map_eq_Cons_conv)
  have "edge_source (wp_nodes running_projection) e = a"
    by (simp add: edge_source_def existing_node_def nodes ids e)
  ultimately show ?thesis
    using ready_node_sound[OF running_inv, of "''left''"] running_state e st
    by (simp add: edge_selected_def)
qed

text \<open>C9: No silent deadlock: in a running Workflow with unconditional edges in which no node has failed,
  been skipped or is in flight, some node is ready as long as not every node has succeeded.\<close>

theorem workflow_progress:
  assumes "projection_inv h p" and "wp_state p = W_running"
    and "list_all (\<lambda>n. np_state n \<in> {N_proposed, N_admitted, N_retry_wait, N_succeeded}) (wp_nodes p)"
    and "list_all (\<lambda>e. we_condition e = None) (ws_edges (wp_spec p))"
    and "list_ex (\<lambda>n. np_state n \<noteq> N_succeeded) (wp_nodes p)"
  shows "readyWorkflowNodeIdsV1 p \<noteq> []"
  using assms progress[OF assms(1,2)] unfolding list_all_iff list_ex_iff by blast

theorem workflow_progress_witness: "readyWorkflowNodeIdsV1 running_projection \<noteq> []"
proof (rule workflow_progress[OF running_inv])
  have states: "set (map np_state (wp_nodes running_projection)) = {N_succeeded, N_proposed}"
    using running_state by (simp only: list.set) auto
  show "list_all (\<lambda>n. np_state n \<in> {N_proposed, N_admitted, N_retry_wait, N_succeeded}) (wp_nodes running_projection)"
    using states by (auto simp: list_all_iff)
  show "list_ex (\<lambda>n. np_state n \<noteq> N_succeeded) (wp_nodes running_projection)"
    using states by (auto simp: list_ex_iff image_iff set_eq_iff) (metis node_state.distinct)
qed (use running_state in simp_all)

text \<open>An \<open>exists\<close> condition on an inherited property name holds for every source: the pointer
  lookup tests membership with \<open>in\<close>, so \<open>/toString\<close> is found on any node although no node has that
  field.\<close>

theorem exists_condition_sees_inherited:
  "edgeMatches source \<lparr>we_from = a, we_to = b,
     we_condition = Some \<lparr>co_operator = JStr ''exists'', co_pointer = Some ''/toString'', co_value = JUndef\<rparr>\<rparr>"
  by (simp add: edgeMatches_def jsonPointer_def projection_json_def object_methods_def record_simps)

end
