(* ===== verification/PlanContract.thy ===== *)
theory PlanContract
  imports WorkflowValidity StateMachines
begin

section \<open>Plan contract: graphs, validation, ready steps\<close>

text \<open>
  \<open>packages/core-sdk/src/plan.ts\<close> in the order of the source: the types of a Plan graph, the
  strict bounded validators (\<open>exactRecord\<close> rejects missing and unknown fields), the ready
  steps and the three transition tables. \<open>locale_le\<close> is "not after" of the host's
  \<open>localeCompare\<close>, a parameter.
\<close>

subsection \<open>Limits and error codes\<close>

definition MAX_GRAPH_BYTES :: nat where "MAX_GRAPH_BYTES = 256 * 1024"
definition MAX_STEPS :: nat where "MAX_STEPS = 64"
definition MAX_ATTEMPTS :: nat where "MAX_ATTEMPTS = 512"
definition MAX_DEPENDENCIES :: nat where "MAX_DEPENDENCIES = 32"
definition MAX_CAPABILITIES :: nat where "MAX_CAPABILITIES = 64"
definition MAX_CONFLICT_KEYS :: nat where "MAX_CONFLICT_KEYS = 64"
definition MAX_CRITERIA :: nat where "MAX_CRITERIA = 32"
definition MAX_PATHS :: nat where "MAX_PATHS = 64"
definition PLAN_TEXT_BYTES :: nat where "PLAN_TEXT_BYTES = 8 * 1024"
definition MAX_REFERENCE_BYTES :: nat where "MAX_REFERENCE_BYTES = 2 * 1024"

datatype plan_error =
    PLAN_GRAPH_OVERSIZED
  | PLAN_GRAPH_INVALID
  | PLAN_GRAPH_DEPENDENCY_MISSING
  | PLAN_TRANSITION_INVALID

type_synonym 'a plan_result = "plan_error + 'a"

subsection \<open>Enumerations and records\<close>

datatype plan_state = P_draft | P_running | P_blocked | P_succeeded | P_failed | P_cancelled | P_interrupted

datatype step_state = S_pending | S_running | S_verifying | S_succeeded | S_failed | S_blocked | S_cancelled
  | S_interrupted

datatype plan_attempt_state = T_reserved | T_running | T_execution_succeeded | T_execution_failed | T_verifying
  | T_verified | T_rejected | T_cancelled | T_interrupted

datatype access_mode = Read_only | Isolated_process | Workspace_write_access

datatype criterion_kind = K_schema | K_file | K_digest | K_command | K_check | K_rule | K_semantic

record step_access =
  sa_mode :: access_mode
  sa_paths :: "string list"

record success_criterion =
  sc_criterionId :: string
  sc_kind :: criterion_kind
  sc_description :: string
  sc_ref :: "string option"
  sc_expectedDigest :: "string option"

record execution_budget =
  eb_maxTurns :: nat
  eb_maxToolCalls :: nat
  eb_maxTokens :: "nat option"
  eb_maxChildRuns :: nat
  eb_maxParallelChildren :: nat
  eb_maxDepth :: nat
  eb_deadlineAt :: "string option"

record plan_step =
  ps_stepId :: string
  ps_title :: string
  ps_order :: nat
  ps_state :: step_state
  ps_dependencies :: "string list"
  ps_access :: step_access
  ps_capabilities :: "string list"
  ps_conflictKeys :: "string list"
  ps_criteria :: "success_criterion list"
  ps_budget :: execution_budget
  ps_maxAttempts :: nat
  ps_attemptIds :: "string list"

record plan_attempt =
  pa_attemptId :: string
  pa_stepId :: string
  pa_ordinal :: nat
  pa_state :: plan_attempt_state
  pa_childRunId :: "string option"
  pa_resultRef :: "string option"
  pa_resultDigest :: "string option"
  pa_verificationRef :: "string option"

record plan_graph =
  pg_planId :: string
  pg_revision :: nat
  pg_objective :: string
  pg_state :: plan_state
  pg_steps :: "plan_step list"
  pg_attempts :: "plan_attempt list"

record step_transition_options =
  retryApproved :: bool
  recoveryRetryApproved :: bool
  externalConditionChanged :: bool
  createsNewAttempt :: bool

definition PLAN_STATES :: "(string \<times> plan_state) list" where
  "PLAN_STATES = [(''draft'', P_draft), (''running'', P_running), (''blocked'', P_blocked),
     (''succeeded'', P_succeeded), (''failed'', P_failed), (''cancelled'', P_cancelled),
     (''interrupted'', P_interrupted)]"

definition STEP_STATES :: "(string \<times> step_state) list" where
  "STEP_STATES = [(''pending'', S_pending), (''running'', S_running), (''verifying'', S_verifying),
     (''succeeded'', S_succeeded), (''failed'', S_failed), (''blocked'', S_blocked), (''cancelled'', S_cancelled),
     (''interrupted'', S_interrupted)]"

definition ATTEMPT_STATES :: "(string \<times> plan_attempt_state) list" where
  "ATTEMPT_STATES = [(''reserved'', T_reserved), (''running'', T_running),
     (''execution_succeeded'', T_execution_succeeded), (''execution_failed'', T_execution_failed),
     (''verifying'', T_verifying), (''verified'', T_verified), (''rejected'', T_rejected),
     (''cancelled'', T_cancelled), (''interrupted'', T_interrupted)]"

definition CRITERION_KINDS :: "(string \<times> criterion_kind) list" where
  "CRITERION_KINDS = [(''schema'', K_schema), (''file'', K_file), (''digest'', K_digest),
     (''command'', K_command), (''check'', K_check), (''rule'', K_rule), (''semantic'', K_semantic)]"

definition ACCESS_MODES :: "(string \<times> access_mode) list" where
  "ACCESS_MODES = [(''read_only'', Read_only), (''isolated_process'', Isolated_process),
     (''workspace_write'', Workspace_write_access)]"

subsection \<open>Transition tables\<close>

fun PLAN_TRANSITIONS :: "plan_state \<Rightarrow> plan_state list" where
  "PLAN_TRANSITIONS P_draft = [P_running, P_cancelled]"
| "PLAN_TRANSITIONS P_running = [P_blocked, P_succeeded, P_failed, P_cancelled, P_interrupted]"
| "PLAN_TRANSITIONS P_blocked = [P_running, P_failed, P_cancelled, P_interrupted]"
| "PLAN_TRANSITIONS P_succeeded = []"
| "PLAN_TRANSITIONS P_failed = []"
| "PLAN_TRANSITIONS P_cancelled = []"
| "PLAN_TRANSITIONS P_interrupted = [P_running, P_failed, P_cancelled]"

fun STEP_TRANSITIONS :: "step_state \<Rightarrow> step_state list" where
  "STEP_TRANSITIONS S_pending = [S_running, S_cancelled, S_interrupted]"
| "STEP_TRANSITIONS S_running = [S_verifying, S_failed, S_cancelled, S_interrupted]"
| "STEP_TRANSITIONS S_verifying = [S_succeeded, S_failed, S_blocked, S_cancelled, S_interrupted]"
| "STEP_TRANSITIONS S_succeeded = []"
| "STEP_TRANSITIONS S_failed = []"
| "STEP_TRANSITIONS S_blocked = []"
| "STEP_TRANSITIONS S_cancelled = []"
| "STEP_TRANSITIONS S_interrupted = [S_blocked]"

fun PLAN_ATTEMPT_TRANSITIONS :: "plan_attempt_state \<Rightarrow> plan_attempt_state list" where
  "PLAN_ATTEMPT_TRANSITIONS T_reserved = [T_running, T_cancelled, T_interrupted]"
| "PLAN_ATTEMPT_TRANSITIONS T_running = [T_execution_succeeded, T_execution_failed, T_cancelled, T_interrupted]"
| "PLAN_ATTEMPT_TRANSITIONS T_execution_succeeded = [T_verifying, T_interrupted]"
| "PLAN_ATTEMPT_TRANSITIONS T_execution_failed = []"
| "PLAN_ATTEMPT_TRANSITIONS T_verifying = [T_verified, T_rejected, T_cancelled, T_interrupted]"
| "PLAN_ATTEMPT_TRANSITIONS T_verified = []"
| "PLAN_ATTEMPT_TRANSITIONS T_rejected = []"
| "PLAN_ATTEMPT_TRANSITIONS T_cancelled = []"
| "PLAN_ATTEMPT_TRANSITIONS T_interrupted = []"

definition assertPlanStateTransitionV1 :: "plan_state \<Rightarrow> plan_state \<Rightarrow> unit plan_result" where
  "assertPlanStateTransitionV1 from to = require (to \<in> set (PLAN_TRANSITIONS from)) PLAN_TRANSITION_INVALID"

definition assertPlanStepTransitionV1 ::
    "step_state \<Rightarrow> step_state \<Rightarrow> step_transition_options \<Rightarrow> unit plan_result" where
  "assertPlanStepTransitionV1 from to options =
     (if from = S_failed \<and> to = S_pending
      then require (retryApproved options \<and> createsNewAttempt options) PLAN_TRANSITION_INVALID
      else if from = S_blocked \<and> to = S_pending
      then require (externalConditionChanged options \<and> createsNewAttempt options) PLAN_TRANSITION_INVALID
      else if from = S_interrupted \<and> to = S_pending
      then require (recoveryRetryApproved options \<and> createsNewAttempt options) PLAN_TRANSITION_INVALID
      else require (to \<in> set (STEP_TRANSITIONS from)) PLAN_TRANSITION_INVALID)"

definition assertPlanAttemptTransitionV1 :: "plan_attempt_state \<Rightarrow> plan_attempt_state \<Rightarrow> unit plan_result" where
  "assertPlanAttemptTransitionV1 from to =
     require (to \<in> set (PLAN_ATTEMPT_TRANSITIONS from)) PLAN_TRANSITION_INVALID"

definition plan_terminal :: "plan_state \<Rightarrow> bool" where
  "plan_terminal s \<longleftrightarrow> s \<in> {P_succeeded, P_failed, P_cancelled}"

definition plan_attempt_terminal :: "plan_attempt_state \<Rightarrow> bool" where
  "plan_attempt_terminal s \<longleftrightarrow> s \<in> {T_execution_failed, T_verified, T_rejected, T_cancelled, T_interrupted}"

interpretation plan_table: transition_table PLAN_TRANSITIONS plan_terminal
  by unfold_locales (case_tac s, auto simp: plan_terminal_def)

interpretation plan_attempt_table: transition_table PLAN_ATTEMPT_TRANSITIONS plan_attempt_terminal
  by unfold_locales (case_tac s, auto simp: plan_attempt_terminal_def)

subsection \<open>Shared checks\<close>

fun exactRecord :: "js_value \<Rightarrow> string list \<Rightarrow> string list \<Rightarrow> js_record plan_result" where
  "exactRecord (JObj value) required optionals =
     (if \<not> list_all (hasOwn value) required \<or> \<not> list_all (\<lambda>key. key \<in> set (required @ optionals)) (map fst value)
      then Inl PLAN_GRAPH_INVALID else Inr value)"
| "exactRecord _ required optionals = Inl PLAN_GRAPH_INVALID"

definition bounded_string :: "nat \<Rightarrow> string \<Rightarrow> bool" where
  "bounded_string maximum s \<longleftrightarrow> s \<noteq> [] \<and> utf8_length s \<le> maximum"

fun boundedText :: "js_value \<Rightarrow> nat \<Rightarrow> bool" where
  "boundedText (JStr s) maximum = bounded_string maximum s"
| "boundedText _ maximum = False"

definition planUnique :: "'a list \<Rightarrow> unit plan_result" where
  "planUnique values = require (card (set values) = length values) PLAN_GRAPH_INVALID"

definition idList :: "js_value \<Rightarrow> nat \<Rightarrow> string list plan_result" where
  "idList input maximum =
     (if \<not> is_array input \<or> maximum < length (the_array input) \<or> \<not> list_all safeId (the_array input)
      then Inl PLAN_GRAPH_INVALID
      else andThen (planUnique (the_array input)) (\<lambda>_. Inr (map the_string (the_array input))))"

definition textList :: "js_value \<Rightarrow> nat \<Rightarrow> nat \<Rightarrow> string list plan_result" where
  "textList input maximum bytes =
     (if \<not> is_array input \<or> maximum < length (the_array input)
         \<or> \<not> list_all (\<lambda>v. boundedText v bytes) (the_array input)
      then Inl PLAN_GRAPH_INVALID
      else andThen (planUnique (the_array input)) (\<lambda>_. Inr (map the_string (the_array input))))"

subsection \<open>Validators\<close>

definition validateAccess :: "js_value \<Rightarrow> step_access plan_result" where
  "validateAccess input =
     andThen (exactRecord input [''mode'', ''paths''] []) (\<lambda>access.
     case member_of ACCESS_MODES (getProp access ''mode'') of
       None \<Rightarrow> Inl PLAN_GRAPH_INVALID
     | Some mode \<Rightarrow>
         andThen (textList (getProp access ''paths'') MAX_PATHS MAX_REFERENCE_BYTES) (\<lambda>paths.
         Inr \<lparr>sa_mode = mode, sa_paths = paths\<rparr>))"

definition validateCriterion :: "js_value \<Rightarrow> success_criterion plan_result" where
  "validateCriterion input =
     andThen (exactRecord input [''criterionId'', ''kind'', ''description''] [''ref'', ''expectedDigest'']) (\<lambda>criterion.
     if \<not> safeId (getProp criterion ''criterionId'')
        \<or> member_of CRITERION_KINDS (getProp criterion ''kind'') = None
        \<or> \<not> boundedText (getProp criterion ''description'') PLAN_TEXT_BYTES
        \<or> (getProp criterion ''ref'' \<noteq> JUndef \<and> \<not> boundedText (getProp criterion ''ref'') MAX_REFERENCE_BYTES)
        \<or> (getProp criterion ''expectedDigest'' \<noteq> JUndef \<and> \<not> sha256_digest (getProp criterion ''expectedDigest''))
     then Inl PLAN_GRAPH_INVALID
     else Inr \<lparr>sc_criterionId = the_string (getProp criterion ''criterionId''),
       sc_kind = the (member_of CRITERION_KINDS (getProp criterion ''kind'')),
       sc_description = the_string (getProp criterion ''description''),
       sc_ref = map_option the_string (optional (getProp criterion ''ref'')),
       sc_expectedDigest = map_option the_string (optional (getProp criterion ''expectedDigest''))\<rparr>)"

definition validateBudget :: "js_value \<Rightarrow> execution_budget plan_result" where
  "validateBudget input =
     andThen (exactRecord input [''maxTurns'', ''maxToolCalls'', ''maxChildRuns'', ''maxParallelChildren'', ''maxDepth'']
       [''maxTokens'', ''deadlineAt'']) (\<lambda>budget.
     if \<not> nonNegativeInteger (getProp budget ''maxTurns'') \<or> \<not> nonNegativeInteger (getProp budget ''maxToolCalls'')
        \<or> (getProp budget ''maxTokens'' \<noteq> JUndef \<and> \<not> positiveInteger (getProp budget ''maxTokens''))
        \<or> getProp budget ''maxChildRuns'' \<noteq> jnat 0 \<or> getProp budget ''maxParallelChildren'' \<noteq> jnat 0
        \<or> getProp budget ''maxDepth'' \<noteq> jnat 0
        \<or> (getProp budget ''deadlineAt'' \<noteq> JUndef \<and> \<not> canonicalInstant (getProp budget ''deadlineAt''))
     then Inl PLAN_GRAPH_INVALID
     else Inr \<lparr>eb_maxTurns = the_nat (getProp budget ''maxTurns''),
       eb_maxToolCalls = the_nat (getProp budget ''maxToolCalls''),
       eb_maxTokens = map_option the_nat (optional (getProp budget ''maxTokens'')),
       eb_maxChildRuns = 0, eb_maxParallelChildren = 0, eb_maxDepth = 0,
       eb_deadlineAt = map_option the_string (optional (getProp budget ''deadlineAt''))\<rparr>)"

definition validatePlanStepV1 :: "js_value \<Rightarrow> plan_step plan_result" where
  "validatePlanStepV1 input =
     andThen (exactRecord input [''stepId'', ''title'', ''order'', ''state'', ''dependencies'', ''access'',
       ''capabilities'', ''conflictKeys'', ''criteria'', ''budget'', ''maxAttempts'', ''attemptIds''] []) (\<lambda>step.
     if \<not> safeId (getProp step ''stepId'') \<or> \<not> boundedText (getProp step ''title'') PLAN_TEXT_BYTES
        \<or> \<not> nonNegativeInteger (getProp step ''order'')
        \<or> member_of STEP_STATES (getProp step ''state'') = None
        \<or> \<not> positiveInteger (getProp step ''maxAttempts'') \<or> 16 < the_nat (getProp step ''maxAttempts'')
     then Inl PLAN_GRAPH_INVALID
     else
       andThen (idList (getProp step ''dependencies'') MAX_DEPENDENCIES) (\<lambda>dependencies.
       andThen (idList (getProp step ''capabilities'') MAX_CAPABILITIES) (\<lambda>capabilities.
       andThen (textList (getProp step ''conflictKeys'') MAX_CONFLICT_KEYS MAX_REFERENCE_BYTES) (\<lambda>conflictKeys.
       andThen (idList (getProp step ''attemptIds'') 16) (\<lambda>attemptIds.
       if the_string (getProp step ''stepId'') \<in> set dependencies
          \<or> the_nat (getProp step ''maxAttempts'') < length attemptIds
          \<or> \<not> is_array (getProp step ''criteria'') \<or> length (the_array (getProp step ''criteria'')) < 1
          \<or> MAX_CRITERIA < length (the_array (getProp step ''criteria''))
       then Inl PLAN_GRAPH_INVALID
       else
         andThen (validateAccess (getProp step ''access'')) (\<lambda>access.
         andThen (mapR validateCriterion (the_array (getProp step ''criteria''))) (\<lambda>criteria.
         andThen (validateBudget (getProp step ''budget'')) (\<lambda>budget.
         Inr \<lparr>ps_stepId = the_string (getProp step ''stepId''), ps_title = the_string (getProp step ''title''),
           ps_order = the_nat (getProp step ''order''),
           ps_state = the (member_of STEP_STATES (getProp step ''state'')),
           ps_dependencies = dependencies, ps_access = access, ps_capabilities = capabilities,
           ps_conflictKeys = conflictKeys, ps_criteria = criteria, ps_budget = budget,
           ps_maxAttempts = the_nat (getProp step ''maxAttempts''), ps_attemptIds = attemptIds\<rparr>))))))))"

definition validatePlanAttemptV1 :: "js_value \<Rightarrow> plan_attempt plan_result" where
  "validatePlanAttemptV1 input =
     andThen (exactRecord input [''attemptId'', ''stepId'', ''ordinal'', ''state'']
       [''childRunId'', ''resultRef'', ''resultDigest'', ''verificationRef'']) (\<lambda>attempt.
     if \<not> safeId (getProp attempt ''attemptId'') \<or> \<not> safeId (getProp attempt ''stepId'')
        \<or> \<not> positiveInteger (getProp attempt ''ordinal'')
        \<or> member_of ATTEMPT_STATES (getProp attempt ''state'') = None
        \<or> (getProp attempt ''childRunId'' \<noteq> JUndef \<and> \<not> safeId (getProp attempt ''childRunId''))
        \<or> (getProp attempt ''resultRef'' \<noteq> JUndef \<and> \<not> boundedText (getProp attempt ''resultRef'') MAX_REFERENCE_BYTES)
        \<or> (getProp attempt ''resultDigest'' \<noteq> JUndef \<and> \<not> sha256_digest (getProp attempt ''resultDigest''))
        \<or> (getProp attempt ''verificationRef'' \<noteq> JUndef
           \<and> \<not> boundedText (getProp attempt ''verificationRef'') MAX_REFERENCE_BYTES)
        \<or> (getProp attempt ''resultRef'' = JUndef) \<noteq> (getProp attempt ''resultDigest'' = JUndef)
     then Inl PLAN_GRAPH_INVALID
     else Inr \<lparr>pa_attemptId = the_string (getProp attempt ''attemptId''),
       pa_stepId = the_string (getProp attempt ''stepId''), pa_ordinal = the_nat (getProp attempt ''ordinal''),
       pa_state = the (member_of ATTEMPT_STATES (getProp attempt ''state'')),
       pa_childRunId = map_option the_string (optional (getProp attempt ''childRunId'')),
       pa_resultRef = map_option the_string (optional (getProp attempt ''resultRef'')),
       pa_resultDigest = map_option the_string (optional (getProp attempt ''resultDigest'')),
       pa_verificationRef = map_option the_string (optional (getProp attempt ''verificationRef''))\<rparr>)"

text \<open>The loop over the attempt ids of a step: known, of this step, ordinals not repeated.\<close>

fun check_links :: "(string \<times> plan_attempt) list \<Rightarrow> string \<Rightarrow> nat list \<Rightarrow> string list \<Rightarrow> bool" where
  "check_links attemptsById stepId ordinals [] = True"
| "check_links attemptsById stepId ordinals (attemptId # rest) =
     (case map_of attemptsById attemptId of
        None \<Rightarrow> False
      | Some attempt \<Rightarrow> pa_stepId attempt = stepId \<and> pa_ordinal attempt \<notin> set ordinals
          \<and> check_links attemptsById stepId (pa_ordinal attempt # ordinals) rest)"

definition graph_links_ok :: "plan_step list \<Rightarrow> plan_attempt list \<Rightarrow> bool" where
  "graph_links_ok steps attempts \<longleftrightarrow>
     (let attemptsById = rev (map (\<lambda>a. (pa_attemptId a, a)) attempts) in
      list_all (\<lambda>step. check_links attemptsById (ps_stepId step) [] (ps_attemptIds step)) steps)
     \<and> list_all (\<lambda>a. pa_attemptId a \<in> set (concat (map ps_attemptIds steps))) attempts"

definition option_list :: "'a option \<Rightarrow> 'a list" where
  "option_list v = (case v of None \<Rightarrow> [] | Some x \<Rightarrow> [x])"

definition validatePlanGraphV1 :: "js_value \<Rightarrow> plan_graph plan_result" where
  "validatePlanGraphV1 input =
     (if \<not> json_within MAX_GRAPH_BYTES input then Inl PLAN_GRAPH_OVERSIZED
      else andThen (exactRecord input [''schemaVersion'', ''planId'', ''revision'', ''objective'', ''state'',
        ''steps'', ''attempts''] []) (\<lambda>graph.
      if getProp graph ''schemaVersion'' \<noteq> jnat 1 \<or> \<not> safeId (getProp graph ''planId'')
         \<or> \<not> positiveInteger (getProp graph ''revision'')
         \<or> \<not> boundedText (getProp graph ''objective'') PLAN_TEXT_BYTES
         \<or> member_of PLAN_STATES (getProp graph ''state'') = None
         \<or> \<not> is_array (getProp graph ''steps'') \<or> length (the_array (getProp graph ''steps'')) < 1
         \<or> MAX_STEPS < length (the_array (getProp graph ''steps''))
         \<or> \<not> is_array (getProp graph ''attempts'') \<or> MAX_ATTEMPTS < length (the_array (getProp graph ''attempts''))
      then Inl PLAN_GRAPH_INVALID
      else
        andThen (mapR validatePlanStepV1 (the_array (getProp graph ''steps''))) (\<lambda>steps.
        andThen (mapR validatePlanAttemptV1 (the_array (getProp graph ''attempts''))) (\<lambda>attempts.
        andThen (planUnique (map ps_stepId steps)) (\<lambda>_.
        andThen (planUnique (map (\<lambda>s. js_String (jnat (ps_order s))) steps)) (\<lambda>_.
        andThen (planUnique (map pa_attemptId attempts)) (\<lambda>_.
        andThen (planUnique (concat (map (\<lambda>a. option_list (pa_childRunId a)) attempts))) (\<lambda>_.
        andThen (require (graph_links_ok steps attempts) PLAN_GRAPH_INVALID) (\<lambda>_.
        Inr \<lparr>pg_planId = the_string (getProp graph ''planId''), pg_revision = the_nat (getProp graph ''revision''),
          pg_objective = the_string (getProp graph ''objective''),
          pg_state = the (member_of PLAN_STATES (getProp graph ''state'')),
          pg_steps = steps, pg_attempts = attempts\<rparr>)))))))))"

subsection \<open>Ready steps\<close>

fun dependencies_succeeded :: "(string \<times> plan_step) list \<Rightarrow> string list \<Rightarrow> bool plan_result" where
  "dependencies_succeeded byId [] = Inr True"
| "dependencies_succeeded byId (dependencyId # rest) =
     (case map_of byId dependencyId of
        None \<Rightarrow> Inl PLAN_GRAPH_DEPENDENCY_MISSING
      | Some dependency \<Rightarrow>
          if ps_state dependency = S_succeeded then dependencies_succeeded byId rest else Inr False)"

fun filterR :: "('a \<Rightarrow> 'e + bool) \<Rightarrow> 'a list \<Rightarrow> 'e + 'a list" where
  "filterR f [] = Inr []"
| "filterR f (x # xs) = andThen (f x) (\<lambda>keep. andThen (filterR f xs) (\<lambda>ys. Inr (if keep then x # ys else ys)))"

definition step_ready :: "plan_step list \<Rightarrow> plan_step \<Rightarrow> bool plan_result" where
  "step_ready steps step =
     (if ps_state step \<noteq> S_pending \<or> ps_maxAttempts step \<le> length (ps_attemptIds step) then Inr False
      else dependencies_succeeded (rev (map (\<lambda>s. (ps_stepId s, s)) steps)) (ps_dependencies step))"

definition step_before :: "(string \<Rightarrow> string \<Rightarrow> bool) \<Rightarrow> plan_step \<Rightarrow> plan_step \<Rightarrow> bool" where
  "step_before locale_le left right \<longleftrightarrow> ps_order left < ps_order right
     \<or> (ps_order left = ps_order right \<and> locale_le (ps_stepId left) (ps_stepId right))"

definition readyPlanStepIdsV1 :: "(string \<Rightarrow> string \<Rightarrow> bool) \<Rightarrow> js_value \<Rightarrow> string list plan_result" where
  "readyPlanStepIdsV1 locale_le input =
     andThen (validatePlanGraphV1 input) (\<lambda>graph.
     if pg_state graph \<noteq> P_running then Inr []
     else andThen (filterR (step_ready (pg_steps graph)) (pg_steps graph)) (\<lambda>ready.
       Inr (map ps_stepId (sort_by (step_before locale_le) ready))))"

end
