(* ===== verification/PlanGraph.thy ===== *)
theory PlanGraph
  imports PlanContract
begin

section \<open>What a validated Plan graph satisfies\<close>

text \<open>
  Well-formedness of the graphs \<open>validatePlanGraphV1\<close> returns, the run-time object of a graph
  and its round trip, the ready steps, and the step transitions.
\<close>

subsection \<open>Enumerations and strings\<close>

lemma plan_enum_complete:
  "a \<in> set (map snd PLAN_STATES)" "b \<in> set (map snd STEP_STATES)" "c \<in> set (map snd ATTEMPT_STATES)"
  "d \<in> set (map snd CRITERION_KINDS)" "e \<in> set (map snd ACCESS_MODES)"
  by (cases a, auto simp: PLAN_STATES_def) (cases b, auto simp: STEP_STATES_def, cases c,
      auto simp: ATTEMPT_STATES_def, cases d, auto simp: CRITERION_KINDS_def, cases e, auto simp: ACCESS_MODES_def)

lemma plan_enum_distinct:
  "distinct (map fst PLAN_STATES)" "distinct (map fst STEP_STATES)" "distinct (map fst ATTEMPT_STATES)"
  "distinct (map fst CRITERION_KINDS)" "distinct (map fst ACCESS_MODES)"
  by (simp_all add: PLAN_STATES_def STEP_STATES_def ATTEMPT_STATES_def CRITERION_KINDS_def ACCESS_MODES_def)

lemma plan_member_of_name [simp]:
  "member_of PLAN_STATES (JStr (name_in PLAN_STATES a)) = Some a"
  "member_of STEP_STATES (JStr (name_in STEP_STATES b)) = Some b"
  "member_of ATTEMPT_STATES (JStr (name_in ATTEMPT_STATES c)) = Some c"
  "member_of CRITERION_KINDS (JStr (name_in CRITERION_KINDS d)) = Some d"
  "member_of ACCESS_MODES (JStr (name_in ACCESS_MODES e)) = Some e"
  by (rule member_of_name_in[OF plan_enum_complete(1) plan_enum_distinct(1)]
      member_of_name_in[OF plan_enum_complete(2) plan_enum_distinct(2)]
      member_of_name_in[OF plan_enum_complete(3) plan_enum_distinct(3)]
      member_of_name_in[OF plan_enum_complete(4) plan_enum_distinct(4)]
      member_of_name_in[OF plan_enum_complete(5) plan_enum_distinct(5)])+

lemma digits_value_snoc: "digits_value (s @ [c]) = 10 * digits_value s + (char_code c - 48)"
  by (simp add: digits_value_def)

lemma digit_char: "n < 10 \<Longrightarrow> char_code (char_of (48 + n)) = 48 + n"
  by (simp add: char_code_def)

lemma digits_nat_to_string [simp]: "digits_value (nat_to_string n) = n"
proof (induction n rule: nat_to_string.induct)
  case (1 n)
  then show ?case
    using digits_value_snoc[of "[]"] digits_value_snoc[of "nat_to_string (n div 10)"]
    by (auto simp: nat_to_string.simps[of n] digit_char digits_value_def)
qed

lemma order_string [simp]: "js_String (jnat n) = nat_to_string n"
  by (simp add: jnat_def int_to_string_def)

lemma nat_to_string_inj [simp]: "nat_to_string m = nat_to_string n \<longleftrightarrow> m = n"
  by (metis digits_nat_to_string)

lemma planUnique_return_iff [result_iff]: "planUnique xs = Inr u \<longleftrightarrow> distinct xs"
  by (auto simp: planUnique_def result_iff card_distinct distinct_card)

lemma planUnique_distinct [simp]: "distinct xs \<Longrightarrow> planUnique xs = Inr ()"
  by (simp add: planUnique_def distinct_card)

lemma exactRecord_return_iff [result_iff]:
  "exactRecord v req opts = Inr ps \<longleftrightarrow> v = JObj ps \<and> list_all (hasOwn ps) req
     \<and> list_all (\<lambda>k. k \<in> set (req @ opts)) (map fst ps)"
  by (cases v) (auto simp: list_all_iff)

lemma boundedText_iff: "boundedText v n \<longleftrightarrow> (\<exists>s. v = JStr s \<and> bounded_string n s)"
  by (cases v) auto

lemma list_all_boundedText:
  "list_all (\<lambda>v. boundedText v n) xs \<Longrightarrow> list_all (bounded_string n) (map the_string xs)"
  by (induction xs) (auto simp: boundedText_iff)

lemma distinct_the_string:
  assumes "distinct xs" "list_all is_string xs" shows "distinct (map the_string xs)"
proof -
  have "inj_on the_string (set xs)"
    using assms(2) by (intro inj_on_inverseI[where g = JStr]) (auto simp: list_all_iff elim!: is_stringE)
  then show ?thesis using assms(1) by (simp add: distinct_map)
qed

lemma list_all_is_string:
  "list_all safeId xs \<Longrightarrow> list_all is_string xs" "list_all (\<lambda>v. boundedText v n) xs \<Longrightarrow> list_all is_string xs"
  by (auto simp: list_all_iff safeId_iff boundedText_iff)

lemma idList_sound:
  "idList v m = Inr xs \<Longrightarrow> distinct xs \<and> length xs \<le> m \<and> list_all safe_id_string xs"
  by (auto simp: idList_def result_iff list_all_is_string intro: distinct_the_string list_all_the_string split: if_splits)

lemma textList_sound:
  "textList v m b = Inr xs \<Longrightarrow> distinct xs \<and> length xs \<le> m \<and> list_all (bounded_string b) xs"
  by (auto simp: textList_def result_iff intro: distinct_the_string list_all_is_string list_all_boundedText
      split: if_splits)

lemma list_all_boundedText_JStr [simp]:
  "list_all (\<lambda>v. boundedText v n) (map JStr xs) \<longleftrightarrow> list_all (bounded_string n) xs"
  by (induction xs) auto

lemma distinct_JStr [simp]: "distinct (map JStr xs) \<longleftrightarrow> distinct xs"
  by (simp add: distinct_map inj_on_def)

lemma idList_again:
  "distinct xs \<Longrightarrow> length xs \<le> m \<Longrightarrow> list_all safe_id_string xs \<Longrightarrow> idList (jstrs xs) m = Inr xs"
  by (simp add: idList_def jstrs_def)

lemma textList_again:
  "distinct xs \<Longrightarrow> length xs \<le> m \<Longrightarrow> list_all (bounded_string b) xs \<Longrightarrow> textList (jstrs xs) m b = Inr xs"
  by (simp add: textList_def jstrs_def)

lemma idList_same: "idList (jstrs xs) m = Inr ys \<Longrightarrow> ys = xs"
  by (auto simp: idList_def jstrs_def result_iff split: if_splits)

lemma textList_same: "textList (jstrs xs) m b = Inr ys \<Longrightarrow> ys = xs"
  by (auto simp: textList_def jstrs_def result_iff split: if_splits)

subsection \<open>Graphs as run-time objects\<close>

definition access_json :: "step_access \<Rightarrow> js_value" where
  "access_json a = JObj [(''mode'', JStr (name_in ACCESS_MODES (sa_mode a))), (''paths'', jstrs (sa_paths a))]"

definition plan_criterion_json :: "success_criterion \<Rightarrow> js_value" where
  "plan_criterion_json c = JObj ([(''criterionId'', JStr (sc_criterionId c)),
     (''kind'', JStr (name_in CRITERION_KINDS (sc_kind c))), (''description'', JStr (sc_description c))]
     @ opt_prop ''ref'' JStr (sc_ref c) @ opt_prop ''expectedDigest'' JStr (sc_expectedDigest c))"

definition execution_budget_json :: "execution_budget \<Rightarrow> js_value" where
  "execution_budget_json b = JObj ([(''maxTurns'', jnat (eb_maxTurns b)), (''maxToolCalls'', jnat (eb_maxToolCalls b))]
     @ opt_prop ''maxTokens'' jnat (eb_maxTokens b) @ [(''maxChildRuns'', jnat (eb_maxChildRuns b)),
       (''maxParallelChildren'', jnat (eb_maxParallelChildren b)), (''maxDepth'', jnat (eb_maxDepth b))]
     @ opt_prop ''deadlineAt'' JStr (eb_deadlineAt b))"

definition step_json :: "plan_step \<Rightarrow> js_value" where
  "step_json s = JObj [(''stepId'', JStr (ps_stepId s)), (''title'', JStr (ps_title s)),
     (''order'', jnat (ps_order s)), (''state'', JStr (name_in STEP_STATES (ps_state s))),
     (''dependencies'', jstrs (ps_dependencies s)), (''access'', access_json (ps_access s)),
     (''capabilities'', jstrs (ps_capabilities s)), (''conflictKeys'', jstrs (ps_conflictKeys s)),
     (''criteria'', JArr (map plan_criterion_json (ps_criteria s))),
     (''budget'', execution_budget_json (ps_budget s)), (''maxAttempts'', jnat (ps_maxAttempts s)),
     (''attemptIds'', jstrs (ps_attemptIds s))]"

definition attempt_json :: "plan_attempt \<Rightarrow> js_value" where
  "attempt_json a = JObj ([(''attemptId'', JStr (pa_attemptId a)), (''stepId'', JStr (pa_stepId a)),
     (''ordinal'', jnat (pa_ordinal a)), (''state'', JStr (name_in ATTEMPT_STATES (pa_state a)))]
     @ opt_prop ''childRunId'' JStr (pa_childRunId a) @ opt_prop ''resultRef'' JStr (pa_resultRef a)
     @ opt_prop ''resultDigest'' JStr (pa_resultDigest a) @ opt_prop ''verificationRef'' JStr (pa_verificationRef a))"

definition graph_json :: "plan_graph \<Rightarrow> js_value" where
  "graph_json g = JObj [(''schemaVersion'', jnat 1), (''planId'', JStr (pg_planId g)),
     (''revision'', jnat (pg_revision g)), (''objective'', JStr (pg_objective g)),
     (''state'', JStr (name_in PLAN_STATES (pg_state g))), (''steps'', JArr (map step_json (pg_steps g))),
     (''attempts'', JArr (map attempt_json (pg_attempts g)))]"

lemma keys_opt_prop: "map fst (opt_prop k f v) = (if v = None then [] else [k])"
  by (simp add: opt_prop_def split: option.splits)

lemmas plan_object_simps = object_simps keys_opt_prop

subsection \<open>Well-formed parts\<close>

definition valid_access :: "step_access \<Rightarrow> bool" where
  "valid_access a \<longleftrightarrow> distinct (sa_paths a) \<and> length (sa_paths a) \<le> MAX_PATHS
     \<and> list_all (bounded_string MAX_REFERENCE_BYTES) (sa_paths a)"

definition valid_success_criterion :: "success_criterion \<Rightarrow> bool" where
  "valid_success_criterion c \<longleftrightarrow> safe_id_string (sc_criterionId c) \<and> bounded_string PLAN_TEXT_BYTES (sc_description c)
     \<and> pred_option (bounded_string MAX_REFERENCE_BYTES) (sc_ref c) \<and> pred_option sha256_string (sc_expectedDigest c)"

definition valid_step_budget :: "execution_budget \<Rightarrow> bool" where
  "valid_step_budget b \<longleftrightarrow> safe_nat (eb_maxTurns b) \<and> safe_nat (eb_maxToolCalls b)
     \<and> pred_option (\<lambda>n. 0 < n \<and> safe_nat n) (eb_maxTokens b) \<and> eb_maxChildRuns b = 0
     \<and> eb_maxParallelChildren b = 0 \<and> eb_maxDepth b = 0 \<and> pred_option canonical_instant_string (eb_deadlineAt b)"

definition valid_step :: "plan_step \<Rightarrow> bool" where
  "valid_step s \<longleftrightarrow> safe_id_string (ps_stepId s) \<and> bounded_string PLAN_TEXT_BYTES (ps_title s)
     \<and> safe_nat (ps_order s) \<and> 0 < ps_maxAttempts s \<and> ps_maxAttempts s \<le> 16
     \<and> distinct (ps_dependencies s) \<and> length (ps_dependencies s) \<le> MAX_DEPENDENCIES
     \<and> list_all safe_id_string (ps_dependencies s) \<and> ps_stepId s \<notin> set (ps_dependencies s)
     \<and> distinct (ps_capabilities s) \<and> length (ps_capabilities s) \<le> MAX_CAPABILITIES
     \<and> list_all safe_id_string (ps_capabilities s)
     \<and> distinct (ps_conflictKeys s) \<and> length (ps_conflictKeys s) \<le> MAX_CONFLICT_KEYS
     \<and> list_all (bounded_string MAX_REFERENCE_BYTES) (ps_conflictKeys s)
     \<and> distinct (ps_attemptIds s) \<and> length (ps_attemptIds s) \<le> ps_maxAttempts s
     \<and> list_all safe_id_string (ps_attemptIds s)
     \<and> ps_criteria s \<noteq> [] \<and> length (ps_criteria s) \<le> MAX_CRITERIA
     \<and> list_all valid_success_criterion (ps_criteria s) \<and> valid_access (ps_access s) \<and> valid_step_budget (ps_budget s)"

definition valid_attempt :: "plan_attempt \<Rightarrow> bool" where
  "valid_attempt a \<longleftrightarrow> safe_id_string (pa_attemptId a) \<and> safe_id_string (pa_stepId a) \<and> 0 < pa_ordinal a
     \<and> safe_nat (pa_ordinal a) \<and> pred_option safe_id_string (pa_childRunId a)
     \<and> pred_option (bounded_string MAX_REFERENCE_BYTES) (pa_resultRef a) \<and> pred_option sha256_string (pa_resultDigest a)
     \<and> pred_option (bounded_string MAX_REFERENCE_BYTES) (pa_verificationRef a)
     \<and> (pa_resultRef a = None \<longleftrightarrow> pa_resultDigest a = None)"

lemma access_sound: "validateAccess v = Inr a \<Longrightarrow> valid_access a"
  by (auto simp: validateAccess_def valid_access_def andThen_return_iff split: option.splits dest!: textList_sound)

lemma access_again: "valid_access a \<Longrightarrow> validateAccess (access_json a) = Inr a"
  by (cases a) (simp add: validateAccess_def valid_access_def access_json_def plan_object_simps textList_again)

lemma criterion_fields_sound: "validateCriterion v = Inr c \<Longrightarrow> valid_success_criterion c"
  by (auto simp: validateCriterion_def valid_success_criterion_def andThen_return_iff if_error_iff safeId_iff
      boundedText_iff sha256_digest_iff optional_def)

lemma plan_criterion_again: "valid_success_criterion c \<Longrightarrow> validateCriterion (plan_criterion_json c) = Inr c"
  by (cases c) (auto simp: validateCriterion_def valid_success_criterion_def plan_criterion_json_def
      plan_object_simps optional_def list_all_iff split: option.splits)

lemma step_budget_sound: "validateBudget v = Inr b \<Longrightarrow> valid_step_budget b"
  by (auto simp: validateBudget_def valid_step_budget_def andThen_return_iff if_error_iff optional_def
      nonNegative_the_nat positive_the_nat canonicalInstant_iff)

lemma step_budget_again: "valid_step_budget b \<Longrightarrow> validateBudget (execution_budget_json b) = Inr b"
  by (cases b) (auto simp: validateBudget_def valid_step_budget_def execution_budget_json_def
      plan_object_simps optional_def list_all_iff split: option.splits)

text \<open>An optional field that passed its check.\<close>

lemma optional_field:
  "\<not> (v \<noteq> JUndef \<and> \<not> boundedText v n) \<Longrightarrow> pred_option (bounded_string n) (map_option the_string (optional v))"
  "\<not> (v \<noteq> JUndef \<and> \<not> safeId v) \<Longrightarrow> pred_option safe_id_string (map_option the_string (optional v))"
  "\<not> (v \<noteq> JUndef \<and> \<not> sha256_digest v) \<Longrightarrow> pred_option sha256_string (map_option the_string (optional v))"
  "optional v = None \<longleftrightarrow> v = JUndef"
  by (auto simp: optional_def boundedText_iff safeId_iff sha256_digest_iff)

lemma required_field: "safeId v \<Longrightarrow> safe_id_string (the_string v)" "boundedText v n \<Longrightarrow> bounded_string n (the_string v)"
  by (auto simp: boundedText_iff safeId_iff)

lemma attempt_sound: "validatePlanAttemptV1 v = Inr a \<Longrightarrow> valid_attempt a"
  unfolding validatePlanAttemptV1_def andThen_return_iff if_error_iff de_Morgan_disj valid_attempt_def
  by (elim exE conjE, drule sum.inject(2)[THEN iffD1], hypsubst, unfold plan_attempt.simps,
      intro conjI optional_field(1-3) required_field; (assumption | simp add: optional_field(4) positive_the_nat))

lemma attempt_again:
  assumes "valid_attempt a" shows "validatePlanAttemptV1 (attempt_json a) = Inr a"
  using assms
  by (cases a; cases "pa_resultRef a"; cases "pa_resultDigest a")
    (auto simp: validatePlanAttemptV1_def valid_attempt_def attempt_json_def plan_object_simps optional_def
      list_all_iff split: option.splits)

lemma step_returnE:
  assumes "validatePlanStepV1 v = Inr s"
  obtains step deps caps keys ids access criteria budget where
    "safeId (getProp step ''stepId'')" "boundedText (getProp step ''title'') PLAN_TEXT_BYTES"
    "nonNegativeInteger (getProp step ''order'')" "positiveInteger (getProp step ''maxAttempts'')"
    "the_nat (getProp step ''maxAttempts'') \<le> 16"
    "idList (getProp step ''dependencies'') MAX_DEPENDENCIES = Inr deps"
    "idList (getProp step ''capabilities'') MAX_CAPABILITIES = Inr caps"
    "textList (getProp step ''conflictKeys'') MAX_CONFLICT_KEYS MAX_REFERENCE_BYTES = Inr keys"
    "idList (getProp step ''attemptIds'') 16 = Inr ids"
    "the_string (getProp step ''stepId'') \<notin> set deps" "length ids \<le> the_nat (getProp step ''maxAttempts'')"
    "1 \<le> length (the_array (getProp step ''criteria''))" "length (the_array (getProp step ''criteria'')) \<le> MAX_CRITERIA"
    "validateAccess (getProp step ''access'') = Inr access"
    "mapR validateCriterion (the_array (getProp step ''criteria'')) = Inr criteria"
    "validateBudget (getProp step ''budget'') = Inr budget" "v = JObj step"
    "s = \<lparr>ps_stepId = the_string (getProp step ''stepId''), ps_title = the_string (getProp step ''title''),
           ps_order = the_nat (getProp step ''order''),
           ps_state = the (member_of STEP_STATES (getProp step ''state'')),
           ps_dependencies = deps, ps_access = access, ps_capabilities = caps,
           ps_conflictKeys = keys, ps_criteria = criteria, ps_budget = budget,
           ps_maxAttempts = the_nat (getProp step ''maxAttempts''), ps_attemptIds = ids\<rparr>"
  using assms unfolding validatePlanStepV1_def andThen_return_iff if_error_iff de_Morgan_disj exactRecord_return_iff
    not_less not_not
  by blast

lemma step_sound: "validatePlanStepV1 v = Inr s \<Longrightarrow> valid_step s"
proof (erule step_returnE)
  fix step deps caps keys ids access criteria budget
  assume a: "safeId (getProp step ''stepId'')" "boundedText (getProp step ''title'') PLAN_TEXT_BYTES"
    "nonNegativeInteger (getProp step ''order'')" "positiveInteger (getProp step ''maxAttempts'')"
    "the_nat (getProp step ''maxAttempts'') \<le> 16"
    and l: "idList (getProp step ''dependencies'') MAX_DEPENDENCIES = Inr deps"
    "idList (getProp step ''capabilities'') MAX_CAPABILITIES = Inr caps"
    "textList (getProp step ''conflictKeys'') MAX_CONFLICT_KEYS MAX_REFERENCE_BYTES = Inr keys"
    "idList (getProp step ''attemptIds'') 16 = Inr ids"
    and c: "the_string (getProp step ''stepId'') \<notin> set deps" "length ids \<le> the_nat (getProp step ''maxAttempts'')"
    "1 \<le> length (the_array (getProp step ''criteria''))" "length (the_array (getProp step ''criteria'')) \<le> MAX_CRITERIA"
    and p: "validateAccess (getProp step ''access'') = Inr access"
    "mapR validateCriterion (the_array (getProp step ''criteria'')) = Inr criteria"
    "validateBudget (getProp step ''budget'') = Inr budget"
    and s: "s = \<lparr>ps_stepId = the_string (getProp step ''stepId''), ps_title = the_string (getProp step ''title''),
           ps_order = the_nat (getProp step ''order''),
           ps_state = the (member_of STEP_STATES (getProp step ''state'')),
           ps_dependencies = deps, ps_access = access, ps_capabilities = caps,
           ps_conflictKeys = keys, ps_criteria = criteria, ps_budget = budget,
           ps_maxAttempts = the_nat (getProp step ''maxAttempts''), ps_attemptIds = ids\<rparr>"
  have "criteria \<noteq> []" "length criteria \<le> MAX_CRITERIA" using mapR_length[OF p(2)] c(3,4) by auto
  moreover have "list_all valid_success_criterion criteria"
    using p(2) criterion_fields_sound by (rule mapR_list_all)
  ultimately show "valid_step s"
    using a c(1,2) idList_sound[OF l(1)] idList_sound[OF l(2)] textList_sound[OF l(3)] idList_sound[OF l(4)]
      access_sound[OF p(1)] step_budget_sound[OF p(3)]
    by (simp add: valid_step_def s required_field nonNegative_the_nat positive_the_nat)
qed

lemma step_again:
  assumes "valid_step s" shows "validatePlanStepV1 (step_json s) = Inr s"
proof -
  have "safe_nat (ps_maxAttempts s)"
    using assms by (simp add: valid_step_def safe_nat_def MAX_SAFE_INTEGER_def)
  moreover have "mapR validateCriterion (map plan_criterion_json (ps_criteria s)) = Inr (ps_criteria s)"
    using assms by (intro mapR_again[where P = valid_success_criterion])
      (simp_all add: valid_step_def plan_criterion_again)
  ultimately show ?thesis using assms
    by (cases "ps_criteria s") (simp_all add: validatePlanStepV1_def step_json_def valid_step_def plan_object_simps
        idList_again textList_again access_again step_budget_again)
qed

subsection \<open>The graph\<close>

definition valid_plan_graph :: "plan_graph \<Rightarrow> bool" where
  "valid_plan_graph g \<longleftrightarrow> safe_id_string (pg_planId g) \<and> 0 < pg_revision g \<and> safe_nat (pg_revision g)
     \<and> bounded_string PLAN_TEXT_BYTES (pg_objective g)
     \<and> pg_steps g \<noteq> [] \<and> length (pg_steps g) \<le> MAX_STEPS \<and> list_all valid_step (pg_steps g)
     \<and> length (pg_attempts g) \<le> MAX_ATTEMPTS \<and> list_all valid_attempt (pg_attempts g)
     \<and> distinct (map ps_stepId (pg_steps g)) \<and> distinct (map ps_order (pg_steps g))
     \<and> distinct (map pa_attemptId (pg_attempts g))
     \<and> distinct (concat (map (\<lambda>a. option_list (pa_childRunId a)) (pg_attempts g)))
     \<and> graph_links_ok (pg_steps g) (pg_attempts g)"

lemma distinct_order_strings: "distinct (map (\<lambda>s. nat_to_string (f s)) xs) \<longleftrightarrow> distinct (map f xs)"
proof -
  have "map (\<lambda>s. nat_to_string (f s)) xs = map nat_to_string (map f xs)" by simp
  then show ?thesis by (metis distinct_map inj_onI nat_to_string_inj)
qed

lemma graph_return_within: "validatePlanGraphV1 v = Inr g \<Longrightarrow> json_within MAX_GRAPH_BYTES v"
  by (auto simp: validatePlanGraphV1_def split: if_splits)

lemma plan_graph_sound:
  assumes "validatePlanGraphV1 v = Inr g" shows "valid_plan_graph g"
proof -
  from assms obtain graph steps attempts where
    f: "safeId (getProp graph ''planId'')" "positiveInteger (getProp graph ''revision'')"
      "boundedText (getProp graph ''objective'') PLAN_TEXT_BYTES"
      "1 \<le> length (the_array (getProp graph ''steps''))" "length (the_array (getProp graph ''steps'')) \<le> MAX_STEPS"
      "length (the_array (getProp graph ''attempts'')) \<le> MAX_ATTEMPTS"
    and m: "mapR validatePlanStepV1 (the_array (getProp graph ''steps'')) = Inr steps"
      "mapR validatePlanAttemptV1 (the_array (getProp graph ''attempts'')) = Inr attempts"
    and u: "distinct (map ps_stepId steps)" "distinct (map (\<lambda>s. js_String (jnat (ps_order s))) steps)"
      "distinct (map pa_attemptId attempts)"
      "distinct (concat (map (\<lambda>a. option_list (pa_childRunId a)) attempts))" "graph_links_ok steps attempts"
    and g: "g = \<lparr>pg_planId = the_string (getProp graph ''planId''), pg_revision = the_nat (getProp graph ''revision''),
          pg_objective = the_string (getProp graph ''objective''),
          pg_state = the (member_of PLAN_STATES (getProp graph ''state'')),
          pg_steps = steps, pg_attempts = attempts\<rparr>"
    unfolding validatePlanGraphV1_def andThen_return_iff if_error_iff de_Morgan_disj exactRecord_return_iff
      not_less not_not planUnique_return_iff require_return_iff
    by blast
  have "list_all valid_step steps" using m(1) step_sound by (rule mapR_list_all)
  moreover have "list_all valid_attempt attempts" using m(2) attempt_sound by (rule mapR_list_all)
  ultimately show ?thesis
    using f u mapR_length[OF m(1)] mapR_length[OF m(2)]
    by (auto simp: valid_plan_graph_def g required_field positive_the_nat distinct_order_strings)
qed

lemma plan_graph_again:
  assumes "valid_plan_graph g" "json_within MAX_GRAPH_BYTES (graph_json g)"
  shows "validatePlanGraphV1 (graph_json g) = Inr g"
proof -
  have "mapR validatePlanStepV1 (map step_json (pg_steps g)) = Inr (pg_steps g)"
    using assms by (intro mapR_again[where P = valid_step]) (simp_all add: valid_plan_graph_def step_again)
  moreover have "mapR validatePlanAttemptV1 (map attempt_json (pg_attempts g)) = Inr (pg_attempts g)"
    using assms by (intro mapR_again[where P = valid_attempt]) (simp_all add: valid_plan_graph_def attempt_again)
  ultimately show ?thesis using assms
    by (cases g) (simp add: validatePlanGraphV1_def graph_json_def plan_object_simps
        valid_plan_graph_def distinct_order_strings)
qed

subsection \<open>Ready steps\<close>

text \<open>\<open>new Map\<close> of a list keyed by a field, when the keys are distinct.\<close>

lemma keyed_fst: "map fst (rev (map (\<lambda>x. (f x, x)) xs)) = rev (map f xs)"
  by (simp add: rev_map comp_def)

lemma last_entry_member:
  assumes "distinct (map f xs)"
  shows "map_of (rev (map (\<lambda>x. (f x, x)) xs)) k = Some x \<longleftrightarrow> x \<in> set xs \<and> f x = k"
proof
  assume "x \<in> set xs \<and> f x = k"
  then show "map_of (rev (map (\<lambda>x. (f x, x)) xs)) k = Some x"
    using assms by (intro map_of_is_SomeI) (auto simp only: keyed_fst distinct_rev set_rev set_map)
qed (auto dest!: map_of_SomeD)

lemma last_entry_None: "map_of (rev (map (\<lambda>x. (f x, x)) xs)) k = None \<longleftrightarrow> k \<notin> f ` set xs"
  by (simp add: map_of_eq_None_iff image_image)

definition dependencies_known :: "plan_step list \<Rightarrow> bool" where
  "dependencies_known steps \<longleftrightarrow> list_all (\<lambda>s. set (ps_dependencies s) \<subseteq> ps_stepId ` set steps) steps"

definition step_open :: "plan_step list \<Rightarrow> plan_step \<Rightarrow> bool" where
  "step_open steps s \<longleftrightarrow> ps_state s = S_pending \<and> length (ps_attemptIds s) < ps_maxAttempts s
     \<and> (\<forall>d \<in> set (ps_dependencies s). \<exists>t \<in> set steps. ps_stepId t = d \<and> ps_state t = S_succeeded)"

lemma dependencies_succeeded_return:
  assumes "distinct (map ps_stepId steps)"
  shows "dependencies_succeeded (rev (map (\<lambda>s. (ps_stepId s, s)) steps)) ds = Inr b \<Longrightarrow>
    b \<longleftrightarrow> (\<forall>d \<in> set ds. \<exists>t \<in> set steps. ps_stepId t = d \<and> ps_state t = S_succeeded)"
  by (induction ds) (auto split: option.splits if_splits simp: last_entry_member[OF assms]
      dest: inj_onD[OF distinct_map[THEN iffD1, OF assms, THEN conjunct2]])

lemma dependencies_succeeded_total:
  assumes "set ds \<subseteq> ps_stepId ` set steps"
  shows "is_ok (dependencies_succeeded (rev (map (\<lambda>s. (ps_stepId s, s)) steps)) ds)"
proof -
  have "map_of (rev (map (\<lambda>s. (ps_stepId s, s)) steps)) d \<noteq> None" if "d \<in> set ds" for d
    using assms that by (auto simp only: last_entry_None)
  then show ?thesis by (induction ds) (auto split: option.splits)
qed

lemma step_ready_return:
  assumes "distinct (map ps_stepId steps)" "step_ready steps s = Inr b"
  shows "b \<longleftrightarrow> step_open steps s"
  using assms dependencies_succeeded_return[OF assms(1)]
  by (auto simp: step_ready_def step_open_def split: if_splits)

lemma filterR_return:
  "filterR f xs = Inr ys \<Longrightarrow> (\<And>x b. x \<in> set xs \<Longrightarrow> f x = Inr b \<Longrightarrow> b = P x) \<Longrightarrow> ys = filter P xs"
  by (induction xs arbitrary: ys) (auto simp: andThen_return_iff)

lemma filterR_total: "(\<And>x. x \<in> set xs \<Longrightarrow> is_ok (f x)) \<Longrightarrow> is_ok (filterR f xs)"
  by (induction xs) (fastforce simp: is_ok_iff)+

lemma ready_return:
  assumes "validatePlanGraphV1 v = Inr g" "pg_state g = P_running" "readyPlanStepIdsV1 le v = Inr ids"
  shows "ids = map ps_stepId (sort_by (step_before le) (filter (step_open (pg_steps g)) (pg_steps g)))"
proof -
  have d: "distinct (map ps_stepId (pg_steps g))"
    using plan_graph_sound[OF assms(1)] by (simp add: valid_plan_graph_def)
  from assms obtain ready where "filterR (step_ready (pg_steps g)) (pg_steps g) = Inr ready"
    and ids: "ids = map ps_stepId (sort_by (step_before le) ready)"
    by (auto simp: readyPlanStepIdsV1_def andThen_return_iff)
  then have "ready = filter (step_open (pg_steps g)) (pg_steps g)"
    using filterR_return[of "step_ready (pg_steps g)"] step_ready_return[OF d] by blast
  then show ?thesis by (simp add: ids)
qed

lemma ready_total:
  assumes "validatePlanGraphV1 v = Inr g" "dependencies_known (pg_steps g)"
  shows "is_ok (readyPlanStepIdsV1 le v)"
proof -
  have "is_ok (step_ready (pg_steps g) s)" if "s \<in> set (pg_steps g)" for s
    using assms(2) that dependencies_succeeded_total by (auto simp: step_ready_def dependencies_known_def list_all_iff)
  then have "is_ok (filterR (step_ready (pg_steps g)) (pg_steps g))" by (rule filterR_total)
  then show ?thesis using assms(1) by (auto simp: readyPlanStepIdsV1_def is_ok_iff)
qed

lemma step_before_distinct_orders:
  assumes "distinct (map ps_order steps)" "s \<in> set steps" "t \<in> set steps" "s \<noteq> t"
  shows "step_before le s t \<longleftrightarrow> ps_order s < ps_order t"
  using assms by (auto simp: step_before_def distinct_map dest: inj_onD)

lemma sort_steps_locale_free:
  assumes "distinct (map ps_order steps)" "set xs \<subseteq> set steps" "distinct xs"
  shows "sort_by (step_before le) xs = sort_by (step_before le') xs"
  using assms by (intro sort_by_cong) (auto simp: step_before_distinct_orders subset_iff)

text \<open>In an acyclic graph of pending and succeeded steps some pending step is open.\<close>

definition dependency_edges :: "plan_step list \<Rightarrow> (string \<times> string) list" where
  "dependency_edges steps = concat (map (\<lambda>s. map (\<lambda>d. (d, ps_stepId s)) (ps_dependencies s)) steps)"

lemma dependency_edges_iff:
  "(d, k) \<in> set (dependency_edges steps) \<longleftrightarrow> (\<exists>s \<in> set steps. ps_stepId s = k \<and> d \<in> set (ps_dependencies s))"
  by (auto simp: dependency_edges_def)

lemma plan_progress:
  assumes acyclic: "acyclic (set (dependency_edges steps))" and known: "dependencies_known steps"
    and states: "\<forall>s \<in> set steps. ps_state s = S_succeeded
      \<or> ps_state s = S_pending \<and> length (ps_attemptIds s) < ps_maxAttempts s"
    and s: "s \<in> set steps" "ps_state s \<noteq> S_succeeded"
  shows "\<exists>t \<in> set steps. step_open steps t"
proof -
  let ?open = "ps_stepId ` {s \<in> set steps. ps_state s \<noteq> S_succeeded}"
  have "wf (set (dependency_edges steps))" using acyclic by (simp add: finite_acyclic_wf)
  then obtain k where k: "k \<in> ?open" "\<And>d. (d, k) \<in> set (dependency_edges steps) \<Longrightarrow> d \<notin> ?open"
    using s unfolding wf_eq_minimal by (metis (mono_tags, lifting) CollectI image_eqI)
  then obtain t where t: "t \<in> set steps" "ps_stepId t = k" "ps_state t \<noteq> S_succeeded" by auto
  have "\<exists>u \<in> set steps. ps_stepId u = d \<and> ps_state u = S_succeeded" if d: "d \<in> set (ps_dependencies t)" for d
  proof -
    have "(d, k) \<in> set (dependency_edges steps)" using t d by (auto simp: dependency_edges_iff)
    then have "d \<notin> ?open" by (rule k(2))
    moreover have "d \<in> ps_stepId ` set steps" using known t d by (auto simp: dependencies_known_def list_all_iff)
    ultimately show ?thesis by blast
  qed
  then show ?thesis using t states by (auto simp: step_open_def)
qed

subsection \<open>Attempts\<close>

lemma check_links_iff:
  assumes "distinct (map pa_attemptId attempts)" "distinct ids"
  shows "check_links (rev (map (\<lambda>a. (pa_attemptId a, a)) attempts)) stepId ordinals ids \<longleftrightarrow>
    (\<exists>as. map pa_attemptId as = ids \<and> set as \<subseteq> set attempts \<and> (\<forall>a \<in> set as. pa_stepId a = stepId)
       \<and> distinct (map pa_ordinal as) \<and> set (map pa_ordinal as) \<inter> set ordinals = {})"
  using assms(2)
proof (induction ids arbitrary: ordinals)
  case (Cons k ids)
  show ?case
  proof (cases "map_of (rev (map (\<lambda>a. (pa_attemptId a, a)) attempts)) k")
    case None
    then have "k \<notin> pa_attemptId ` set attempts" by (simp only: last_entry_None) simp
    then show ?thesis using None by (auto simp: Cons_eq_map_conv)
  next
    case (Some a)
    then have a: "a \<in> set attempts" "pa_attemptId a = k" using last_entry_member[OF assms(1)] by auto
    have unique: "b = a" if "b \<in> set attempts" "pa_attemptId b = k" for b
      using last_entry_member[OF assms(1)] Some that by (metis option.inject)
    show ?thesis
    proof
      assume "check_links (rev (map (\<lambda>a. (pa_attemptId a, a)) attempts)) stepId ordinals (k # ids)"
      then obtain as where "map pa_attemptId as = ids" "set as \<subseteq> set attempts" "\<forall>a \<in> set as. pa_stepId a = stepId"
          "distinct (map pa_ordinal as)" "set (map pa_ordinal as) \<inter> set (pa_ordinal a # ordinals) = {}"
          "pa_stepId a = stepId" "pa_ordinal a \<notin> set ordinals"
        using Some Cons.IH[of "pa_ordinal a # ordinals"] Cons.prems by auto
      then show "\<exists>as. map pa_attemptId as = k # ids \<and> set as \<subseteq> set attempts \<and> (\<forall>a \<in> set as. pa_stepId a = stepId)
          \<and> distinct (map pa_ordinal as) \<and> set (map pa_ordinal as) \<inter> set ordinals = {}"
        using a by (intro exI[of _ "a # as"]) auto
    next
      assume "\<exists>as. map pa_attemptId as = k # ids \<and> set as \<subseteq> set attempts \<and> (\<forall>a \<in> set as. pa_stepId a = stepId)
          \<and> distinct (map pa_ordinal as) \<and> set (map pa_ordinal as) \<inter> set ordinals = {}"
      then obtain b as where "map pa_attemptId as = ids" "set (b # as) \<subseteq> set attempts" "pa_attemptId b = k"
          "\<forall>a \<in> set (b # as). pa_stepId a = stepId" "distinct (map pa_ordinal (b # as))"
          "set (map pa_ordinal (b # as)) \<inter> set ordinals = {}"
        by (auto simp: map_eq_Cons_conv)
      moreover from this have "b = a" using unique by simp
      ultimately show "check_links (rev (map (\<lambda>a. (pa_attemptId a, a)) attempts)) stepId ordinals (k # ids)"
        using Some Cons.IH[of "pa_ordinal a # ordinals"] Cons.prems by auto
    qed
  qed
qed simp

lemma graph_attempts:
  assumes "valid_plan_graph g"
  shows "a \<in> set (pg_attempts g) \<Longrightarrow> \<exists>s \<in> set (pg_steps g). pa_attemptId a \<in> set (ps_attemptIds s) \<and> ps_stepId s = pa_stepId a"
    and "s \<in> set (pg_steps g) \<Longrightarrow> \<exists>as. map pa_attemptId as = ps_attemptIds s \<and> set as \<subseteq> set (pg_attempts g)
      \<and> (\<forall>a \<in> set as. pa_stepId a = ps_stepId s) \<and> distinct (map pa_ordinal as)"
proof -
  have d: "distinct (map pa_attemptId (pg_attempts g))" and links: "graph_links_ok (pg_steps g) (pg_attempts g)"
    using assms by (simp_all add: valid_plan_graph_def)
  show listed: "\<exists>as. map pa_attemptId as = ps_attemptIds s \<and> set as \<subseteq> set (pg_attempts g)
      \<and> (\<forall>a \<in> set as. pa_stepId a = ps_stepId s) \<and> distinct (map pa_ordinal as)" if "s \<in> set (pg_steps g)" for s
  proof -
    have "distinct (ps_attemptIds s)"
      using assms that by (auto simp: valid_plan_graph_def list_all_iff valid_step_def)
    then show ?thesis using check_links_iff[OF d] links that by (auto simp: graph_links_ok_def list_all_iff Let_def)
  qed
  show "\<exists>s \<in> set (pg_steps g). pa_attemptId a \<in> set (ps_attemptIds s) \<and> ps_stepId s = pa_stepId a"
    if a: "a \<in> set (pg_attempts g)" for a
  proof -
    from links a obtain s where s: "s \<in> set (pg_steps g)" "pa_attemptId a \<in> set (ps_attemptIds s)"
      by (auto simp: graph_links_ok_def list_all_iff)
    from listed[OF s(1)] s(2) obtain b where b: "b \<in> set (pg_attempts g)" "pa_attemptId b = pa_attemptId a"
        "pa_stepId b = ps_stepId s"
      by (metis (no_types, lifting) imageE set_map subsetD)
    then have "b = a" using d a by (auto simp: distinct_map dest: inj_onD)
    then show ?thesis using s b by auto
  qed
qed

subsection \<open>Canonical parts read back as themselves\<close>

lemma access_same: "validateAccess (access_json a) = Inr b \<Longrightarrow> b = a"
  by (cases a) (auto simp: validateAccess_def access_json_def andThen_return_iff plan_object_simps dest!: textList_same)

lemma jnat_inj [simp]: "jnat m = jnat n \<longleftrightarrow> m = n"
  by (simp add: jnat_def)

lemma step_budget_same:
  assumes "validateBudget (execution_budget_json b) = Inr c"
  shows "c = b"
  using assms
  by (cases b) (auto simp: validateBudget_def execution_budget_json_def plan_object_simps optional_def list_all_iff
      andThen_return_iff split: option.splits if_splits)

end
