(* ===== verification/PlanAdmission.thy ===== *)
theory PlanAdmission
  imports PlanGraph
begin

section \<open>Admission of proposed Plans\<close>

text \<open>
  \<open>apps/runtime/src/planner/planValidator.ts\<close>: parsing of the model-owned proposal, the
  authority checks against the parent's budget, access grant and capabilities, and the graph
  that is handed to \<open>validatePlanGraphV1\<close>. \<open>createId kind key\<close> is the id factory; it is
  called once per argument pair in a run, so a stateful factory is a function of them.
  Instants are compared as strings, in code-unit order.
\<close>

subsection \<open>Proposals\<close>

datatype admission_error =
    PLAN_PROPOSAL_OVERSIZED
  | PLAN_PROPOSAL_INVALID
  | PLAN_PROPOSAL_DUPLICATE_KEY
  | PLAN_PROPOSAL_SELF_DEPENDENCY
  | PLAN_PROPOSAL_DEPENDENCY_MISSING
  | PLAN_PROPOSAL_CYCLE
  | PLAN_PROPOSAL_ACCESS_INVALID
  | PLAN_PROPOSAL_ACCESS_DENIED
  | PLAN_PROPOSAL_CAPABILITY_DENIED
  | PLAN_PROPOSAL_CRITERION_DENIED
  | PLAN_PROPOSAL_BUDGET_INVALID
  | PLAN_PROPOSAL_BUDGET_EXCEEDED
  | PLAN_PROPOSAL_CHILD_BUDGET_EXCEEDED
  | PLAN_PROPOSAL_BOUNDS_INVALID
  | PLAN_VALIDATOR_OPTIONS_INVALID
  | PLAN_INITIAL_JOURNAL_STATE_INVALID
  | Graph_error plan_error

type_synonym 'a admission = "admission_error + 'a"

record criterion_proposal =
  cp_kind :: js_value
  cp_description :: string
  cp_ref :: "string option"
  cp_expectedDigest :: "string option"

record budget_proposal =
  bp_maxTurns :: "nat option"
  bp_maxToolCalls :: "nat option"
  bp_maxTokens :: "nat option"
  bp_deadlineAt :: "string option"

record parsed_step =
  st_key :: string
  st_title :: string
  st_order :: nat
  st_dependencies :: "string list"
  st_access :: step_access
  st_capabilities :: "string list"
  st_conflictKeys :: "string list"
  st_criteria :: "criterion_proposal list"
  st_budget :: budget_proposal
  st_maxAttempts :: nat

record parsed_proposal =
  pp_execution :: js_value
  pp_objective :: string
  pp_steps :: "parsed_step list"

record validator_options =
  vo_parentBudget :: execution_budget
  vo_defaultStepBudget :: budget_proposal
  vo_accessGrant :: step_access
  vo_allowedCapabilities :: "string list"
  vo_allowedCriterionKinds :: "string list"

definition MAX_PROPOSAL_BYTES :: nat where "MAX_PROPOSAL_BYTES = 256 * 1024"

definition empty_budget :: budget_proposal where
  "empty_budget = \<lparr>bp_maxTurns = None, bp_maxToolCalls = None, bp_maxTokens = None, bp_deadlineAt = None\<rparr>"

subsection \<open>Shared checks\<close>

text \<open>The pattern \<open>[A-Za-z0-9][A-Za-z0-9._:@+-]{0,127}\<close>, anchored at both ends.\<close>

definition SAFE_KEY :: "string \<Rightarrow> bool" where
  "SAFE_KEY s = (case s of [] \<Rightarrow> False | c # cs \<Rightarrow>
     is_alnum c \<and> length cs \<le> 127 \<and> list_all (\<lambda>d. is_alnum d \<or> d \<in> set ''._:@+-'') cs)"

definition safe_key_value :: "js_value \<Rightarrow> bool" where
  "safe_key_value v = (is_string v \<and> SAFE_KEY (the_string v))"

fun proposalRecord :: "js_value \<Rightarrow> string list \<Rightarrow> string list \<Rightarrow> js_record admission" where
  "proposalRecord (JObj value) required optionals =
     (if \<not> list_all (hasOwn value) required \<or> \<not> list_all (\<lambda>key. key \<in> set (required @ optionals)) (map fst value)
      then Inl PLAN_PROPOSAL_INVALID else Inr value)"
| "proposalRecord _ required optionals = Inl PLAN_PROPOSAL_INVALID"

definition admissionUnique :: "'a list \<Rightarrow> admission_error \<Rightarrow> unit admission" where
  "admissionUnique values code = require (card (set values) = length values) code"

text \<open>\<open>v ?? d\<close>\<close>

definition nullish :: "js_value \<Rightarrow> js_value \<Rightarrow> js_value" where
  "nullish v d = (if v = JUndef \<or> v = JNull then d else v)"

definition keyList :: "js_value \<Rightarrow> nat \<Rightarrow> string list admission" where
  "keyList input maximum =
     (if \<not> is_array input \<or> maximum < length (the_array input) \<or> \<not> list_all safe_key_value (the_array input)
      then Inl PLAN_PROPOSAL_INVALID
      else andThen (admissionUnique (the_array input) PLAN_PROPOSAL_INVALID) (\<lambda>_.
        Inr (map the_string (the_array input))))"

definition stringList :: "js_value \<Rightarrow> nat \<Rightarrow> bool \<Rightarrow> string list admission" where
  "stringList input maximum safeKeys =
     (if \<not> is_array input \<or> maximum < length (the_array input)
         \<or> \<not> list_all (\<lambda>value. if safeKeys then safe_key_value value else boundedText value MAX_REFERENCE_BYTES)
              (the_array input)
      then Inl PLAN_PROPOSAL_INVALID
      else andThen (admissionUnique (the_array input) PLAN_PROPOSAL_INVALID) (\<lambda>_.
        Inr (map the_string (the_array input))))"

subsection \<open>Paths\<close>

definition INVALID_WIN32_CHARACTERS :: string where
  "INVALID_WIN32_CHARACTERS = ''<>:'' @ [CHR 34] @ ''|?*''"

definition ascii_upper :: "char \<Rightarrow> char" where
  "ascii_upper c = (let n = char_code c in if 97 \<le> n \<and> n \<le> 122 then char_of (n - 32) else c)"

definition RESERVED_WIN32_BASENAME :: "string \<Rightarrow> bool" where
  "RESERVED_WIN32_BASENAME s = (let u = map ascii_upper s in
     u \<in> set [''CON'', ''PRN'', ''AUX'', ''NUL'', ''CLOCK$'', ''CONIN$'', ''CONOUT$'']
     \<or> (length u = 4 \<and> take 3 u \<in> set [''COM'', ''LPT''] \<and> u ! 3 \<in> set ''123456789''))"

definition portable_component :: "string \<Rightarrow> bool" where
  "portable_component component \<longleftrightarrow>
     \<not> (component = [] \<or> component = ''.'' \<or> component = ''..''
        \<or> (component \<noteq> [] \<and> (last component = CHR ''.'' \<or> last component = CHR '' '')))
     \<and> list_all (\<lambda>c. \<not> (char_code c \<le> 31 \<or> c \<in> set INVALID_WIN32_CHARACTERS)) component
     \<and> \<not> RESERVED_WIN32_BASENAME (hd (split_on (CHR ''.'') component))"

definition isPortablePlanPathV1 :: "string \<Rightarrow> bool" where
  "isPortablePlanPathV1 path \<longleftrightarrow>
     (if path = ''.'' then True
      else if path = [] \<or> starts_with ''/'' path \<or> CHR 92 \<in> set path then False
      else list_all portable_component (split_on (CHR ''/'') path))"

definition isPlanPathWithinGrantV1 :: "string \<Rightarrow> string \<Rightarrow> bool" where
  "isPlanPathWithinGrantV1 path grant \<longleftrightarrow> grant = ''.'' \<or> path = grant \<or> starts_with (grant @ ''/'') path"

subsection \<open>Parsing\<close>

definition parseCriterion :: "js_value \<Rightarrow> criterion_proposal admission" where
  "parseCriterion input =
     andThen (proposalRecord input [''kind'', ''description''] [''ref'', ''expectedDigest'']) (\<lambda>criterion.
     if \<not> string_member [''schema'', ''file'', ''digest'', ''command'', ''check'', ''rule'', ''semantic'']
           (getProp criterion ''kind'')
        \<or> \<not> boundedText (getProp criterion ''description'') PLAN_TEXT_BYTES
        \<or> (getProp criterion ''ref'' \<noteq> JUndef \<and> \<not> boundedText (getProp criterion ''ref'') MAX_REFERENCE_BYTES)
        \<or> (getProp criterion ''expectedDigest'' \<noteq> JUndef \<and> \<not> sha256_digest (getProp criterion ''expectedDigest''))
     then Inl PLAN_PROPOSAL_INVALID
     else Inr \<lparr>cp_kind = getProp criterion ''kind'', cp_description = the_string (getProp criterion ''description''),
       cp_ref = map_option the_string (optional (getProp criterion ''ref'')),
       cp_expectedDigest = map_option the_string (optional (getProp criterion ''expectedDigest''))\<rparr>)"

definition parseAccess :: "js_value \<Rightarrow> step_access admission" where
  "parseAccess input =
     andThen (proposalRecord input [''mode'', ''paths''] []) (\<lambda>access.
     case member_of ACCESS_MODES (getProp access ''mode'') of
       None \<Rightarrow> Inl PLAN_PROPOSAL_ACCESS_INVALID
     | Some mode \<Rightarrow>
         if \<not> is_array (getProp access ''paths'') \<or> MAX_PATHS < length (the_array (getProp access ''paths''))
         then Inl PLAN_PROPOSAL_ACCESS_INVALID
         else
           andThen (mapR (\<lambda>path. if \<not> is_string path \<or> \<not> isPortablePlanPathV1 (the_string path)
               then Inl PLAN_PROPOSAL_ACCESS_INVALID else Inr (the_string path))
             (the_array (getProp access ''paths''))) (\<lambda>paths.
           andThen (admissionUnique paths PLAN_PROPOSAL_ACCESS_INVALID) (\<lambda>_.
           Inr \<lparr>sa_mode = mode, sa_paths = paths\<rparr>)))"

definition parseStepBudget :: "js_value \<Rightarrow> budget_proposal admission" where
  "parseStepBudget input =
     andThen (proposalRecord input [] [''maxTurns'', ''maxToolCalls'', ''maxTokens'', ''deadlineAt'']) (\<lambda>budget.
     if list_ex (\<lambda>field. getProp budget field \<noteq> JUndef \<and> \<not> nonNegativeInteger (getProp budget field))
          [''maxTurns'', ''maxToolCalls'']
        \<or> (getProp budget ''maxTokens'' \<noteq> JUndef \<and> \<not> positiveInteger (getProp budget ''maxTokens''))
        \<or> (getProp budget ''deadlineAt'' \<noteq> JUndef \<and> \<not> canonicalInstant (getProp budget ''deadlineAt''))
     then Inl PLAN_PROPOSAL_BUDGET_INVALID
     else Inr \<lparr>bp_maxTurns = map_option the_nat (optional (getProp budget ''maxTurns'')),
       bp_maxToolCalls = map_option the_nat (optional (getProp budget ''maxToolCalls'')),
       bp_maxTokens = map_option the_nat (optional (getProp budget ''maxTokens'')),
       bp_deadlineAt = map_option the_string (optional (getProp budget ''deadlineAt''))\<rparr>)"

definition parseStep :: "js_value \<Rightarrow> nat \<Rightarrow> parsed_step admission" where
  "parseStep input order =
     andThen (proposalRecord input [''key'', ''title'', ''criteria'']
       [''dependencies'', ''access'', ''capabilities'', ''conflictKeys'', ''budget'', ''maxAttempts'']) (\<lambda>step.
     if \<not> safe_key_value (getProp step ''key'') \<or> \<not> boundedText (getProp step ''title'') PLAN_TEXT_BYTES
        \<or> \<not> is_array (getProp step ''criteria'') \<or> length (the_array (getProp step ''criteria'')) < 1
        \<or> MAX_CRITERIA < length (the_array (getProp step ''criteria''))
        \<or> (getProp step ''maxAttempts'' \<noteq> JUndef
           \<and> (\<not> positiveInteger (getProp step ''maxAttempts'') \<or> 16 < the_nat (getProp step ''maxAttempts'')))
     then Inl PLAN_PROPOSAL_INVALID
     else
       andThen (keyList (nullish (getProp step ''dependencies'') (JArr [])) MAX_DEPENDENCIES) (\<lambda>dependencies.
       andThen (if getProp step ''access'' = JUndef then Inr \<lparr>sa_mode = Read_only, sa_paths = []\<rparr>
         else parseAccess (getProp step ''access'')) (\<lambda>access.
       andThen (stringList (nullish (getProp step ''capabilities'') (JArr [])) MAX_CAPABILITIES True) (\<lambda>capabilities.
       andThen (stringList (nullish (getProp step ''conflictKeys'') (JArr [])) MAX_CONFLICT_KEYS False) (\<lambda>conflictKeys.
       andThen (mapR parseCriterion (the_array (getProp step ''criteria''))) (\<lambda>criteria.
       andThen (if getProp step ''budget'' = JUndef then Inr empty_budget
         else parseStepBudget (getProp step ''budget'')) (\<lambda>budget.
       Inr \<lparr>st_key = the_string (getProp step ''key''), st_title = the_string (getProp step ''title''), st_order = order,
         st_dependencies = dependencies, st_access = access, st_capabilities = capabilities,
         st_conflictKeys = conflictKeys, st_criteria = criteria, st_budget = budget,
         st_maxAttempts = (if getProp step ''maxAttempts'' = JUndef then 1
           else the_nat (getProp step ''maxAttempts''))\<rparr>)))))))"

fun check_dependencies :: "string list \<Rightarrow> string \<Rightarrow> string list \<Rightarrow> unit admission" where
  "check_dependencies keys key [] = Inr ()"
| "check_dependencies keys key (dependency # rest) =
     (if dependency = key then Inl PLAN_PROPOSAL_SELF_DEPENDENCY
      else if dependency \<notin> set keys then Inl PLAN_PROPOSAL_DEPENDENCY_MISSING
      else check_dependencies keys key rest)"

text \<open>\<open>assertAcyclic\<close>: the dependency map read by \<open>visit\<close>, depth first from every step.\<close>

definition step_deps :: "parsed_step list \<Rightarrow> (string \<times> string list) list" where
  "step_deps steps = map (\<lambda>s. (st_key s, st_dependencies s)) steps"

definition assertAcyclicSteps :: "parsed_step list \<Rightarrow> unit admission" where
  "assertAcyclicSteps steps = require (dfs_ok (step_deps steps) (map st_key steps)) PLAN_PROPOSAL_CYCLE"

definition parseProposal :: "js_value \<Rightarrow> parsed_proposal admission" where
  "parseProposal input =
     (if \<not> json_within MAX_PROPOSAL_BYTES input then Inl PLAN_PROPOSAL_OVERSIZED
      else andThen (proposalRecord input [''objective'', ''steps''] [''execution'']) (\<lambda>proposal.
      let execution = nullish (getProp proposal ''execution'') (JStr ''dag'') in
      if \<not> string_member [''parent_only'', ''dag''] execution
         \<or> \<not> boundedText (getProp proposal ''objective'') PLAN_TEXT_BYTES
         \<or> \<not> is_array (getProp proposal ''steps'')
         \<or> (execution = JStr ''dag'' \<and> length (the_array (getProp proposal ''steps'')) < 1)
         \<or> (execution = JStr ''parent_only'' \<and> length (the_array (getProp proposal ''steps'')) \<noteq> 0)
         \<or> MAX_STEPS < length (the_array (getProp proposal ''steps''))
      then Inl PLAN_PROPOSAL_INVALID
      else
        andThen (mapR (\<lambda>(order, candidate). parseStep candidate order)
          (enumerate 0 (the_array (getProp proposal ''steps'')))) (\<lambda>steps.
        andThen (admissionUnique (map st_key steps) PLAN_PROPOSAL_DUPLICATE_KEY) (\<lambda>_.
        andThen (mapR (\<lambda>s. check_dependencies (map st_key steps) (st_key s) (st_dependencies s)) steps) (\<lambda>_.
        andThen (assertAcyclicSteps steps) (\<lambda>_.
        Inr \<lparr>pp_execution = execution, pp_objective = the_string (getProp proposal ''objective''),
          pp_steps = steps\<rparr>))))))"

definition bounded_integer :: "(js_value \<Rightarrow> bool) \<Rightarrow> js_value \<Rightarrow> nat \<Rightarrow> nat admission" where
  "bounded_integer check value maximum =
     (if value = JUndef then Inr maximum
      else if \<not> check value \<or> maximum < the_nat value then Inl PLAN_PROPOSAL_BOUNDS_INVALID
      else Inr (the_nat value))"

definition validateFixedPlanProposalV1 :: "js_value \<Rightarrow> js_value \<Rightarrow> js_value \<Rightarrow> parsed_proposal admission" where
  "validateFixedPlanProposalV1 input maxStepsBound maxDependenciesBound =
     andThen (parseProposal input) (\<lambda>parsed.
     andThen (bounded_integer positiveInteger maxStepsBound MAX_STEPS) (\<lambda>maxSteps.
     andThen (bounded_integer nonNegativeInteger maxDependenciesBound MAX_DEPENDENCIES) (\<lambda>maxDependencies.
     if maxSteps < length (pp_steps parsed)
        \<or> maxDependencies < sum_list (map (\<lambda>s. length (st_dependencies s)) (pp_steps parsed))
     then Inl PLAN_PROPOSAL_INVALID else Inr parsed)))"

subsection \<open>Authority\<close>

definition authority :: "access_mode \<Rightarrow> nat" where
  "authority mode = (case mode of Read_only \<Rightarrow> 0 | Isolated_process \<Rightarrow> 1 | Workspace_write_access \<Rightarrow> 2)"

definition admitAccess :: "step_access \<Rightarrow> step_access \<Rightarrow> step_access admission" where
  "admitAccess requested grant =
     (if authority (sa_mode grant) < authority (sa_mode requested) then Inl PLAN_PROPOSAL_ACCESS_DENIED
      else if list_ex (\<lambda>path. \<not> list_ex (isPlanPathWithinGrantV1 path) (sa_paths grant)) (sa_paths requested)
      then Inl PLAN_PROPOSAL_ACCESS_DENIED else Inr requested)"

definition admitCapabilities :: "string list \<Rightarrow> string list \<Rightarrow> string list admission" where
  "admitCapabilities requested allowed =
     (if list_ex (\<lambda>capability. capability \<notin> set allowed) requested
      then Inl PLAN_PROPOSAL_CAPABILITY_DENIED else Inr requested)"

definition admitCriteria :: "criterion_proposal list \<Rightarrow> string list \<Rightarrow> criterion_proposal list admission" where
  "admitCriteria criteria allowed =
     (if list_ex (\<lambda>criterion. cp_kind criterion \<notin> JStr ` set allowed) criteria
      then Inl PLAN_PROPOSAL_CRITERION_DENIED else Inr criteria)"

definition opt_else :: "'a option \<Rightarrow> 'a option \<Rightarrow> 'a option" where
  "opt_else a b = (case a of None \<Rightarrow> b | Some x \<Rightarrow> Some x)"

definition admitBudget :: "budget_proposal \<Rightarrow> budget_proposal \<Rightarrow> execution_budget \<Rightarrow> execution_budget admission" where
  "admitBudget requested defaults parent =
     (let maxTurns = (case opt_else (bp_maxTurns requested) (bp_maxTurns defaults) of None \<Rightarrow> 0 | Some n \<Rightarrow> n);
          maxToolCalls = (case opt_else (bp_maxToolCalls requested) (bp_maxToolCalls defaults) of None \<Rightarrow> 0 | Some n \<Rightarrow> n);
          maxTokens = opt_else (bp_maxTokens requested) (bp_maxTokens defaults);
          deadlineAt = opt_else (opt_else (bp_deadlineAt requested) (bp_deadlineAt defaults)) (eb_deadlineAt parent) in
      if eb_maxTurns parent < maxTurns \<or> eb_maxToolCalls parent < maxToolCalls
         \<or> (case maxTokens of None \<Rightarrow> False | Some n \<Rightarrow>
              (case eb_maxTokens parent of None \<Rightarrow> True | Some m \<Rightarrow> m < n))
         \<or> (case (deadlineAt, eb_deadlineAt parent) of (Some d, Some p) \<Rightarrow> p < d | _ \<Rightarrow> False)
      then Inl PLAN_PROPOSAL_BUDGET_EXCEEDED
      else Inr \<lparr>eb_maxTurns = maxTurns, eb_maxToolCalls = maxToolCalls, eb_maxTokens = maxTokens,
        eb_maxChildRuns = 0, eb_maxParallelChildren = 0, eb_maxDepth = 0, eb_deadlineAt = deadlineAt\<rparr>)"

subsection \<open>Options of the validator\<close>

definition validateParentBudget :: "js_value \<Rightarrow> execution_budget admission" where
  "validateParentBudget input =
     andThen (proposalRecord input [''maxTurns'', ''maxToolCalls'', ''maxChildRuns'', ''maxParallelChildren'', ''maxDepth'']
       [''maxTokens'', ''deadlineAt'']) (\<lambda>budget.
     if \<not> list_all (\<lambda>field. nonNegativeInteger (getProp budget field))
          [''maxTurns'', ''maxToolCalls'', ''maxChildRuns'', ''maxParallelChildren'', ''maxDepth'']
        \<or> (getProp budget ''maxTokens'' \<noteq> JUndef \<and> \<not> positiveInteger (getProp budget ''maxTokens''))
        \<or> (getProp budget ''deadlineAt'' \<noteq> JUndef \<and> \<not> canonicalInstant (getProp budget ''deadlineAt''))
     then Inl PLAN_VALIDATOR_OPTIONS_INVALID
     else Inr \<lparr>eb_maxTurns = the_nat (getProp budget ''maxTurns''),
       eb_maxToolCalls = the_nat (getProp budget ''maxToolCalls''),
       eb_maxTokens = map_option the_nat (optional (getProp budget ''maxTokens'')),
       eb_maxChildRuns = the_nat (getProp budget ''maxChildRuns''),
       eb_maxParallelChildren = the_nat (getProp budget ''maxParallelChildren''),
       eb_maxDepth = the_nat (getProp budget ''maxDepth''),
       eb_deadlineAt = map_option the_string (optional (getProp budget ''deadlineAt''))\<rparr>)"

definition parseAllowedCriterionKinds :: "js_value \<Rightarrow> string list admission" where
  "parseAllowedCriterionKinds input =
     (let kinds = [''schema'', ''file'', ''digest'', ''command'', ''check'', ''rule'', ''semantic''] in
      if input = JUndef then Inr kinds
      else if \<not> is_array input \<or> length (the_array input) < 1 \<or> length kinds < length (the_array input)
        \<or> list_ex (\<lambda>kind. \<not> is_string kind \<or> the_string kind \<notin> set kinds) (the_array input)
      then Inl PLAN_VALIDATOR_OPTIONS_INVALID
      else andThen (admissionUnique (the_array input) PLAN_VALIDATOR_OPTIONS_INVALID) (\<lambda>_.
        Inr (map the_string (the_array input))))"

text \<open>The constructor's check of its options; the function-valued \<open>createId\<close> is not a part of the value.\<close>

definition validateOptions :: "js_value \<Rightarrow> validator_options admission" where
  "validateOptions input =
     (if \<not> is_record input then Inl PLAN_VALIDATOR_OPTIONS_INVALID
      else andThen (proposalRecord input [''parentBudget'', ''defaultStepBudget'', ''accessGrant'', ''allowedCapabilities'']
        [''allowedCriterionKinds'', ''createId'']) (\<lambda>value.
      if getProp value ''createId'' \<noteq> JUndef then Inl PLAN_VALIDATOR_OPTIONS_INVALID
      else
        andThen (validateParentBudget (getProp value ''parentBudget'')) (\<lambda>parentBudget.
        andThen (parseStepBudget (getProp value ''defaultStepBudget'')) (\<lambda>defaultStepBudget.
        andThen (parseAccess (getProp value ''accessGrant'')) (\<lambda>accessGrant.
        andThen (stringList (getProp value ''allowedCapabilities'') MAX_CAPABILITIES True) (\<lambda>allowedCapabilities.
        andThen (parseAllowedCriterionKinds (getProp value ''allowedCriterionKinds'')) (\<lambda>allowedCriterionKinds.
        andThen (admitBudget defaultStepBudget empty_budget parentBudget) (\<lambda>_.
        Inr \<lparr>vo_parentBudget = parentBudget, vo_defaultStepBudget = defaultStepBudget, vo_accessGrant = accessGrant,
          vo_allowedCapabilities = allowedCapabilities, vo_allowedCriterionKinds = allowedCriterionKinds\<rparr>))))))))"

subsection \<open>The validator\<close>

definition criterion_object :: "(string \<Rightarrow> string \<Rightarrow> string) \<Rightarrow> string \<Rightarrow> nat \<Rightarrow> criterion_proposal \<Rightarrow> js_value" where
  "criterion_object createId key index criterion =
     JObj ([(''criterionId'', JStr (createId ''criterion'' (key @ '':'' @ nat_to_string (index + 1)))),
       (''kind'', cp_kind criterion), (''description'', JStr (cp_description criterion))]
       @ opt_prop ''ref'' JStr (cp_ref criterion) @ opt_prop ''expectedDigest'' JStr (cp_expectedDigest criterion))"

definition admit_step :: "validator_options \<Rightarrow> (string \<Rightarrow> string \<Rightarrow> string) \<Rightarrow> parsed_step \<Rightarrow> js_value admission" where
  "admit_step options createId step =
     andThen (admitAccess (st_access step) (vo_accessGrant options)) (\<lambda>access.
     andThen (admitCapabilities (st_capabilities step) (vo_allowedCapabilities options)) (\<lambda>capabilities.
     andThen (admitCriteria (st_criteria step) (vo_allowedCriterionKinds options)) (\<lambda>criteria.
     andThen (admitBudget (st_budget step) (vo_defaultStepBudget options) (vo_parentBudget options)) (\<lambda>budget.
     Inr (JObj [(''stepId'', JStr (createId ''step'' (st_key step))), (''title'', JStr (st_title step)),
       (''order'', jnat (st_order step)), (''state'', JStr ''pending''),
       (''dependencies'', jstrs (map (createId ''step'') (st_dependencies step))), (''access'', access_json access),
       (''capabilities'', jstrs capabilities), (''conflictKeys'', jstrs (st_conflictKeys step)),
       (''criteria'', JArr (map (\<lambda>(index, criterion). criterion_object createId (st_key step) index criterion)
          (enumerate 0 criteria))),
       (''budget'', execution_budget_json budget), (''maxAttempts'', jnat (st_maxAttempts step)),
       (''attemptIds'', JArr [])])))))"

definition graph_result :: "'a plan_result \<Rightarrow> 'a admission" where
  "graph_result r = (case r of Inl e \<Rightarrow> Inl (Graph_error e) | Inr x \<Rightarrow> Inr x)"

definition admit_plan :: "validator_options \<Rightarrow> (string \<Rightarrow> string \<Rightarrow> string) \<Rightarrow> js_value \<Rightarrow> plan_graph admission" where
  "admit_plan options createId input =
     andThen (parseProposal input) (\<lambda>proposal.
     if eb_maxChildRuns (vo_parentBudget options) < sum_list (map st_maxAttempts (pp_steps proposal))
     then Inl PLAN_PROPOSAL_CHILD_BUDGET_EXCEEDED
     else
       andThen (mapR (admit_step options createId) (pp_steps proposal)) (\<lambda>steps.
       graph_result (validatePlanGraphV1 (JObj [(''schemaVersion'', jnat 1), (''planId'', JStr (createId ''plan'' ''root'')),
         (''revision'', jnat 1), (''objective'', JStr (pp_objective proposal)), (''state'', JStr ''draft''),
         (''steps'', JArr steps), (''attempts'', JArr [])]))))"

lemma admissionUnique_return_iff [result_iff]: "admissionUnique xs code = Inr u \<longleftrightarrow> distinct xs"
  by (auto simp: admissionUnique_def result_iff card_distinct distinct_card)

lemma graph_result_return_iff [result_iff]: "graph_result r = Inr x \<longleftrightarrow> r = Inr x"
  by (cases r) (auto simp: graph_result_def)

subsection \<open>What admission guarantees for one step\<close>

definition budget_within :: "execution_budget \<Rightarrow> execution_budget \<Rightarrow> bool" where
  "budget_within b parent \<longleftrightarrow> eb_maxTurns b \<le> eb_maxTurns parent \<and> eb_maxToolCalls b \<le> eb_maxToolCalls parent
     \<and> (\<forall>n. eb_maxTokens b = Some n \<longrightarrow> (\<exists>m. eb_maxTokens parent = Some m \<and> n \<le> m))
     \<and> eb_maxChildRuns b = 0 \<and> eb_maxParallelChildren b = 0 \<and> eb_maxDepth b = 0
     \<and> (\<forall>p. eb_deadlineAt parent = Some p \<longrightarrow> (\<exists>d. eb_deadlineAt b = Some d \<and> d \<le> p))"

definition access_within :: "step_access \<Rightarrow> step_access \<Rightarrow> bool" where
  "access_within a grant \<longleftrightarrow> authority (sa_mode a) \<le> authority (sa_mode grant)
     \<and> list_all (\<lambda>path. list_ex (isPlanPathWithinGrantV1 path) (sa_paths grant)) (sa_paths a)"

definition step_within :: "validator_options \<Rightarrow> plan_step \<Rightarrow> bool" where
  "step_within options s \<longleftrightarrow> budget_within (ps_budget s) (vo_parentBudget options)
     \<and> access_within (ps_access s) (vo_accessGrant options)
     \<and> set (ps_capabilities s) \<subseteq> set (vo_allowedCapabilities options)
     \<and> (\<forall>c \<in> set (ps_criteria s). name_in CRITERION_KINDS (sc_kind c) \<in> set (vo_allowedCriterionKinds options))"

lemma admitBudget_within:
  assumes "admitBudget r d p = Inr b" shows "budget_within b p"
proof -
  let ?tokens = "opt_else (bp_maxTokens r) (bp_maxTokens d)"
  let ?deadline = "opt_else (opt_else (bp_deadlineAt r) (bp_deadlineAt d)) (eb_deadlineAt p)"
  from assms have "eb_maxTurns b \<le> eb_maxTurns p" "eb_maxToolCalls b \<le> eb_maxToolCalls p"
    and tokens: "\<not> (case ?tokens of None \<Rightarrow> False | Some n \<Rightarrow> (case eb_maxTokens p of None \<Rightarrow> True | Some m \<Rightarrow> m < n))"
    and deadline: "\<not> (case (?deadline, eb_deadlineAt p) of (Some d, Some p) \<Rightarrow> p < d | _ \<Rightarrow> False)"
    and b: "eb_maxTokens b = ?tokens" "eb_deadlineAt b = ?deadline" "eb_maxChildRuns b = 0"
      "eb_maxParallelChildren b = 0" "eb_maxDepth b = 0"
    unfolding admitBudget_def Let_def if_error_iff de_Morgan_disj not_less by auto
  moreover have "\<exists>m. eb_maxTokens p = Some m \<and> n \<le> m" if "eb_maxTokens b = Some n" for n
    using tokens that b(1) by (auto split: option.splits)
  moreover have "\<exists>d. eb_deadlineAt b = Some d \<and> d \<le> q" if "eb_deadlineAt p = Some q" for q
    using deadline that b(2) by (cases ?deadline) (auto simp: opt_else_def not_less split: option.splits)
  ultimately show ?thesis by (simp add: budget_within_def)
qed

lemma admitAccess_within: "admitAccess r g = Inr a \<Longrightarrow> access_within a g \<and> a = r"
  by (auto simp: admitAccess_def access_within_def list_all_iff list_ex_iff split: if_splits)

lemma name_in_member_of: "member_of table v = Some x \<Longrightarrow> distinct (map snd table) \<Longrightarrow> v = JStr (name_in table x)"
proof -
  assume "member_of table v = Some x" and d: "distinct (map snd table)"
  then obtain s where v: "v = JStr s" "(s, x) \<in> set table"
    by (cases v) (auto simp: member_of.simps dest: map_of_SomeD)
  from d have "(s, x) \<in> set table \<Longrightarrow> name_in table x = s"
  proof (induction table)
    case (Cons e table)
    then show ?case by (cases e) force
  qed simp
  with v show ?thesis by simp
qed

lemma criterion_kind_read:
  "validateCriterion (JObj ps) = Inr c \<Longrightarrow> member_of CRITERION_KINDS (getProp ps ''kind'') = Some (sc_kind c)"
  unfolding validateCriterion_def andThen_return_iff if_error_iff exactRecord_return_iff by auto

lemma criteria_allowed:
  assumes "admitCriteria cs allowed = Inr cs'" and "mapR validateCriterion
      (map (\<lambda>(index, criterion). criterion_object createId key index criterion) (enumerate k cs')) = Inr out"
  shows "\<forall>c \<in> set out. name_in CRITERION_KINDS (sc_kind c) \<in> set allowed"
proof
  fix c assume "c \<in> set out"
  with assms(2) obtain i cr where cr: "(i, cr) \<in> set (enumerate k cs')"
    and c: "validateCriterion (criterion_object createId key i cr) = Inr c"
    by (auto elim!: mapR_memberE)
  have "cr \<in> set cs" using cr assms(1)
    by (auto simp: admitCriteria_def in_set_enumerate_eq split: if_splits)
  then obtain s where s: "cp_kind cr = JStr s" "s \<in> set allowed"
    using assms(1) by (auto simp: admitCriteria_def list_ex_iff split: if_splits)
  have "member_of CRITERION_KINDS (JStr s) = Some (sc_kind c)"
    using criterion_kind_read[OF c[unfolded criterion_object_def]] s(1) by (simp add: record_simps)
  then have "JStr s = JStr (name_in CRITERION_KINDS (sc_kind c))"
    by (rule name_in_member_of) (simp add: CRITERION_KINDS_def)
  then show "name_in CRITERION_KINDS (sc_kind c) \<in> set allowed" using s(2) by simp
qed

definition admitted_as :: "validator_options \<Rightarrow> (string \<Rightarrow> string \<Rightarrow> string) \<Rightarrow> parsed_step \<Rightarrow> plan_step \<Rightarrow> bool" where
  "admitted_as options createId st s \<longleftrightarrow> ps_stepId s = createId ''step'' (st_key st)
     \<and> ps_dependencies s = map (createId ''step'') (st_dependencies st) \<and> ps_maxAttempts s = st_maxAttempts st
     \<and> ps_state s = S_pending \<and> ps_attemptIds s = [] \<and> ps_order s = st_order st \<and> ps_access s = st_access st
     \<and> step_within options s"

lemma admit_step_validated:
  assumes "admit_step options createId st = Inr j" "validatePlanStepV1 j = Inr s"
  shows "admitted_as options createId st s"
proof -
  from assms(1) obtain caps crits budget where
    access: "admitAccess (st_access st) (vo_accessGrant options) = Inr (st_access st)"
      "access_within (st_access st) (vo_accessGrant options)"
    and caps: "admitCapabilities (st_capabilities st) (vo_allowedCapabilities options) = Inr caps"
    and crits: "admitCriteria (st_criteria st) (vo_allowedCriterionKinds options) = Inr crits"
    and budget: "admitBudget (st_budget st) (vo_defaultStepBudget options) (vo_parentBudget options) = Inr budget"
    and j: "j = JObj [(''stepId'', JStr (createId ''step'' (st_key st))), (''title'', JStr (st_title st)),
       (''order'', jnat (st_order st)), (''state'', JStr ''pending''),
       (''dependencies'', jstrs (map (createId ''step'') (st_dependencies st))), (''access'', access_json (st_access st)),
       (''capabilities'', jstrs caps), (''conflictKeys'', jstrs (st_conflictKeys st)),
       (''criteria'', JArr (map (\<lambda>(index, criterion). criterion_object createId (st_key st) index criterion)
          (enumerate 0 crits))),
       (''budget'', execution_budget_json budget), (''maxAttempts'', jnat (st_maxAttempts st)),
       (''attemptIds'', JArr [])]"
    unfolding admit_step_def andThen_return_iff by (auto dest: admitAccess_within)
  have subset: "set caps \<subseteq> set (vo_allowedCapabilities options)"
    using caps by (auto simp: admitCapabilities_def list_ex_iff split: if_splits)
  from assms(2) show ?thesis
  proof (rule step_returnE)
    fix step deps cs keys ids ac criteria b
    assume v: "j = JObj step"
      and l: "idList (getProp step ''dependencies'') MAX_DEPENDENCIES = Inr deps"
        "idList (getProp step ''capabilities'') MAX_CAPABILITIES = Inr cs"
        "idList (getProp step ''attemptIds'') 16 = Inr ids"
      and p: "validateAccess (getProp step ''access'') = Inr ac"
        "mapR validateCriterion (the_array (getProp step ''criteria'')) = Inr criteria"
        "validateBudget (getProp step ''budget'') = Inr b"
      and s: "s = \<lparr>ps_stepId = the_string (getProp step ''stepId''), ps_title = the_string (getProp step ''title''),
           ps_order = the_nat (getProp step ''order''),
           ps_state = the (member_of STEP_STATES (getProp step ''state'')),
           ps_dependencies = deps, ps_access = ac, ps_capabilities = cs,
           ps_conflictKeys = keys, ps_criteria = criteria, ps_budget = b,
           ps_maxAttempts = the_nat (getProp step ''maxAttempts''), ps_attemptIds = ids\<rparr>"
    note step = v[unfolded j, symmetric, unfolded js_value.inject]
    have "deps = map (createId ''step'') (st_dependencies st)" "cs = caps"
      using l by (auto simp: step record_simps dest!: idList_same)
    moreover have "ids = []" using l(3) idList_same[of "[]"] by (simp add: step record_simps jstrs_def)
    moreover have "ac = st_access st" "b = budget"
      using p(1,3) by (auto simp: step record_simps dest!: access_same step_budget_same)
    moreover have "\<forall>c \<in> set criteria. name_in CRITERION_KINDS (sc_kind c) \<in> set (vo_allowedCriterionKinds options)"
      using criteria_allowed[OF crits] p(2) by (auto simp: step record_simps)
    moreover have "member_of STEP_STATES (JStr ''pending'') = Some S_pending"
      by (simp add: member_of.simps STEP_STATES_def)
    ultimately show "admitted_as options createId st s"
      using access(2) subset admitBudget_within[OF budget]
      by (simp add: admitted_as_def step_within_def s step record_simps)
  qed
qed

subsection \<open>Acyclicity survives the renaming to runtime ids\<close>

lemma acyclic_renamed:
  assumes "acyclic r" "inj_on f A" "r \<subseteq> A \<times> A"
  shows "acyclic (map_prod f f ` r)"
proof -
  have lift: "\<exists>x y. a = f x \<and> b = f y \<and> (x, y) \<in> r\<^sup>+" if "(a, b) \<in> (map_prod f f ` r)\<^sup>+" for a b
    using that
  proof (induction rule: trancl_induct)
    case (step b c)
    then obtain x y u v where xy: "a = f x" "b = f y" "(x, y) \<in> r\<^sup>+" "b = f u" "c = f v" "(u, v) \<in> r"
      by auto
    have "y \<in> A" using xy(3) trancl_subset_Sigma[OF assms(3)] by auto
    moreover have "u \<in> A" using xy(6) assms(3) by auto
    ultimately have "y = u" using assms(2) xy(2,4) by (metis inj_onD)
    then have "(x, v) \<in> r\<^sup>+" using xy by (simp add: trancl_into_trancl)
    then show ?case using xy by blast
  qed auto
  show ?thesis unfolding acyclic_def
  proof (intro allI notI)
    fix a assume "(a, a) \<in> (map_prod f f ` r)\<^sup>+"
    from lift[OF this] obtain x y where xy: "f x = f y" "(x, y) \<in> r\<^sup>+" by auto
    then have "x \<in> A" "y \<in> A" using trancl_subset_Sigma[OF assms(3)] by auto
    then have "x = y" using assms(2) xy(1) by (metis inj_onD)
    then show False using xy(2) assms(1) by (simp add: acyclic_def)
  qed
qed

lemma check_dependencies_return: "check_dependencies keys key ds = Inr u \<longleftrightarrow> set ds \<subseteq> set keys \<and> key \<notin> set ds"
  by (induction ds) auto

lemma mapR_check_dependencies:
  assumes "mapR (\<lambda>s. check_dependencies keys (st_key s) (st_dependencies s)) steps = Inr us" "s \<in> set steps"
  shows "set (st_dependencies s) \<subseteq> set keys \<and> st_key s \<notin> set (st_dependencies s)"
  using assms by (induction steps arbitrary: us) (auto simp: andThen_return_iff check_dependencies_return)

lemma parseProposal_sound:
  assumes "parseProposal v = Inr p"
  shows "distinct (map st_key (pp_steps p))"
    "\<forall>s \<in> set (pp_steps p). set (st_dependencies s) \<subseteq> set (map st_key (pp_steps p))"
    "acyclic (dep_rel (step_deps (pp_steps p)))"
proof -
  from assms obtain us where d: "distinct (map st_key (pp_steps p))"
    and c: "mapR (\<lambda>s. check_dependencies (map st_key (pp_steps p)) (st_key s) (st_dependencies s)) (pp_steps p) = Inr us"
    and a: "assertAcyclicSteps (pp_steps p) = Inr ()"
    unfolding parseProposal_def Let_def if_error_iff andThen_return_iff admissionUnique_return_iff by auto
  show "distinct (map st_key (pp_steps p))" by (rule d)
  show "\<forall>s \<in> set (pp_steps p). set (st_dependencies s) \<subseteq> set (map st_key (pp_steps p))"
    using mapR_check_dependencies[OF c] by blast
  have "fst ` set (step_deps (pp_steps p)) \<subseteq> set (map st_key (pp_steps p))" by (auto simp: step_deps_def)
  then show "acyclic (dep_rel (step_deps (pp_steps p)))"
    using a dfs_ok_iff[of "step_deps (pp_steps p)" "map st_key (pp_steps p)"]
    by (simp add: assertAcyclicSteps_def require_return_iff)
qed

lemma step_deps_rel:
  assumes "distinct (map st_key steps)"
  shows "dep_rel (step_deps steps) = {(d, k). \<exists>s \<in> set steps. st_key s = k \<and> d \<in> set (st_dependencies s)}"
proof -
  have get: "map_get (step_deps steps) (st_key s) [] = st_dependencies s" if "s \<in> set steps" for s
    using map_of_map_pair[OF assms that, of st_dependencies] by (simp add: map_get_def step_deps_def)
  have none: "map_get (step_deps steps) k [] = []" if "k \<notin> st_key ` set steps" for k
    using that map_of_map_pair_dom[of st_key st_dependencies steps k] by (simp add: map_get_def step_deps_def)
  have "(d, k) \<in> dep_rel (step_deps steps) \<longleftrightarrow> (\<exists>s \<in> set steps. st_key s = k \<and> d \<in> set (st_dependencies s))" for d k
  proof (cases "k \<in> st_key ` set steps")
    case True
    then obtain s where s: "s \<in> set steps" "k = st_key s" by auto
    have "t = s" if "t \<in> set steps" "st_key t = k" for t
      using assms s that by (auto simp: distinct_map dest: inj_onD)
    then show ?thesis using get[OF s(1)] s by (auto simp: dep_rel_def)
  next
    case False
    then show ?thesis using none by (auto simp: dep_rel_def)
  qed
  then show ?thesis by auto
qed

lemma list_all2_right_member: "list_all2 P xs ys \<Longrightarrow> y \<in> set ys \<Longrightarrow> \<exists>x \<in> set xs. P x y"
  by (induction rule: list_all2_induct) auto

lemma mapR_compose:
  assumes "mapR f xs = Inr ys" "mapR g ys = Inr zs" "\<And>x y z. f x = Inr y \<Longrightarrow> g y = Inr z \<Longrightarrow> R x z"
  shows "list_all2 R xs zs"
  using assms(1,2) by (induction xs arbitrary: ys zs) (auto simp: andThen_return_iff intro: assms(3))

lemma admit_plan_returnE:
  assumes "admit_plan options createId v = Inr g"
  obtains p where "parseProposal v = Inr p"
    "sum_list (map st_maxAttempts (pp_steps p)) \<le> eb_maxChildRuns (vo_parentBudget options)"
    "list_all2 (admitted_as options createId) (pp_steps p) (pg_steps g)"
    "valid_plan_graph g" "pg_state g = P_draft" "pg_revision g = 1" "pg_attempts g = []"
    "pg_objective g = pp_objective p" "pg_planId g = createId ''plan'' ''root''"
proof -
  from assms obtain p js where p: "parseProposal v = Inr p"
      "sum_list (map st_maxAttempts (pp_steps p)) \<le> eb_maxChildRuns (vo_parentBudget options)"
    and js: "mapR (admit_step options createId) (pp_steps p) = Inr js"
    and g: "validatePlanGraphV1 (JObj [(''schemaVersion'', jnat 1), (''planId'', JStr (createId ''plan'' ''root'')),
         (''revision'', jnat 1), (''objective'', JStr (pp_objective p)), (''state'', JStr ''draft''),
         (''steps'', JArr js), (''attempts'', JArr [])]) = Inr g"
    unfolding admit_plan_def andThen_return_iff if_error_iff graph_result_return_iff not_less by blast
  from g have steps: "mapR validatePlanStepV1 js = Inr (pg_steps g)" and "pg_state g = P_draft" "pg_revision g = 1"
      "pg_attempts g = []" "pg_objective g = pp_objective p" "pg_planId g = createId ''plan'' ''root''"
    unfolding validatePlanGraphV1_def if_error_iff andThen_return_iff exactRecord_return_iff
    by (auto simp: record_simps member_of.simps PLAN_STATES_def)
  moreover have "list_all2 (admitted_as options createId) (pp_steps p) (pg_steps g)"
    using mapR_compose[OF js steps] admit_step_validated by blast
  ultimately show thesis using that[OF p _ plan_graph_sound[OF g]] by blast
qed

lemma admitted_edges:
  assumes "list_all2 (admitted_as options createId) ps ss" "distinct (map st_key ps)"
  shows "set (dependency_edges ss) = map_prod (createId ''step'') (createId ''step'') ` dep_rel (step_deps ps)"
proof -
  have "set (dependency_edges ss)
      = {(createId ''step'' d, createId ''step'' (st_key p)) | d p. p \<in> set ps \<and> d \<in> set (st_dependencies p)}"
    using assms(1)
  proof (induction rule: list_all2_induct)
    case (Cons p ps s ss)
    then show ?case by (auto simp: dependency_edges_def admitted_as_def)
  qed (simp add: dependency_edges_def)
  then show ?thesis unfolding step_deps_rel[OF assms(2)] by auto
qed

lemma admitted_ids:
  assumes "list_all2 (admitted_as options createId) ps ss"
  shows "map ps_stepId ss = map (createId ''step'') (map st_key ps)" "map ps_maxAttempts ss = map st_maxAttempts ps"
  using assms by (induction rule: list_all2_induct) (auto simp: admitted_as_def)

lemma admitted_acyclic:
  assumes "admit_plan options createId v = Inr g"
  shows "acyclic (set (dependency_edges (pg_steps g)))" "dependencies_known (pg_steps g)"
proof -
  from assms obtain p where p: "parseProposal v = Inr p" and g: "valid_plan_graph g"
    and steps: "list_all2 (admitted_as options createId) (pp_steps p) (pg_steps g)"
    by (elim admit_plan_returnE)
  note sound = parseProposal_sound[OF p]
  have "distinct (map (createId ''step'') (map st_key (pp_steps p)))"
    using g admitted_ids[OF steps] by (simp add: valid_plan_graph_def)
  then have inj: "inj_on (createId ''step'') (set (map st_key (pp_steps p)))" unfolding distinct_map by simp
  have "dep_rel (step_deps (pp_steps p)) \<subseteq> set (map st_key (pp_steps p)) \<times> set (map st_key (pp_steps p))"
    using sound(2) by (auto simp: step_deps_rel[OF sound(1)])
  from acyclic_renamed[OF sound(3) inj this] show "acyclic (set (dependency_edges (pg_steps g)))"
    by (simp add: admitted_edges[OF steps sound(1)])
  have "set (ps_dependencies s) \<subseteq> set (map ps_stepId (pg_steps g))" if "s \<in> set (pg_steps g)" for s
  proof -
    from list_all2_right_member[OF steps that] obtain q where "q \<in> set (pp_steps p)" "admitted_as options createId q s" by blast
    then show ?thesis using sound(2) admitted_ids(1)[OF steps] by (auto simp: admitted_as_def)
  qed
  then show "dependencies_known (pg_steps g)" by (auto simp: dependencies_known_def list_all_iff)
qed

subsection \<open>Confinement of paths\<close>

lemma split_on_append: "split_on d (a @ d # b) = split_on d a @ split_on d b"
proof (induction a)
  case (Cons c a)
  then show ?case using split_on_nonempty[of d a] by (auto split: list.splits)
qed simp

lemma within_components:
  assumes "isPlanPathWithinGrantV1 path grant" "grant \<noteq> ''.''"
  shows "\<exists>rest. split_on (CHR ''/'') path = split_on (CHR ''/'') grant @ rest"
proof (cases "path = grant")
  case False
  then have "take (length (grant @ ''/'')) path = grant @ ''/''"
    using assms by (simp add: isPlanPathWithinGrantV1_def starts_with_def)
  then have "path = grant @ CHR ''/'' # drop (length (grant @ ''/'')) path"
    by (metis append.assoc append_Cons append_Nil append_take_drop_id)
  then show ?thesis using split_on_append by metis
qed simp

lemma portable_components:
  assumes "isPortablePlanPathV1 path" "path \<noteq> ''.''"
  shows "''..'' \<notin> set (split_on (CHR ''/'') path) \<and> [] \<notin> set (split_on (CHR ''/'') path) \<and> \<not> starts_with ''/'' path"
  using assms by (auto simp: isPortablePlanPathV1_def list_all_iff portable_component_def split: if_splits)

lemma parseAccess_portable:
  assumes "parseAccess v = Inr a" shows "list_all isPortablePlanPathV1 (sa_paths a)"
proof -
  have "mapR (\<lambda>path. if \<not> is_string path \<or> \<not> isPortablePlanPathV1 (the_string path)
      then Inl PLAN_PROPOSAL_ACCESS_INVALID else Inr (the_string path)) xs = Inr ys
    \<Longrightarrow> list_all isPortablePlanPathV1 ys" for xs ys
    by (erule mapR_list_all) (auto split: if_splits)
  then show ?thesis using assms
    by (auto simp: parseAccess_def andThen_return_iff split: option.splits if_splits)
qed

lemma parseStep_portable: "parseStep v k = Inr s \<Longrightarrow> list_all isPortablePlanPathV1 (sa_paths (st_access s))"
  unfolding parseStep_def andThen_return_iff if_error_iff
  by (auto split: if_splits dest!: parseAccess_portable)

lemma proposal_steps_portable:
  assumes "parseProposal v = Inr p" "s \<in> set (pp_steps p)"
  shows "list_all isPortablePlanPathV1 (sa_paths (st_access s))"
proof -
  from assms(1) obtain vs where "mapR (\<lambda>(order, candidate). parseStep candidate order) vs = Inr (pp_steps p)"
    unfolding parseProposal_def Let_def if_error_iff andThen_return_iff
    by - (elim exE conjE, drule sum.inject(2)[THEN iffD1], hypsubst, unfold parsed_proposal.simps, blast)
  then show ?thesis using assms(2) by (auto elim!: mapR_memberE dest: parseStep_portable)
qed

end
