(* ===== verification/PlanProperties.thy ===== *)
theory PlanProperties
  imports PlanAdmission
begin

section \<open>Properties of Plans: admission, graphs, ready steps\<close>

text \<open>
  The claims about \<open>plan.ts\<close> and \<open>planValidator.ts\<close>, each with an instance on a concrete
  proposal where it has hypotheses.
\<close>

subsection \<open>Sample proposal\<close>

definition sample_step_proposal :: "string \<Rightarrow> string list \<Rightarrow> js_value" where
  "sample_step_proposal key deps = JObj [(''key'', JStr key), (''title'', JStr ''do it''),
     (''dependencies'', jstrs deps), (''access'', JObj [(''mode'', JStr ''read_only''), (''paths'', jstrs [''src/app''])]),
     (''capabilities'', jstrs [''fs.read'']),
     (''criteria'', JArr [JObj [(''kind'', JStr ''check''), (''description'', JStr ''ok'')]]),
     (''budget'', JObj [(''maxTurns'', jnat 3)]), (''maxAttempts'', jnat 2)]"

definition sample_proposal :: js_value where
  "sample_proposal = JObj [(''objective'', JStr ''goal''),
     (''steps'', JArr [sample_step_proposal ''a'' [], sample_step_proposal ''b'' [''a'']])]"

definition sample_options :: validator_options where
  "sample_options = \<lparr>vo_parentBudget = \<lparr>eb_maxTurns = 10, eb_maxToolCalls = 10, eb_maxTokens = None,
       eb_maxChildRuns = 4, eb_maxParallelChildren = 2, eb_maxDepth = 1, eb_deadlineAt = None\<rparr>,
     vo_defaultStepBudget = empty_budget, vo_accessGrant = \<lparr>sa_mode = Workspace_write_access, sa_paths = [''src'']\<rparr>,
     vo_allowedCapabilities = [''fs.read''], vo_allowedCriterionKinds = [''check'']\<rparr>"

definition sample_ids :: "string \<Rightarrow> string \<Rightarrow> string" where
  "sample_ids kind key = kind @ ''-'' @ key"

definition sample_plan :: plan_graph where
  "sample_plan = (case admit_plan sample_options sample_ids sample_proposal of Inr g \<Rightarrow> g | Inl _ \<Rightarrow> undefined)"

lemma sample_admits: "is_ok (admit_plan sample_options sample_ids sample_proposal)"
  by code_simp

lemma sample_plan_admitted: "admit_plan sample_options sample_ids sample_proposal = Inr sample_plan"
  using sample_admits by (auto simp: sample_plan_def is_ok_iff)

lemma sample_plan_facts: "case admit_plan sample_options sample_ids sample_proposal of Inl _ \<Rightarrow> False
   | Inr g \<Rightarrow> map ps_stepId (pg_steps g) = [''step-a'', ''step-b''] \<and> map ps_dependencies (pg_steps g) = [[], [''step-a'']]
       \<and> map (sa_paths \<circ> ps_access) (pg_steps g) = [[''src/app''], [''src/app'']]
       \<and> map ps_maxAttempts (pg_steps g) = [2, 2] \<and> json_within MAX_GRAPH_BYTES (graph_json g)
       \<and> is_ok (validatePlanGraphV1 (graph_json (g\<lparr>pg_state := P_running\<rparr>)))"
  by code_simp

lemmas sample_plan_state = sample_plan_facts[unfolded sample_plan_admitted, simplified]

definition running_plan :: plan_graph where
  "running_plan = sample_plan\<lparr>pg_state := P_running\<rparr>"

lemma running_plan_valid: "validatePlanGraphV1 (graph_json running_plan) = Inr running_plan"
proof -
  have "valid_plan_graph sample_plan" using sample_plan_admitted by (elim admit_plan_returnE)
  then have "valid_plan_graph running_plan" by (simp add: valid_plan_graph_def running_plan_def)
  moreover have "json_within MAX_GRAPH_BYTES (graph_json running_plan)"
    using sample_plan_state graph_return_within by (auto simp: running_plan_def is_ok_iff)
  ultimately show ?thesis by (rule plan_graph_again)
qed

lemma sample_steps: obtains a b where "pg_steps sample_plan = [a, b]" "ps_stepId a = ''step-a''"
    "ps_stepId b = ''step-b''" "ps_dependencies a = []" "ps_dependencies b = [''step-a'']"
    "ps_state a = S_pending" "ps_state b = S_pending" "ps_attemptIds a = []" "ps_attemptIds b = []"
    "ps_maxAttempts a = 2" "ps_maxAttempts b = 2"
    "sa_paths (ps_access a) = [''src/app'']"
proof -
  obtain a b where ab: "pg_steps sample_plan = [a, b]" "ps_stepId a = ''step-a''"
    "ps_stepId b = ''step-b''" "ps_dependencies a = []" "ps_dependencies b = [''step-a'']"
    "ps_maxAttempts a = 2" "ps_maxAttempts b = 2" "sa_paths (ps_access a) = [''src/app'']"
    using sample_plan_state by (auto simp: map_eq_Cons_conv)
  obtain p :: parsed_proposal
    where "list_all2 (admitted_as sample_options sample_ids) (pp_steps p) (pg_steps sample_plan)"
    using sample_plan_admitted by (elim admit_plan_returnE) blast
  then show thesis using that ab by (auto simp: list_all2_Cons2 admitted_as_def)
qed

subsection \<open>Admission\<close>



text \<open>C11: Admitted Plans are executable graphs: step ids are distinct, every dependency names a step of the
  Plan, the dependency relation over the runtime ids is acyclic, and the Plan starts as a
  draft of pending steps without attempts.\<close>

theorem plan_admission_dag:
  assumes "admit_plan options createId input = Inr graph"
  shows "distinct (map ps_stepId (pg_steps graph)) \<and> dependencies_known (pg_steps graph)
    \<and> acyclic (set (dependency_edges (pg_steps graph)))
    \<and> pg_state graph = P_draft \<and> pg_attempts graph = []
    \<and> list_all (\<lambda>s. ps_state s = S_pending \<and> ps_attemptIds s = []) (pg_steps graph)"
proof -
  have "list_all2 (admitted_as options createId) ps ss
    \<Longrightarrow> list_all (\<lambda>s. ps_state s = S_pending \<and> ps_attemptIds s = []) ss" for ps ss
    by (induction rule: list_all2_induct) (auto simp: admitted_as_def)
  then show ?thesis
    using assms admitted_acyclic[OF assms]
    by (elim admit_plan_returnE) (simp add: valid_plan_graph_def)
qed

theorem plan_admission_dag_witness: "acyclic (set (dependency_edges (pg_steps sample_plan)))"
  using plan_admission_dag[OF sample_plan_admitted] by simp

text \<open>C12: The depth-first \<open>assertAcyclic\<close> of the proposal is a decision procedure: it passes exactly when the
  declared dependencies have no cycle.\<close>

theorem plan_acyclicity_decided:
  "assertAcyclicSteps steps
    = (if acyclic (dep_rel (step_deps steps)) then Inr () else Inl PLAN_PROPOSAL_CYCLE)"
proof -
  have "fst ` set (step_deps steps) \<subseteq> set (map st_key steps)" by (auto simp: step_deps_def)
  then show ?thesis using dfs_ok_iff[of "step_deps steps" "map st_key steps"]
    by (simp add: assertAcyclicSteps_def require_def)
qed



subsection \<open>Graphs\<close>

text \<open>\<open>validatePlanGraphV1\<close> returns only well-formed graphs and is idempotent: the object of an accepted
  graph that fits the size bound validates to the same graph.\<close>

theorem plan_graph_roundtrip:
  assumes "validatePlanGraphV1 input = Inr graph" and "json_within MAX_GRAPH_BYTES (graph_json graph)"
  shows "valid_plan_graph graph \<and> validatePlanGraphV1 (graph_json graph) = Inr graph"
  using plan_graph_sound[OF assms(1)] plan_graph_again assms(2) by blast

theorem plan_graph_roundtrip_witness:
  "valid_plan_graph running_plan \<and> validatePlanGraphV1 (graph_json running_plan) = Inr running_plan"
  using plan_graph_roundtrip[OF running_plan_valid] graph_return_within[OF running_plan_valid] by simp

text \<open>Attempts are partitioned by their steps: in a validated graph every attempt is listed by a step with
  its step id, every id a step lists is one of its own attempts, and no two attempts of a
  step share an ordinal.\<close>

theorem plan_attempts_partitioned:
  assumes "validatePlanGraphV1 input = Inr graph"
  shows "(\<forall>a. a \<in> set (pg_attempts graph) \<longrightarrow>
      (\<exists>s. s \<in> set (pg_steps graph) \<and> pa_attemptId a \<in> set (ps_attemptIds s) \<and> ps_stepId s = pa_stepId a))
    \<and> (\<forall>s. s \<in> set (pg_steps graph) \<longrightarrow> (\<exists>as. map pa_attemptId as = ps_attemptIds s
        \<and> set as \<subseteq> set (pg_attempts graph) \<and> (\<forall>a. a \<in> set as \<longrightarrow> pa_stepId a = ps_stepId s)
        \<and> distinct (map pa_ordinal as)))"
  using graph_attempts[OF plan_graph_sound[OF assms]] by blast

definition attempted_plan :: js_value where
  "attempted_plan = (case graph_json (sample_plan\<lparr>pg_state := P_running,
     pg_steps := map (\<lambda>s. if ps_stepId s = ''step-a'' then s\<lparr>ps_attemptIds := [''t1'']\<rparr> else s) (pg_steps sample_plan),
     pg_attempts := [\<lparr>pa_attemptId = ''t1'', pa_stepId = ''step-a'', pa_ordinal = 1, pa_state = T_running,
       pa_childRunId = Some ''c1'', pa_resultRef = None, pa_resultDigest = None, pa_verificationRef = None\<rparr>]\<rparr>) of v \<Rightarrow> v)"

lemma attempted_plan_valid: "case validatePlanGraphV1 attempted_plan of Inl _ \<Rightarrow> False
   | Inr g \<Rightarrow> map pa_attemptId (pg_attempts g) = [''t1'']"
  by code_simp

theorem plan_attempts_partitioned_witness:
  "\<exists>g a s. validatePlanGraphV1 attempted_plan = Inr g \<and> pa_attemptId a = ''t1'' \<and> a \<in> set (pg_attempts g)
     \<and> s \<in> set (pg_steps g) \<and> ''t1'' \<in> set (ps_attemptIds s) \<and> ps_stepId s = pa_stepId a"
proof -
  obtain g a where g: "validatePlanGraphV1 attempted_plan = Inr g" "a \<in> set (pg_attempts g)" "pa_attemptId a = ''t1''"
    using attempted_plan_valid by (auto split: sum.splits simp: map_eq_Cons_conv)
  then show ?thesis using plan_attempts_partitioned[OF g(1)] by metis
qed

subsection \<open>Ready steps\<close>

text \<open>C14: \<open>readyPlanStepIdsV1\<close> returns exactly the open steps of a running Plan (pending, an attempt left, all
  dependencies succeeded), each once and in increasing order; because orders are unique the
  answer does not depend on the host's locale comparison.\<close>

theorem plan_ready_exact:
  assumes "validatePlanGraphV1 input = Inr graph" and "pg_state graph = P_running"
    and "readyPlanStepIdsV1 locale_le input = Inr ids"
  shows "set ids = ps_stepId ` {s \<in> set (pg_steps graph). step_open (pg_steps graph) s} \<and> distinct ids
    \<and> (\<exists>steps :: plan_step list. ids = map ps_stepId steps \<and> sorted (map ps_order steps))
    \<and> readyPlanStepIdsV1 locale_le' input = Inr ids"
proof -
  let ?open = "filter (step_open (pg_steps graph)) (pg_steps graph)"
  have ids: "ids = map ps_stepId (sort_by (step_before locale_le) ?open)" by (rule ready_return[OF assms])
  have v: "distinct (map ps_stepId (pg_steps graph))" "distinct (map ps_order (pg_steps graph))"
    using plan_graph_sound[OF assms(1)] by (simp_all add: valid_plan_graph_def)
  then have d: "distinct ?open" by (auto simp: distinct_map)
  define le where "le = step_before (\<lambda>_ _. True)"
  have "sorted_wrt le (sort_by le ?open)"
    by (rule sorted_wrt_sort_by) (auto simp: le_def step_before_def)
  then have "sorted (map ps_order (sort_by le ?open))"
    unfolding sorted_map by (rule sorted_wrt_mono_rel[rotated]) (auto simp: le_def step_before_def)
  moreover have same: "sort_by (step_before l) ?open = sort_by le ?open" for l
    unfolding le_def by (rule sort_steps_locale_free[OF v(2) _ d]) auto
  ultimately have "\<exists>steps :: plan_step list. ids = map ps_stepId steps \<and> sorted (map ps_order steps)"
    using ids by - (rule exI[of _ "sort_by le ?open"], simp)
  moreover have "set ids = ps_stepId ` {s \<in> set (pg_steps graph). step_open (pg_steps graph) s}" by (simp add: ids)
  moreover have "distinct ids" using v(1) d by (auto simp: ids distinct_map inj_on_subset)
  moreover have "readyPlanStepIdsV1 locale_le' input = Inr ids"
    using assms(1,3) unfolding readyPlanStepIdsV1_def
    by (auto simp: andThen_return_iff) (use assms(2) ids same ready_return[OF assms(1,2)] in
      \<open>auto simp: readyPlanStepIdsV1_def andThen_return_iff\<close>)
  ultimately show ?thesis by blast
qed

theorem plan_ready_exact_witness:
  "\<exists>ids. readyPlanStepIdsV1 (\<lambda>_ _. True) (graph_json running_plan) = Inr ids \<and> set ids = {''step-a''}"
proof -
  obtain a b where ab: "pg_steps sample_plan = [a, b]" "ps_stepId a = ''step-a''"
    "ps_stepId b = ''step-b''" "ps_dependencies a = []" "ps_dependencies b = [''step-a'']"
    "ps_state a = S_pending" "ps_state b = S_pending" "ps_attemptIds a = []" "ps_attemptIds b = []"
    "ps_maxAttempts a = 2" "ps_maxAttempts b = 2"
    by (rule sample_steps)
  have steps: "pg_steps running_plan = [a, b]" and st: "pg_state running_plan = P_running"
    using ab(1) by (simp_all add: running_plan_def)
  have "dependencies_known (pg_steps running_plan)" by (simp add: steps dependencies_known_def ab)
  from ready_total[OF running_plan_valid this] obtain ids where
    ids: "readyPlanStepIdsV1 (\<lambda>_ _. True) (graph_json running_plan) = Inr ids" by (auto simp: is_ok_iff)
  have "{s \<in> set (pg_steps running_plan). step_open (pg_steps running_plan) s} = {a}"
    using ab by (auto simp: steps step_open_def)
  then show ?thesis using plan_ready_exact[OF running_plan_valid st ids] ids ab(2) by auto
qed



end
