(* ===== verification/ReviewPlan.thy ===== *)
theory ReviewPlan
  imports JsValue StateMachines
begin

section \<open>The review Plan contract\<close>

text \<open>
  \<open>packages/core-sdk/src/review-plan.ts\<close> and \<open>canonical-json.ts\<close>. The validators of this
  contract check \<open>unknown\<close> input field by field and return a clone of it, so the model keeps a
  review Plan as the JavaScript object it is: a record of named members. Reads are \<open>getProp\<close>,
  assignments \<open>setProp\<close>, \<open>delete\<close> is \<open>delProp\<close>.

  Inside one exported validator every failing check, a \<open>TypeError\<close> of a helper included, ends in
  the code of that validator, so the checks are Boolean functions and the exported validators
  name the error. Freezing and cloning are the identity on values. \<open>host_date\<close> decides
  \<open>Date.parse\<close> on non-canonical strings; \<open>sha256\<close> is the hexadecimal digest.
\<close>

datatype review_error = REVIEW_CRITERION_INVALID | PLAN_CREATE_INVALID | REVIEW_PLAN_PROJECTION_INVALID
  | REVIEW_PLAN_TRANSITION_INVALID | REVIEW_PLAN_EVENT_INVALID | REVIEW_PLAN_EVENT_TRANSITION_INVALID
  | CANONICAL_JSON_INVALID

type_synonym 'a review_result = "review_error + 'a"

subsection \<open>Objects\<close>

definition setProp :: "js_record \<Rightarrow> string \<Rightarrow> js_value \<Rightarrow> js_record" where
  "setProp ps k v = AList.update k v ps"

definition delProp :: "js_record \<Rightarrow> string \<Rightarrow> js_record" where
  "delProp ps k = AList.delete k ps"

text \<open>\<open>{...ps, ...qs}\<close>\<close>

definition spread :: "js_record \<Rightarrow> js_record \<Rightarrow> js_record" where
  "spread ps qs = foldl (\<lambda>acc (k, v). setProp acc k v) ps qs"

text \<open>\<open>...(value === undefined ? {} : { k: value })\<close>\<close>

definition optProp :: "string \<Rightarrow> js_value \<Rightarrow> js_record" where
  "optProp k v = (if v = JUndef then [] else [(k, v)])"

fun the_record :: "js_value \<Rightarrow> js_record" where
  "the_record (JObj ps) = ps"
| "the_record _ = []"

definition onlyKeys :: "js_record \<Rightarrow> string list \<Rightarrow> string list \<Rightarrow> bool" where
  "onlyKeys value required optionals \<longleftrightarrow> list_all (hasOwn value) required
     \<and> list_all (\<lambda>key. key \<in> set required \<or> key \<in> set optionals) (map fst value)"

subsection \<open>Scalars\<close>

definition MAX_OBJECTIVE_BYTES :: nat where "MAX_OBJECTIVE_BYTES = 16384"
definition MAX_DESCRIPTION_BYTES :: nat where "MAX_DESCRIPTION_BYTES = 8192"
definition MAX_ITEMS :: nat where "MAX_ITEMS = 128"
definition REVIEW_MAX_CRITERIA :: nat where "REVIEW_MAX_CRITERIA = 128"
definition MAX_PARAMETERS :: nat where "MAX_PARAMETERS = 64"
definition MAX_PATH_BYTES :: nat where "MAX_PATH_BYTES = 2048"
definition MAX_DURABLE_ATTEMPT_EVIDENCE_REFS :: nat where "MAX_DURABLE_ATTEMPT_EVIDENCE_REFS = 65536"
definition MAX_REVIEW_EVIDENCE_ITEMS_V1 :: nat where "MAX_REVIEW_EVIDENCE_ITEMS_V1 = 256"

definition text_within :: "js_value \<Rightarrow> nat \<Rightarrow> bool" where
  "text_within value maximumBytes \<longleftrightarrow> is_string value \<and> the_string value \<noteq> [] \<and> utf8_length (the_string value) \<le> maximumBytes"

definition enum_state :: "js_value \<Rightarrow> string list \<Rightarrow> bool" where
  "enum_state value values \<longleftrightarrow> is_string value \<and> the_string value \<in> set values"

definition boundedArray :: "js_value \<Rightarrow> nat \<Rightarrow> nat \<Rightarrow> bool" where
  "boundedArray value minimum maximum \<longleftrightarrow> is_array value \<and> minimum \<le> length (the_array value) \<and> length (the_array value) \<le> maximum"

definition stringIds :: "js_value \<Rightarrow> nat \<Rightarrow> nat \<Rightarrow> bool" where
  "stringIds value minimum maximum \<longleftrightarrow> boundedArray value minimum maximum \<and> list_all safeId (the_array value)"

definition stringListWithin :: "js_value \<Rightarrow> nat \<Rightarrow> bool" where
  "stringListWithin value maximum \<longleftrightarrow> boundedArray value 0 maximum \<and> list_all (\<lambda>entry. text_within entry 512) (the_array value)"

text \<open>A check that is only made on a member that is not \<open>undefined\<close>.\<close>

definition if_defined :: "(js_value \<Rightarrow> bool) \<Rightarrow> js_value \<Rightarrow> bool" where
  "if_defined check value \<longleftrightarrow> value = JUndef \<or> check value"

text \<open>
  The pattern of \<open>workspacePath\<close>: a drive letter, a leading separator or a \<open>..\<close> segment; the
  dot of the pattern does not match line terminators, so a \<open>..\<close> segment counts only before the
  first one. \<open>up_segments\<close> are the places where such a segment starts.
\<close>

definition separator :: "char \<Rightarrow> bool" where
  "separator c \<longleftrightarrow> c = CHR ''/'' \<or> c = CHR 92"

fun dotdot_segment :: "bool \<Rightarrow> string \<Rightarrow> bool" where
  "dotdot_segment start s = (case s of [] \<Rightarrow> False
     | c # cs \<Rightarrow>
       (start \<and> take 2 s = ''..'' \<and> (drop 2 s = [] \<or> separator (hd (drop 2 s))))
       \<or> (char_code c \<notin> {10, 13} \<and> dotdot_segment (separator c) cs))"

declare dotdot_segment.simps [simp del]

definition absolute_path :: "string \<Rightarrow> bool" where
  "absolute_path s \<longleftrightarrow> (case s of [] \<Rightarrow> False | c # cs \<Rightarrow> separator c
     \<or> (is_alnum c \<and> \<not> is_digit c \<and> cs \<noteq> [] \<and> hd cs = CHR '':''))"

definition workspacePath :: "js_value \<Rightarrow> bool" where
  "workspacePath value \<longleftrightarrow> text_within value MAX_PATH_BYTES
     \<and> \<not> (absolute_path (the_string value) \<or> dotdot_segment True (the_string value))
     \<and> list_all (\<lambda>c. char_code c \<noteq> 0) (the_string value)"

definition pathList :: "js_value \<Rightarrow> bool" where
  "pathList value \<longleftrightarrow> boundedArray value 0 64 \<and> list_all workspacePath (the_array value)"

subsection \<open>Criteria\<close>

definition validateSchemaRef :: "js_value \<Rightarrow> bool" where
  "validateSchemaRef value \<longleftrightarrow> is_record value \<and> (let r = the_record value in
     if getProp r ''kind'' = JStr ''catalog''
     then onlyKeys r [''kind'', ''schemaId'', ''schemaVersion'', ''schemaDigest''] []
       \<and> safeId (getProp r ''schemaId'') \<and> safeId (getProp r ''schemaVersion'') \<and> sha256_digest (getProp r ''schemaDigest'')
     else if getProp r ''kind'' = JStr ''artifact''
     then onlyKeys r [''kind'', ''artifactRef'', ''contentDigest''] []
       \<and> text_within (getProp r ''artifactRef'') 512 \<and> sha256_digest (getProp r ''contentDigest'')
     else False)"

definition validateFileRule :: "js_value \<Rightarrow> bool" where
  "validateFileRule value \<longleftrightarrow> is_record value \<and> (let r = the_record value in
     if getProp r ''kind'' = JStr ''exists'' then onlyKeys r [''kind''] []
     else if getProp r ''kind'' = JStr ''sha256''
     then onlyKeys r [''kind'', ''expectedDigest''] [] \<and> sha256_digest (getProp r ''expectedDigest'')
     else if getProp r ''kind'' = JStr ''registered_content_rule''
     then onlyKeys r [''kind'', ''ruleId'', ''ruleVersion'', ''ruleDigest''] []
       \<and> safeId (getProp r ''ruleId'') \<and> safeId (getProp r ''ruleVersion'') \<and> sha256_digest (getProp r ''ruleDigest'')
     else False)"

fun parameter_value :: "js_value \<Rightarrow> bool" where
  "parameter_value (JStr s) = True"
| "parameter_value (JBool b) = True"
| "parameter_value (JNum n) = (case n of NaN \<Rightarrow> False | Infinite _ \<Rightarrow> False | _ \<Rightarrow> True)"
| "parameter_value _ = False"

definition validateParameters :: "js_value \<Rightarrow> bool" where
  "validateParameters value \<longleftrightarrow> is_record value \<and> length (the_record value) \<le> MAX_PARAMETERS
     \<and> list_all (\<lambda>(key, v). safe_id_string key \<and> parameter_value v) (the_record value)"

definition validateMechanicalCheck :: "js_value \<Rightarrow> bool" where
  "validateMechanicalCheck value \<longleftrightarrow> is_record value \<and> (let r = the_record value; f = getProp r in
     case f ''checker'' of JStr checker \<Rightarrow>
       if checker = ''registered_check''
       then onlyKeys r [''checker'', ''checkerId'', ''checkerVersion'', ''checkerDigest'', ''expectedExitCodes''] [''parameters'']
         \<and> safeId (f ''checkerId'') \<and> safeId (f ''checkerVersion'') \<and> sha256_digest (f ''checkerDigest'')
         \<and> boundedArray (f ''expectedExitCodes'') 1 32 \<and> list_all isSafeInteger (the_array (f ''expectedExitCodes''))
         \<and> if_defined validateParameters (f ''parameters'')
       else if checker = ''json_schema''
       then onlyKeys r [''checker'', ''evidenceRole'', ''schemaRef''] [] \<and> safeId (f ''evidenceRole'') \<and> validateSchemaRef (f ''schemaRef'')
       else if checker = ''file_rule''
       then onlyKeys r [''checker'', ''path'', ''rule''] [] \<and> workspacePath (f ''path'') \<and> validateFileRule (f ''rule'')
       else if checker = ''content_digest''
       then onlyKeys r [''checker'', ''expectedDigest''] [''evidenceRole''] \<and> if_defined safeId (f ''evidenceRole'')
         \<and> sha256_digest (f ''expectedDigest'')
       else if checker = ''diff_boundary''
       then onlyKeys r [''checker'', ''allowedPathPrefixes'', ''deniedPathPrefixes''] []
         \<and> pathList (f ''allowedPathPrefixes'') \<and> pathList (f ''deniedPathPrefixes'')
       else if checker = ''tool_receipt''
       then onlyKeys r [''checker'', ''expectedState''] [''evidenceRole'', ''toolName''] \<and> f ''expectedState'' = JStr ''succeeded''
         \<and> if_defined safeId (f ''evidenceRole'') \<and> if_defined safeId (f ''toolName'')
       else if checker = ''effect_receipt''
       then onlyKeys r [''checker'', ''expectedState''] [''evidenceRole'', ''effectKind''] \<and> f ''expectedState'' = JStr ''committed''
         \<and> if_defined safeId (f ''evidenceRole'')
         \<and> if_defined (\<lambda>v. enum_state v [''workspace_write'', ''external_idempotent'', ''external_non_idempotent'']) (f ''effectKind'')
       else if checker = ''artifact_or_child_result''
       then onlyKeys r [''checker'', ''source''] [''evidenceRole''] \<and> if_defined safeId (f ''evidenceRole'')
         \<and> enum_state (f ''source'') [''artifact'', ''child_result'']
       else False
     | _ \<Rightarrow> False)"

definition criterion_ok :: "js_value \<Rightarrow> bool" where
  "criterion_ok value \<longleftrightarrow> is_record value \<and> (let r = the_record value; f = getProp r;
       common = [''id'', ''description'', ''kind'', ''required''] in
     (if f ''kind'' = JStr ''mechanical'' then onlyKeys r (common @ [''check'']) [''reviewRequired'']
      else if f ''kind'' = JStr ''semantic'' then onlyKeys r common [''reviewRequired''] else False)
     \<and> safeId (f ''id'') \<and> text_within (f ''description'') MAX_DESCRIPTION_BYTES \<and> is_bool (f ''required'')
     \<and> if_defined is_bool (f ''reviewRequired'')
     \<and> (if f ''kind'' = JStr ''mechanical'' then validateMechanicalCheck (f ''check'') else True))"

definition validateReviewCriterionV1 :: "js_value \<Rightarrow> js_value review_result" where
  "validateReviewCriterionV1 value = (if criterion_ok value then Inr value else Inl REVIEW_CRITERION_INVALID)"

subsection \<open>Creation input\<close>

definition validateItemDefinition :: "js_value \<Rightarrow> bool" where
  "validateItemDefinition value \<longleftrightarrow> is_record value \<and> (let r = the_record value in
     onlyKeys r [''id'', ''title'', ''criterionIds'', ''reviewCheckpoint''] []
     \<and> safeId (getProp r ''id'') \<and> text_within (getProp r ''title'') MAX_DESCRIPTION_BYTES
     \<and> stringIds (getProp r ''criterionIds'') 1 REVIEW_MAX_CRITERIA \<and> distinct (the_array (getProp r ''criterionIds''))
     \<and> is_bool (getProp r ''reviewCheckpoint''))"

definition validateReviewPolicyV1 :: "js_value \<Rightarrow> bool" where
  "validateReviewPolicyV1 value \<longleftrightarrow> is_record value \<and> (let r = the_record value;
       limits = [''maxRepairAttemptsPerItem'', ''maxReplans'', ''maxReviewAttempts'', ''maxNoProgressAttempts''] in
     onlyKeys r (''semantic'' # limits) [] \<and> enum_state (getProp r ''semantic'') [''final'', ''final_and_checkpoints'']
     \<and> list_all (\<lambda>limit. positiveInteger (getProp r limit)) limits
     \<and> list_all (\<lambda>limit. the_int (getProp r limit) \<le> 32) limits)"

definition DEFAULT_REVIEW_POLICY_V1 :: js_value where
  "DEFAULT_REVIEW_POLICY_V1 = JObj [(''semantic'', JStr ''final_and_checkpoints''), (''maxRepairAttemptsPerItem'', jnat 8),
     (''maxReplans'', jnat 8), (''maxReviewAttempts'', jnat 3), (''maxNoProgressAttempts'', jnat 3)]"

definition member :: "js_value \<Rightarrow> string \<Rightarrow> js_value" where
  "member value k = getProp (the_record value) k"

text \<open>\<open>value ?? default\<close>\<close>

definition or_default :: "js_value \<Rightarrow> js_value \<Rightarrow> js_value" where
  "or_default value d = (if value = JUndef \<or> value = JNull then d else value)"

definition validatePlanCreateInputV1 :: "js_value \<Rightarrow> js_value review_result" where
  "validatePlanCreateInputV1 value = (let r = the_record value; criteria = the_array (getProp r ''acceptanceCriteria'');
       items = the_array (getProp r ''items''); ids = map (\<lambda>c. member c ''id'') criteria;
       policy = getProp r ''reviewPolicy'' in
     if is_record value \<and> onlyKeys r [''objective'', ''acceptanceCriteria'', ''items''] [''reviewPolicy'']
       \<and> text_within (getProp r ''objective'') MAX_OBJECTIVE_BYTES
       \<and> boundedArray (getProp r ''acceptanceCriteria'') 1 REVIEW_MAX_CRITERIA \<and> boundedArray (getProp r ''items'') 1 MAX_ITEMS
       \<and> list_all criterion_ok criteria \<and> distinct ids
       \<and> list_all validateItemDefinition items \<and> distinct (map (\<lambda>i. member i ''id'') items)
       \<and> list_all (\<lambda>i. the_array (member i ''criterionIds'') \<noteq> []
           \<and> list_all (\<lambda>c. c \<in> set ids) (the_array (member i ''criterionIds''))) items
       \<and> list_all (\<lambda>c. member c ''required'' = JBool True
           \<longrightarrow> list_ex (\<lambda>i. member c ''id'' \<in> set (the_array (member i ''criterionIds''))) items) criteria
       \<and> validateReviewPolicyV1 (or_default policy DEFAULT_REVIEW_POLICY_V1)
     then Inr (JObj ([(''objective'', getProp r ''objective''), (''acceptanceCriteria'', JArr criteria), (''items'', JArr items)]
       @ (if policy = JUndef then [] else [(''reviewPolicy'', or_default policy DEFAULT_REVIEW_POLICY_V1)])))
     else Inl PLAN_CREATE_INVALID)"

subsection \<open>Parts of the projection\<close>

definition validateCriterionProjection :: "js_value \<Rightarrow> js_value option" where
  "validateCriterionProjection value = (if \<not> is_record value then None else
     let r = the_record value; f = getProp r;
       criterion = [(''id'', f ''id''), (''description'', f ''description''), (''kind'', f ''kind''), (''required'', f ''required'')]
         @ optProp ''reviewRequired'' (f ''reviewRequired'')
         @ (if f ''kind'' = JStr ''mechanical'' then [(''check'', f ''check'')] else []) in
     if criterion_ok (JObj criterion) \<and> sha256_digest (f ''definitionDigest'')
       \<and> if_defined (\<lambda>v. text_within v 512) (f ''definitionArtifactRef'')
       \<and> enum_state (f ''status'') [''active'', ''retired''] \<and> if_defined safeId (f ''supersedesCriterionId'')
       \<and> list_all (\<lambda>key. key \<in> set [''id'', ''description'', ''kind'', ''required'', ''reviewRequired'', ''check'',
            ''definitionDigest'', ''definitionArtifactRef'', ''status'', ''supersedesCriterionId'']) (map fst r)
     then Some (JObj (criterion @ [(''definitionDigest'', f ''definitionDigest'')]
       @ optProp ''definitionArtifactRef'' (f ''definitionArtifactRef'') @ [(''status'', f ''status'')]
       @ optProp ''supersedesCriterionId'' (f ''supersedesCriterionId'')))
     else None)"

definition REVIEW_ATTEMPT_STATES :: "string list" where
  "REVIEW_ATTEMPT_STATES = [''open'', ''review_requested'', ''accepted'', ''needs_fix'', ''blocked'', ''cancelled'']"

definition ITEM_STATES :: "string list" where
  "ITEM_STATES = [''pending'', ''running'', ''review_requested'', ''accepted'', ''needs_fix'', ''blocked'', ''skipped'']"

definition REVIEW_PLAN_STATES :: "string list" where
  "REVIEW_PLAN_STATES = [''active'', ''reviewing'', ''blocked'', ''completed'', ''abandoned'', ''cancelled'']"

definition validateItemAttempt :: "js_value \<Rightarrow> bool" where
  "validateItemAttempt value \<longleftrightarrow> is_record value \<and> (let r = the_record value; f = getProp r in
     onlyKeys r [''itemAttemptId'', ''attemptNumber'', ''state''] [''evidenceRefs''] \<and> safeId (f ''itemAttemptId'')
     \<and> positiveInteger (f ''attemptNumber'') \<and> enum_state (f ''state'') REVIEW_ATTEMPT_STATES
     \<and> if_defined (\<lambda>v. stringListWithin v MAX_DURABLE_ATTEMPT_EVIDENCE_REFS) (f ''evidenceRefs''))"

definition validateScope :: "js_value \<Rightarrow> bool" where
  "validateScope value \<longleftrightarrow> is_record value \<and> (let r = the_record value in
     if getProp r ''kind'' = JStr ''item'' then onlyKeys r [''kind'', ''itemId''] [] \<and> safeId (getProp r ''itemId'')
     else if getProp r ''kind'' = JStr ''final'' then onlyKeys r [''kind''] [] else False)"

definition validatePreparedFile :: "js_value \<Rightarrow> bool" where
  "validatePreparedFile value \<longleftrightarrow> is_record value \<and> (let r = the_record value; f = getProp r;
       contentFields = [f ''artifactRef'', f ''contentDigest'', f ''contentBytes'', f ''fileIdentityDigest''] in
     onlyKeys r [''criterionId'', ''path'', ''exists'', ''workspaceBaselineDigest'']
       [''artifactRef'', ''contentDigest'', ''contentBytes'', ''fileIdentityDigest'']
     \<and> safeId (f ''criterionId'') \<and> workspacePath (f ''path'') \<and> is_bool (f ''exists'') \<and> sha256_digest (f ''workspaceBaselineDigest'')
     \<and> (if f ''exists'' = JBool True then JUndef \<notin> set contentFields else list_all (\<lambda>v. v = JUndef) contentFields)
     \<and> if_defined (\<lambda>v. text_within v 512) (f ''artifactRef'') \<and> if_defined sha256_digest (f ''contentDigest'')
     \<and> if_defined nonNegativeInteger (f ''contentBytes'') \<and> if_defined sha256_digest (f ''fileIdentityDigest''))"

definition validatePreparedReview :: "js_value \<Rightarrow> bool" where
  "validatePreparedReview value \<longleftrightarrow> is_record value \<and> (let r = the_record value; f = getProp r in
     onlyKeys r [''preparedReviewId'', ''scope'', ''planRevision'', ''criterionIds'', ''evidenceRefs'', ''reviewInputDigest'',
       ''resultSummaryArtifactRef'', ''resultSummaryDigest'', ''resultSummaryBytes'', ''preparedFileInputs'', ''triggerReasons'']
       [''itemAttemptId'', ''changedFilesArtifactRef'', ''changedFilesDigest'']
     \<and> safeId (f ''preparedReviewId'') \<and> validateScope (f ''scope'') \<and> positiveInteger (f ''planRevision'')
     \<and> if_defined safeId (f ''itemAttemptId'')
     \<and> \<not> (member (f ''scope'') ''kind'' = JStr ''item'' \<and> f ''itemAttemptId'' = JUndef)
     \<and> stringIds (f ''criterionIds'') 1 REVIEW_MAX_CRITERIA \<and> distinct (the_array (f ''criterionIds''))
     \<and> stringListWithin (f ''evidenceRefs'') MAX_REVIEW_EVIDENCE_ITEMS_V1 \<and> sha256_digest (f ''reviewInputDigest'')
     \<and> text_within (f ''resultSummaryArtifactRef'') 512 \<and> sha256_digest (f ''resultSummaryDigest'')
     \<and> nonNegativeInteger (f ''resultSummaryBytes'') \<and> boundedArray (f ''preparedFileInputs'') 0 64
     \<and> list_all validatePreparedFile (the_array (f ''preparedFileInputs''))
     \<and> (f ''changedFilesArtifactRef'' = JUndef \<longleftrightarrow> f ''changedFilesDigest'' = JUndef)
     \<and> if_defined (\<lambda>v. text_within v 512) (f ''changedFilesArtifactRef'') \<and> if_defined sha256_digest (f ''changedFilesDigest'')
     \<and> stringListWithin (f ''triggerReasons'') 64)"

text \<open>The pattern \<open>rpb_[A-Za-z0-9._:+-]{1,124}\<close>, anchored at both ends.\<close>

definition prefixed_id :: "string \<Rightarrow> string \<Rightarrow> bool" where
  "prefixed_id prefix s \<longleftrightarrow> starts_with prefix s \<and> (let rest = drop (length prefix) s in
     rest \<noteq> [] \<and> length rest \<le> 124 \<and> list_all (\<lambda>c. is_alnum c \<or> c \<in> set ''._:+-'') rest)"

definition validateBlock :: "(string \<Rightarrow> bool) \<Rightarrow> js_value \<Rightarrow> bool" where
  "validateBlock host_date value \<longleftrightarrow> is_record value \<and> (let r = the_record value; f = getProp r in
     onlyKeys r [''blockId'', ''code'', ''allowedResolver'', ''detailDigest'', ''createdAt''] [''effectRefs'']
     \<and> is_string (f ''blockId'') \<and> prefixed_id ''rpb_'' (the_string (f ''blockId'')) \<and> safeId (f ''code'')
     \<and> enum_state (f ''allowedResolver'') [''plan_revision'', ''user_input'', ''runtime_health'', ''trusted_host'']
     \<and> sha256_digest (f ''detailDigest'') \<and> timestamp host_date (f ''createdAt'')
     \<and> if_defined (\<lambda>v. boundedArray v 1 64 \<and> list_all (\<lambda>ref. is_record ref
         \<and> onlyKeys (the_record ref) [''workflowId'', ''effectRequestId'', ''requestDigest''] []
         \<and> safeId (member ref ''workflowId'') \<and> safeId (member ref ''effectRequestId'') \<and> sha256_digest (member ref ''requestDigest''))
         (the_array v)) (f ''effectRefs''))"

definition validateDecisionRef :: "js_value \<Rightarrow> bool" where
  "validateDecisionRef value \<longleftrightarrow> is_record value \<and> (let r = the_record value; f = getProp r in
     onlyKeys r [''reviewRequestId'', ''decisionArtifactRef'', ''decisionDigest'', ''verdict''] []
     \<and> safeId (f ''reviewRequestId'') \<and> text_within (f ''decisionArtifactRef'') 512 \<and> sha256_digest (f ''decisionDigest'')
     \<and> enum_state (f ''verdict'') [''accepted'', ''needs_fix'', ''replan'', ''blocked''])"

definition validatePreparedReviewRefV1 :: "js_value \<Rightarrow> js_value review_result" where
  "validatePreparedReviewRefV1 value = (if validatePreparedReview value then Inr value else Inl REVIEW_PLAN_PROJECTION_INVALID)"

definition validateReviewPlanBlockV1 :: "(string \<Rightarrow> bool) \<Rightarrow> js_value \<Rightarrow> js_value review_result" where
  "validateReviewPlanBlockV1 host_date value =
     (if validateBlock host_date value then Inr value else Inl REVIEW_PLAN_PROJECTION_INVALID)"

definition validateReviewDecisionRefV1 :: "js_value \<Rightarrow> js_value review_result" where
  "validateReviewDecisionRefV1 value = (if validateDecisionRef value then Inr value else Inl REVIEW_PLAN_PROJECTION_INVALID)"

definition validateItemProjection :: "(string \<Rightarrow> bool) \<Rightarrow> js_value \<Rightarrow> bool" where
  "validateItemProjection host_date value \<longleftrightarrow> is_record value \<and> (let r = the_record value; f = getProp r in
     onlyKeys r [''id'', ''title'', ''order'', ''criterionIds'', ''state'', ''reviewCheckpoint'', ''attemptCount'', ''taskRefs'', ''evidenceRefs'']
       [''currentAttempt'', ''block'', ''preparedReview'', ''acceptedEvidenceRefs'', ''acceptedAttemptId'', ''acceptedInputDigest'', ''lastReview'']
     \<and> safeId (f ''id'') \<and> text_within (f ''title'') MAX_DESCRIPTION_BYTES \<and> nonNegativeInteger (f ''order'')
     \<and> stringIds (f ''criterionIds'') 1 REVIEW_MAX_CRITERIA \<and> distinct (the_array (f ''criterionIds''))
     \<and> enum_state (f ''state'') ITEM_STATES \<and> is_bool (f ''reviewCheckpoint'') \<and> nonNegativeInteger (f ''attemptCount'')
     \<and> if_defined validateItemAttempt (f ''currentAttempt'') \<and> if_defined (validateBlock host_date) (f ''block'')
     \<and> if_defined validatePreparedReview (f ''preparedReview'')
     \<and> stringListWithin (f ''taskRefs'') 256 \<and> stringListWithin (f ''evidenceRefs'') MAX_DURABLE_ATTEMPT_EVIDENCE_REFS
     \<and> if_defined (\<lambda>v. stringListWithin v MAX_REVIEW_EVIDENCE_ITEMS_V1) (f ''acceptedEvidenceRefs'')
     \<and> if_defined safeId (f ''acceptedAttemptId'')
     \<and> (f ''acceptedEvidenceRefs'' = JUndef \<longleftrightarrow> f ''acceptedAttemptId'' = JUndef)
     \<and> \<not> (f ''state'' = JStr ''accepted'' \<and> f ''acceptedEvidenceRefs'' = JUndef)
     \<and> if_defined sha256_digest (f ''acceptedInputDigest'') \<and> if_defined validateDecisionRef (f ''lastReview''))"

subsection \<open>Canonical JSON and digests\<close>

text \<open>
  \<open>canonicalJsonV1\<close>: members in code-unit order of their names, no text for \<open>undefined\<close> and for
  numbers that are not finite. A value is a tree here, so no object occurs twice in it.
\<close>

fun canonical :: "js_value \<Rightarrow> string option"
  and canonical_elems :: "js_value list \<Rightarrow> string list option"
  and canonical_props :: "(string \<times> js_value) list \<Rightarrow> (string \<times> string) list option" where
  "canonical JUndef = None"
| "canonical JNull = Some ''null''"
| "canonical (JBool b) = Some (if b then ''true'' else ''false'')"
| "canonical (JNum n) = (case n of NaN \<Rightarrow> None | Infinite _ \<Rightarrow> None | _ \<Rightarrow> Some (number_to_string n))"
| "canonical (JStr s) = Some (json_quote s)"
| "canonical (JArr xs) = map_option (\<lambda>ts. ''['' @ joinWith '','' ts @ '']'') (canonical_elems xs)"
| "canonical (JObj ps) = map_option (\<lambda>ts. ''{'' @ joinWith '',''
     (map (\<lambda>(k, t). json_quote k @ '':'' @ t) (sort_by (\<lambda>p q. fst p \<le> fst q) ts)) @ ''}'') (canonical_props ps)"
| "canonical_elems [] = Some []"
| "canonical_elems (x # xs) = (case canonical x of None \<Rightarrow> None | Some t \<Rightarrow> map_option ((#) t) (canonical_elems xs))"
| "canonical_props [] = Some []"
| "canonical_props ((k, v) # ps) =
     (case canonical v of None \<Rightarrow> None | Some t \<Rightarrow> map_option ((#) (k, t)) (canonical_props ps))"

definition canonicalJsonV1 :: "js_value \<Rightarrow> string review_result" where
  "canonicalJsonV1 value = (case canonical value of None \<Rightarrow> Inl CANONICAL_JSON_INVALID | Some t \<Rightarrow> Inr t)"

definition canonicalDigestV1 :: "(string \<Rightarrow> string) \<Rightarrow> js_value \<Rightarrow> string review_result" where
  "canonicalDigestV1 sha256 value = andThen (canonicalJsonV1 value) (\<lambda>text. Inr (''sha256:'' @ sha256 text))"

definition reviewCriterionDigestV1 :: "(string \<Rightarrow> string) \<Rightarrow> js_value \<Rightarrow> string review_result" where
  "reviewCriterionDigestV1 sha256 value = andThen (validateReviewCriterionV1 value) (canonicalDigestV1 sha256)"

definition reviewPlanHashV1 :: "(string \<Rightarrow> string) \<Rightarrow> js_value \<Rightarrow> js_value \<Rightarrow> js_value \<Rightarrow> js_value \<Rightarrow> string review_result" where
  "reviewPlanHashV1 sha256 objective acceptanceCriteria items reviewPolicy =
     andThen (validatePlanCreateInputV1 (JObj [(''objective'', objective), (''acceptanceCriteria'', acceptanceCriteria),
       (''items'', items), (''reviewPolicy'', reviewPolicy)])) (\<lambda>normalized.
     canonicalDigestV1 sha256 (JObj [(''objective'', member normalized ''objective''),
       (''acceptanceCriteria'', member normalized ''acceptanceCriteria''), (''items'', member normalized ''items''),
       (''reviewPolicy'', or_default (member normalized ''reviewPolicy'') DEFAULT_REVIEW_POLICY_V1)]))"

definition validateTaskContract :: "(string \<Rightarrow> string) \<Rightarrow> js_value \<Rightarrow> bool" where
  "validateTaskContract sha256 value \<longleftrightarrow> is_record value \<and> (let r = the_record value; f = getProp r in
     onlyKeys r [''runId'', ''messageId'', ''text'', ''digest''] [] \<and> safeId (f ''runId'') \<and> safeId (f ''messageId'')
     \<and> text_within (f ''text'') (64 * 1024) \<and> sha256_digest (f ''digest'')
     \<and> canonicalDigestV1 sha256 (f ''text'') = Inr (the_string (f ''digest'')))"

subsection \<open>The projection\<close>

definition plan_fields_ok :: "(string \<Rightarrow> bool) \<Rightarrow> (string \<Rightarrow> string) \<Rightarrow> js_record \<Rightarrow> js_value list \<Rightarrow> bool" where
  "plan_fields_ok host_date sha256 r criteria \<longleftrightarrow> (let f = getProp r; items = the_array (f ''items'');
       criterionIds = map (\<lambda>c. member c ''id'') criteria in
     f ''schemaVersion'' = jnat 1 \<and> safeId (f ''planId'') \<and> positiveInteger (f ''revision'')
     \<and> text_within (f ''objective'') MAX_OBJECTIVE_BYTES \<and> sha256_digest (f ''objectiveDigest'')
     \<and> if_defined (validateTaskContract sha256) (f ''taskContract'') \<and> enum_state (f ''state'') REVIEW_PLAN_STATES
     \<and> validateReviewPolicyV1 (f ''policy'') \<and> distinct criterionIds
     \<and> boundedArray (f ''items'') 1 MAX_ITEMS \<and> list_all (validateItemProjection host_date) items
     \<and> distinct (map (\<lambda>i. member i ''id'') items)
     \<and> list_all (\<lambda>i. list_all (\<lambda>c. c \<in> set criterionIds) (the_array (member i ''criterionIds''))) items
     \<and> nonNegativeInteger (f ''attemptCount'') \<and> nonNegativeInteger (f ''replanCount'') \<and> nonNegativeInteger (f ''noProgressCount'')
     \<and> if_defined safeId (f ''focusedRootAttemptId'') \<and> if_defined (validateBlock host_date) (f ''block'')
     \<and> if_defined validatePreparedReview (f ''finalPreparedReview'') \<and> if_defined validateDecisionRef (f ''lastReview''))"

definition validateReviewPlanProjectionV1 :: "(string \<Rightarrow> bool) \<Rightarrow> (string \<Rightarrow> string) \<Rightarrow> js_value \<Rightarrow> js_value review_result" where
  "validateReviewPlanProjectionV1 host_date sha256 value =
     (let r = the_record value in
      if \<not> is_record value \<or> \<not> onlyKeys r [''schemaVersion'', ''planId'', ''revision'', ''objective'', ''objectiveDigest'', ''state'',
           ''policy'', ''criteria'', ''items'', ''attemptCount'', ''replanCount'', ''noProgressCount'']
           [''taskContract'', ''focusedRootAttemptId'', ''block'', ''finalPreparedReview'', ''lastReview'']
         \<or> \<not> boundedArray (getProp r ''criteria'') 1 REVIEW_MAX_CRITERIA
      then Inl REVIEW_PLAN_PROJECTION_INVALID
      else (case those (map validateCriterionProjection (the_array (getProp r ''criteria''))) of
          None \<Rightarrow> Inl REVIEW_PLAN_PROJECTION_INVALID
        | Some criteria \<Rightarrow>
            if plan_fields_ok host_date sha256 r criteria then Inr (JObj (setProp r ''criteria'' (JArr criteria)))
            else Inl REVIEW_PLAN_PROJECTION_INVALID))"

subsection \<open>Transitions\<close>

fun REVIEW_PLAN_TRANSITIONS :: "string \<Rightarrow> string list" where
  "REVIEW_PLAN_TRANSITIONS from =
     (if from = ''active'' then [''reviewing'', ''blocked'', ''abandoned'', ''cancelled'']
      else if from = ''reviewing'' then [''active'', ''blocked'', ''completed'', ''cancelled'']
      else if from = ''blocked'' then [''active'', ''abandoned'', ''cancelled'']
      else [])"

fun REVIEW_ITEM_TRANSITIONS :: "string \<Rightarrow> string list" where
  "REVIEW_ITEM_TRANSITIONS from =
     (if from = ''pending'' then [''running'', ''skipped'', ''blocked'']
      else if from = ''running'' then [''review_requested'', ''needs_fix'', ''accepted'', ''blocked'']
      else if from = ''review_requested'' then [''accepted'', ''needs_fix'', ''blocked'']
      else if from = ''needs_fix'' then [''running'', ''blocked'', ''skipped'']
      else if from = ''blocked'' then [''pending'', ''running'', ''skipped'']
      else [])"

definition assertReviewPlanTransitionV1 :: "js_value \<Rightarrow> js_value \<Rightarrow> unit review_result" where
  "assertReviewPlanTransitionV1 from to =
     require (the_string to \<in> set (REVIEW_PLAN_TRANSITIONS (the_string from))) REVIEW_PLAN_TRANSITION_INVALID"

definition assertReviewPlanItemTransitionV1 :: "js_value \<Rightarrow> js_value \<Rightarrow> unit review_result" where
  "assertReviewPlanItemTransitionV1 from to =
     require (the_string to \<in> set (REVIEW_ITEM_TRANSITIONS (the_string from))) REVIEW_PLAN_TRANSITION_INVALID"

end
