(* ===== verification/SessionPlan.thy ===== *)
theory SessionPlan
  imports PlanGraph ReviewPlan
begin

section \<open>The Plan part of the Session journal\<close>

text \<open>
  The Plan, step, attempt, subagent and verification cases of \<open>reduceSessionEntriesV3\<close> in
  \<open>packages/core-sdk/src/session-journal.ts\<close>, with \<open>projectPlan\<close> and the helpers they call.
  Entries are the typed ones that \<open>validateSessionEntryV3\<close> returns. The mutable objects of
  the source are records in insertion-ordered maps; assigning a field of a step or attempt is
  an update of its entry. The part of the reducer's local state these cases read and write
  is \<open>plan_ledger\<close>: the set of stable ids, the Plan and the collected result references.

  Every error of the handlers is \<open>SESSION_REDUCER_TRANSITION_INVALID\<close> or
  \<open>SESSION_REDUCER_ID_REUSED\<close>; \<open>SESSION_PLAN_FAILURE\<close> is an error of \<open>readyPlanStepIdsV1\<close>
  that would escape the reducer, and \<open>SESSION_REVIEW_FAILURE\<close> one of the review Plan reducer.
\<close>

subsection \<open>State\<close>

datatype session_error =
    SESSION_REDUCER_TRANSITION_INVALID
  | SESSION_REDUCER_ID_REUSED
  | SESSION_REDUCER_FIRST_ENTRY_INVALID
  | SESSION_REDUCER_SESSION_MISMATCH
  | SESSION_REDUCER_SEQUENCE_INVALID
  | SESSION_REDUCER_REVISION_INVALID
  | SESSION_REDUCER_TIMESTAMP_INVALID
  | SESSION_PLAN_FAILURE plan_error
  | SESSION_REVIEW_FAILURE review_error

type_synonym 'a session_result = "session_error + 'a"

datatype execution_status = E_succeeded | E_failed | E_cancelled

datatype verification_status = V_passed | V_failed | V_blocked

datatype step_change_reason = Retry_approved | Recovery_retry_approved | External_condition_changed

record session_verification =
  sv_verificationId :: string
  sv_verifier :: string
  sv_status :: verification_status
  sv_evidenceRefs :: "string list"
  sv_code :: "string option"
  sv_retryable :: "bool option"

text \<open>A validated \<open>SubagentExecutionRequestV1\<close>, by the fields the reducer reads, with its retry safety.\<close>

record execution_binding =
  xb_parentRunId :: string
  xb_childRunId :: string
  xb_packetDigest :: string
  xb_retrySafety :: string

record mutable_attempt =
  ma_attemptId :: string
  ma_ordinal :: nat
  ma_state :: plan_attempt_state
  ma_childRunId :: "string option"
  ma_resultRef :: "string option"
  ma_resultDigest :: "string option"
  ma_resultStatus :: "execution_status option"
  ma_verificationRef :: "string option"
  ma_errorCode :: "string option"
  ma_execution :: "execution_binding option"
  ma_verifications :: "session_verification list"

record mutable_step =
  ms_stepId :: string
  ms_title :: string
  ms_order :: nat
  ms_state :: step_state
  ms_errorCode :: "string option"
  ms_dependencies :: "string list"
  ms_access :: step_access
  ms_capabilities :: "string list"
  ms_conflictKeys :: "string list"
  ms_criteria :: "success_criterion list"
  ms_budget :: execution_budget
  ms_maxAttempts :: nat
  ms_attempts :: "(string \<times> mutable_attempt) list"

record mutable_plan =
  mp_planId :: string
  mp_revision :: nat
  mp_objective :: string
  mp_state :: plan_state
  mp_steps :: "(string \<times> mutable_step) list"

record plan_ledger =
  pl_stableIds :: "string list"
  pl_plan :: "mutable_plan option"
  pl_resultRefs :: "string list"

subsection \<open>Entries\<close>

record step_authority =
  sy_planId :: string
  sy_planRevision :: nat
  sy_stepId :: string

record reuse_proof =
  rf_stepId :: string
  rf_previousInputDigest :: string
  rf_nextInputDigest :: string

datatype plan_event =
    Plan_created string nat string plan_state
  | Plan_state_changed string nat plan_state
  | Plan_decision_recorded string nat "string option" "string option"
  | Plan_revised string nat nat string plan_state "reuse_proof list"
  | Step_created step_authority mutable_step
  | Step_state_changed step_authority step_state "step_change_reason option" "string option" "string option"
  | Plan_attempt_created step_authority string nat plan_attempt_state "string option"
  | Plan_attempt_state_changed step_authority string plan_attempt_state "string option"
  | Attempt_execution_completed step_authority string execution_status
  | Subagent_execution_bound step_authority string string execution_binding
  | Subagent_result_recorded step_authority string string string string execution_status
  | Verification_recorded step_authority string session_verification

subsection \<open>Shared checks\<close>

definition useId :: "string list \<Rightarrow> string \<Rightarrow> string list session_result" where
  "useId ids i = (if i \<in> set ids then Inl SESSION_REDUCER_ID_REUSED else Inr (ids @ [i]))"

definition useStableId :: "plan_ledger \<Rightarrow> string \<Rightarrow> string \<Rightarrow> plan_ledger session_result" where
  "useStableId s namespace i =
     andThen (useId (pl_stableIds s) (namespace @ '':'' @ i)) (\<lambda>ids. Inr (s\<lparr>pl_stableIds := ids\<rparr>))"

definition transition_require :: "bool \<Rightarrow> unit session_result" where
  "transition_require c = require c SESSION_REDUCER_TRANSITION_INVALID"

definition assertReducerTransition :: "unit plan_result \<Rightarrow> unit session_result" where
  "assertReducerTransition assertion = transition_require (is_ok assertion)"

definition requirePlan :: "mutable_plan option \<Rightarrow> string \<Rightarrow> mutable_plan session_result" where
  "requirePlan plan planId = (case plan of None \<Rightarrow> Inl SESSION_REDUCER_TRANSITION_INVALID
     | Some p \<Rightarrow> if mp_planId p \<noteq> planId then Inl SESSION_REDUCER_TRANSITION_INVALID else Inr p)"

definition requirePlanRevision :: "mutable_plan option \<Rightarrow> string \<Rightarrow> nat \<Rightarrow> mutable_plan session_result" where
  "requirePlanRevision plan planId planRevision =
     andThen (requirePlan plan planId) (\<lambda>current.
     if mp_revision current \<noteq> planRevision then Inl SESSION_REDUCER_TRANSITION_INVALID else Inr current)"

definition requireStepRevision :: "mutable_plan option \<Rightarrow> step_authority \<Rightarrow> (mutable_plan \<times> mutable_step) session_result" where
  "requireStepRevision plan auth =
     andThen (requirePlanRevision plan (sy_planId auth) (sy_planRevision auth)) (\<lambda>current.
     case map_of (mp_steps current) (sy_stepId auth) of
       None \<Rightarrow> Inl SESSION_REDUCER_TRANSITION_INVALID | Some step \<Rightarrow> Inr (current, step))"

definition requireAttemptRevision :: "mutable_plan option \<Rightarrow> step_authority \<Rightarrow> string
    \<Rightarrow> (mutable_plan \<times> mutable_step \<times> mutable_attempt) session_result" where
  "requireAttemptRevision plan auth attemptId =
     andThen (requireStepRevision plan auth) (\<lambda>(current, step).
     case map_of (ms_attempts step) attemptId of
       None \<Rightarrow> Inl SESSION_REDUCER_TRANSITION_INVALID | Some attempt \<Rightarrow> Inr (current, step, attempt))"

definition latestStepAttempt :: "mutable_step \<Rightarrow> mutable_attempt option" where
  "latestStepAttempt step =
     (case sort_by (\<lambda>left right. ma_ordinal right \<le> ma_ordinal left) (map snd (ms_attempts step)) of
        [] \<Rightarrow> None | attempt # _ \<Rightarrow> Some attempt)"

text \<open>Writing a step or an attempt back into the maps it lives in.\<close>

definition put_step :: "plan_ledger \<Rightarrow> mutable_plan \<Rightarrow> string \<Rightarrow> mutable_step \<Rightarrow> plan_ledger" where
  "put_step s plan stepId step = s\<lparr>pl_plan := Some (plan\<lparr>mp_steps := AList.update stepId step (mp_steps plan)\<rparr>)\<rparr>"

definition put_attempt :: "plan_ledger \<Rightarrow> mutable_plan \<Rightarrow> string \<Rightarrow> mutable_step \<Rightarrow> string \<Rightarrow> mutable_attempt \<Rightarrow> plan_ledger" where
  "put_attempt s plan stepId step attemptId attempt =
     put_step s plan stepId (step\<lparr>ms_attempts := AList.update attemptId attempt (ms_attempts step)\<rparr>)"

subsection \<open>Handlers\<close>

definition on_plan_created :: "plan_ledger \<Rightarrow> string \<Rightarrow> nat \<Rightarrow> string \<Rightarrow> plan_state \<Rightarrow> plan_ledger session_result" where
  "on_plan_created s planId planRevision objective state =
     andThen (transition_require (case pl_plan s of None \<Rightarrow> True
       | Some p \<Rightarrow> mp_state p \<in> {P_succeeded, P_failed, P_cancelled, P_interrupted})) (\<lambda>_.
     andThen (useStableId s ''plan'' planId) (\<lambda>s.
     Inr (s\<lparr>pl_plan := Some \<lparr>mp_planId = planId, mp_revision = planRevision, mp_objective = objective,
       mp_state = state, mp_steps = []\<rparr>\<rparr>)))"

definition on_plan_state_changed :: "plan_ledger \<Rightarrow> string \<Rightarrow> nat \<Rightarrow> plan_state \<Rightarrow> plan_ledger session_result" where
  "on_plan_state_changed s planId planRevision state =
     andThen (requirePlanRevision (pl_plan s) planId planRevision) (\<lambda>current.
     andThen (assertReducerTransition (assertPlanStateTransitionV1 (mp_state current) state)) (\<lambda>_.
     andThen (transition_require (\<not> (state = P_succeeded
       \<and> list_ex (\<lambda>(_, step). ms_state step \<noteq> S_succeeded) (mp_steps current)))) (\<lambda>_.
     Inr (s\<lparr>pl_plan := Some (current\<lparr>mp_state := state\<rparr>)\<rparr>))))"

definition on_plan_decision :: "plan_ledger \<Rightarrow> string \<Rightarrow> nat \<Rightarrow> string option \<Rightarrow> string option \<Rightarrow> plan_ledger session_result" where
  "on_plan_decision s planId planRevision stepId attemptId =
     andThen (requirePlanRevision (pl_plan s) planId planRevision) (\<lambda>current.
     case stepId of None \<Rightarrow> Inr s
     | Some k \<Rightarrow> (case map_of (mp_steps current) k of
         None \<Rightarrow> Inl SESSION_REDUCER_TRANSITION_INVALID
       | Some step \<Rightarrow> (case attemptId of None \<Rightarrow> Inr s
           | Some a \<Rightarrow> if map_of (ms_attempts step) a = None then Inl SESSION_REDUCER_TRANSITION_INVALID
               else Inr s)))"

definition unfinished_work :: "mutable_plan \<Rightarrow> bool" where
  "unfinished_work plan = list_ex (\<lambda>(_, step). ms_state step \<in> {S_running, S_verifying}
     \<or> list_ex (\<lambda>(_, attempt). ma_state attempt \<in> {T_reserved, T_running, T_execution_succeeded, T_verifying})
         (ms_attempts step)) (mp_steps plan)"

fun reuse_steps :: "mutable_plan \<Rightarrow> reuse_proof list \<Rightarrow> reuse_proof list \<Rightarrow> (string \<times> mutable_step) list
    \<Rightarrow> (string \<times> mutable_step) list session_result" where
  "reuse_steps current proofs [] reused = Inr reused"
| "reuse_steps current proofs (proof # rest) reused =
     (case map_of (mp_steps current) (rf_stepId proof) of
        None \<Rightarrow> Inl SESSION_REDUCER_TRANSITION_INVALID
      | Some step \<Rightarrow> (case latestStepAttempt step of
          None \<Rightarrow> Inl SESSION_REDUCER_TRANSITION_INVALID
        | Some attempt \<Rightarrow>
            if ms_state step \<noteq> S_succeeded \<or> ma_state attempt \<noteq> T_verified
               \<or> map_option xb_packetDigest (ma_execution attempt) \<noteq> Some (rf_previousInputDigest proof)
               \<or> rf_previousInputDigest proof \<noteq> rf_nextInputDigest proof
               \<or> list_ex (\<lambda>d. \<not> list_ex (\<lambda>c. rf_stepId c = d) proofs) (ms_dependencies step)
            then Inl SESSION_REDUCER_TRANSITION_INVALID
            else reuse_steps current proofs rest (AList.update (ms_stepId step) step reused)))"

definition on_plan_revised :: "plan_ledger \<Rightarrow> string \<Rightarrow> nat \<Rightarrow> nat \<Rightarrow> string \<Rightarrow> plan_state \<Rightarrow> reuse_proof list
    \<Rightarrow> plan_ledger session_result" where
  "on_plan_revised s planId fromRevision toRevision objective state proofs =
     andThen (requirePlanRevision (pl_plan s) planId fromRevision) (\<lambda>current.
     andThen (transition_require (mp_state current \<in> {P_running, P_blocked, P_failed}
       \<and> toRevision = mp_revision current + 1 \<and> state = P_running \<and> \<not> unfinished_work current)) (\<lambda>_.
     andThen (reuse_steps current proofs proofs []) (\<lambda>reused.
     Inr (s\<lparr>pl_plan := Some (current\<lparr>mp_revision := toRevision, mp_objective := objective, mp_state := state,
       mp_steps := reused\<rparr>)\<rparr>))))"

definition on_step_created :: "plan_ledger \<Rightarrow> step_authority \<Rightarrow> mutable_step \<Rightarrow> plan_ledger session_result" where
  "on_step_created s auth step =
     andThen (requirePlanRevision (pl_plan s) (sy_planId auth) (sy_planRevision auth)) (\<lambda>current.
     andThen (useStableId s ''step'' (sy_stepId auth)) (\<lambda>s.
     andThen (transition_require (map_of (mp_steps current) (sy_stepId auth) = None)) (\<lambda>_.
     Inr (put_step s current (sy_stepId auth)
       (step\<lparr>ms_stepId := sy_stepId auth, ms_errorCode := None, ms_attempts := []\<rparr>)))))"

definition on_step_state_changed :: "plan_ledger \<Rightarrow> step_authority \<Rightarrow> step_state \<Rightarrow> step_change_reason option
    \<Rightarrow> string option \<Rightarrow> string option \<Rightarrow> plan_ledger session_result" where
  "on_step_state_changed s auth state reason newAttemptId errorCode =
     andThen (requireStepRevision (pl_plan s) auth) (\<lambda>(current, step).
     let newAttempt = (case newAttemptId of None \<Rightarrow> None | Some a \<Rightarrow> map_of (ms_attempts step) a);
         latest = map_option ma_state (latestStepAttempt step) in
     andThen (assertReducerTransition (assertPlanStepTransitionV1 (ms_state step) state
       \<lparr>retryApproved = (reason = Some Retry_approved), recoveryRetryApproved = (reason = Some Recovery_retry_approved),
        externalConditionChanged = (reason = Some External_condition_changed),
        createsNewAttempt = (case newAttempt of None \<Rightarrow> False
          | Some a \<Rightarrow> ma_ordinal a = length (ms_attempts step) \<and> ma_state a = T_reserved)\<rparr>)) (\<lambda>_.
     andThen (transition_require (\<not> ((state = S_running \<and> latest \<noteq> Some T_reserved)
       \<or> (state = S_verifying \<and> latest \<noteq> Some T_verifying)
       \<or> (state = S_succeeded \<and> latest \<noteq> Some T_verified)))) (\<lambda>_.
     Inr (put_step s current (sy_stepId auth) (step\<lparr>ms_state := state, ms_errorCode := errorCode\<rparr>)))))"

definition on_attempt_created :: "plan_ledger \<Rightarrow> step_authority \<Rightarrow> string \<Rightarrow> nat \<Rightarrow> plan_attempt_state
    \<Rightarrow> string option \<Rightarrow> plan_ledger session_result" where
  "on_attempt_created s auth attemptId ordinal state childRunId =
     andThen (requireStepRevision (pl_plan s) auth) (\<lambda>(current, step).
     andThen (transition_require (\<not> list_ex (\<lambda>(_, a). ma_ordinal a = ordinal) (ms_attempts step))) (\<lambda>_.
     andThen (transition_require (ordinal = length (ms_attempts step) + 1 \<and> ordinal \<le> ms_maxAttempts step)) (\<lambda>_.
     andThen (useStableId s ''attempt'' attemptId) (\<lambda>s.
     andThen (case childRunId of None \<Rightarrow> Inr s | Some c \<Rightarrow> useStableId s ''child-run'' c) (\<lambda>s.
     Inr (put_attempt s current (sy_stepId auth) step attemptId
       \<lparr>ma_attemptId = attemptId, ma_ordinal = ordinal, ma_state = state, ma_childRunId = childRunId,
        ma_resultRef = None, ma_resultDigest = None, ma_resultStatus = None, ma_verificationRef = None,
        ma_errorCode = None, ma_execution = None, ma_verifications = []\<rparr>))))))"

definition on_attempt_state_changed :: "plan_ledger \<Rightarrow> step_authority \<Rightarrow> string \<Rightarrow> plan_attempt_state
    \<Rightarrow> string option \<Rightarrow> plan_ledger session_result" where
  "on_attempt_state_changed s auth attemptId state errorCode =
     andThen (requireAttemptRevision (pl_plan s) auth attemptId) (\<lambda>(current, step, attempt).
     andThen (assertReducerTransition (assertPlanAttemptTransitionV1 (ma_state attempt) state)) (\<lambda>_.
     andThen (transition_require (state \<noteq> T_execution_succeeded \<and> state \<noteq> T_execution_failed)) (\<lambda>_.
     andThen (transition_require (\<not> ((state = T_verified
         \<and> (ma_verifications attempt = [] \<or> list_ex (\<lambda>v. sv_status v \<noteq> V_passed) (ma_verifications attempt)))
       \<or> (state = T_rejected \<and> \<not> list_ex (\<lambda>v. sv_status v \<noteq> V_passed) (ma_verifications attempt))))) (\<lambda>_.
     Inr (put_attempt s current (sy_stepId auth) step attemptId
       (attempt\<lparr>ma_state := state, ma_errorCode := errorCode\<rparr>))))))"

definition on_execution_completed :: "plan_ledger \<Rightarrow> step_authority \<Rightarrow> string \<Rightarrow> execution_status
    \<Rightarrow> plan_ledger session_result" where
  "on_execution_completed s auth attemptId status =
     andThen (requireAttemptRevision (pl_plan s) auth attemptId) (\<lambda>(current, step, attempt).
     let nextState = (case status of E_succeeded \<Rightarrow> T_execution_succeeded | E_failed \<Rightarrow> T_execution_failed
       | E_cancelled \<Rightarrow> T_cancelled) in
     andThen (assertReducerTransition (assertPlanAttemptTransitionV1 (ma_state attempt) nextState)) (\<lambda>_.
     andThen (transition_require (ma_resultRef attempt \<noteq> None \<and> ma_resultStatus attempt = Some status)) (\<lambda>_.
     Inr (put_attempt s current (sy_stepId auth) step attemptId (attempt\<lparr>ma_state := nextState\<rparr>)))))"

definition on_execution_bound :: "plan_ledger \<Rightarrow> step_authority \<Rightarrow> string \<Rightarrow> string \<Rightarrow> execution_binding
    \<Rightarrow> string option \<Rightarrow> plan_ledger session_result" where
  "on_execution_bound s auth attemptId childRunId binding parentRunId =
     andThen (requireAttemptRevision (pl_plan s) auth attemptId) (\<lambda>(current, step, attempt).
     andThen (transition_require (ma_state attempt = T_running \<and> ma_execution attempt = None
       \<and> ma_childRunId attempt = Some childRunId \<and> Some (xb_parentRunId binding) = parentRunId
       \<and> xb_childRunId binding = childRunId)) (\<lambda>_.
     Inr (put_attempt s current (sy_stepId auth) step attemptId (attempt\<lparr>ma_execution := Some binding\<rparr>))))"

definition on_result_recorded :: "plan_ledger \<Rightarrow> step_authority \<Rightarrow> string \<Rightarrow> string \<Rightarrow> string \<Rightarrow> string
    \<Rightarrow> execution_status \<Rightarrow> plan_ledger session_result" where
  "on_result_recorded s auth attemptId childRunId resultRef resultDigest status =
     andThen (requireAttemptRevision (pl_plan s) auth attemptId) (\<lambda>(current, step, attempt).
     andThen (transition_require (ma_state attempt = T_running \<and> ma_resultRef attempt = None
       \<and> (ma_childRunId attempt = None \<or> ma_childRunId attempt = Some childRunId))) (\<lambda>_.
     andThen (if ma_childRunId attempt = None then useStableId s ''child-run'' childRunId else Inr s) (\<lambda>s.
     let s = put_attempt s current (sy_stepId auth) step attemptId
       (attempt\<lparr>ma_childRunId := Some childRunId, ma_resultRef := Some resultRef, ma_resultDigest := Some resultDigest,
         ma_resultStatus := Some status\<rparr>) in
     Inr (s\<lparr>pl_resultRefs := pl_resultRefs s @ [resultRef]\<rparr>))))"

definition on_verification :: "plan_ledger \<Rightarrow> step_authority \<Rightarrow> string \<Rightarrow> session_verification
    \<Rightarrow> plan_ledger session_result" where
  "on_verification s auth attemptId verification =
     andThen (useStableId s ''verification'' (sv_verificationId verification)) (\<lambda>s.
     andThen (requireAttemptRevision (pl_plan s) auth attemptId) (\<lambda>(current, step, attempt).
     andThen (transition_require (ma_state attempt = T_verifying \<and> ms_state step = S_verifying)) (\<lambda>_.
     let s = put_attempt s current (sy_stepId auth) step attemptId
       (attempt\<lparr>ma_verificationRef := Some (''journal://verification/'' @ sv_verificationId verification),
         ma_verifications := ma_verifications attempt @ [verification]\<rparr>) in
     Inr (s\<lparr>pl_resultRefs := pl_resultRefs s @ sv_evidenceRefs verification\<rparr>))))"

text \<open>The entry's \<open>correlation?.parentRunId\<close> is the first argument; only the binding of an execution reads it.\<close>

definition applyPlanEvent :: "string option \<Rightarrow> plan_ledger \<Rightarrow> plan_event \<Rightarrow> plan_ledger session_result" where
  "applyPlanEvent parentRunId s e = (case e of
       Plan_created planId planRevision objective state \<Rightarrow> on_plan_created s planId planRevision objective state
     | Plan_state_changed planId planRevision state \<Rightarrow> on_plan_state_changed s planId planRevision state
     | Plan_decision_recorded planId planRevision stepId attemptId \<Rightarrow> on_plan_decision s planId planRevision stepId attemptId
     | Plan_revised planId fromRevision toRevision objective state proofs \<Rightarrow>
         on_plan_revised s planId fromRevision toRevision objective state proofs
     | Step_created auth step \<Rightarrow> on_step_created s auth step
     | Step_state_changed auth state reason newAttemptId errorCode \<Rightarrow>
         on_step_state_changed s auth state reason newAttemptId errorCode
     | Plan_attempt_created auth attemptId ordinal state childRunId \<Rightarrow>
         on_attempt_created s auth attemptId ordinal state childRunId
     | Plan_attempt_state_changed auth attemptId state errorCode \<Rightarrow> on_attempt_state_changed s auth attemptId state errorCode
     | Attempt_execution_completed auth attemptId status \<Rightarrow> on_execution_completed s auth attemptId status
     | Subagent_execution_bound auth attemptId childRunId binding \<Rightarrow>
         on_execution_bound s auth attemptId childRunId binding parentRunId
     | Subagent_result_recorded auth attemptId childRunId resultRef resultDigest status \<Rightarrow>
         on_result_recorded s auth attemptId childRunId resultRef resultDigest status
     | Verification_recorded auth attemptId verification \<Rightarrow> on_verification s auth attemptId verification)"

subsection \<open>Projection of the Plan\<close>

text \<open>
  A step of the projection is the step with its attempts in ordinal order; the status of a
  result is not projected.
\<close>

record session_plan_graph =
  gp_planId :: string
  gp_revision :: nat
  gp_objective :: string
  gp_state :: plan_state
  gp_readyStepIds :: "string list"
  gp_steps :: "mutable_step list"

definition attempt_before :: "mutable_attempt \<Rightarrow> mutable_attempt \<Rightarrow> bool" where
  "attempt_before left right \<longleftrightarrow> ma_ordinal left \<le> ma_ordinal right"

definition ordered_attempts :: "mutable_step \<Rightarrow> mutable_attempt list" where
  "ordered_attempts step = sort_by attempt_before (map snd (ms_attempts step))"

definition mutable_step_before :: "(string \<Rightarrow> string \<Rightarrow> bool) \<Rightarrow> mutable_step \<Rightarrow> mutable_step \<Rightarrow> bool" where
  "mutable_step_before locale_le left right \<longleftrightarrow> ms_order left < ms_order right
     \<or> (ms_order left = ms_order right \<and> locale_le (ms_stepId left) (ms_stepId right))"

definition assertAttemptResultConsistency :: "mutable_attempt \<Rightarrow> unit session_result" where
  "assertAttemptResultConsistency attempt = transition_require (ma_resultRef attempt = None
     \<or> (ma_resultStatus attempt = Some E_succeeded
        \<and> ma_state attempt \<in> {T_verifying, T_verified, T_rejected, T_cancelled, T_interrupted})
     \<or> (ma_resultStatus attempt = Some E_failed \<and> ma_state attempt \<in> {T_execution_failed, T_interrupted})
     \<or> (ma_resultStatus attempt = Some E_cancelled \<and> ma_state attempt \<in> {T_cancelled, T_interrupted}))"

text \<open>
  \<open>visit\<close> fails on an unknown dependency and on a cycle, with the same error.
\<close>

definition assertPlanDependencies :: "mutable_step list \<Rightarrow> unit session_result" where
  "assertPlanDependencies steps = transition_require
     (list_all (\<lambda>s. list_all (\<lambda>d. d \<in> set (map ms_stepId steps)) (ms_dependencies s)) steps
      \<and> dfs_ok (map (\<lambda>s. (ms_stepId s, ms_dependencies s)) steps) (map ms_stepId steps))"

definition graph_attempt :: "mutable_step \<Rightarrow> mutable_attempt \<Rightarrow> plan_attempt" where
  "graph_attempt step a = \<lparr>pa_attemptId = ma_attemptId a, pa_stepId = ms_stepId step, pa_ordinal = ma_ordinal a,
     pa_state = ma_state a, pa_childRunId = ma_childRunId a, pa_resultRef = ma_resultRef a,
     pa_resultDigest = ma_resultDigest a, pa_verificationRef = ma_verificationRef a\<rparr>"

definition graph_step :: "mutable_step \<Rightarrow> plan_step" where
  "graph_step s = \<lparr>ps_stepId = ms_stepId s, ps_title = ms_title s, ps_order = ms_order s, ps_state = ms_state s,
     ps_dependencies = ms_dependencies s, ps_access = ms_access s, ps_capabilities = ms_capabilities s,
     ps_conflictKeys = ms_conflictKeys s, ps_criteria = ms_criteria s, ps_budget = ms_budget s,
     ps_maxAttempts = ms_maxAttempts s, ps_attemptIds = map ma_attemptId (ordered_attempts s)\<rparr>"

definition plan_graph_of :: "mutable_plan \<Rightarrow> mutable_step list \<Rightarrow> plan_graph" where
  "plan_graph_of plan steps = \<lparr>pg_planId = mp_planId plan, pg_revision = mp_revision plan,
     pg_objective = mp_objective plan, pg_state = mp_state plan, pg_steps = map graph_step steps,
     pg_attempts = concat (map (\<lambda>s. map (graph_attempt s) (ordered_attempts s)) steps)\<rparr>"

definition validateReducerPlanGraph :: "js_value \<Rightarrow> plan_graph session_result" where
  "validateReducerPlanGraph input = (case validatePlanGraphV1 input of
     Inl _ \<Rightarrow> Inl SESSION_REDUCER_TRANSITION_INVALID | Inr graph \<Rightarrow> Inr graph)"

definition project_step :: "mutable_step \<Rightarrow> mutable_step" where
  "project_step s = s\<lparr>ms_attempts := map (\<lambda>a. (ma_attemptId a, a\<lparr>ma_resultStatus := None\<rparr>)) (ordered_attempts s)\<rparr>"

definition projectPlan :: "(string \<Rightarrow> string \<Rightarrow> bool) \<Rightarrow> mutable_plan option \<Rightarrow> session_plan_graph option session_result" where
  "projectPlan locale_le plan = (case plan of None \<Rightarrow> Inr None
     | Some p \<Rightarrow>
         let orderedSteps = sort_by (mutable_step_before locale_le) (map snd (mp_steps p)) in
         andThen (assertPlanDependencies orderedSteps) (\<lambda>_.
         andThen (mapR assertAttemptResultConsistency (concat (map ordered_attempts orderedSteps))) (\<lambda>_.
         andThen (validateReducerPlanGraph (graph_json (plan_graph_of p orderedSteps))) (\<lambda>graph.
         andThen (case readyPlanStepIdsV1 locale_le (graph_json graph) of
             Inl e \<Rightarrow> Inl (SESSION_PLAN_FAILURE e) | Inr ids \<Rightarrow> Inr ids) (\<lambda>ready.
         Inr (Some \<lparr>gp_planId = pg_planId graph, gp_revision = pg_revision graph, gp_objective = pg_objective graph,
           gp_state = pg_state graph, gp_readyStepIds = ready, gp_steps = map project_step orderedSteps\<rparr>))))))"

end
