(* ===== verification/SessionPlanSteps.thy ===== *)
theory SessionPlanSteps
  imports SessionPlan StateMachines
begin

section \<open>The Plan ledger as a transition system\<close>

text \<open>
  The abstract specification of the Plan handlers: what one accepted entry may do to one
  attempt (\<open>attempt_step\<close>), to one step (\<open>step_step\<close>) and to the Plan (\<open>ledger_step\<close>),
  with the guards that matter for the life of a Plan and without revisions, identifiers and
  references. \<open>ledger_refines\<close> shows that every accepted entry is such a transition; the
  invariants are then proved on the transitions.
\<close>

subsection \<open>Updates of insertion-ordered maps\<close>

lemma map_update_existing:
  "map_of al k = Some w \<Longrightarrow> g (k, v) = g (k, w) \<Longrightarrow> map g (AList.update k v al) = map g al"
  by (induction al) (auto split: if_splits)

lemma length_update_existing: "map_of al k = Some w \<Longrightarrow> length (AList.update k v al) = length al"
  by (induction al) (auto split: if_splits)

lemma update_fresh: "map_of al k = None \<Longrightarrow> AList.update k v al = al @ [(k, v)]"
  by (induction al) (auto split: if_splits)

lemma in_set_updateD: "x \<in> set (AList.update k v al) \<Longrightarrow> x = (k, v) \<or> x \<in> set al"
proof (induction al)
  case (Cons y al)
  then show ?case by (cases y; simp split: if_splits; blast)
qed simp

lemma update_keeps:
  assumes "(j, u) \<in> set al" "distinct (map fst al)" "j \<noteq> k"
  shows "(j, u) \<in> set (AList.update k v al)"
proof -
  have "map_of al j = Some u" using assms(1,2) by simp
  then have "map_of (AList.update k v al) j = Some u" using assms(3) by simp
  then show ?thesis by (rule map_of_SomeD)
qed

lemma update_member: "(k, v) \<in> set (AList.update k v al)"
  by (rule map_of_SomeD) simp

subsection \<open>Transitions\<close>

inductive attempt_step :: "step_state \<Rightarrow> mutable_attempt \<Rightarrow> mutable_attempt \<Rightarrow> bool" for step where
  moved: "state \<in> set (PLAN_ATTEMPT_TRANSITIONS (ma_state a))
     \<Longrightarrow> state \<notin> {T_execution_succeeded, T_execution_failed}
     \<Longrightarrow> (state = T_verified \<longrightarrow> ma_verifications a \<noteq> [] \<and> list_all (\<lambda>v. sv_status v = V_passed) (ma_verifications a))
     \<Longrightarrow> (state = T_rejected \<longrightarrow> list_ex (\<lambda>v. sv_status v \<noteq> V_passed) (ma_verifications a))
     \<Longrightarrow> attempt_step step a (a\<lparr>ma_state := state, ma_errorCode := code\<rparr>)"
| executed: "state \<in> set (PLAN_ATTEMPT_TRANSITIONS (ma_state a))
     \<Longrightarrow> (status, state) \<in> {(E_succeeded, T_execution_succeeded), (E_failed, T_execution_failed), (E_cancelled, T_cancelled)}
     \<Longrightarrow> ma_resultRef a \<noteq> None \<Longrightarrow> ma_resultStatus a = Some status
     \<Longrightarrow> attempt_step step a (a\<lparr>ma_state := state\<rparr>)"
| bound: "ma_state a = T_running \<Longrightarrow> ma_execution a = None
     \<Longrightarrow> attempt_step step a (a\<lparr>ma_execution := Some binding\<rparr>)"
| result: "ma_state a = T_running \<Longrightarrow> ma_resultRef a = None
     \<Longrightarrow> ma_childRunId a = None \<or> ma_childRunId a = Some child
     \<Longrightarrow> attempt_step step a (a\<lparr>ma_childRunId := Some child, ma_resultRef := Some ref, ma_resultDigest := Some digest,
       ma_resultStatus := Some status\<rparr>)"
| verification: "ma_state a = T_verifying \<Longrightarrow> step = S_verifying
     \<Longrightarrow> attempt_step step a (a\<lparr>ma_verificationRef := Some ref, ma_verifications := ma_verifications a @ [v]\<rparr>)"

inductive_cases attempt_stepE: "attempt_step step a b"

text \<open>
  A step changes state along \<open>STEP_TRANSITIONS\<close> or reopens with a reserved attempt; it is running
  only with a reserved newest attempt and succeeds only with a verified one.
\<close>

inductive step_step :: "bool \<Rightarrow> mutable_step \<Rightarrow> mutable_step \<Rightarrow> bool" for regular where
  state: "to \<in> set (STEP_TRANSITIONS (ms_state s)) \<or> (to = S_pending \<and> ms_state s \<in> {S_failed, S_blocked, S_interrupted}
       \<and> list_ex (\<lambda>(_, a). ma_ordinal a = length (ms_attempts s) \<and> ma_state a = T_reserved) (ms_attempts s))
     \<Longrightarrow> (to = S_running \<longrightarrow> map_option ma_state (latestStepAttempt s) = Some T_reserved)
     \<Longrightarrow> (to = S_verifying \<longrightarrow> map_option ma_state (latestStepAttempt s) = Some T_verifying)
     \<Longrightarrow> (to = S_succeeded \<longrightarrow> map_option ma_state (latestStepAttempt s) = Some T_verified)
     \<Longrightarrow> step_step regular s (s\<lparr>ms_state := to, ms_errorCode := code\<rparr>)"
| attempt: "map_of (ms_attempts s) k = Some a \<Longrightarrow> attempt_step (ms_state s) a b
     \<Longrightarrow> step_step regular s (s\<lparr>ms_attempts := AList.update k b (ms_attempts s)\<rparr>)"
| reserve: "ma_attemptId a = k \<Longrightarrow> ma_ordinal a = length (ms_attempts s) + 1 \<Longrightarrow> ma_ordinal a \<le> ms_maxAttempts s
     \<Longrightarrow> ma_verifications a = [] \<Longrightarrow> ma_resultRef a = None \<Longrightarrow> ma_resultStatus a = None
     \<Longrightarrow> map_of (ms_attempts s) k = None \<Longrightarrow> (regular \<longrightarrow> ma_state a = T_reserved)
     \<Longrightarrow> step_step regular s (s\<lparr>ms_attempts := ms_attempts s @ [(k, a)]\<rparr>)"

inductive_cases step_stepE: "step_step regular s t"

text \<open>One accepted entry, as a change of the Plan.\<close>

inductive ledger_step :: "bool \<Rightarrow> mutable_plan option \<Rightarrow> mutable_plan option \<Rightarrow> bool" for regular where
  same: "ledger_step regular p p"
| created: "(\<forall>q. p = Some q \<longrightarrow> mp_state q \<in> {P_succeeded, P_failed, P_cancelled, P_interrupted})
     \<Longrightarrow> mp_steps n = [] \<Longrightarrow> ledger_step regular p (Some n)"
| state: "to \<in> set (PLAN_TRANSITIONS (mp_state p))
     \<Longrightarrow> (to = P_succeeded \<longrightarrow> list_all (\<lambda>(_, s). ms_state s = S_succeeded) (mp_steps p))
     \<Longrightarrow> ledger_step regular (Some p) (Some (p\<lparr>mp_state := to\<rparr>))"
| revised: "\<not> unfinished_work p \<Longrightarrow> mp_revision n = mp_revision p + 1 \<Longrightarrow> mp_planId n = mp_planId p
     \<Longrightarrow> set (mp_steps n) \<subseteq> {(ms_stepId s, s) |s k. (k, s) \<in> set (mp_steps p) \<and> ms_state s = S_succeeded}
     \<Longrightarrow> distinct (map fst (mp_steps n)) \<Longrightarrow> ledger_step regular (Some p) (Some n)"
| step_added: "map_of (mp_steps p) k = None \<Longrightarrow> ms_stepId s = k \<Longrightarrow> ms_attempts s = []
     \<Longrightarrow> (regular \<longrightarrow> ms_state s = S_pending)
     \<Longrightarrow> ledger_step regular (Some p) (Some (p\<lparr>mp_steps := mp_steps p @ [(k, s)]\<rparr>))"
| step_changed: "map_of (mp_steps p) k = Some s \<Longrightarrow> step_step regular s t
     \<Longrightarrow> ledger_step regular (Some p) (Some (p\<lparr>mp_steps := AList.update k t (mp_steps p)\<rparr>))"

inductive_cases ledger_stepE: "ledger_step regular p q"

subsection \<open>Refinement\<close>

lemma transition_require_iff [result_iff]: "transition_require c = Inr u \<longleftrightarrow> c"
  by (simp add: transition_require_def require_return_iff)

lemma useId_iff [result_iff]: "useId ids i = Inr ids' \<longleftrightarrow> i \<notin> set ids \<and> ids' = ids @ [i]"
  by (auto simp: useId_def)

lemma useStableId_iff [result_iff]:
  "useStableId l n i = Inr l' \<longleftrightarrow> n @ '':'' @ i \<notin> set (pl_stableIds l)
     \<and> l' = l\<lparr>pl_stableIds := pl_stableIds l @ [n @ '':'' @ i]\<rparr>"
  by (auto simp: useStableId_def result_iff)

lemma plan_transition_iff [result_iff]:
  "assertReducerTransition (assertPlanStateTransitionV1 a b) = Inr u \<longleftrightarrow> b \<in> set (PLAN_TRANSITIONS a)"
  by (auto simp: assertReducerTransition_def assertPlanStateTransitionV1_def require_def transition_require_iff)

lemma attempt_transition_iff [result_iff]:
  "assertReducerTransition (assertPlanAttemptTransitionV1 c d) = Inr v \<longleftrightarrow> d \<in> set (PLAN_ATTEMPT_TRANSITIONS c)"
  by (auto simp: assertReducerTransition_def assertPlanAttemptTransitionV1_def require_def transition_require_iff)

lemma step_transition_iff [result_iff]:
  "assertReducerTransition (assertPlanStepTransitionV1 a b opts) = Inr u \<longleftrightarrow>
     (if b = S_pending \<and> a \<in> {S_failed, S_blocked, S_interrupted}
      then createsNewAttempt opts \<and> (a = S_failed \<and> retryApproved opts \<or> a = S_blocked \<and> externalConditionChanged opts
        \<or> a = S_interrupted \<and> recoveryRetryApproved opts)
      else b \<in> set (STEP_TRANSITIONS a))"
  by (cases a; cases b)
    (simp_all add: assertReducerTransition_def assertPlanStepTransitionV1_def require_def transition_require_iff conj_commute)

lemma requirePlanRevision_iff [result_iff]:
  "requirePlanRevision plan i r = Inr p \<longleftrightarrow> plan = Some p \<and> mp_planId p = i \<and> mp_revision p = r"
  by (auto simp: requirePlanRevision_def requirePlan_def andThen_return_iff split: option.splits if_splits)

lemma requireStepRevision_iff [result_iff]:
  "requireStepRevision plan auth = Inr (p, s) \<longleftrightarrow> plan = Some p \<and> mp_planId p = sy_planId auth
     \<and> mp_revision p = sy_planRevision auth \<and> map_of (mp_steps p) (sy_stepId auth) = Some s"
  by (auto simp: requireStepRevision_def result_iff split: option.splits)

lemma requireAttemptRevision_iff [result_iff]:
  "requireAttemptRevision plan auth i = Inr (p, s, a) \<longleftrightarrow> plan = Some p \<and> mp_planId p = sy_planId auth
     \<and> mp_revision p = sy_planRevision auth \<and> map_of (mp_steps p) (sy_stepId auth) = Some s
     \<and> map_of (ms_attempts s) i = Some a" (is "?l \<longleftrightarrow> ?r")
proof
  assume ?r
  then have "requireStepRevision plan auth = Inr (p, s)" by (simp add: requireStepRevision_iff)
  then show ?l using \<open>?r\<close> by (simp add: requireAttemptRevision_def)
qed (auto simp: requireAttemptRevision_def andThen_return_iff requireStepRevision_iff split: option.splits)

text \<open>Ids in one namespace determine the stable id.\<close>

lemma stable_id_inj: "n @ '':'' @ i = n @ '':'' @ j \<longleftrightarrow> i = j"
  by simp

text \<open>What the handlers keep of the set of stable ids: keys of the Plan maps are used ids.\<close>

definition plan_attempt_ids :: "mutable_plan \<Rightarrow> string set" where
  "plan_attempt_ids p = (\<Union>s \<in> snd ` set (mp_steps p). fst ` set (ms_attempts s))"

definition keys_used :: "plan_ledger \<Rightarrow> bool" where
  "keys_used l \<longleftrightarrow> (\<forall>p i. pl_plan l = Some p \<longrightarrow> i \<in> plan_attempt_ids p \<longrightarrow> ''attempt'' @ '':'' @ i \<in> set (pl_stableIds l))"

lemma put_attempt_plan [simp]: "pl_plan (put_attempt l p k s i a) =
    Some (p\<lparr>mp_steps := AList.update k (s\<lparr>ms_attempts := AList.update i a (ms_attempts s)\<rparr>) (mp_steps p)\<rparr>)"
  by (simp add: put_attempt_def put_step_def)

lemma put_step_plan [simp]: "pl_plan (put_step l p k s) = Some (p\<lparr>mp_steps := AList.update k s (mp_steps p)\<rparr>)"
  by (simp add: put_step_def)

lemma put_ids [simp]: "pl_stableIds (put_attempt l p k s i a) = pl_stableIds l"
    "pl_stableIds (put_step l p k s) = pl_stableIds l"
  by (simp_all add: put_attempt_def put_step_def)

lemma attempt_changed:
  assumes "map_of (mp_steps p) k = Some s" "map_of (ms_attempts s) i = Some a" "attempt_step (ms_state s) a b"
  shows "ledger_step regular (Some p) (pl_plan (put_attempt l p k s i b))"
  using assms by (auto intro: ledger_step.step_changed step_step.attempt)

lemma plan_created_refines:
  "on_plan_created l i r obj st = Inr l' \<Longrightarrow> ledger_step regular (pl_plan l) (pl_plan l')"
  by (auto simp: on_plan_created_def result_iff split: option.splits intro!: ledger_step.created)

lemma plan_state_refines:
  "on_plan_state_changed l i r st = Inr l' \<Longrightarrow> ledger_step regular (pl_plan l) (pl_plan l')"
  by (auto simp: on_plan_state_changed_def result_iff list_ex_iff list_all_iff case_prod_unfold
      intro!: ledger_step.state)

lemma plan_decision_same: "on_plan_decision l i r k a = Inr l' \<Longrightarrow> l' = l"
  by (cases k; cases a) (auto simp: on_plan_decision_def result_iff split: option.splits if_splits)

lemma reuse_steps_subset:
  assumes "reuse_steps p proofs rest acc = Inr out"
    "set acc \<subseteq> {(ms_stepId s, s) |s k. (k, s) \<in> set (mp_steps p) \<and> ms_state s = S_succeeded}" "distinct (map fst acc)"
  shows "set out \<subseteq> {(ms_stepId s, s) |s k. (k, s) \<in> set (mp_steps p) \<and> ms_state s = S_succeeded}
    \<and> distinct (map fst out)"
  using assms
proof (induction rest arbitrary: acc)
  case (Cons pr rest)
  then obtain s a where s: "map_of (mp_steps p) (rf_stepId pr) = Some s" "latestStepAttempt s = Some a"
    "ms_state s = S_succeeded" and rec: "reuse_steps p proofs rest (AList.update (ms_stepId s) s acc) = Inr out"
    by (auto split: option.splits if_splits)
  have m: "(rf_stepId pr, s) \<in> set (mp_steps p)" using s(1) by (rule map_of_SomeD)
  have "set (AList.update (ms_stepId s) s acc)
      \<subseteq> {(ms_stepId s, s) |s k. (k, s) \<in> set (mp_steps p) \<and> ms_state s = S_succeeded}"
    using Cons.prems(2) m s(3) by (auto dest!: in_set_updateD)
  then show ?case by (rule Cons.IH[OF rec]) (rule distinct_keys_update[OF Cons.prems(3)])
qed simp

lemma plan_revised_refines:
  "on_plan_revised l i f t obj st proofs = Inr l' \<Longrightarrow> ledger_step regular (pl_plan l) (pl_plan l')"
  using reuse_steps_subset[of _ proofs proofs "[]"]
  by (fastforce simp: on_plan_revised_def result_iff intro!: ledger_step.revised)

lemma step_created_refines:
  "on_step_created l auth s = Inr l' \<Longrightarrow> (regular \<longrightarrow> ms_state s = S_pending) \<Longrightarrow> ledger_step regular (pl_plan l) (pl_plan l')"
  by (auto simp: on_step_created_def result_iff update_fresh intro!: ledger_step.step_added)

lemma step_state_refines:
  assumes "on_step_state_changed l auth st reason new code = Inr l'"
  shows "ledger_step regular (pl_plan l) (pl_plan l')"
proof -
  define fresh where "fresh s = (case (case new of None \<Rightarrow> None | Some a \<Rightarrow> map_of (ms_attempts s) a) of None \<Rightarrow> False
    | Some a \<Rightarrow> ma_ordinal a = length (ms_attempts s) \<and> ma_state a = T_reserved)" for s :: mutable_step
  obtain p s where 1: "requireStepRevision (pl_plan l) auth = Inr (p, s)"
    using assms by (cases "requireStepRevision (pl_plan l) auth") (auto simp: on_step_state_changed_def)
  define opts where "opts = \<lparr>retryApproved = (reason = Some Retry_approved),
    recoveryRetryApproved = (reason = Some Recovery_retry_approved),
    externalConditionChanged = (reason = Some External_condition_changed), createsNewAttempt = fresh s\<rparr>"
  have 2: "assertReducerTransition (assertPlanStepTransitionV1 (ms_state s) st opts) = Inr ()"
    and 3: "transition_require (\<not> ((st = S_running \<and> map_option ma_state (latestStepAttempt s) \<noteq> Some T_reserved)
       \<or> (st = S_verifying \<and> map_option ma_state (latestStepAttempt s) \<noteq> Some T_verifying)
       \<or> (st = S_succeeded \<and> map_option ma_state (latestStepAttempt s) \<noteq> Some T_verified))) = Inr ()"
    and 4: "l' = put_step l p (sy_stepId auth) (s\<lparr>ms_state := st, ms_errorCode := code\<rparr>)"
    using assms by (simp_all only: on_step_state_changed_def Let_def 1 andThen_simps prod.case andThen_return_iff
        fresh_def[symmetric] opts_def[symmetric]) auto
  have "fresh s \<Longrightarrow> list_ex (\<lambda>(_, a). ma_ordinal a = length (ms_attempts s) \<and> ma_state a = T_reserved) (ms_attempts s)"
    by (auto simp: fresh_def list_ex_iff dest!: map_of_SomeD split: option.splits)
  then have "step_step regular s (s\<lparr>ms_state := st, ms_errorCode := code\<rparr>)"
    using 2 3 by (intro step_step.state) (auto simp: result_iff opts_def split: if_splits)
  then show ?thesis using 1 4 by (auto simp: result_iff intro: ledger_step.step_changed)
qed

lemma attempt_created_refines:
  assumes "on_attempt_created l auth i n st child = Inr l'" "keys_used l" "regular \<longrightarrow> st = T_reserved"
  shows "ledger_step regular (pl_plan l) (pl_plan l')"
proof -
  let ?a = "\<lparr>ma_attemptId = i, ma_ordinal = n, ma_state = st, ma_childRunId = child,
        ma_resultRef = None, ma_resultDigest = None, ma_resultStatus = None, ma_verificationRef = None,
        ma_errorCode = None, ma_execution = None, ma_verifications = []\<rparr>"
  obtain p s where p: "pl_plan l = Some p" "map_of (mp_steps p) (sy_stepId auth) = Some s"
    and n: "n = length (ms_attempts s) + 1" "n \<le> ms_maxAttempts s" and i: "''attempt'' @ '':'' @ i \<notin> set (pl_stableIds l)"
    and l': "pl_plan l' = Some (p\<lparr>mp_steps := AList.update (sy_stepId auth)
        (s\<lparr>ms_attempts := AList.update i ?a (ms_attempts s)\<rparr>) (mp_steps p)\<rparr>)"
    using assms(1) unfolding on_attempt_created_def andThen_return_iff by (auto simp: result_iff)
  have "map_of (ms_attempts s) i = None"
  proof (rule ccontr)
    assume "map_of (ms_attempts s) i \<noteq> None"
    then obtain a where "(i, a) \<in> set (ms_attempts s)" by (auto dest: map_of_SomeD)
    then have "i \<in> plan_attempt_ids p" using map_of_SomeD[OF p(2)] by (force simp: plan_attempt_ids_def)
    then show False using assms(2) i p(1) by (simp add: keys_used_def)
  qed
  then show ?thesis using p n l' assms(3) by (auto simp: update_fresh intro!: ledger_step.step_changed step_step.reserve)
qed

lemma attempt_state_refines:
  assumes "on_attempt_state_changed l auth i st code = Inr l'"
  shows "ledger_step regular (pl_plan l) (pl_plan l')"
proof -
  obtain p s a where r: "requireAttemptRevision (pl_plan l) auth i = Inr (p, s, a)"
    and t: "st \<in> set (PLAN_ATTEMPT_TRANSITIONS (ma_state a))" "st \<noteq> T_execution_succeeded" "st \<noteq> T_execution_failed"
      "\<not> ((st = T_verified \<and> (ma_verifications a = [] \<or> list_ex (\<lambda>v. sv_status v \<noteq> V_passed) (ma_verifications a)))
       \<or> (st = T_rejected \<and> \<not> list_ex (\<lambda>v. sv_status v \<noteq> V_passed) (ma_verifications a)))"
    and l': "l' = put_attempt l p (sy_stepId auth) s i (a\<lparr>ma_state := st, ma_errorCode := code\<rparr>)"
    using assms unfolding on_attempt_state_changed_def andThen_return_iff
    by (auto simp: andThen_return_iff transition_require_iff attempt_transition_iff)
  have "attempt_step (ms_state s) a (a\<lparr>ma_state := st, ma_errorCode := code\<rparr>)"
    using t by (intro attempt_step.moved) (auto simp: list_all_iff list_ex_iff)
  then show ?thesis using r l' by (auto simp: requireAttemptRevision_iff intro!: attempt_changed simp del: put_attempt_plan)
qed

lemma execution_completed_refines:
  "on_execution_completed l auth i status = Inr l' \<Longrightarrow> ledger_step regular (pl_plan l) (pl_plan l')"
  unfolding on_execution_completed_def Let_def andThen_return_iff
  by (cases status) (auto simp: result_iff intro!: attempt_changed attempt_step.executed simp del: put_attempt_plan)

lemma execution_bound_refines:
  "on_execution_bound l auth i child binding pr = Inr l' \<Longrightarrow> ledger_step regular (pl_plan l) (pl_plan l')"
  unfolding on_execution_bound_def andThen_return_iff
  by (auto simp: result_iff intro!: attempt_changed attempt_step.bound simp del: put_attempt_plan)

lemma result_recorded_refines:
  "on_result_recorded l auth i child ref digest status = Inr l' \<Longrightarrow> ledger_step regular (pl_plan l) (pl_plan l')"
  unfolding on_result_recorded_def Let_def andThen_return_iff
  by (auto simp: result_iff intro!: ledger_step.step_changed step_step.attempt attempt_step.result split: if_splits)

lemma verification_refines:
  "on_verification l auth i v = Inr l' \<Longrightarrow> ledger_step regular (pl_plan l) (pl_plan l')"
  unfolding on_verification_def Let_def andThen_return_iff
  by (auto simp: result_iff intro!: ledger_step.step_changed step_step.attempt attempt_step.verification)

text \<open>
  The reducer takes the initial state of a step or an attempt from its entry. An entry is
  \<open>regular\<close> when it creates steps as pending and attempts as reserved, as the planner does.
\<close>

definition regular_event :: "plan_event \<Rightarrow> bool" where
  "regular_event e = (case e of Step_created auth s \<Rightarrow> ms_state s = S_pending
     | Plan_attempt_created auth i n st child \<Rightarrow> st = T_reserved | _ \<Rightarrow> True)"

lemma ledger_refines:
  assumes "applyPlanEvent pr l e = Inr l'" "keys_used l" "regular \<longrightarrow> regular_event e"
  shows "ledger_step regular (pl_plan l) (pl_plan l')"
  using assms by (cases e) (auto simp: applyPlanEvent_def regular_event_def ledger_step.same dest: plan_decision_same
    intro: plan_created_refines plan_state_refines plan_revised_refines step_created_refines step_state_refines
      attempt_created_refines attempt_state_refines execution_completed_refines execution_bound_refines
      result_recorded_refines verification_refines)

subsection \<open>Stable ids\<close>

text \<open>An accepted entry only adds ids, each once; the ids of attempts are among them.\<close>

definition ids_grow :: "plan_ledger \<Rightarrow> plan_ledger \<Rightarrow> bool" where
  "ids_grow l l' \<longleftrightarrow> (\<exists>new. pl_stableIds l' = pl_stableIds l @ new)
     \<and> (distinct (pl_stableIds l) \<longrightarrow> distinct (pl_stableIds l'))"

lemma step_state_put:
  assumes "on_step_state_changed l auth st reason new code = Inr l'"
  shows "\<exists>p s. pl_plan l = Some p \<and> map_of (mp_steps p) (sy_stepId auth) = Some s
    \<and> l' = put_step l p (sy_stepId auth) (s\<lparr>ms_state := st, ms_errorCode := code\<rparr>)"
  using assms unfolding on_step_state_changed_def Let_def andThen_return_iff
  by (auto simp: andThen_return_iff requireStepRevision_iff)

lemma apply_ids_grow: "applyPlanEvent pr l e = Inr l' \<Longrightarrow> ids_grow l l'"
  by (cases e) (auto simp: applyPlanEvent_def on_plan_created_def on_plan_state_changed_def on_plan_revised_def
    on_step_created_def on_attempt_created_def on_attempt_state_changed_def on_execution_completed_def
    on_execution_bound_def on_result_recorded_def on_verification_def Let_def result_iff ids_grow_def
    split: if_splits option.splits dest!: plan_decision_same step_state_put)

lemma attempt_ids_mono:
  "snd ` set (mp_steps n) \<subseteq> snd ` set (mp_steps p) \<Longrightarrow> plan_attempt_ids n \<subseteq> plan_attempt_ids p"
  unfolding plan_attempt_ids_def by blast

lemma attempt_ids_update:
  "plan_attempt_ids (p\<lparr>mp_steps := AList.update k t (mp_steps p)\<rparr>) \<subseteq> plan_attempt_ids p \<union> fst ` set (ms_attempts t)"
  by (fastforce simp: plan_attempt_ids_def dest: in_set_updateD)

lemma keys_updated: "fst ` set (AList.update i a xs) = insert i (fst ` set xs)"
  by (simp add: dom_update)

lemma attempt_ids_step: "map_of (mp_steps p) k = Some s \<Longrightarrow> fst ` set (ms_attempts s) \<subseteq> plan_attempt_ids p"
  by (force simp: plan_attempt_ids_def dest: map_of_SomeD)

text \<open>Writing an attempt back, or a new one whose id has just been used, keeps the invariant.\<close>

lemma keys_used_put_attempt:
  assumes "keys_used l" "pl_plan l = Some p" "map_of (mp_steps p) k = Some s"
    and "set (pl_stableIds l) \<subseteq> set (pl_stableIds m)" "''attempt'' @ '':'' @ i \<in> set (pl_stableIds m)"
  shows "keys_used (put_attempt m p k s i a)"
proof -
  have "plan_attempt_ids (p\<lparr>mp_steps := AList.update k (s\<lparr>ms_attempts := AList.update i a (ms_attempts s)\<rparr>) (mp_steps p)\<rparr>)
      \<subseteq> insert i (plan_attempt_ids p)"
    using attempt_ids_step[OF assms(3)] by (intro order_trans[OF attempt_ids_update]) (auto simp: keys_updated)
  then show ?thesis using assms by (fastforce simp: keys_used_def)
qed

lemma keys_used_existing:
  assumes "keys_used l" "requireAttemptRevision (pl_plan l) auth i = Inr (p, s, a)"
    and "set (pl_stableIds l) \<subseteq> set (pl_stableIds m)"
  shows "keys_used (put_attempt m p (sy_stepId auth) s i b)"
proof (rule keys_used_put_attempt[OF assms(1)])
  have "i \<in> plan_attempt_ids p"
    using assms(2) attempt_ids_step by (force simp: requireAttemptRevision_iff dest: map_of_SomeD)
  then show "''attempt'' @ '':'' @ i \<in> set (pl_stableIds m)"
    using assms by (auto simp: keys_used_def requireAttemptRevision_iff)
qed (use assms in \<open>auto simp: requireAttemptRevision_iff\<close>)

lemma keys_used_results [simp]: "keys_used (l\<lparr>pl_resultRefs := r\<rparr>) = keys_used l"
  by (simp add: keys_used_def)

lemma keys_used_empty: "pl_plan m = Some q \<Longrightarrow> mp_steps q = [] \<Longrightarrow> keys_used m"
  by (simp add: keys_used_def plan_attempt_ids_def)

lemma keys_used_sub:
  assumes "keys_used l" "pl_plan l = Some p" "pl_plan m = Some q" "set (pl_stableIds l) \<subseteq> set (pl_stableIds m)"
    and "plan_attempt_ids q \<subseteq> plan_attempt_ids p"
  shows "keys_used m"
  using assms by (auto simp: keys_used_def subset_iff simp del: append_Cons)

lemma step_state_keys:
  assumes "on_step_state_changed l auth st reason new code = Inr l'" "keys_used l"
  shows "keys_used l'"
proof -
  obtain p s where p: "pl_plan l = Some p" "map_of (mp_steps p) (sy_stepId auth) = Some s"
    and l': "l' = put_step l p (sy_stepId auth) (s\<lparr>ms_state := st, ms_errorCode := code\<rparr>)"
    using step_state_put[OF assms(1)] by blast
  have "plan_attempt_ids (p\<lparr>mp_steps := AList.update (sy_stepId auth) (s\<lparr>ms_state := st, ms_errorCode := code\<rparr>) (mp_steps p)\<rparr>)
      \<subseteq> plan_attempt_ids p"
    using attempt_ids_step[OF p(2)] by (intro order_trans[OF attempt_ids_update]) simp
  then show ?thesis using l' by (intro keys_used_sub[OF assms(2) p(1)]) simp_all
qed

lemma plan_revised_keys:
  assumes "on_plan_revised l i f t obj st proofs = Inr l'" "keys_used l"
  shows "keys_used l'"
proof -
  obtain p out where p: "pl_plan l = Some p" "reuse_steps p proofs proofs [] = Inr out"
    and l': "l' = l\<lparr>pl_plan := Some (p\<lparr>mp_revision := t, mp_objective := obj, mp_state := st, mp_steps := out\<rparr>)\<rparr>"
    using assms(1) by (auto simp: on_plan_revised_def result_iff)
  have "snd ` set out \<subseteq> snd ` set (mp_steps p)" using reuse_steps_subset[OF p(2)] by force
  then have "plan_attempt_ids (p\<lparr>mp_revision := t, mp_objective := obj, mp_state := st, mp_steps := out\<rparr>)
      \<subseteq> plan_attempt_ids p" by (intro attempt_ids_mono) simp
  then show ?thesis using l' by (intro keys_used_sub[OF assms(2) p(1)]) simp_all
qed

lemma step_created_keys:
  assumes "on_step_created l auth s = Inr l'" "keys_used l"
  shows "keys_used l'"
proof -
  obtain p where p: "pl_plan l = Some p"
    and l': "l' = put_step (l\<lparr>pl_stableIds := pl_stableIds l @ [''step'' @ '':'' @ sy_stepId auth]\<rparr>) p (sy_stepId auth)
      (s\<lparr>ms_stepId := sy_stepId auth, ms_errorCode := None, ms_attempts := []\<rparr>)"
    using assms(1) by (auto simp: on_step_created_def result_iff)
  have "plan_attempt_ids (p\<lparr>mp_steps := AList.update (sy_stepId auth)
      (s\<lparr>ms_stepId := sy_stepId auth, ms_errorCode := None, ms_attempts := []\<rparr>) (mp_steps p)\<rparr>) \<subseteq> plan_attempt_ids p"
    by (rule order_trans[OF attempt_ids_update]) simp
  then show ?thesis using l' by (intro keys_used_sub[OF assms(2) p]) auto
qed

lemma attempt_created_keys:
  assumes "on_attempt_created l auth i n st child = Inr l'" "keys_used l"
  shows "keys_used l'"
  using assms by (cases child)
    (auto simp: on_attempt_created_def result_iff intro!: keys_used_put_attempt[OF assms(2)])

lemma apply_keys_used:
  assumes "applyPlanEvent pr l e = Inr l'" "keys_used l"
  shows "keys_used l'"
proof (cases e)
  case (Plan_created i r obj st)
  then show ?thesis using assms
    by (auto simp: applyPlanEvent_def on_plan_created_def result_iff intro!: keys_used_empty)
next
  case (Plan_state_changed i r st)
  then show ?thesis using assms
    by (auto simp: applyPlanEvent_def on_plan_state_changed_def result_iff
        intro!: keys_used_sub[OF assms(2)] attempt_ids_mono)
next
  case (Plan_attempt_state_changed auth i st code)
  then show ?thesis using assms by (auto simp: applyPlanEvent_def on_attempt_state_changed_def andThen_return_iff
      intro!: keys_used_existing[OF assms(2)])
next
  case (Attempt_execution_completed auth i status)
  then show ?thesis using assms by (auto simp: applyPlanEvent_def on_execution_completed_def Let_def andThen_return_iff
      intro!: keys_used_existing[OF assms(2)])
next
  case (Subagent_execution_bound auth i child binding)
  then show ?thesis using assms by (auto simp: applyPlanEvent_def on_execution_bound_def andThen_return_iff
      intro!: keys_used_existing[OF assms(2)])
next
  case (Subagent_result_recorded auth i child ref digest status)
  then show ?thesis using assms by (auto simp: applyPlanEvent_def on_result_recorded_def Let_def andThen_return_iff
      useStableId_iff split: if_splits intro!: keys_used_existing[OF assms(2)])
next
  case (Verification_recorded auth i v)
  have "pl_plan (l\<lparr>pl_stableIds := ids\<rparr>) = pl_plan l" for ids by simp
  then show ?thesis using assms Verification_recorded by (auto simp: applyPlanEvent_def on_verification_def Let_def andThen_return_iff
      useStableId_iff intro!: keys_used_existing[OF assms(2)])
qed (use assms in \<open>auto simp: applyPlanEvent_def dest: plan_decision_same step_state_keys plan_revised_keys
      step_created_keys attempt_created_keys\<close>)

subsection \<open>Invariants of the steps\<close>

text \<open>
  A property of single steps that every step transition keeps and every new step has holds of
  all steps of the Plan after any accepted history.
\<close>

locale step_invariant =
  fixes regular :: bool and P :: "mutable_step \<Rightarrow> bool"
  assumes starts: "ms_attempts s = [] \<Longrightarrow> (regular \<longrightarrow> ms_state s = S_pending) \<Longrightarrow> P s"
    and keeps: "step_step regular s t \<Longrightarrow> P s \<Longrightarrow> P t"
begin

definition all_steps :: "mutable_plan option \<Rightarrow> bool" where
  "all_steps p \<longleftrightarrow> (\<forall>q s. p = Some q \<longrightarrow> s \<in> snd ` set (mp_steps q) \<longrightarrow> P s)"

lemma ledger_keeps:
  assumes "ledger_step regular p q" "all_steps p" shows "all_steps q"
  using assms
proof cases
  case (revised p' n)
  then have "snd ` set (mp_steps n) \<subseteq> snd ` set (mp_steps p')" by force
  then show ?thesis using assms(2) revised by (auto simp: all_steps_def subset_iff)
next
  case (step_changed p' k s t)
  then have "P t" using keeps assms(2) by (force simp: all_steps_def dest: map_of_SomeD)
  then show ?thesis using assms(2) step_changed by (auto simp: all_steps_def dest!: in_set_updateD)
qed (auto simp: all_steps_def intro: starts)

end

end
