(* ===== verification/ReviewPlanEvents.thy ===== *)
theory ReviewPlanEvents
  imports ReviewPlan
begin

section \<open>The review Plan reducer\<close>

text \<open>
  \<open>reduceReviewPlanEventV1\<close> of \<open>packages/core-sdk/src/review-plan-events.ts\<close>: one event of the
  Session log, validated first, changes the current review Plan, and what results is validated
  again. \<open>next\<close> is the clone of the Plan the code assigns to; an assignment to an item or to its
  current attempt is an update of the record written back into the list of items.
\<close>

record review_event =
  re_type :: string
  re_sequence :: nat
  re_revision :: nat
  re_runId :: "string option"
  re_correlation :: js_value
  re_data :: js_value

subsection \<open>Validation of events\<close>

definition REVIEW_PLAN_EVENT_TYPES_V1 :: "string list" where
  "REVIEW_PLAN_EVENT_TYPES_V1 = [''review_plan.created'', ''review_plan.revised'', ''review_plan.item_state_changed'',
     ''review_plan.item_attempt_started'', ''review_plan.item_attempt_focused'', ''review_plan.item_attempt_carried_forward'',
     ''review_plan.item_attempt_closed'', ''review_plan.execution_requested'', ''review_plan.execution_bound'',
     ''review_plan.root_tool_requested'', ''review_plan.root_tool_recorded'', ''review_plan.review_prepared'',
     ''review_plan.review_requested'', ''review_plan.review_recorded'', ''review_plan.no_progress_recorded'',
     ''review_plan.block_resolved'', ''review_plan.state_changed'']"

definition isReviewPlanEventTypeV1 :: "string \<Rightarrow> bool" where
  "isReviewPlanEventTypeV1 value \<longleftrightarrow> value \<in> set REVIEW_PLAN_EVENT_TYPES_V1"

definition validateReviewPlanMutationOriginV1 :: "js_value \<Rightarrow> bool" where
  "validateReviewPlanMutationOriginV1 value \<longleftrightarrow> is_record value \<and> (let r = the_record value; f = getProp r in
     if f ''kind'' = JStr ''tool''
     then onlyKeys r [''kind'', ''invocationId'', ''payloadDigest''] [] \<and> is_string (f ''invocationId'')
       \<and> prefixed_id ''pti_'' (the_string (f ''invocationId'')) \<and> sha256_digest (f ''payloadDigest'')
     else if f ''kind'' = JStr ''runtime''
     then onlyKeys r [''kind'', ''requestId'', ''inputDigest''] [] \<and> safeId (f ''requestId'') \<and> sha256_digest (f ''inputDigest'')
     else if f ''kind'' = JStr ''host''
     then onlyKeys r [''kind'', ''controlEventId'', ''inputDigest''] [''resolutionRequestId''] \<and> safeId (f ''controlEventId'')
       \<and> sha256_digest (f ''inputDigest'') \<and> if_defined safeId (f ''resolutionRequestId'')
     else False)"

definition validateCorrelation :: "js_value \<Rightarrow> bool" where
  "validateCorrelation value \<longleftrightarrow> is_record value \<and> the_record value \<noteq> []
     \<and> list_all (\<lambda>(k, entry). if_defined safeId entry) (the_record value)
     \<and> list_all (\<lambda>(k, entry). k \<in> set [''planId'', ''itemId'', ''itemAttemptId'', ''executionRequestId'', ''reviewRequestId'',
         ''invocationId'', ''runtimeRequestId'', ''controlEventId'', ''resolutionRequestId'']) (the_record value)"

definition validateCommon :: "js_record \<Rightarrow> bool" where
  "validateCommon data \<longleftrightarrow> validateReviewPlanMutationOriginV1 (getProp data ''origin'') \<and> sha256_digest (getProp data ''mutationDigest'')
     \<and> safeId (getProp data ''planId'') \<and> positiveInteger (getProp data ''planRevision'')"

definition reference_text :: "js_value \<Rightarrow> bool" where
  "reference_text value \<longleftrightarrow> text_within value 2048"

definition validateTaskContractData :: "(string \<Rightarrow> string) \<Rightarrow> js_value \<Rightarrow> bool" where
  "validateTaskContractData sha256 value \<longleftrightarrow> is_record value \<and> (let r = the_record value; f = getProp r in
     onlyKeys r [''runId'', ''messageId'', ''text'', ''digest''] [] \<and> safeId (f ''runId'') \<and> safeId (f ''messageId'')
     \<and> text_within (f ''text'') (64 * 1024) \<and> sha256_digest (f ''digest'')
     \<and> canonicalDigestV1 sha256 (f ''text'') = Inr (the_string (f ''digest'')))"

text \<open>\<open>item(data.itemId, data.itemAttemptId)\<close>\<close>

definition item_ids :: "js_record \<Rightarrow> bool" where
  "item_ids data \<longleftrightarrow> safeId (getProp data ''itemId'') \<and> if_defined safeId (getProp data ''itemAttemptId'')"

definition validateEventData :: "(string \<Rightarrow> bool) \<Rightarrow> (string \<Rightarrow> string) \<Rightarrow> string \<Rightarrow> js_record \<Rightarrow> bool" where
  "validateEventData host_date sha256 type data \<longleftrightarrow> validateCommon data \<and> (let f = getProp data;
       keys = (\<lambda>required optionals. onlyKeys data ([''origin'', ''mutationDigest'', ''planId'', ''planRevision''] @ required) optionals) in
     if type = ''review_plan.created''
     then keys [''input'', ''planHash''] [''taskContract''] \<and> is_ok (validatePlanCreateInputV1 (f ''input''))
       \<and> sha256_digest (f ''planHash'') \<and> if_defined (validateTaskContractData sha256) (f ''taskContract'')
     else if type = ''review_plan.revised''
     then keys [''fromPlanRevision'', ''input'', ''planHash''] [] \<and> positiveInteger (f ''fromPlanRevision'')
       \<and> is_ok (validatePlanCreateInputV1 (f ''input'')) \<and> sha256_digest (f ''planHash'')
     else if type = ''review_plan.item_state_changed''
     then keys [''itemId'', ''state''] [''block''] \<and> item_ids data \<and> enum_state (f ''state'') ITEM_STATES
       \<and> if_defined (validateBlock host_date) (f ''block'')
     else if type = ''review_plan.item_attempt_started''
     then keys [''itemId'', ''itemAttemptId'', ''attemptNumber''] [] \<and> item_ids data \<and> positiveInteger (f ''attemptNumber'')
     else if type = ''review_plan.item_attempt_focused''
     then keys [''itemId'', ''itemAttemptId''] [] \<and> item_ids data
     else if type = ''review_plan.item_attempt_carried_forward''
     then keys [''itemId'', ''itemAttemptId'', ''fromPlanRevision'', ''executionInputDigest''] [] \<and> item_ids data
       \<and> positiveInteger (f ''fromPlanRevision'') \<and> sha256_digest (f ''executionInputDigest'')
     else if type = ''review_plan.item_attempt_closed''
     then keys [''itemId'', ''itemAttemptId'', ''attemptState''] [] \<and> item_ids data
       \<and> enum_state (f ''attemptState'') [''accepted'', ''needs_fix'', ''blocked'', ''cancelled'']
     else if type = ''review_plan.execution_requested''
     then keys [''itemId'', ''itemAttemptId'', ''executionRequestId'', ''executionInputDigest''] [] \<and> item_ids data
       \<and> safeId (f ''executionRequestId'') \<and> sha256_digest (f ''executionInputDigest'')
     else if type = ''review_plan.execution_bound''
     then keys [''itemId'', ''itemAttemptId'', ''executionRequestId'', ''taskRef''] [] \<and> item_ids data
       \<and> safeId (f ''executionRequestId'') \<and> reference_text (f ''taskRef'')
     else if type = ''review_plan.root_tool_requested''
     then keys [''itemId'', ''itemAttemptId'', ''requestId'', ''invocationId'', ''toolName'', ''inputDigest''] [] \<and> item_ids data
       \<and> list_all (\<lambda>key. safeId (f key)) [''requestId'', ''invocationId'', ''toolName''] \<and> sha256_digest (f ''inputDigest'')
     else if type = ''review_plan.root_tool_recorded''
     then keys [''itemId'', ''itemAttemptId'', ''requestId''] [''resultRef'', ''effectReceiptRef'', ''changedFilesDigest'']
       \<and> item_ids data \<and> safeId (f ''requestId'') \<and> \<not> (f ''resultRef'' = JUndef \<and> f ''effectReceiptRef'' = JUndef)
       \<and> if_defined reference_text (f ''resultRef'') \<and> if_defined reference_text (f ''effectReceiptRef'')
       \<and> if_defined sha256_digest (f ''changedFilesDigest'')
     else if type = ''review_plan.review_prepared''
     then keys [''preparedReview''] [] \<and> validatePreparedReview (f ''preparedReview'')
     else if type = ''review_plan.review_requested''
     then keys [''preparedReviewId'', ''reviewRequestId'', ''deterministicDigest'', ''deterministicAttemptCount'', ''providerAttemptCount''] []
       \<and> safeId (f ''preparedReviewId'') \<and> safeId (f ''reviewRequestId'') \<and> sha256_digest (f ''deterministicDigest'')
       \<and> positiveInteger (f ''deterministicAttemptCount'') \<and> nonNegativeInteger (f ''providerAttemptCount'')
     else if type = ''review_plan.review_recorded''
     then keys [''preparedReviewId'', ''reviewRequestId'', ''decision''] [] \<and> safeId (f ''preparedReviewId'')
       \<and> safeId (f ''reviewRequestId'') \<and> validateDecisionRef (f ''decision'')
     else if type = ''review_plan.no_progress_recorded''
     then keys [''noProgressCount''] [] \<and> positiveInteger (f ''noProgressCount'')
     else if type = ''review_plan.block_resolved''
     then keys [''blockId''] [] \<and> is_string (f ''blockId'') \<and> starts_with ''rpb_'' (the_string (f ''blockId''))
     else if type = ''review_plan.state_changed''
     then keys [''state''] [''block''] \<and> enum_state (f ''state'') REVIEW_PLAN_STATES \<and> if_defined (validateBlock host_date) (f ''block'')
       \<and> (f ''state'' = JStr ''blocked'' \<longleftrightarrow> f ''block'' \<noteq> JUndef)
     else True)"

definition validateReviewPlanEventV1 :: "(string \<Rightarrow> bool) \<Rightarrow> (string \<Rightarrow> string) \<Rightarrow> review_event \<Rightarrow> js_record review_result" where
  "validateReviewPlanEventV1 host_date sha256 event =
     (if isReviewPlanEventTypeV1 (re_type event) \<and> 0 < re_sequence event \<and> safe_nat (re_sequence event)
         \<and> 0 < re_revision event \<and> safe_nat (re_revision event) \<and> is_record (re_data event)
         \<and> (case re_runId event of None \<Rightarrow> True | Some i \<Rightarrow> safe_id_string i)
         \<and> if_defined validateCorrelation (re_correlation event)
         \<and> validateEventData host_date sha256 (re_type event) (the_record (re_data event))
      then Inr (the_record (re_data event)) else Inl REVIEW_PLAN_EVENT_INVALID)"

subsection \<open>Reading and writing the Plan\<close>

definition review_require :: "bool \<Rightarrow> unit review_result" where
  "review_require c = require c REVIEW_PLAN_EVENT_TRANSITION_INVALID"

definition requireCurrent :: "js_record option \<Rightarrow> js_value \<Rightarrow> js_value \<Rightarrow> string \<Rightarrow> js_record review_result" where
  "requireCurrent current planId revision type = (case current of None \<Rightarrow> Inl REVIEW_PLAN_EVENT_TRANSITION_INVALID
     | Some plan \<Rightarrow> if getProp plan ''planId'' \<noteq> planId then Inl REVIEW_PLAN_EVENT_TRANSITION_INVALID
         else if type \<noteq> ''review_plan.revised'' \<and> getProp plan ''revision'' \<noteq> revision
         then Inl REVIEW_PLAN_EVENT_TRANSITION_INVALID else Inr plan)"

definition plan_items :: "js_record \<Rightarrow> js_value list" where
  "plan_items plan = the_array (getProp plan ''items'')"

definition mutableItem :: "js_record \<Rightarrow> js_value \<Rightarrow> js_record review_result" where
  "mutableItem plan itemId = (case List.find (\<lambda>candidate. member candidate ''id'' = itemId) (plan_items plan) of
     None \<Rightarrow> Inl REVIEW_PLAN_EVENT_TRANSITION_INVALID | Some item \<Rightarrow> Inr (the_record item))"

definition requireAttempt :: "js_record \<Rightarrow> js_value \<Rightarrow> js_record review_result" where
  "requireAttempt item attemptId =
     (if getProp item ''currentAttempt'' = JUndef \<or> member (getProp item ''currentAttempt'') ''itemAttemptId'' \<noteq> attemptId
      then Inl REVIEW_PLAN_EVENT_TRANSITION_INVALID else Inr (the_record (getProp item ''currentAttempt'')))"

definition requirePrepared :: "js_record \<Rightarrow> js_value \<Rightarrow> js_record review_result" where
  "requirePrepared plan preparedReviewId =
     (let prepared = or_default (getProp plan ''finalPreparedReview'')
        (case List.find (\<lambda>item. member (member item ''preparedReview'') ''preparedReviewId'' = preparedReviewId) (plan_items plan) of
           None \<Rightarrow> JUndef | Some item \<Rightarrow> member item ''preparedReview'') in
      if prepared = JUndef \<or> member prepared ''preparedReviewId'' \<noteq> preparedReviewId
      then Inl REVIEW_PLAN_EVENT_TRANSITION_INVALID else Inr (the_record prepared))"

fun map_first :: "('a \<Rightarrow> bool) \<Rightarrow> ('a \<Rightarrow> 'a) \<Rightarrow> 'a list \<Rightarrow> 'a list" where
  "map_first P f [] = []"
| "map_first P f (x # xs) = (if P x then f x # xs else x # map_first P f xs)"

text \<open>Writing an item back after assignments to the object \<open>mutableItem\<close> returned.\<close>

definition put_item :: "js_record \<Rightarrow> js_value \<Rightarrow> js_record \<Rightarrow> js_record" where
  "put_item plan itemId item = setProp plan ''items''
     (JArr (map_first (\<lambda>candidate. member candidate ''id'' = itemId) (\<lambda>_. JObj item) (plan_items plan)))"

definition js_inc :: "js_value \<Rightarrow> js_value" where
  "js_inc v = JNum (Whole (the_int v + 1))"

definition appendUnique :: "js_value \<Rightarrow> js_value \<Rightarrow> js_value review_result" where
  "appendUnique values value = (if value \<in> set (the_array values) then Inl REVIEW_PLAN_EVENT_TRANSITION_INVALID
     else Inr (JArr (the_array values @ [value])))"

definition itemStateForVerdict :: "js_value \<Rightarrow> js_value" where
  "itemStateForVerdict verdict = (if verdict = JStr ''accepted'' then JStr ''accepted''
     else if verdict = JStr ''blocked'' then JStr ''blocked'' else JStr ''needs_fix'')"

definition planStateForVerdict :: "js_value \<Rightarrow> js_value" where
  "planStateForVerdict verdict = (if verdict = JStr ''accepted'' then JStr ''completed''
     else if verdict = JStr ''blocked'' then JStr ''blocked'' else JStr ''active'')"

definition delete_focus :: "js_record \<Rightarrow> js_value \<Rightarrow> js_record" where
  "delete_focus plan attemptId = (if getProp plan ''focusedRootAttemptId'' = attemptId
     then delProp plan ''focusedRootAttemptId'' else plan)"

subsection \<open>Events\<close>

definition criterion_entry :: "(string \<Rightarrow> string) \<Rightarrow> js_value \<Rightarrow> js_value review_result" where
  "criterion_entry sha256 criterion = andThen (reviewCriterionDigestV1 sha256 criterion) (\<lambda>digest.
     Inr (JObj (spread (the_record criterion) [(''definitionDigest'', JStr digest), (''status'', JStr ''active'')])))"

definition fresh_item :: "js_value \<Rightarrow> nat \<Rightarrow> js_value" where
  "fresh_item definitionItem order = JObj (spread (the_record definitionItem) [(''order'', jnat order), (''state'', JStr ''pending''),
     (''attemptCount'', jnat 0), (''taskRefs'', JArr []), (''evidenceRefs'', JArr [])])"

definition on_review_created :: "(string \<Rightarrow> string) \<Rightarrow> js_record option \<Rightarrow> js_record \<Rightarrow> js_record review_result" where
  "on_review_created sha256 current data =
     andThen (review_require (current = None \<and> getProp data ''planRevision'' = jnat 1)) (\<lambda>_.
     andThen (validatePlanCreateInputV1 (getProp data ''input'')) (\<lambda>definition.
     let policy = or_default (member definition ''reviewPolicy'') DEFAULT_REVIEW_POLICY_V1;
         objective = member definition ''objective''; criteria = member definition ''acceptanceCriteria'';
         items = member definition ''items'' in
     andThen (reviewPlanHashV1 sha256 objective criteria items policy) (\<lambda>expectedHash.
     andThen (review_require (getProp data ''planHash'' = JStr expectedHash)) (\<lambda>_.
     andThen (canonicalDigestV1 sha256 objective) (\<lambda>objectiveDigest.
     andThen (mapR (criterion_entry sha256) (the_array criteria)) (\<lambda>criteriaEntries.
     Inr ([(''schemaVersion'', jnat 1), (''planId'', getProp data ''planId''), (''revision'', jnat 1), (''objective'', objective),
       (''objectiveDigest'', JStr objectiveDigest)] @ optProp ''taskContract'' (getProp data ''taskContract'')
       @ [(''state'', JStr ''active''), (''policy'', policy), (''criteria'', JArr criteriaEntries),
          (''items'', JArr (map (\<lambda>(order, item). fresh_item item order) (enumerate 0 (the_array items)))),
          (''attemptCount'', jnat 0), (''replanCount'', jnat 0), (''noProgressCount'', jnat 0)])))))))"

text \<open>An accepted item keeps what it had when its definition is unchanged; any other item starts over.\<close>

definition carried_attempt :: "js_value \<Rightarrow> js_record" where
  "carried_attempt currentAttempt = (if currentAttempt = JUndef then [] else
     [(''currentAttempt'', JObj ([(''itemAttemptId'', member currentAttempt ''itemAttemptId''),
       (''attemptNumber'', member currentAttempt ''attemptNumber''), (''state'', member currentAttempt ''state'')]
       @ optProp ''evidenceRefs'' (member currentAttempt ''evidenceRefs'')))])"

definition revised_item :: "js_value list \<Rightarrow> js_value \<Rightarrow> nat \<Rightarrow> js_value" where
  "revised_item priorItems definitionItem order =
     (case List.find (\<lambda>item. member item ''id'' = member definitionItem ''id'') priorItems of
        None \<Rightarrow> fresh_item definitionItem order
      | Some prior \<Rightarrow>
          if member prior ''title'' = member definitionItem ''title''
            \<and> member prior ''reviewCheckpoint'' = member definitionItem ''reviewCheckpoint''
            \<and> the_array (member prior ''criterionIds'') = the_array (member definitionItem ''criterionIds'')
            \<and> member prior ''state'' = JStr ''accepted''
          then JObj (spread (delProp (the_record prior) ''currentAttempt'')
            ([(''order'', jnat order), (''taskRefs'', member prior ''taskRefs''), (''evidenceRefs'', member prior ''evidenceRefs'')]
              @ carried_attempt (member prior ''currentAttempt'')))
          else fresh_item definitionItem order)"

definition on_review_revised :: "(string \<Rightarrow> string) \<Rightarrow> js_record \<Rightarrow> js_record \<Rightarrow> js_record review_result" where
  "on_review_revised sha256 plan data =
     andThen (validatePlanCreateInputV1 (getProp data ''input'')) (\<lambda>definition.
     andThen (review_require (getProp data ''fromPlanRevision'' = getProp plan ''revision''
       \<and> getProp data ''planRevision'' = js_inc (getProp plan ''revision''))) (\<lambda>_.
     let policy = or_default (member definition ''reviewPolicy'') (getProp plan ''policy'');
         objective = member definition ''objective''; criteria = member definition ''acceptanceCriteria'';
         items = member definition ''items'' in
     andThen (reviewPlanHashV1 sha256 objective criteria items policy) (\<lambda>expectedHash.
     andThen (review_require (getProp data ''planHash'' = JStr expectedHash \<and> getProp plan ''finalPreparedReview'' = JUndef)) (\<lambda>_.
     andThen (canonicalDigestV1 sha256 objective) (\<lambda>objectiveDigest.
     andThen (mapR (criterion_entry sha256) (the_array criteria)) (\<lambda>criteriaEntries.
     let next = spread plan [(''revision'', getProp data ''planRevision''), (''objective'', objective),
       (''objectiveDigest'', JStr objectiveDigest), (''policy'', policy), (''criteria'', JArr criteriaEntries),
       (''items'', JArr (map (\<lambda>(order, item). revised_item (plan_items plan) item order) (enumerate 0 (the_array items)))),
       (''replanCount'', js_inc (getProp plan ''replanCount'')), (''state'', JStr ''active'')] in
     Inr (delProp (delProp next ''block'') ''finalPreparedReview'')))))))"

text \<open>\<open>if (data.block === undefined) delete x.block else x.block = validate(data.block)\<close>\<close>

definition assign_block :: "(string \<Rightarrow> bool) \<Rightarrow> js_record \<Rightarrow> js_value \<Rightarrow> js_record review_result" where
  "assign_block host_date target block = (if block = JUndef then Inr (delProp target ''block'')
     else andThen (validateReviewPlanBlockV1 host_date block) (\<lambda>b. Inr (setProp target ''block'' b)))"

definition on_item_state_changed :: "(string \<Rightarrow> bool) \<Rightarrow> js_record \<Rightarrow> js_record \<Rightarrow> js_record review_result" where
  "on_item_state_changed host_date next data =
     andThen (mutableItem next (getProp data ''itemId'')) (\<lambda>item.
     andThen (assertReviewPlanItemTransitionV1 (getProp item ''state'') (getProp data ''state'')) (\<lambda>_.
     andThen (assign_block host_date (setProp item ''state'' (getProp data ''state'')) (getProp data ''block'')) (\<lambda>item.
     Inr (put_item next (getProp data ''itemId'') item))))"

definition on_item_attempt_started :: "js_record \<Rightarrow> js_record \<Rightarrow> js_record review_result" where
  "on_item_attempt_started next data =
     andThen (mutableItem next (getProp data ''itemId'')) (\<lambda>item.
     andThen (review_require (getProp item ''currentAttempt'' = JUndef
       \<and> getProp item ''state'' \<in> {JStr ''pending'', JStr ''needs_fix'', JStr ''blocked''})) (\<lambda>_.
     andThen (review_require (getProp data ''attemptNumber'' = js_inc (getProp item ''attemptCount''))) (\<lambda>_.
     let attempt = JObj [(''itemAttemptId'', getProp data ''itemAttemptId''), (''attemptNumber'', getProp data ''attemptNumber''),
           (''state'', JStr ''open''), (''evidenceRefs'', JArr [])];
         item = delProp (spread item [(''currentAttempt'', attempt), (''attemptCount'', getProp data ''attemptNumber''),
           (''state'', JStr ''running'')]) ''block'';
         next = put_item next (getProp data ''itemId'') item in
     Inr (spread next [(''attemptCount'', js_inc (getProp next ''attemptCount'')),
       (''focusedRootAttemptId'', getProp data ''itemAttemptId'')]))))"

text \<open>The item of an event together with its current attempt, which has to be the one the event names.\<close>

definition item_attempt :: "js_record \<Rightarrow> js_value \<Rightarrow> js_value \<Rightarrow> (js_record \<times> js_record) review_result" where
  "item_attempt next itemId attemptId = andThen (mutableItem next itemId) (\<lambda>item.
     andThen (requireAttempt item attemptId) (\<lambda>attempt. Inr (item, attempt)))"

definition on_item_attempt_focused :: "js_record \<Rightarrow> js_record \<Rightarrow> js_record review_result" where
  "on_item_attempt_focused next data =
     andThen (item_attempt next (getProp data ''itemId'') (getProp data ''itemAttemptId'')) (\<lambda>_.
     Inr (setProp next ''focusedRootAttemptId'' (getProp data ''itemAttemptId'')))"

definition on_item_attempt_carried :: "js_record \<Rightarrow> js_record \<Rightarrow> js_record review_result" where
  "on_item_attempt_carried next data =
     andThen (item_attempt next (getProp data ''itemId'') (getProp data ''itemAttemptId'')) (\<lambda>_.
     andThen (review_require (js_inc (getProp data ''fromPlanRevision'') = getProp next ''revision''
       \<and> getProp data ''planRevision'' = getProp next ''revision'')) (\<lambda>_. Inr next))"

definition on_item_attempt_closed :: "js_record \<Rightarrow> js_record \<Rightarrow> js_record review_result" where
  "on_item_attempt_closed next data =
     andThen (item_attempt next (getProp data ''itemId'') (getProp data ''itemAttemptId'')) (\<lambda>(item, attempt).
     let next = put_item next (getProp data ''itemId'') (delProp item ''currentAttempt'') in
     Inr (delete_focus next (getProp data ''itemAttemptId'')))"

definition on_attempt_checked :: "js_record \<Rightarrow> js_record \<Rightarrow> js_record review_result" where
  "on_attempt_checked next data =
     andThen (item_attempt next (getProp data ''itemId'') (getProp data ''itemAttemptId'')) (\<lambda>_. Inr next)"

definition on_review_execution_bound :: "js_record \<Rightarrow> js_record \<Rightarrow> js_record review_result" where
  "on_review_execution_bound next data =
     andThen (item_attempt next (getProp data ''itemId'') (getProp data ''itemAttemptId'')) (\<lambda>(item, attempt).
     andThen (appendUnique (getProp item ''taskRefs'') (getProp data ''taskRef'')) (\<lambda>refs.
     Inr (put_item next (getProp data ''itemId'') (setProp item ''taskRefs'' refs))))"

text \<open>Recording one reference as evidence of the item and of its attempt, when there is one.\<close>

definition add_evidence :: "js_record \<times> js_record \<Rightarrow> js_value \<Rightarrow> (js_record \<times> js_record) review_result" where
  "add_evidence ia ref = (case ia of (item, attempt) \<Rightarrow>
     if ref = JUndef then Inr (item, attempt)
     else andThen (appendUnique (getProp item ''evidenceRefs'') ref) (\<lambda>refs.
       andThen (appendUnique (getProp attempt ''evidenceRefs'') ref) (\<lambda>attemptRefs.
       Inr (setProp item ''evidenceRefs'' refs, setProp attempt ''evidenceRefs'' attemptRefs))))"

definition on_root_tool_recorded :: "js_record \<Rightarrow> js_record \<Rightarrow> js_record review_result" where
  "on_root_tool_recorded next data =
     andThen (item_attempt next (getProp data ''itemId'') (getProp data ''itemAttemptId'')) (\<lambda>(item, attempt).
     let attempt = (if getProp attempt ''evidenceRefs'' = JUndef then setProp attempt ''evidenceRefs'' (JArr []) else attempt) in
     andThen (add_evidence (item, attempt) (getProp data ''resultRef'')) (\<lambda>ia.
     andThen (add_evidence ia (getProp data ''effectReceiptRef'')) (\<lambda>(item, attempt).
     Inr (put_item next (getProp data ''itemId'') (setProp item ''currentAttempt'' (JObj attempt))))))"

definition is_item_scope :: "js_record \<Rightarrow> bool" where
  "is_item_scope prepared \<longleftrightarrow> member (getProp prepared ''scope'') ''kind'' = JStr ''item''"

definition scope_item :: "js_record \<Rightarrow> js_value" where
  "scope_item prepared = member (getProp prepared ''scope'') ''itemId''"

definition on_review_prepared :: "js_record \<Rightarrow> js_record \<Rightarrow> js_record review_result" where
  "on_review_prepared next data =
     andThen (validatePreparedReviewRefV1 (getProp data ''preparedReview'')) (\<lambda>preparedReview.
     let prepared = the_record preparedReview in
     andThen (review_require (getProp prepared ''planRevision'' = getProp next ''revision'')) (\<lambda>_.
     if is_item_scope prepared
     then andThen (item_attempt next (scope_item prepared) (getProp prepared ''itemAttemptId'')) (\<lambda>(item, attempt).
       andThen (review_require (getProp item ''preparedReview'' = JUndef)) (\<lambda>_.
       Inr (put_item next (scope_item prepared) (setProp item ''preparedReview'' preparedReview))))
     else andThen (review_require (getProp next ''finalPreparedReview'' = JUndef)) (\<lambda>_.
       Inr (setProp next ''finalPreparedReview'' preparedReview))))"

definition on_review_requested :: "js_record \<Rightarrow> js_record \<Rightarrow> js_record review_result" where
  "on_review_requested next data =
     andThen (requirePrepared next (getProp data ''preparedReviewId'')) (\<lambda>prepared.
     if is_item_scope prepared
     then andThen (item_attempt next (scope_item prepared) (getProp prepared ''itemAttemptId'')) (\<lambda>(item, attempt).
       Inr (put_item next (scope_item prepared) (spread item
         [(''currentAttempt'', JObj (setProp attempt ''state'' (JStr ''review_requested''))), (''state'', JStr ''review_requested'')])))
     else andThen (assertReviewPlanTransitionV1 (getProp next ''state'') (JStr ''reviewing'')) (\<lambda>_.
       Inr (setProp next ''state'' (JStr ''reviewing''))))"

definition judged_item :: "js_record \<Rightarrow> js_record \<Rightarrow> js_record \<Rightarrow> js_value \<Rightarrow> js_record" where
  "judged_item item attempt prepared decision =
     (let item = spread item [(''lastReview'', decision), (''state'', itemStateForVerdict (member decision ''verdict''))];
          item = (if member decision ''verdict'' = JStr ''accepted''
            then spread item [(''acceptedInputDigest'', getProp prepared ''reviewInputDigest''),
              (''acceptedEvidenceRefs'', getProp prepared ''evidenceRefs''), (''acceptedAttemptId'', getProp attempt ''itemAttemptId'')]
            else item) in
      delProp (delProp item ''preparedReview'') ''currentAttempt'')"

definition on_review_recorded :: "js_record \<Rightarrow> js_record \<Rightarrow> js_record review_result" where
  "on_review_recorded next data =
     andThen (requirePrepared next (getProp data ''preparedReviewId'')) (\<lambda>prepared.
     andThen (validateReviewDecisionRefV1 (getProp data ''decision'')) (\<lambda>decision.
     andThen (review_require (member decision ''reviewRequestId'' = getProp data ''reviewRequestId'')) (\<lambda>_.
     if is_item_scope prepared
     then andThen (item_attempt next (scope_item prepared) (getProp prepared ''itemAttemptId'')) (\<lambda>(item, attempt).
       Inr (delete_focus (put_item next (scope_item prepared) (judged_item item attempt prepared decision))
         (getProp attempt ''itemAttemptId'')))
     else
       let target = planStateForVerdict (member decision ''verdict'');
           next = delProp (setProp next ''lastReview'' decision) ''finalPreparedReview'' in
       andThen (if getProp next ''state'' \<noteq> target then assertReviewPlanTransitionV1 (getProp next ''state'') target else Inr ()) (\<lambda>_.
       Inr (setProp next ''state'' target)))))"

definition on_no_progress :: "js_record \<Rightarrow> js_record \<Rightarrow> js_record review_result" where
  "on_no_progress next data =
     andThen (review_require (getProp data ''noProgressCount'' = js_inc (getProp next ''noProgressCount''))) (\<lambda>_.
     Inr (setProp next ''noProgressCount'' (getProp data ''noProgressCount'')))"

definition on_block_resolved :: "js_record \<Rightarrow> js_record \<Rightarrow> js_record review_result" where
  "on_block_resolved next data =
     (if member (getProp next ''block'') ''blockId'' = getProp data ''blockId''
      then Inr (setProp (delProp next ''block'') ''state'' (JStr ''active''))
      else (case List.find (\<lambda>candidate. member (member candidate ''block'') ''blockId'' = getProp data ''blockId'') (plan_items next) of
          None \<Rightarrow> Inl REVIEW_PLAN_EVENT_TRANSITION_INVALID
        | Some candidate \<Rightarrow>
            let item = delProp (the_record candidate) ''block'';
                item = (if getProp item ''state'' = JStr ''blocked'' then setProp item ''state'' (JStr ''pending'') else item) in
            Inr (put_item next (member candidate ''id'') item)))"

definition on_review_state_changed :: "(string \<Rightarrow> bool) \<Rightarrow> js_record \<Rightarrow> js_record \<Rightarrow> js_record review_result" where
  "on_review_state_changed host_date next data =
     andThen (assertReviewPlanTransitionV1 (getProp next ''state'') (getProp data ''state'')) (\<lambda>_.
     andThen (assign_block host_date (setProp next ''state'' (getProp data ''state'')) (getProp data ''block'')) (\<lambda>next.
     if getProp data ''state'' \<in> {JStr ''abandoned'', JStr ''cancelled''}
     then Inr (setProp (delProp next ''finalPreparedReview'') ''items''
       (JArr (map (\<lambda>item. JObj (delProp (the_record item) ''preparedReview'')) (plan_items next))))
     else Inr next))"

definition applyReviewPlanEvent :: "(string \<Rightarrow> bool) \<Rightarrow> (string \<Rightarrow> string) \<Rightarrow> js_record \<Rightarrow> string \<Rightarrow> js_record \<Rightarrow> js_record review_result" where
  "applyReviewPlanEvent host_date sha256 plan type data =
     (if type = ''review_plan.revised'' then on_review_revised sha256 plan data
      else if type = ''review_plan.item_state_changed'' then on_item_state_changed host_date plan data
      else if type = ''review_plan.item_attempt_started'' then on_item_attempt_started plan data
      else if type = ''review_plan.item_attempt_focused'' then on_item_attempt_focused plan data
      else if type = ''review_plan.item_attempt_carried_forward'' then on_item_attempt_carried plan data
      else if type = ''review_plan.item_attempt_closed'' then on_item_attempt_closed plan data
      else if type = ''review_plan.execution_requested'' \<or> type = ''review_plan.root_tool_requested'' then on_attempt_checked plan data
      else if type = ''review_plan.execution_bound'' then on_review_execution_bound plan data
      else if type = ''review_plan.root_tool_recorded'' then on_root_tool_recorded plan data
      else if type = ''review_plan.review_prepared'' then on_review_prepared plan data
      else if type = ''review_plan.review_requested'' then on_review_requested plan data
      else if type = ''review_plan.review_recorded'' then on_review_recorded plan data
      else if type = ''review_plan.no_progress_recorded'' then on_no_progress plan data
      else if type = ''review_plan.block_resolved'' then on_block_resolved plan data
      else if type = ''review_plan.state_changed'' then on_review_state_changed host_date plan data
      else Inr plan)"

definition reduceReviewPlanEventV1 :: "(string \<Rightarrow> bool) \<Rightarrow> (string \<Rightarrow> string) \<Rightarrow> js_record option \<Rightarrow> review_event
    \<Rightarrow> js_record review_result" where
  "reduceReviewPlanEventV1 host_date sha256 current event =
     andThen (validateReviewPlanEventV1 host_date sha256 event) (\<lambda>data.
     andThen (if re_type event = ''review_plan.created'' then on_review_created sha256 current data
       else andThen (requireCurrent current (getProp data ''planId'') (getProp data ''planRevision'') (re_type event)) (\<lambda>plan.
         applyReviewPlanEvent host_date sha256 plan (re_type event) data)) (\<lambda>next.
     andThen (validateReviewPlanProjectionV1 host_date sha256 (JObj next)) (\<lambda>valid. Inr (the_record valid))))"

end
