(* ===== verification/SessionJournal.thy ===== *)
theory SessionJournal
  imports SessionPlan StateMachines ReviewPlanEvents
begin

section \<open>The Session journal reducer\<close>

text \<open>
  \<open>reduceSessionEntriesV3\<close> of \<open>packages/core-sdk/src/session-journal.ts\<close>: every public view of a
  Session is the fold of one reducer over its ordered entries. Entries are the typed ones that
  \<open>validateSessionEntryV3\<close> returns; \<open>session_state\<close> holds the local variables of the loop, and
  \<open>applyEntry\<close> is one turn of it. The Plan entries are handled by \<open>SessionPlan\<close>.

  Values the reducer only stores (messages, artifacts, compaction provenance, control targets)
  are \<open>js_value\<close>s. Counts are natural numbers: the sums are exact as long as they stay below
  \<open>2^53\<close>. What the reducer takes from elsewhere is in \<open>session_env\<close>: the SHA-256 function of
  \<open>node:crypto\<close>, the addition of two double-precision costs, and \<open>Date.parse\<close> on strings that
  are not canonical. The review Plan entries are handled by \<open>ReviewPlanEvents\<close>.
\<close>

subsection \<open>Entries\<close>

datatype session_lifecycle = L_open | L_closed | L_deleted

datatype planner_mode = PM_auto | PM_solo | PM_workflow | PM_direct | PM_supervisor

datatype plan_policy = Plan_optional | Plan_required

datatype run_outcome = O_completed | O_failed | O_aborted | O_interrupted

datatype run_state = Run_running | Run_ended run_outcome

record session_fork =
  fk_parentSessionId :: string
  fk_sourceEntryId :: string

record session_created_data =
  sc_cwd :: string
  sc_provider :: string
  sc_model :: string
  sc_name :: string
  sc_labels :: "string list"
  sc_plannerMode :: "planner_mode option"
  sc_contextLimitTokens :: "nat option"
  sc_fork :: "session_fork option"

record session_metadata =
  md_name :: "string option"
  md_labels :: "string list option"
  md_provider :: "string option"
  md_model :: "string option"
  md_activeLeafId :: "string option"
  md_plannerMode :: "planner_mode option"
  md_contextLimitTokens :: "nat option"

text \<open>
  \<open>BudgetUsage\<close> is \<open>ProviderUsage\<close> with three counts, and a Run holds a \<open>Partial\<close> of it.
\<close>

record provider_usage =
  pu_inputTokens :: "nat option"
  pu_outputTokens :: "nat option"
  pu_cacheReadTokens :: "nat option"
  pu_cacheWriteTokens :: "nat option"
  pu_costUsd :: "rat option"

record budget_usage =
  bu_turns :: nat
  bu_toolCalls :: nat
  bu_subagents :: nat
  bu_provider :: provider_usage

record partial_usage =
  pt_turns :: "nat option"
  pt_toolCalls :: "nat option"
  pt_subagents :: "nat option"
  pt_provider :: provider_usage

record planner_generation =
  ge_phase :: string
  ge_generatorId :: string
  ge_source :: string
  ge_status :: string
  ge_fallbackUsed :: bool
  ge_route :: "string option"
  ge_failureCode :: "string option"
  ge_fallbackFromCode :: "string option"

record compaction_summary =
  cs_objective :: "string option"
  cs_relevantRefs :: "string list option"
  cs_decisions :: "string list"
  cs_constraints :: "string list"
  cs_readFiles :: "string list"
  cs_modifiedFiles :: "string list"
  cs_unresolved :: "string list"
  cs_activePlan :: "string list"

record compaction_data =
  cd_checkpointId :: string
  cd_coveredStart :: nat
  cd_coveredEnd :: nat
  cd_previousCheckpointId :: "string option"
  cd_retainedStart :: nat
  cd_summary :: compaction_summary
  cd_provenance :: js_value
  cd_summaryDigest :: string
  cd_summaryTokens :: nat
  cd_reason :: string
  cd_checkpoint :: "js_value option"

datatype control_action = C_abandon | C_scope_change | C_resolve_block | C_cancel | C_session_close

datatype control_disposition = D_unused | D_aborted | D_timeout | D_provider_error | D_run_terminated

datatype budget_disposition = B_actual | B_released_before_provider | B_remote_outcome_unknown

record control_fact =
  cf_controlEventId :: string
  cf_actorId :: string
  cf_actorBindingDigest :: string
  cf_sessionId :: string
  cf_action :: control_action
  cf_reasonCode :: string
  cf_target :: js_value
  cf_targetDigest :: string
  cf_challengeId :: string
  cf_challengeDigest :: string
  cf_tokenDigest :: string
  cf_issuedAt :: string
  cf_expiresAt :: string
  cf_runId :: "string option"
  cf_providerTurnId :: "string option"

record working_item =
  wi_id :: string
  wi_title :: string
  wi_status :: string

record working_plan =
  wp_planId :: string
  wp_revision :: nat
  wp_objective :: string
  wp_state :: string
  wp_items :: "working_item list"

record working_review =
  wr_reviewRequestId :: string
  wr_operationId :: string
  wr_inputDigest :: string
  wr_inputRef :: string
  wr_requestDigest :: string
  wr_planRevision :: "nat option"
  wr_snapshotSequence :: nat
  wr_evidenceSequence :: nat
  wr_reportRef :: "string option"
  wr_verdict :: "string option"

datatype session_data =
    Session_created session_created_data
  | Session_metadata_updated session_metadata
  | Session_plan_updated
  | Session_closed
  | Session_reopened
  | Session_forked string string
  | Session_deleted
  | Message_committed string js_value
  | Run_started string "plan_policy option"
  | Run_terminal run_outcome provider_usage "string option"
  | Command_invoked string "string option"
  | Skill_invoked string
  | Permission_decided string
  | Usage_recorded budget_usage
  | Planner_generation_recorded planner_generation
  | Compaction_created compaction_data
  | Plan_entry plan_event
  | Artifact_referenced string js_value
  | Control_authorized string string control_fact
  | Control_turn_bound string string string
  | Control_discarded string control_disposition
  | Control_consumed string control_action string
  | Review_budget_reserved string nat provider_usage
  | Review_budget_settled string nat budget_disposition provider_usage
  | Working_plan_saved working_plan
  | Working_review_requested working_review
  | Working_reviewed working_review
  | Review_plan_entry string js_value

record session_entry =
  en_entryId :: string
  en_sessionId :: string
  en_sequence :: nat
  en_revision :: nat
  en_timestamp :: string
  en_runId :: "string option"
  en_correlation :: "(string \<times> string) list"
  en_data :: session_data

subsection \<open>State\<close>

record run_projection =
  rn_runId :: string
  rn_clientRequestId :: string
  rn_state :: run_state
  rn_usage :: partial_usage
  rn_errorCode :: "string option"
  rn_planPolicy :: plan_policy

record checkpoint_projection =
  cp_checkpointId :: string
  cp_entryId :: string
  cp_createdAt :: string
  cp_coveredStart :: nat
  cp_coveredEnd :: nat
  cp_previousCheckpointId :: "string option"
  cp_retainedStart :: nat
  cp_summary :: compaction_summary
  cp_provenance :: js_value
  cp_summaryDigest :: string
  cp_summaryTokens :: nat
  cp_reason :: string
  cp_checkpoint :: "js_value option"

datatype control_state = CS_authorized | CS_turn_bound | CS_consumed | CS_discarded

record control_projection =
  ct_controlEventId :: string
  ct_authorizationRequestId :: string
  ct_challengeEnvelopeDigest :: string
  ct_fact :: control_fact
  ct_state :: control_state
  ct_runId :: "string option"
  ct_providerTurnId :: "string option"
  ct_disposition :: "control_disposition option"

datatype reservation_state = RS_reserved | RS_settled

record review_budget =
  rb_reviewRequestId :: string
  rb_attemptNumber :: nat
  rb_reservation :: provider_usage
  rb_state :: reservation_state
  rb_disposition :: "budget_disposition option"
  rb_usage :: "provider_usage option"

record generation_projection =
  gn_generation :: planner_generation
  gn_runId :: string
  gn_recordedAt :: string

record session_env =
  se_sha256 :: "string \<Rightarrow> string"
  se_costAdd :: "rat \<Rightarrow> rat \<Rightarrow> rat"
  se_hostDate :: "string \<Rightarrow> bool"

record session_state =
  ss_entryIds :: "string list"
  ss_ledger :: plan_ledger
  ss_forkedSessionIds :: "string list"
  ss_messages :: "(string \<times> js_value) list"
  ss_runs :: "(string \<times> run_projection) list"
  ss_commandIds :: "string list"
  ss_skillInvocationIds :: "string list"
  ss_permissionRequestIds :: "string list"
  ss_artifacts :: "(string \<times> js_value) list"
  ss_activeRunId :: "string option"
  ss_lifecycle :: session_lifecycle
  ss_provider :: string
  ss_model :: string
  ss_plannerMode :: planner_mode
  ss_contextLimitTokens :: "nat option"
  ss_name :: string
  ss_labels :: "string list"
  ss_activeLeafId :: string
  ss_checkpoint :: "checkpoint_projection option"
  ss_usage :: budget_usage
  ss_reviewPlan :: "js_record option"
  ss_workingPlan :: "working_plan option"
  ss_workingReviews :: "(string \<times> working_review) list"
  ss_reviewControls :: "(string \<times> control_projection) list"
  ss_reviewBudgets :: "(string \<times> review_budget) list"
  ss_plannerGeneration :: "generation_projection option"
  ss_previous :: session_entry

subsection \<open>Usage\<close>

definition merge_count :: "nat option \<Rightarrow> nat option \<Rightarrow> nat option" where
  "merge_count left right = (if left \<noteq> None \<or> right \<noteq> None
     then Some (case_option 0 id left + case_option 0 id right) else None)"

definition merge_cost :: "(rat \<Rightarrow> rat \<Rightarrow> rat) \<Rightarrow> rat option \<Rightarrow> rat option \<Rightarrow> rat option" where
  "merge_cost add left right = (if left \<noteq> None \<or> right \<noteq> None
     then Some (add (case_option 0 id left) (case_option 0 id right)) else None)"

definition mergeUsage :: "(rat \<Rightarrow> rat \<Rightarrow> rat) \<Rightarrow> budget_usage \<Rightarrow> budget_usage \<Rightarrow> budget_usage" where
  "mergeUsage add current update =
     \<lparr>bu_turns = bu_turns current + bu_turns update, bu_toolCalls = bu_toolCalls current + bu_toolCalls update,
      bu_subagents = bu_subagents current + bu_subagents update,
      bu_provider = (let l = bu_provider current; r = bu_provider update in
        \<lparr>pu_inputTokens = merge_count (pu_inputTokens l) (pu_inputTokens r),
         pu_outputTokens = merge_count (pu_outputTokens l) (pu_outputTokens r),
         pu_cacheReadTokens = merge_count (pu_cacheReadTokens l) (pu_cacheReadTokens r),
         pu_cacheWriteTokens = merge_count (pu_cacheWriteTokens l) (pu_cacheWriteTokens r),
         pu_costUsd = merge_cost add (pu_costUsd l) (pu_costUsd r)\<rparr>)\<rparr>"

definition normalizeBudgetUsage :: "partial_usage \<Rightarrow> budget_usage" where
  "normalizeBudgetUsage current =
     \<lparr>bu_turns = case_option 0 id (pt_turns current), bu_toolCalls = case_option 0 id (pt_toolCalls current),
      bu_subagents = case_option 0 id (pt_subagents current), bu_provider = pt_provider current\<rparr>"

definition partial_of :: "budget_usage \<Rightarrow> partial_usage" where
  "partial_of u = \<lparr>pt_turns = Some (bu_turns u), pt_toolCalls = Some (bu_toolCalls u),
     pt_subagents = Some (bu_subagents u), pt_provider = bu_provider u\<rparr>"

definition no_provider_usage :: provider_usage where
  "no_provider_usage = \<lparr>pu_inputTokens = None, pu_outputTokens = None, pu_cacheReadTokens = None,
     pu_cacheWriteTokens = None, pu_costUsd = None\<rparr>"

subsection \<open>Handlers\<close>

definition stable :: "session_state \<Rightarrow> string \<Rightarrow> string \<Rightarrow> session_state session_result" where
  "stable s namespace i = andThen (useStableId (ss_ledger s) namespace i) (\<lambda>l. Inr (s\<lparr>ss_ledger := l\<rparr>))"

definition push_results :: "session_state \<Rightarrow> string list \<Rightarrow> session_state" where
  "push_results s refs = s\<lparr>ss_ledger := (ss_ledger s)\<lparr>pl_resultRefs := pl_resultRefs (ss_ledger s) @ refs\<rparr>\<rparr>"

definition or_keep :: "'a option \<Rightarrow> 'a \<Rightarrow> 'a" where
  "or_keep v current = case_option current id v"

definition on_metadata :: "session_state \<Rightarrow> session_metadata \<Rightarrow> session_state session_result" where
  "on_metadata s d = Inr (s\<lparr>ss_name := or_keep (md_name d) (ss_name s), ss_labels := or_keep (md_labels d) (ss_labels s),
     ss_provider := or_keep (md_provider d) (ss_provider s), ss_model := or_keep (md_model d) (ss_model s),
     ss_activeLeafId := or_keep (md_activeLeafId d) (ss_activeLeafId s),
     ss_plannerMode := or_keep (md_plannerMode d) (ss_plannerMode s),
     ss_contextLimitTokens := (if md_contextLimitTokens d = None then ss_contextLimitTokens s
       else md_contextLimitTokens d)\<rparr>)"

definition on_closed :: "session_state \<Rightarrow> session_state session_result" where
  "on_closed s = andThen (transition_require (ss_lifecycle s = L_open \<and> ss_activeRunId s = None)) (\<lambda>_.
     Inr (s\<lparr>ss_lifecycle := L_closed\<rparr>))"

definition on_reopened :: "session_state \<Rightarrow> session_state session_result" where
  "on_reopened s = andThen (transition_require (ss_lifecycle s = L_closed)) (\<lambda>_. Inr (s\<lparr>ss_lifecycle := L_open\<rparr>))"

definition on_forked :: "string \<Rightarrow> string \<Rightarrow> session_state \<Rightarrow> string \<Rightarrow> string \<Rightarrow> session_state session_result" where
  "on_forked sessionId entryId s childSessionId sourceEntryId =
     andThen (transition_require (\<not> (childSessionId = sessionId \<or> sourceEntryId = entryId
       \<or> sourceEntryId \<notin> set (ss_entryIds s)))) (\<lambda>_.
     andThen (useId (ss_forkedSessionIds s) childSessionId) (\<lambda>ids.
     Inr (s\<lparr>ss_forkedSessionIds := ids, ss_activeLeafId := childSessionId\<rparr>)))"

definition on_deleted :: "session_state \<Rightarrow> session_state session_result" where
  "on_deleted s = andThen (transition_require (ss_activeRunId s = None)) (\<lambda>_. Inr (s\<lparr>ss_lifecycle := L_deleted\<rparr>))"

definition on_message :: "session_state \<Rightarrow> string \<Rightarrow> js_value \<Rightarrow> session_state session_result" where
  "on_message s messageId message = andThen (stable s ''message'' messageId) (\<lambda>s.
     Inr (s\<lparr>ss_messages := ss_messages s @ [(messageId, message)]\<rparr>))"

definition on_run_started :: "session_state \<Rightarrow> string option \<Rightarrow> string \<Rightarrow> plan_policy option
    \<Rightarrow> session_state session_result" where
  "on_run_started s runId clientRequestId planPolicy = (case runId of None \<Rightarrow> Inl SESSION_REDUCER_TRANSITION_INVALID
     | Some r \<Rightarrow>
       andThen (transition_require (ss_lifecycle s = L_open \<and> ss_activeRunId s = None)) (\<lambda>_.
       andThen (stable s ''run'' r) (\<lambda>s.
       andThen (stable s ''client-request'' clientRequestId) (\<lambda>s.
       Inr (s\<lparr>ss_activeRunId := Some r, ss_runs := AList.update r
         \<lparr>rn_runId = r, rn_clientRequestId = clientRequestId, rn_state = Run_running,
          rn_usage = \<lparr>pt_turns = None, pt_toolCalls = None, pt_subagents = None, pt_provider = no_provider_usage\<rparr>,
          rn_errorCode = None, rn_planPolicy = or_keep planPolicy Plan_optional\<rparr> (ss_runs s)\<rparr>)))))"

definition running_run :: "session_state \<Rightarrow> string option \<Rightarrow> (string \<times> run_projection) session_result" where
  "running_run s runId = (case runId of None \<Rightarrow> Inl SESSION_REDUCER_TRANSITION_INVALID
     | Some r \<Rightarrow> if ss_activeRunId s \<noteq> Some r then Inl SESSION_REDUCER_TRANSITION_INVALID
         else (case map_of (ss_runs s) r of None \<Rightarrow> Inl SESSION_REDUCER_TRANSITION_INVALID
           | Some run \<Rightarrow> if rn_state run \<noteq> Run_running then Inl SESSION_REDUCER_TRANSITION_INVALID else Inr (r, run)))"

definition on_run_terminal :: "session_state \<Rightarrow> string option \<Rightarrow> run_outcome \<Rightarrow> provider_usage
    \<Rightarrow> string option \<Rightarrow> session_state session_result" where
  "on_run_terminal s runId status usage errorCode =
     andThen (running_run s runId) (\<lambda>(r, run).
     Inr (s\<lparr>ss_activeRunId := None, ss_runs := AList.update r
       (run\<lparr>rn_state := Run_ended status, rn_usage := (rn_usage run)\<lparr>pt_provider := usage\<rparr>,
         rn_errorCode := (if errorCode = None then rn_errorCode run else errorCode)\<rparr>) (ss_runs s)\<rparr>))"

definition on_command :: "session_state \<Rightarrow> string \<Rightarrow> string option \<Rightarrow> session_state session_result" where
  "on_command s commandId resultRef = andThen (stable s ''command'' commandId) (\<lambda>s.
     Inr (push_results (s\<lparr>ss_commandIds := ss_commandIds s @ [commandId]\<rparr>) (option_list resultRef)))"

definition on_skill :: "session_state \<Rightarrow> string \<Rightarrow> session_state session_result" where
  "on_skill s invocationId = andThen (stable s ''skill-invocation'' invocationId) (\<lambda>s.
     Inr (s\<lparr>ss_skillInvocationIds := ss_skillInvocationIds s @ [invocationId]\<rparr>))"

definition on_permission :: "session_state \<Rightarrow> string \<Rightarrow> session_state session_result" where
  "on_permission s requestId = andThen (stable s ''permission-request'' requestId) (\<lambda>s.
     Inr (s\<lparr>ss_permissionRequestIds := ss_permissionRequestIds s @ [requestId]\<rparr>))"

definition on_usage :: "session_env \<Rightarrow> session_state \<Rightarrow> string option \<Rightarrow> budget_usage
    \<Rightarrow> session_state session_result" where
  "on_usage env s runId usage =
     (let s = s\<lparr>ss_usage := mergeUsage (se_costAdd env) (ss_usage s) usage\<rparr> in
      case runId of None \<Rightarrow> Inr s
      | Some _ \<Rightarrow> andThen (running_run s runId) (\<lambda>(r, run).
          Inr (s\<lparr>ss_runs := AList.update r (run\<lparr>rn_usage := partial_of
            (mergeUsage (se_costAdd env) (normalizeBudgetUsage (rn_usage run)) usage)\<rparr>) (ss_runs s)\<rparr>)))"

definition on_generation :: "session_state \<Rightarrow> string option \<Rightarrow> string \<Rightarrow> planner_generation
    \<Rightarrow> session_state session_result" where
  "on_generation s runId recordedAt generation = (case runId of None \<Rightarrow> Inl SESSION_REDUCER_TRANSITION_INVALID
     | Some r \<Rightarrow> andThen (transition_require (ss_activeRunId s = Some r)) (\<lambda>_.
         Inr (s\<lparr>ss_plannerGeneration := Some \<lparr>gn_generation = generation, gn_runId = r, gn_recordedAt = recordedAt\<rparr>\<rparr>)))"

definition sessionCompactionSummaryDigestV3 :: "(string \<Rightarrow> string) \<Rightarrow> compaction_summary \<Rightarrow> string" where
  "sessionCompactionSummaryDigestV3 sha256 summary =
     ''sha256:'' @ sha256 (case stringify (JObj ([(''schemaVersion'', jnat 1), (''trust'', JStr ''low'')]
       @ opt_prop ''objective'' JStr (cs_objective summary) @ opt_prop ''relevantRefs'' jstrs (cs_relevantRefs summary)
       @ [(''decisions'', jstrs (cs_decisions summary)), (''constraints'', jstrs (cs_constraints summary)),
          (''readFiles'', jstrs (cs_readFiles summary)), (''modifiedFiles'', jstrs (cs_modifiedFiles summary)),
          (''unresolved'', jstrs (cs_unresolved summary)), (''activePlan'', jstrs (cs_activePlan summary))]))
       of None \<Rightarrow> [] | Some text \<Rightarrow> text)"

definition compaction_ok :: "session_env \<Rightarrow> checkpoint_projection option \<Rightarrow> nat \<Rightarrow> compaction_data \<Rightarrow> bool" where
  "compaction_ok env checkpoint sequence d \<longleftrightarrow> cd_coveredEnd d < sequence
     \<and> cd_retainedStart d = cd_coveredEnd d + 1
     \<and> cd_summaryDigest d = sessionCompactionSummaryDigestV3 (se_sha256 env) (cd_summary d)
     \<and> (case checkpoint of None \<Rightarrow> cd_previousCheckpointId d = None \<and> cd_coveredStart d = 1
        | Some c \<Rightarrow> cd_previousCheckpointId d = Some (cp_checkpointId c) \<and> cd_coveredStart d = cp_coveredStart c
            \<and> cd_coveredEnd d > cp_coveredEnd c)"

definition on_compaction :: "session_env \<Rightarrow> session_state \<Rightarrow> session_entry \<Rightarrow> compaction_data
    \<Rightarrow> session_state session_result" where
  "on_compaction env s e d =
     andThen (transition_require (compaction_ok env (ss_checkpoint s) (en_sequence e) d)) (\<lambda>_.
     andThen (stable s ''checkpoint'' (cd_checkpointId d)) (\<lambda>s.
     Inr (s\<lparr>ss_checkpoint := Some
       \<lparr>cp_checkpointId = cd_checkpointId d, cp_entryId = en_entryId e, cp_createdAt = en_timestamp e,
        cp_coveredStart = cd_coveredStart d, cp_coveredEnd = cd_coveredEnd d,
        cp_previousCheckpointId = cd_previousCheckpointId d, cp_retainedStart = cd_retainedStart d,
        cp_summary = cd_summary d, cp_provenance = cd_provenance d, cp_summaryDigest = cd_summaryDigest d,
        cp_summaryTokens = cd_summaryTokens d, cp_reason = cd_reason d, cp_checkpoint = cd_checkpoint d\<rparr>\<rparr>)))"

definition on_artifact :: "session_state \<Rightarrow> string \<Rightarrow> js_value \<Rightarrow> session_state session_result" where
  "on_artifact s artifactId artifact = andThen (stable s ''artifact'' artifactId) (\<lambda>s.
     Inr (s\<lparr>ss_artifacts := AList.update artifactId artifact (ss_artifacts s)\<rparr>))"

definition on_control_authorized :: "session_state \<Rightarrow> string \<Rightarrow> string \<Rightarrow> control_fact
    \<Rightarrow> session_state session_result" where
  "on_control_authorized s authorizationRequestId challengeEnvelopeDigest authorized =
     (let controlEventId = cf_controlEventId authorized in
      andThen (stable s ''control'' controlEventId) (\<lambda>s.
      andThen (transition_require (map_of (ss_reviewControls s) controlEventId = None)) (\<lambda>_.
      Inr (s\<lparr>ss_reviewControls := AList.update controlEventId
        \<lparr>ct_controlEventId = controlEventId, ct_authorizationRequestId = authorizationRequestId,
         ct_challengeEnvelopeDigest = challengeEnvelopeDigest, ct_fact = authorized, ct_state = CS_authorized,
         ct_runId = None, ct_providerTurnId = None, ct_disposition = None\<rparr> (ss_reviewControls s)\<rparr>))))"

definition put_control :: "session_state \<Rightarrow> control_projection \<Rightarrow> session_state" where
  "put_control s control = s\<lparr>ss_reviewControls := AList.update (ct_controlEventId control) control (ss_reviewControls s)\<rparr>"

definition on_control_bound :: "session_state \<Rightarrow> string \<Rightarrow> string \<Rightarrow> string \<Rightarrow> session_state session_result" where
  "on_control_bound s controlEventId runId providerTurnId =
     (case map_of (ss_reviewControls s) controlEventId of None \<Rightarrow> Inl SESSION_REDUCER_TRANSITION_INVALID
      | Some control \<Rightarrow>
        andThen (transition_require (ct_state control = CS_authorized
          \<and> (cf_runId (ct_fact control) = None \<or> cf_runId (ct_fact control) = Some runId)
          \<and> (cf_providerTurnId (ct_fact control) = None \<or> cf_providerTurnId (ct_fact control) = Some providerTurnId))) (\<lambda>_.
        Inr (put_control s (control\<lparr>ct_state := CS_turn_bound, ct_runId := Some runId,
          ct_providerTurnId := Some providerTurnId\<rparr>))))"

definition on_control_discarded :: "session_state \<Rightarrow> string \<Rightarrow> control_disposition \<Rightarrow> session_state session_result" where
  "on_control_discarded s controlEventId disposition =
     (case map_of (ss_reviewControls s) controlEventId of None \<Rightarrow> Inl SESSION_REDUCER_TRANSITION_INVALID
      | Some control \<Rightarrow>
        andThen (transition_require (ct_state control = CS_turn_bound)) (\<lambda>_.
        Inr (put_control s (control\<lparr>ct_state := CS_discarded, ct_disposition := Some disposition\<rparr>))))"

definition on_control_consumed :: "session_state \<Rightarrow> string \<Rightarrow> control_action \<Rightarrow> string
    \<Rightarrow> session_state session_result" where
  "on_control_consumed s controlEventId action targetDigest =
     (case map_of (ss_reviewControls s) controlEventId of None \<Rightarrow> Inl SESSION_REDUCER_TRANSITION_INVALID
      | Some control \<Rightarrow>
        andThen (transition_require (ct_state control \<in> {CS_authorized, CS_turn_bound}
          \<and> cf_action (ct_fact control) = action \<and> cf_targetDigest (ct_fact control) = targetDigest)) (\<lambda>_.
        Inr (put_control s (control\<lparr>ct_state := CS_consumed\<rparr>))))"

definition reviewBudgetKey :: "string \<Rightarrow> nat \<Rightarrow> string" where
  "reviewBudgetKey reviewRequestId attemptNumber = reviewRequestId @ '':'' @ nat_to_string attemptNumber"

definition on_budget_reserved :: "session_state \<Rightarrow> string \<Rightarrow> nat \<Rightarrow> provider_usage \<Rightarrow> session_state session_result" where
  "on_budget_reserved s reviewRequestId attemptNumber reservation =
     (let key = reviewBudgetKey reviewRequestId attemptNumber in
      andThen (transition_require (map_of (ss_reviewBudgets s) key = None)) (\<lambda>_.
      Inr (s\<lparr>ss_reviewBudgets := AList.update key
        \<lparr>rb_reviewRequestId = reviewRequestId, rb_attemptNumber = attemptNumber, rb_reservation = reservation,
         rb_state = RS_reserved, rb_disposition = None, rb_usage = None\<rparr> (ss_reviewBudgets s)\<rparr>)))"

definition on_budget_settled :: "session_env \<Rightarrow> session_state \<Rightarrow> string \<Rightarrow> nat \<Rightarrow> budget_disposition
    \<Rightarrow> provider_usage \<Rightarrow> session_state session_result" where
  "on_budget_settled env s reviewRequestId attemptNumber disposition usage =
     (let key = reviewBudgetKey reviewRequestId attemptNumber in
      case map_of (ss_reviewBudgets s) key of None \<Rightarrow> Inl SESSION_REDUCER_TRANSITION_INVALID
      | Some budget \<Rightarrow>
        andThen (transition_require (rb_state budget = RS_reserved)) (\<lambda>_.
        Inr (s\<lparr>ss_reviewBudgets := AList.update key (budget\<lparr>rb_state := RS_settled,
            rb_disposition := Some disposition, rb_usage := Some usage\<rparr>) (ss_reviewBudgets s),
          ss_usage := mergeUsage (se_costAdd env) (ss_usage s)
            \<lparr>bu_turns = 0, bu_toolCalls = 0, bu_subagents = 0, bu_provider = usage\<rparr>\<rparr>)))"

definition on_working_plan :: "session_state \<Rightarrow> working_plan \<Rightarrow> session_state session_result" where
  "on_working_plan s next =
     andThen (transition_require (wp_revision next = case_option 0 wp_revision (ss_workingPlan s) + 1)) (\<lambda>_.
     Inr (s\<lparr>ss_workingPlan := Some next\<rparr>))"

definition on_working_requested :: "session_state \<Rightarrow> working_review \<Rightarrow> session_state session_result" where
  "on_working_requested s r =
     andThen (transition_require (map_of (ss_workingReviews s) (wr_reviewRequestId r) = None)) (\<lambda>_.
     Inr (s\<lparr>ss_workingReviews := AList.update (wr_reviewRequestId r) r (ss_workingReviews s)\<rparr>))"

text \<open>\<open>Object.entries(prior)\<close> are the properties prior has; a missing optional one is not compared.\<close>

definition review_extends :: "working_review \<Rightarrow> working_review \<Rightarrow> bool" where
  "review_extends prior r \<longleftrightarrow> wr_reviewRequestId r = wr_reviewRequestId prior \<and> wr_operationId r = wr_operationId prior
     \<and> wr_inputDigest r = wr_inputDigest prior \<and> wr_inputRef r = wr_inputRef prior
     \<and> wr_requestDigest r = wr_requestDigest prior \<and> wr_planRevision r = wr_planRevision prior
     \<and> wr_snapshotSequence r = wr_snapshotSequence prior \<and> wr_evidenceSequence r = wr_evidenceSequence prior
     \<and> (wr_reportRef prior = None \<or> wr_reportRef r = wr_reportRef prior)
     \<and> (wr_verdict prior = None \<or> wr_verdict r = wr_verdict prior)"

definition on_working_reviewed :: "session_state \<Rightarrow> working_review \<Rightarrow> session_state session_result" where
  "on_working_reviewed s r =
     (case map_of (ss_workingReviews s) (wr_reviewRequestId r) of None \<Rightarrow> Inl SESSION_REDUCER_TRANSITION_INVALID
      | Some prior \<Rightarrow> andThen (transition_require (wr_reportRef prior = None \<and> review_extends prior r)) (\<lambda>_.
          Inr (s\<lparr>ss_workingReviews := AList.update (wr_reviewRequestId r) r (ss_workingReviews s)\<rparr>)))"

definition on_plan_entry :: "session_state \<Rightarrow> session_entry \<Rightarrow> plan_event \<Rightarrow> session_state session_result" where
  "on_plan_entry s e event =
     andThen (applyPlanEvent (map_of (en_correlation e) ''parentRunId'') (ss_ledger s) event) (\<lambda>ledger.
     Inr (s\<lparr>ss_ledger := ledger\<rparr>))"

definition on_review_plan :: "session_env \<Rightarrow> session_state \<Rightarrow> session_entry \<Rightarrow> string \<Rightarrow> js_value
    \<Rightarrow> session_state session_result" where
  "on_review_plan env s e type data =
     andThen (transition_require (isReviewPlanEventTypeV1 type)) (\<lambda>_.
     case reduceReviewPlanEventV1 (se_hostDate env) (se_sha256 env) (ss_reviewPlan s) \<lparr>re_type = type,
         re_sequence = en_sequence e, re_revision = en_revision e, re_runId = en_runId e, re_correlation = JUndef, re_data = data\<rparr> of
       Inl failure \<Rightarrow> Inl (SESSION_REVIEW_FAILURE failure)
     | Inr plan \<Rightarrow> Inr (s\<lparr>ss_reviewPlan := Some plan\<rparr>))"

subsection \<open>The loop\<close>

definition handleEntry :: "session_env \<Rightarrow> session_state \<Rightarrow> session_entry \<Rightarrow> session_state session_result" where
  "handleEntry env s e = (case en_data e of
       Session_created _ \<Rightarrow> Inl SESSION_REDUCER_ID_REUSED
     | Session_metadata_updated d \<Rightarrow> on_metadata s d
     | Session_plan_updated \<Rightarrow> Inr s
     | Session_closed \<Rightarrow> on_closed s
     | Session_reopened \<Rightarrow> on_reopened s
     | Session_forked childSessionId sourceEntryId \<Rightarrow>
         on_forked (en_sessionId e) (en_entryId e) s childSessionId sourceEntryId
     | Session_deleted \<Rightarrow> on_deleted s
     | Message_committed messageId message \<Rightarrow> on_message s messageId message
     | Run_started clientRequestId planPolicy \<Rightarrow> on_run_started s (en_runId e) clientRequestId planPolicy
     | Run_terminal status usage errorCode \<Rightarrow> on_run_terminal s (en_runId e) status usage errorCode
     | Command_invoked commandId resultRef \<Rightarrow> on_command s commandId resultRef
     | Skill_invoked invocationId \<Rightarrow> on_skill s invocationId
     | Permission_decided requestId \<Rightarrow> on_permission s requestId
     | Usage_recorded usage \<Rightarrow> on_usage env s (en_runId e) usage
     | Planner_generation_recorded generation \<Rightarrow> on_generation s (en_runId e) (en_timestamp e) generation
     | Compaction_created d \<Rightarrow> on_compaction env s e d
     | Plan_entry event \<Rightarrow> on_plan_entry s e event
     | Artifact_referenced artifactId artifact \<Rightarrow> on_artifact s artifactId artifact
     | Control_authorized authorizationRequestId envelopeDigest authorized \<Rightarrow>
         on_control_authorized s authorizationRequestId envelopeDigest authorized
     | Control_turn_bound controlEventId runId providerTurnId \<Rightarrow> on_control_bound s controlEventId runId providerTurnId
     | Control_discarded controlEventId disposition \<Rightarrow> on_control_discarded s controlEventId disposition
     | Control_consumed controlEventId action targetDigest \<Rightarrow> on_control_consumed s controlEventId action targetDigest
     | Review_budget_reserved reviewRequestId attemptNumber reservation \<Rightarrow>
         on_budget_reserved s reviewRequestId attemptNumber reservation
     | Review_budget_settled reviewRequestId attemptNumber disposition usage \<Rightarrow>
         on_budget_settled env s reviewRequestId attemptNumber disposition usage
     | Working_plan_saved plan \<Rightarrow> on_working_plan s plan
     | Working_review_requested review \<Rightarrow> on_working_requested s review
     | Working_reviewed review \<Rightarrow> on_working_reviewed s review
     | Review_plan_entry type data \<Rightarrow> on_review_plan env s e type data)"

definition allowed_when_closed :: "session_data \<Rightarrow> bool" where
  "allowed_when_closed d = (case d of Session_metadata_updated _ \<Rightarrow> True | Session_reopened \<Rightarrow> True
     | Session_forked _ _ \<Rightarrow> True | Session_deleted \<Rightarrow> True | _ \<Rightarrow> False)"

definition checkOrder :: "string \<Rightarrow> session_state \<Rightarrow> session_entry \<Rightarrow> unit session_result" where
  "checkOrder sessionId s e = (let previous = ss_previous s in
     andThen (require (en_sessionId e = sessionId) SESSION_REDUCER_SESSION_MISMATCH) (\<lambda>_.
     andThen (require (en_sequence e = en_sequence previous + 1) SESSION_REDUCER_SEQUENCE_INVALID) (\<lambda>_.
     andThen (require (\<not> (en_revision e < en_revision previous \<or> en_revision e > en_revision previous + 1))
       SESSION_REDUCER_REVISION_INVALID) (\<lambda>_.
     andThen (require (\<not> en_timestamp e < en_timestamp previous) SESSION_REDUCER_TIMESTAMP_INVALID) (\<lambda>_.
     andThen (transition_require (ss_lifecycle s \<noteq> L_deleted)) (\<lambda>_.
     transition_require (\<not> (ss_lifecycle s = L_closed \<and> \<not> allowed_when_closed (en_data e)))))))))"

definition applyEntry :: "session_env \<Rightarrow> string \<Rightarrow> session_state \<Rightarrow> session_entry \<Rightarrow> session_state session_result" where
  "applyEntry env sessionId s e =
     andThen (checkOrder sessionId s e) (\<lambda>_.
     andThen (useId (ss_entryIds s) (en_entryId e)) (\<lambda>ids.
     andThen (handleEntry env (s\<lparr>ss_entryIds := ids\<rparr>) e) (\<lambda>s.
     Inr (s\<lparr>ss_previous := e\<rparr>))))"

definition initialSession :: "session_entry \<Rightarrow> session_created_data \<Rightarrow> session_state" where
  "initialSession first d = \<lparr>ss_entryIds = [en_entryId first],
     ss_ledger = \<lparr>pl_stableIds = [], pl_plan = None, pl_resultRefs = []\<rparr>, ss_forkedSessionIds = [],
     ss_messages = [], ss_runs = [], ss_commandIds = [], ss_skillInvocationIds = [], ss_permissionRequestIds = [],
     ss_artifacts = [], ss_activeRunId = None, ss_lifecycle = L_open, ss_provider = sc_provider d,
     ss_model = sc_model d, ss_plannerMode = or_keep (sc_plannerMode d) PM_auto,
     ss_contextLimitTokens = sc_contextLimitTokens d, ss_name = sc_name d, ss_labels = sc_labels d,
     ss_activeLeafId = en_sessionId first, ss_checkpoint = None,
     ss_usage = \<lparr>bu_turns = 0, bu_toolCalls = 0, bu_subagents = 0, bu_provider = no_provider_usage\<rparr>,
     ss_reviewPlan = None, ss_workingPlan = None, ss_workingReviews = [], ss_reviewControls = [],
     ss_reviewBudgets = [], ss_plannerGeneration = None, ss_previous = first\<rparr>"

definition MAX_ENTRIES :: nat where
  "MAX_ENTRIES = 100000"

definition replaySession :: "session_env \<Rightarrow> session_entry list \<Rightarrow> session_state session_result" where
  "replaySession env entries = (case entries of [] \<Rightarrow> Inl SESSION_REDUCER_FIRST_ENTRY_INVALID
     | first # rest \<Rightarrow>
       (if length entries > MAX_ENTRIES then Inl SESSION_REDUCER_FIRST_ENTRY_INVALID
        else (case en_data first of
          Session_created d \<Rightarrow>
            if en_sequence first \<noteq> 1 \<or> en_revision first \<noteq> 1 then Inl SESSION_REDUCER_FIRST_ENTRY_INVALID
            else foldR (applyEntry env (en_sessionId first)) (initialSession first d) rest
        | _ \<Rightarrow> Inl SESSION_REDUCER_FIRST_ENTRY_INVALID)))"

subsection \<open>The public views\<close>

record session_snapshot =
  sn_sessionId :: string
  sn_sequence :: nat
  sn_revision :: nat
  sn_lifecycle :: session_lifecycle
  sn_plannerMode :: planner_mode
  sn_createdAt :: string
  sn_updatedAt :: string
  sn_contextLimitTokens :: "nat option"
  sn_cwd :: string
  sn_provider :: string
  sn_model :: string
  sn_name :: string
  sn_labels :: "string list"
  sn_activeLeafId :: string
  sn_parentSessionId :: "string option"
  sn_sourceEntryId :: "string option"
  sn_messages :: "(string \<times> js_value) list"
  sn_runs :: "run_projection list"
  sn_commandIds :: "string list"
  sn_skillInvocationIds :: "string list"
  sn_permissionRequestIds :: "string list"
  sn_usage :: budget_usage
  sn_checkpointId :: "string option"
  sn_artifactIds :: "string list"

record session_catalog =
  sl_sessionId :: string
  sl_name :: string
  sl_workspace :: string
  sl_provider :: string
  sl_model :: string
  sl_lifecycle :: session_lifecycle
  sl_activeLeafId :: string
  sl_parentSessionId :: "string option"
  sl_messageCount :: nat
  sl_updatedAt :: string
  sl_revision :: nat

record session_context_view =
  cv_sessionId :: string
  cv_revision :: nat
  cv_checkpointId :: "string option"
  cv_startSequence :: nat
  cv_endSequence :: nat
  cv_resultRefs :: "string list"
  cv_artifactIds :: "string list"
  cv_omittedEntries :: nat

record session_projection =
  sp_snapshot :: session_snapshot
  sp_catalog :: session_catalog
  sp_contextView :: session_context_view
  sp_checkpoint :: "checkpoint_projection option"
  sp_planGraph :: "session_plan_graph option"
  sp_plannerGeneration :: "generation_projection option"
  sp_reviewPlan :: "js_record option"
  sp_workingPlan :: "working_plan option"
  sp_workingReviews :: "working_review list"
  sp_reviewControls :: "control_projection list"
  sp_reviewBudgets :: "review_budget list"

text \<open>\<open>[...new Set(values)]\<close> keeps the first occurrence of every value.\<close>

definition unique_values :: "string list \<Rightarrow> string list" where
  "unique_values values = rev (remdups (rev values))"

definition artifact_ids :: "session_state \<Rightarrow> string list" where
  "artifact_ids s = unique_values (map fst (ss_artifacts s)
     @ concat (map (\<lambda>(_, r). wr_inputRef r # option_list (wr_reportRef r)) (ss_workingReviews s)))"

definition snapshot_of :: "session_entry \<Rightarrow> session_created_data \<Rightarrow> session_state \<Rightarrow> session_snapshot" where
  "snapshot_of first d s = \<lparr>sn_sessionId = en_sessionId first, sn_sequence = en_sequence (ss_previous s),
     sn_revision = en_revision (ss_previous s), sn_lifecycle = ss_lifecycle s, sn_plannerMode = ss_plannerMode s,
     sn_createdAt = en_timestamp first, sn_updatedAt = en_timestamp (ss_previous s),
     sn_contextLimitTokens = ss_contextLimitTokens s, sn_cwd = sc_cwd d, sn_provider = ss_provider s,
     sn_model = ss_model s, sn_name = ss_name s, sn_labels = ss_labels s, sn_activeLeafId = ss_activeLeafId s,
     sn_parentSessionId = map_option fk_parentSessionId (sc_fork d),
     sn_sourceEntryId = map_option fk_sourceEntryId (sc_fork d), sn_messages = ss_messages s,
     sn_runs = map snd (ss_runs s), sn_commandIds = ss_commandIds s, sn_skillInvocationIds = ss_skillInvocationIds s,
     sn_permissionRequestIds = ss_permissionRequestIds s, sn_usage = ss_usage s,
     sn_checkpointId = map_option cp_checkpointId (ss_checkpoint s), sn_artifactIds = artifact_ids s\<rparr>"

definition catalog_of :: "session_snapshot \<Rightarrow> session_catalog" where
  "catalog_of sn = \<lparr>sl_sessionId = sn_sessionId sn, sl_name = sn_name sn, sl_workspace = sn_cwd sn,
     sl_provider = sn_provider sn, sl_model = sn_model sn, sl_lifecycle = sn_lifecycle sn,
     sl_activeLeafId = sn_activeLeafId sn, sl_parentSessionId = sn_parentSessionId sn,
     sl_messageCount = length (sn_messages sn), sl_updatedAt = sn_updatedAt sn, sl_revision = sn_revision sn\<rparr>"

definition context_view_of :: "session_state \<Rightarrow> session_snapshot \<Rightarrow> session_context_view" where
  "context_view_of s sn = \<lparr>cv_sessionId = sn_sessionId sn, cv_revision = sn_revision sn,
     cv_checkpointId = map_option cp_checkpointId (ss_checkpoint s),
     cv_startSequence = case_option 1 cp_retainedStart (ss_checkpoint s), cv_endSequence = sn_sequence sn,
     cv_resultRefs = unique_values (pl_resultRefs (ss_ledger s)), cv_artifactIds = sn_artifactIds sn,
     cv_omittedEntries = case_option 0 cp_coveredEnd (ss_checkpoint s)\<rparr>"

definition projectSession :: "(string \<Rightarrow> string \<Rightarrow> bool) \<Rightarrow> session_entry \<Rightarrow> session_created_data \<Rightarrow> session_state
    \<Rightarrow> session_projection session_result" where
  "projectSession locale_le first d s =
     andThen (projectPlan locale_le (pl_plan (ss_ledger s))) (\<lambda>planGraph.
     let snapshot = snapshot_of first d s in
     Inr \<lparr>sp_snapshot = snapshot, sp_catalog = catalog_of snapshot, sp_contextView = context_view_of s snapshot,
       sp_checkpoint = ss_checkpoint s, sp_planGraph = planGraph, sp_plannerGeneration = ss_plannerGeneration s,
       sp_reviewPlan = ss_reviewPlan s, sp_workingPlan = ss_workingPlan s,
       sp_workingReviews = map snd (ss_workingReviews s), sp_reviewControls = map snd (ss_reviewControls s),
       sp_reviewBudgets = map snd (ss_reviewBudgets s)\<rparr>)"

definition reduceSessionEntriesV3 :: "session_env \<Rightarrow> (string \<Rightarrow> string \<Rightarrow> bool) \<Rightarrow> session_entry list
    \<Rightarrow> session_projection session_result" where
  "reduceSessionEntriesV3 env locale_le entries =
     andThen (replaySession env entries) (\<lambda>s.
     case entries of first # _ \<Rightarrow> (case en_data first of
         Session_created d \<Rightarrow> projectSession locale_le first d s
       | _ \<Rightarrow> Inl SESSION_REDUCER_FIRST_ENTRY_INVALID)
     | [] \<Rightarrow> Inl SESSION_REDUCER_FIRST_ENTRY_INVALID)"

end
