(* ===== verification/SessionInvariants.thy ===== *)
theory SessionInvariants
  imports SessionPlanSteps SessionJournal
begin

section \<open>Invariants of the Session journal\<close>

text \<open>
  Two interpretations of \<open>step_invariant\<close> (attempts are numbered; success is verified), and the
  invariant of the whole reducer state, kept by every accepted entry, which interprets
  \<open>event_log\<close> on \<open>applyEntry\<close>.
\<close>

subsection \<open>Attempts are numbered\<close>

definition attempts_numbered :: "mutable_step \<Rightarrow> bool" where
  "attempts_numbered s \<longleftrightarrow> distinct (map fst (ms_attempts s))
     \<and> map (ma_ordinal \<circ> snd) (ms_attempts s) = [1..<Suc (length (ms_attempts s))]
     \<and> map (ma_attemptId \<circ> snd) (ms_attempts s) = map fst (ms_attempts s)
     \<and> length (ms_attempts s) \<le> ms_maxAttempts s"

lemma numbered_start: "ms_attempts s = [] \<Longrightarrow> attempts_numbered s"
  by (simp add: attempts_numbered_def)

lemma attempt_step_fixed:
  "attempt_step st a b \<Longrightarrow> ma_ordinal b = ma_ordinal a \<and> ma_attemptId b = ma_attemptId a"
  by (auto elim: attempt_stepE)

lemma numbered_keeps:
  assumes "step_step regular s t" "attempts_numbered s" shows "attempts_numbered t"
  using assms
proof cases
  case (attempt k a b)
  then show ?thesis using assms(2) attempt_step_fixed[of "ms_state s" a b]
    by (auto simp: attempts_numbered_def distinct_keys_update map_update_existing length_update_existing)
next
  case (reserve a k)
  then show ?thesis using assms(2) by (auto simp: attempts_numbered_def map_of_eq_None_iff)
qed (auto simp: attempts_numbered_def)

interpretation numbered: step_invariant False attempts_numbered
  by unfold_locales (erule numbered_start, erule numbered_keeps)

lemma sort_ordinals:
  "sorted (map ma_ordinal xs) \<Longrightarrow> sort_by attempt_before xs = xs"
proof (induction xs)
  case (Cons x xs)
  then show ?case by (cases xs) (auto simp: attempt_before_def)
qed simp

lemma numbered_ordered: "attempts_numbered s \<Longrightarrow> ordered_attempts s = map snd (ms_attempts s)"
  unfolding ordered_attempts_def attempts_numbered_def by (intro sort_ordinals) (simp del: upt_Suc)

subsection \<open>Success is verified\<close>

definition attempt_judged :: "mutable_attempt \<Rightarrow> bool" where
  "attempt_judged a \<longleftrightarrow>
     (ma_state a = T_verified \<longrightarrow> ma_verifications a \<noteq> [] \<and> list_all (\<lambda>v. sv_status v = V_passed) (ma_verifications a))
     \<and> (ma_state a = T_rejected \<longrightarrow> list_ex (\<lambda>v. sv_status v \<noteq> V_passed) (ma_verifications a))"

definition success_verified :: "mutable_step \<Rightarrow> bool" where
  "success_verified s \<longleftrightarrow> attempts_numbered s \<and> (\<forall>a \<in> snd ` set (ms_attempts s). attempt_judged a)
     \<and> (ms_state s = S_succeeded \<longrightarrow> (\<exists>a \<in> snd ` set (ms_attempts s). ma_state a = T_verified))"

lemma attempt_step_judged: "attempt_step st a b \<Longrightarrow> attempt_judged a \<Longrightarrow> attempt_judged b"
  by (auto elim!: attempt_stepE simp: attempt_judged_def)

lemma verified_stuck: "attempt_step st a b \<Longrightarrow> ma_state a \<noteq> T_verified"
  by (auto elim: attempt_stepE)

lemma latest_member: "latestStepAttempt s = Some a \<Longrightarrow> a \<in> snd ` set (ms_attempts s)"
  by (auto simp: latestStepAttempt_def split: list.splits)
    (metis list.set_intros(1) set_sort_by set_map)

lemma verified_keeps:
  assumes "step_step True s t" "success_verified s" shows "success_verified t"
  using assms
proof cases
  case (state to code)
  then show ?thesis using assms numbered_keeps[OF assms(1)] latest_member[of s]
    by (auto simp: success_verified_def)
next
  case (attempt k a b)
  have a: "attempt_judged a" "ma_state a \<noteq> T_verified"
    using assms(2) attempt verified_stuck by (force simp: success_verified_def dest: map_of_SomeD)+
  have "\<exists>b \<in> snd ` set (ms_attempts t). ma_state b = T_verified"
    if w: "w \<in> snd ` set (ms_attempts s)" and v: "ma_state w = T_verified" for w
  proof -
    obtain j where j: "(j, w) \<in> set (ms_attempts s)" using w by auto
    have d: "distinct (map fst (ms_attempts s))" using assms(2) by (simp add: success_verified_def attempts_numbered_def)
    have "j \<noteq> k" using a(2) v attempt(2) map_of_is_SomeI[OF d j] by auto
    then have "(j, w) \<in> set (ms_attempts t)" using update_keeps[OF j d] attempt(1) by simp
    then show ?thesis using v by force
  qed
  moreover have "attempt_judged b" using attempt(3) a(1) by (rule attempt_step_judged)
  ultimately show ?thesis using assms(2) attempt(1) numbered_keeps[OF assms(1)]
    by (auto simp: success_verified_def dest!: in_set_updateD)
next
  case (reserve a k)
  then show ?thesis using assms numbered_keeps[OF assms(1)]
    by (auto simp: success_verified_def attempt_judged_def)
qed

interpretation verified: step_invariant True success_verified
  by unfold_locales (simp add: success_verified_def numbered_start, erule verified_keeps)

subsection \<open>The ledger inside the Session\<close>

text \<open>An accepted entry is a Plan entry on the ledger, or leaves the Plan and adds ids.\<close>

definition ledger_kept :: "plan_ledger \<Rightarrow> plan_ledger \<Rightarrow> bool" where
  "ledger_kept l l' \<longleftrightarrow> pl_plan l' = pl_plan l \<and> ids_grow l l'"

lemma ledger_kept_refl [simp]: "ledger_kept l l"
  by (simp add: ledger_kept_def ids_grow_def)

lemma stable_iff: "stable s n i = Inr t \<longleftrightarrow> n @ '':'' @ i \<notin> set (pl_stableIds (ss_ledger s))
    \<and> t = s\<lparr>ss_ledger := (ss_ledger s)\<lparr>pl_stableIds := pl_stableIds (ss_ledger s) @ [n @ '':'' @ i]\<rparr>\<rparr>"
  by (auto simp: stable_def result_iff)

lemma running_run_iff: "running_run s i = Inr (r, run) \<longleftrightarrow> i = Some r \<and> ss_activeRunId s = Some r
    \<and> map_of (ss_runs s) r = Some run \<and> rn_state run = Run_running"
  by (auto simp: running_run_def split: option.splits)

lemma review_plan_iff: "on_review_plan env s e type data = Inr t \<longleftrightarrow> isReviewPlanEventTypeV1 type
    \<and> (\<exists>plan. reduceReviewPlanEventV1 (se_hostDate env) (se_sha256 env) (ss_reviewPlan s) \<lparr>re_type = type,
         re_sequence = en_sequence e, re_revision = en_revision e, re_runId = en_runId e, re_correlation = JUndef, re_data = data\<rparr>
         = Inr plan \<and> t = s\<lparr>ss_reviewPlan := Some plan\<rparr>)"
  by (auto simp: on_review_plan_def andThen_return_iff transition_require_iff split: sum.splits)

lemmas handler_defs = on_metadata_def on_closed_def on_reopened_def on_forked_def on_deleted_def on_message_def
  on_run_started_def on_run_terminal_def on_command_def on_skill_def on_permission_def on_usage_def on_generation_def
  on_compaction_def on_artifact_def on_control_authorized_def on_control_bound_def on_control_discarded_def
  on_control_consumed_def on_budget_reserved_def on_budget_settled_def on_working_plan_def on_working_requested_def
  on_working_reviewed_def on_plan_entry_def put_control_def push_results_def

lemmas handler_iffs = andThen_return_iff transition_require_iff stable_iff running_run_iff useId_iff review_plan_iff

lemma handle_ledger:
  assumes "handleEntry env s e = Inr t"
  shows "(\<exists>ev. en_data e = Plan_entry ev
      \<and> applyPlanEvent (map_of (en_correlation e) ''parentRunId'') (ss_ledger s) ev = Inr (ss_ledger t))
    \<or> (\<nexists>ev. en_data e = Plan_entry ev) \<and> ledger_kept (ss_ledger s) (ss_ledger t)"
  using assms by (cases "en_data e")
    (auto simp: handleEntry_def handler_defs handler_iffs Let_def ledger_kept_def ids_grow_def split: option.splits if_splits)

lemma applyEntryE:
  assumes "applyEntry env sid s e = Inr t"
  obtains u where "handleEntry env (s\<lparr>ss_entryIds := ss_entryIds s @ [en_entryId e]\<rparr>) e = Inr u"
    "t = u\<lparr>ss_previous := e\<rparr>" "en_entryId e \<notin> set (ss_entryIds s)"
    "en_sessionId e = sid" "en_sequence e = en_sequence (ss_previous s) + 1"
    "en_revision (ss_previous s) \<le> en_revision e" "en_revision e \<le> en_revision (ss_previous s) + 1"
    "en_timestamp (ss_previous s) \<le> en_timestamp e" "ss_lifecycle s \<noteq> L_deleted"
    "ss_lifecycle s = L_closed \<Longrightarrow> allowed_when_closed (en_data e)"
  using assms by (auto simp: applyEntry_def checkOrder_def Let_def andThen_return_iff require_return_iff
      transition_require_iff useId_iff not_less)

lemma handle_entryIds: "handleEntry env s e = Inr t \<Longrightarrow> ss_entryIds t = ss_entryIds s"
  by (cases "en_data e")
    (auto simp: handleEntry_def handler_defs handler_iffs Let_def split: option.splits if_splits)

subsection \<open>The invariant of the reducer state\<close>

text \<open>
  Runs: the active Run is the only running one, and none is active once the Session is closed
  or deleted. Entry ids and stable ids are used once. The checkpoint covers a proper prefix of
  the log. A reservation is settled exactly when it carries a disposition and a usage.
\<close>

definition runs_inv :: "session_state \<Rightarrow> bool" where
  "runs_inv s \<longleftrightarrow> distinct (map fst (ss_runs s))
     \<and> (\<forall>(k, r) \<in> set (ss_runs s). rn_runId r = k \<and> ''run'' @ '':'' @ k \<in> set (pl_stableIds (ss_ledger s))
          \<and> (rn_state r = Run_running \<longleftrightarrow> ss_activeRunId s = Some k))
     \<and> (\<forall>k. ss_activeRunId s = Some k \<longrightarrow> k \<in> fst ` set (ss_runs s))
     \<and> (ss_lifecycle s \<noteq> L_open \<longrightarrow> ss_activeRunId s = None)"

definition checkpoint_inv :: "session_state \<Rightarrow> bool" where
  "checkpoint_inv s \<longleftrightarrow> (\<forall>c. ss_checkpoint s = Some c \<longrightarrow> cp_coveredStart c = 1 \<and> cp_retainedStart c = cp_coveredEnd c + 1
     \<and> cp_coveredEnd c < en_sequence (ss_previous s))"

definition ids_inv :: "session_state \<Rightarrow> bool" where
  "ids_inv s \<longleftrightarrow> distinct (ss_entryIds s) \<and> length (ss_entryIds s) = en_sequence (ss_previous s)
     \<and> distinct (pl_stableIds (ss_ledger s)) \<and> keys_used (ss_ledger s)"

definition session_inv :: "session_state \<Rightarrow> bool" where
  "session_inv s \<longleftrightarrow> runs_inv s \<and> checkpoint_inv s \<and> ids_inv s"

lemma kept_ids: "ledger_kept l m \<Longrightarrow> set (pl_stableIds l) \<subseteq> set (pl_stableIds m)"
  by (auto simp: ledger_kept_def ids_grow_def)

lemma kept_keys: "ledger_kept l m \<Longrightarrow> keys_used l \<Longrightarrow> keys_used m"
  using kept_ids[of l m] by (auto simp: keys_used_def ledger_kept_def subset_iff)

lemma handle_ids:
  assumes "handleEntry env s e = Inr t"
  shows "ids_grow (ss_ledger s) (ss_ledger t) \<and> (keys_used (ss_ledger s) \<longrightarrow> keys_used (ss_ledger t))"
  using handle_ledger[OF assms]
proof (elim disjE exE conjE)
  fix ev assume "applyPlanEvent (map_of (en_correlation e) ''parentRunId'') (ss_ledger s) ev = Inr (ss_ledger t)"
  then show ?thesis using apply_ids_grow apply_keys_used by blast
next
  assume "ledger_kept (ss_ledger s) (ss_ledger t)"
  then show ?thesis using kept_keys by (auto simp: ledger_kept_def)
qed

lemma ids_keeps:
  assumes "applyEntry env sid s e = Inr t" "ids_inv s" shows "ids_inv t"
proof -
  let ?s = "s\<lparr>ss_entryIds := ss_entryIds s @ [en_entryId e]\<rparr>"
  obtain u where h: "handleEntry env ?s e = Inr u" and t: "t = u\<lparr>ss_previous := e\<rparr>"
    and n: "en_entryId e \<notin> set (ss_entryIds s)" "en_sequence e = en_sequence (ss_previous s) + 1"
    using assms(1) by (rule applyEntryE)
  have "distinct (pl_stableIds (ss_ledger u)) \<and> keys_used (ss_ledger u)"
    using handle_ids[OF h] assms(2) by (simp add: ids_inv_def ids_grow_def)
  then show ?thesis using assms(2) n handle_entryIds[OF h] by (simp add: ids_inv_def t)
qed

lemma ids_superset: "handleEntry env s e = Inr t \<Longrightarrow> set (pl_stableIds (ss_ledger s)) \<subseteq> set (pl_stableIds (ss_ledger t))"
  by (drule handle_ids) (auto simp: ids_grow_def)

lemma checkpoint_keeps:
  assumes "applyEntry env sid s e = Inr t" "checkpoint_inv s" shows "checkpoint_inv t"
proof -
  let ?s = "s\<lparr>ss_entryIds := ss_entryIds s @ [en_entryId e]\<rparr>"
  obtain u where h: "handleEntry env ?s e = Inr u" and t: "t = u\<lparr>ss_previous := e\<rparr>"
    and n: "en_sequence e = en_sequence (ss_previous s) + 1"
    using assms(1) by (rule applyEntryE)
  show ?thesis using h assms(2) n unfolding t checkpoint_inv_def
    by (cases "en_data e") (auto simp: handleEntry_def handler_defs handler_iffs Let_def compaction_ok_def
        split: option.splits if_splits)
qed

lemma runs_other:
  "runs_inv s \<Longrightarrow> ss_runs t = ss_runs s \<Longrightarrow> ss_activeRunId t = ss_activeRunId s \<Longrightarrow> ss_lifecycle t = ss_lifecycle s
    \<Longrightarrow> set (pl_stableIds (ss_ledger s)) \<subseteq> set (pl_stableIds (ss_ledger t)) \<Longrightarrow> runs_inv t"
  unfolding runs_inv_def by (fastforce simp del: append_Cons)

text \<open>Writing the projection of the active Run back, still running or ended.\<close>

lemma runs_update:
  assumes inv: "runs_inv s" and k: "map_of (ss_runs s) k = Some r" "rn_state r = Run_running"
    and run: "rn_runId r' = k" "rn_state r' = Run_running \<longleftrightarrow> active = Some k" "active = Some k \<or> active = None"
  shows "runs_inv (s\<lparr>ss_runs := AList.update k r' (ss_runs s), ss_activeRunId := active\<rparr>)"
proof -
  have m: "(k, r) \<in> set (ss_runs s)" using k(1) by (rule map_of_SomeD)
  have act: "ss_activeRunId s = Some k" using inv m k(2) by (auto simp: runs_inv_def)
  have d: "distinct (map fst (ss_runs s))" using inv by (simp add: runs_inv_def)
  have "rn_runId q = j \<and> ''run'' @ '':'' @ j \<in> set (pl_stableIds (ss_ledger s))
      \<and> (rn_state q = Run_running \<longleftrightarrow> active = Some j)" if q: "(j, q) \<in> set (AList.update k r' (ss_runs s))" for j q
  proof (cases "j = k")
    case True
    then have "r' = q" using map_of_is_SomeI[OF distinct_keys_update[OF d, of k r'] q] by simp
    then show ?thesis using True run inv m by (auto simp: runs_inv_def simp del: append_Cons)
  next
    case False
    then have "(j, q) \<in> set (ss_runs s)" using in_set_updateD[OF q] by auto
    then show ?thesis using inv act False run(3) by (auto simp: runs_inv_def simp del: append_Cons)
  qed
  then show ?thesis using inv run(3) act keys_updated[of k r' "ss_runs s"] distinct_keys_update[OF d]
    by (auto simp: runs_inv_def simp del: append_Cons)
qed

lemma started_runs:
  assumes "on_run_started s i client policy = Inr t" "runs_inv s" shows "runs_inv t"
proof -
  obtain k where i: "i = Some k" using assms(1) by (cases i) (auto simp: on_run_started_def)
  define run where "run = \<lparr>rn_runId = k, rn_clientRequestId = client, rn_state = Run_running,
    rn_usage = \<lparr>pt_turns = None, pt_toolCalls = None, pt_subagents = None, pt_provider = no_provider_usage\<rparr>,
    rn_errorCode = None, rn_planPolicy = or_keep policy Plan_optional\<rparr>"
  have k: "ss_lifecycle s = L_open" "ss_activeRunId s = None" "''run'' @ '':'' @ k \<notin> set (pl_stableIds (ss_ledger s))"
    and t: "ss_runs t = AList.update k run (ss_runs s)" "ss_activeRunId t = Some k" "ss_lifecycle t = L_open"
      "set (pl_stableIds (ss_ledger t)) = {''client-request'' @ '':'' @ client, ''run'' @ '':'' @ k} \<union> set (pl_stableIds (ss_ledger s))"
    using assms(1) by (auto simp: on_run_started_def handler_iffs i run_def)
  have run: "rn_runId run = k" "rn_state run = Run_running" by (simp_all add: run_def)
  have new: "map_of (ss_runs s) k = None"
    using assms(2) k(3) by (auto simp: runs_inv_def map_of_eq_None_iff simp del: append_Cons)
  then show ?thesis using assms(2) k run t
    by (auto simp: runs_inv_def update_fresh map_of_eq_None_iff simp del: append_Cons)
qed

lemma runs_keeps:
  assumes "handleEntry env s e = Inr t" "runs_inv s" shows "runs_inv t"
proof (cases "en_data e")
  case (Run_started client policy)
  then show ?thesis using assms started_runs by (simp add: handleEntry_def)
next
  case (Run_terminal status usage code)
  then obtain k run where k: "map_of (ss_runs s) k = Some run" "rn_state run = Run_running"
    and t: "ss_runs t = AList.update k (run\<lparr>rn_state := Run_ended status, rn_usage := (rn_usage run)\<lparr>pt_provider := usage\<rparr>,
         rn_errorCode := (if code = None then rn_errorCode run else code)\<rparr>) (ss_runs s)"
      "ss_activeRunId t = None" "ss_lifecycle t = ss_lifecycle s" "ss_ledger t = ss_ledger s"
    using assms(1) by (auto simp: handleEntry_def on_run_terminal_def handler_iffs)
  have "rn_runId run = k" using assms(2) map_of_SomeD[OF k(1)] by (auto simp: runs_inv_def)
  then have "runs_inv (s\<lparr>ss_runs := AList.update k (run\<lparr>rn_state := Run_ended status,
      rn_usage := (rn_usage run)\<lparr>pt_provider := usage\<rparr>,
      rn_errorCode := (if code = None then rn_errorCode run else code)\<rparr>) (ss_runs s), ss_activeRunId := None\<rparr>)"
    by (intro runs_update[OF assms(2) k]) simp_all
  then show ?thesis by (rule runs_other) (simp_all add: t)
next
  case (Usage_recorded usage)
  show ?thesis
  proof (cases "en_runId e")
    case None
    then show ?thesis using assms Usage_recorded
      by (auto simp: handleEntry_def on_usage_def Let_def intro: runs_other)
  next
    case (Some i)
    then obtain k run run' where k: "map_of (ss_runs s) k = Some run" "rn_state run = Run_running" "ss_activeRunId s = Some k"
      and t: "ss_runs t = AList.update k run' (ss_runs s)" "ss_activeRunId t = Some k" "ss_lifecycle t = ss_lifecycle s"
        "ss_ledger t = ss_ledger s" "rn_runId run' = rn_runId run" "rn_state run' = Run_running"
      using assms(1) Usage_recorded by (auto simp: handleEntry_def on_usage_def Let_def handler_iffs)
    have "rn_runId run = k" using assms(2) map_of_SomeD[OF k(1)] by (auto simp: runs_inv_def)
    then have "runs_inv (s\<lparr>ss_runs := AList.update k run' (ss_runs s), ss_activeRunId := Some k\<rparr>)"
      using t by (intro runs_update[OF assms(2) k(1,2)]) simp_all
    then show ?thesis by (rule runs_other) (simp_all add: t)
  qed
next
  case Session_closed
  then show ?thesis using assms by (auto simp: handleEntry_def on_closed_def handler_iffs runs_inv_def simp del: append_Cons)
next
  case Session_reopened
  then show ?thesis using assms by (auto simp: handleEntry_def on_reopened_def handler_iffs runs_inv_def simp del: append_Cons)
next
  case Session_deleted
  then show ?thesis using assms by (auto simp: handleEntry_def on_deleted_def handler_iffs runs_inv_def simp del: append_Cons)
next
  case (Plan_entry ev)
  then show ?thesis using assms ids_superset[OF assms(1)]
    by (auto simp: handleEntry_def on_plan_entry_def handler_iffs intro: runs_other)
qed (insert assms, auto simp: handleEntry_def handler_defs handler_iffs Let_def split: option.splits if_splits
    intro: runs_other[OF assms(2)])

lemma applyEntry_runs:
  assumes "applyEntry env sid s e = Inr t" "runs_inv s" shows "runs_inv t"
proof -
  obtain u where h: "handleEntry env (s\<lparr>ss_entryIds := ss_entryIds s @ [en_entryId e]\<rparr>) e = Inr u"
    and t: "t = u\<lparr>ss_previous := e\<rparr>" using assms(1) by (rule applyEntryE)
  have "runs_inv (s\<lparr>ss_entryIds := ss_entryIds s @ [en_entryId e]\<rparr>)" using assms(2) by (rule runs_other) simp_all
  then have "runs_inv u" by (rule runs_keeps[OF h])
  then show ?thesis by (rule runs_other) (simp_all add: t)
qed

interpretation session_log: event_log "applyEntry env sid" session_inv "\<lambda>s. en_sequence (ss_previous s)"
proof unfold_locales
  fix s e t assume a: "session_inv s" "applyEntry env sid s e = Inr t"
  then show "session_inv t" using applyEntry_runs checkpoint_keeps ids_keeps by (auto simp: session_inv_def)
  show "en_sequence (ss_previous t) = Suc (en_sequence (ss_previous s))"
    using a(2) by (rule applyEntryE) simp
qed

lemma initial_session_inv: "en_sequence first = 1 \<Longrightarrow> session_inv (initialSession first d)"
  by (simp add: session_inv_def runs_inv_def checkpoint_inv_def ids_inv_def keys_used_def initialSession_def)

lemma replayE:
  assumes "replaySession env entries = Inr s"
  obtains first rest d where "entries = first # rest" "length entries \<le> MAX_ENTRIES" "en_data first = Session_created d"
    "en_sequence first = 1" "en_revision first = 1"
    "foldR (applyEntry env (en_sessionId first)) (initialSession first d) rest = Inr s"
  using assms by (auto simp: replaySession_def split: list.splits if_splits session_data.splits)

lemma replay_inv: "replaySession env entries = Inr s \<Longrightarrow> session_inv s"
  by (erule replayE) (blast intro: session_log.replay_keeps initial_session_inv)

lemma replay_sequence:
  assumes "replaySession env entries = Inr s" shows "en_sequence (ss_previous s) = length entries"
proof -
  obtain first rest d where e: "entries = first # rest" "en_sequence first = 1"
    and f: "foldR (applyEntry env (en_sessionId first)) (initialSession first d) rest = Inr s"
    using assms by (rule replayE)
  show ?thesis using session_log.replay_counts[OF f initial_session_inv[OF e(2)]] by (simp add: e initialSession_def)
qed

subsection \<open>Induction along the log\<close>

lemma replay_append:
  assumes "replaySession env (entries @ [e]) = Inr t" "entries \<noteq> []"
  obtains s where "replaySession env entries = Inr s" "applyEntry env (en_sessionId (hd entries)) s e = Inr t"
  using assms by (cases entries)
    (auto simp: replaySession_def foldR_append andThen_return_iff split: if_splits session_data.splits)

lemma replay_induct [consumes 1, case_names first entry]:
  assumes "replaySession env entries = Inr s"
    and base: "\<And>first d. en_data first = Session_created d \<Longrightarrow> en_sequence first = 1 \<Longrightarrow> Q [first] (initialSession first d)"
    and app: "\<And>es s sid e t. replaySession env es = Inr s \<Longrightarrow> es \<noteq> [] \<Longrightarrow> Q es s \<Longrightarrow> session_inv s
      \<Longrightarrow> applyEntry env sid s e = Inr t \<Longrightarrow> Q (es @ [e]) t"
  shows "Q entries s"
  using assms(1)
proof (induction entries arbitrary: s rule: rev_induct)
  case Nil
  then show ?case by (simp add: replaySession_def)
next
  case (snoc e es)
  show ?case
  proof (cases "es = []")
    case True
    then show ?thesis using snoc.prems base by (auto elim!: replayE)
  next
    case False
    with snoc.prems obtain u where u: "replaySession env es = Inr u" "applyEntry env (en_sessionId (hd es)) u e = Inr s"
      by (rule replay_append)
    then show ?thesis using app[OF u(1) False snoc.IH[OF u(1)] replay_inv[OF u(1)]] by blast
  qed
qed

definition regular_entry :: "session_entry \<Rightarrow> bool" where
  "regular_entry e = (case en_data e of Plan_entry ev \<Rightarrow> regular_event ev | _ \<Rightarrow> True)"

context step_invariant
begin

lemma entry_keeps:
  assumes "applyEntry env sid s e = Inr t" "ids_inv s" "all_steps (pl_plan (ss_ledger s))" "regular \<longrightarrow> regular_entry e"
  shows "all_steps (pl_plan (ss_ledger t))"
proof -
  obtain u where h: "handleEntry env (s\<lparr>ss_entryIds := ss_entryIds s @ [en_entryId e]\<rparr>) e = Inr u"
    and t: "t = u\<lparr>ss_previous := e\<rparr>" using assms(1) by (rule applyEntryE)
  show ?thesis using handle_ledger[OF h]
  proof (elim disjE exE conjE)
    fix ev assume e: "en_data e = Plan_entry ev" and
      a: "applyPlanEvent (map_of (en_correlation e) ''parentRunId'')
        (ss_ledger (s\<lparr>ss_entryIds := ss_entryIds s @ [en_entryId e]\<rparr>)) ev = Inr (ss_ledger u)"
    have "ledger_step regular (pl_plan (ss_ledger s)) (pl_plan (ss_ledger u))"
      using ledger_refines[OF a] assms(2,4) e by (simp add: ids_inv_def regular_entry_def)
    then show ?thesis using ledger_keeps assms(3) t by simp
  next
    assume "ledger_kept (ss_ledger (s\<lparr>ss_entryIds := ss_entryIds s @ [en_entryId e]\<rparr>)) (ss_ledger u)"
    then show ?thesis using assms(3) t by (simp add: ledger_kept_def)
  qed
qed

lemma replay_all_steps:
  assumes "replaySession env entries = Inr s" "regular \<longrightarrow> list_all regular_entry entries"
  shows "all_steps (pl_plan (ss_ledger s))"
proof -
  have "(regular \<longrightarrow> list_all regular_entry entries) \<longrightarrow> all_steps (pl_plan (ss_ledger s))"
    using assms(1)
  proof (induction rule: replay_induct)
    case (first e d)
    then show ?case by (simp add: all_steps_def initialSession_def)
  next
    case (entry es s sid e t)
    then show ?case using entry_keeps[of env sid s e t] by (auto simp: session_inv_def)
  qed
  then show ?thesis using assms(2) by blast
qed

end

subsection \<open>Charges\<close>

text \<open>What one entry charges to the Session, and to a Run.\<close>

definition charge_of :: "session_entry \<Rightarrow> budget_usage" where
  "charge_of e = (case en_data e of Usage_recorded u \<Rightarrow> u
     | Review_budget_settled i n disposition u \<Rightarrow> \<lparr>bu_turns = 0, bu_toolCalls = 0, bu_subagents = 0, bu_provider = u\<rparr>
     | _ \<Rightarrow> \<lparr>bu_turns = 0, bu_toolCalls = 0, bu_subagents = 0, bu_provider = no_provider_usage\<rparr>)"

definition run_charge :: "string \<Rightarrow> session_entry \<Rightarrow> budget_usage" where
  "run_charge k e = (case en_data e of Usage_recorded u \<Rightarrow> if en_runId e = Some k then u
       else \<lparr>bu_turns = 0, bu_toolCalls = 0, bu_subagents = 0, bu_provider = no_provider_usage\<rparr>
     | _ \<Rightarrow> \<lparr>bu_turns = 0, bu_toolCalls = 0, bu_subagents = 0, bu_provider = no_provider_usage\<rparr>)"

definition count_or_0 :: "nat option \<Rightarrow> nat" where
  "count_or_0 n = case_option 0 id n"

lemma count_merge [simp]: "count_or_0 (merge_count l r) = count_or_0 l + count_or_0 r"
  by (cases l; cases r) (simp_all add: count_or_0_def merge_count_def)

lemma count_or_0_simps [simp]: "count_or_0 None = 0" "count_or_0 (Some n) = n"
  by (simp_all add: count_or_0_def)

lemma merge_charges:
  "bu_turns (mergeUsage add u v) = bu_turns u + bu_turns v"
  "bu_toolCalls (mergeUsage add u v) = bu_toolCalls u + bu_toolCalls v"
  "bu_subagents (mergeUsage add u v) = bu_subagents u + bu_subagents v"
  "count_or_0 (pu_inputTokens (bu_provider (mergeUsage add u v)))
    = count_or_0 (pu_inputTokens (bu_provider u)) + count_or_0 (pu_inputTokens (bu_provider v))"
  "count_or_0 (pu_outputTokens (bu_provider (mergeUsage add u v)))
    = count_or_0 (pu_outputTokens (bu_provider u)) + count_or_0 (pu_outputTokens (bu_provider v))"
  by (simp_all add: mergeUsage_def Let_def)

lemma entry_charges:
  assumes "applyEntry env sid s e = Inr t"
  shows "bu_turns (ss_usage t) = bu_turns (ss_usage s) + bu_turns (charge_of e)"
    and "bu_toolCalls (ss_usage t) = bu_toolCalls (ss_usage s) + bu_toolCalls (charge_of e)"
    and "bu_subagents (ss_usage t) = bu_subagents (ss_usage s) + bu_subagents (charge_of e)"
    and "count_or_0 (pu_inputTokens (bu_provider (ss_usage t)))
      = count_or_0 (pu_inputTokens (bu_provider (ss_usage s))) + count_or_0 (pu_inputTokens (bu_provider (charge_of e)))"
    and "count_or_0 (pu_outputTokens (bu_provider (ss_usage t)))
      = count_or_0 (pu_outputTokens (bu_provider (ss_usage s))) + count_or_0 (pu_outputTokens (bu_provider (charge_of e)))"
proof -
  obtain u where h: "handleEntry env (s\<lparr>ss_entryIds := ss_entryIds s @ [en_entryId e]\<rparr>) e = Inr u"
    and t: "t = u\<lparr>ss_previous := e\<rparr>" using assms by (rule applyEntryE)
  have z: "ss_usage u = ss_usage s \<and> charge_of e = \<lparr>bu_turns = 0, bu_toolCalls = 0, bu_subagents = 0, bu_provider = no_provider_usage\<rparr>
      \<or> ss_usage u = mergeUsage (se_costAdd env) (ss_usage s) (charge_of e)"
    using h by (cases "en_data e") (auto simp: handleEntry_def handler_defs handler_iffs Let_def charge_of_def
        split: option.splits if_splits)
  show "bu_turns (ss_usage t) = bu_turns (ss_usage s) + bu_turns (charge_of e)"
    "bu_toolCalls (ss_usage t) = bu_toolCalls (ss_usage s) + bu_toolCalls (charge_of e)"
    "bu_subagents (ss_usage t) = bu_subagents (ss_usage s) + bu_subagents (charge_of e)"
    "count_or_0 (pu_inputTokens (bu_provider (ss_usage t)))
      = count_or_0 (pu_inputTokens (bu_provider (ss_usage s))) + count_or_0 (pu_inputTokens (bu_provider (charge_of e)))"
    "count_or_0 (pu_outputTokens (bu_provider (ss_usage t)))
      = count_or_0 (pu_outputTokens (bu_provider (ss_usage s))) + count_or_0 (pu_outputTokens (bu_provider (charge_of e)))"
    using z by (auto simp: t merge_charges no_provider_usage_def)
qed

text \<open>A Run's turns, tool calls and subagents: unchanged by every entry but its own charges.\<close>

definition run_counts :: "partial_usage \<Rightarrow> nat \<times> nat \<times> nat" where
  "run_counts u = (count_or_0 (pt_turns u), count_or_0 (pt_toolCalls u), count_or_0 (pt_subagents u))"

definition charge_counts :: "budget_usage \<Rightarrow> nat \<times> nat \<times> nat" where
  "charge_counts u = (bu_turns u, bu_toolCalls u, bu_subagents u)"

fun add3 :: "nat \<times> nat \<times> nat \<Rightarrow> nat \<times> nat \<times> nat \<Rightarrow> nat \<times> nat \<times> nat" where
  "add3 (a, b, c) (d, e, f) = (a + d, b + e, c + f)"

definition recorded_counts :: "session_state \<Rightarrow> string \<Rightarrow> nat \<times> nat \<times> nat" where
  "recorded_counts s k = (case map_of (ss_runs s) k of None \<Rightarrow> (0, 0, 0) | Some r \<Rightarrow> run_counts (rn_usage r))"

lemma runs_unchanged:
  assumes "handleEntry env s e = Inr t"
  shows "ss_runs t = ss_runs s \<or> (\<exists>c p. en_data e = Run_started c p) \<or> (\<exists>st u c. en_data e = Run_terminal st u c)
    \<or> (\<exists>u. en_data e = Usage_recorded u)"
  using assms by (cases "en_data e") (auto simp: handleEntry_def handler_defs handler_iffs Let_def
      split: option.splits if_splits)

lemma add3_0 [simp]: "add3 x (0, 0, 0) = x"
  by (cases x) simp

lemma started_counts:
  assumes "on_run_started s i client policy = Inr t" "runs_inv s"
  shows "recorded_counts t k = recorded_counts s k"
proof -
  obtain j where i: "i = Some j" using assms(1) by (cases i) (auto simp: on_run_started_def)
  define run where "run = \<lparr>rn_runId = j, rn_clientRequestId = client, rn_state = Run_running,
    rn_usage = \<lparr>pt_turns = None, pt_toolCalls = None, pt_subagents = None, pt_provider = no_provider_usage\<rparr>,
    rn_errorCode = None, rn_planPolicy = or_keep policy Plan_optional\<rparr>"
  have t: "ss_runs t = AList.update j run (ss_runs s)" "''run'' @ '':'' @ j \<notin> set (pl_stableIds (ss_ledger s))"
    using assms(1) by (auto simp: on_run_started_def handler_iffs i run_def)
  moreover have "map_of (ss_runs s) j = None"
    using assms(2) t(2) by (auto simp: runs_inv_def map_of_eq_None_iff simp del: append_Cons)
  ultimately show ?thesis by (simp add: recorded_counts_def run_counts_def run_def)
qed

lemma terminal_counts:
  "on_run_terminal s i st u c = Inr t \<Longrightarrow> recorded_counts t k = recorded_counts s k"
  by (auto simp: on_run_terminal_def handler_iffs recorded_counts_def run_counts_def)

lemma usage_counts:
  assumes "on_usage env s i u = Inr t"
  shows "recorded_counts t k = add3 (recorded_counts s k) (if i = Some k then charge_counts u else (0, 0, 0))"
proof (cases i)
  case None
  then show ?thesis using assms by (auto simp: on_usage_def Let_def recorded_counts_def)
next
  case (Some j)
  then obtain run where "map_of (ss_runs s) j = Some run"
    and "ss_runs t = AList.update j (run\<lparr>rn_usage := partial_of
            (mergeUsage (se_costAdd env) (normalizeBudgetUsage (rn_usage run)) u)\<rparr>) (ss_runs s)"
    using assms by (auto simp: on_usage_def Let_def handler_iffs)
  then show ?thesis using Some by (auto simp: recorded_counts_def run_counts_def charge_counts_def partial_of_def
      merge_charges normalizeBudgetUsage_def count_or_0_def)
qed

lemma entry_run_counts:
  assumes "applyEntry env sid s e = Inr t" "runs_inv s"
  shows "recorded_counts t k = add3 (recorded_counts s k) (charge_counts (run_charge k e))"
proof -
  let ?s = "s\<lparr>ss_entryIds := ss_entryIds s @ [en_entryId e]\<rparr>"
  obtain u where h: "handleEntry env ?s e = Inr u"
    and t: "t = u\<lparr>ss_previous := e\<rparr>" using assms(1) by (rule applyEntryE)
  have inv: "runs_inv ?s" using assms(2) by (rule runs_other) simp_all
  have s: "recorded_counts t k = recorded_counts u k" "recorded_counts ?s k = recorded_counts s k"
    by (simp_all add: t recorded_counts_def)
  consider (kept) "ss_runs u = ss_runs ?s" "\<nexists>u. en_data e = Usage_recorded u"
    | (started) c p where "en_data e = Run_started c p"
    | (ended) st v c where "en_data e = Run_terminal st v c" | (used) v where "en_data e = Usage_recorded v"
    using runs_unchanged[OF h] by blast
  then show ?thesis
  proof cases
    case kept
    then show ?thesis unfolding s by (cases "en_data e") (simp_all add: recorded_counts_def run_charge_def charge_counts_def)
  next
    case started
    then have "recorded_counts u k = recorded_counts ?s k" using h inv started_counts by (simp add: handleEntry_def)
    then show ?thesis using started by (simp add: s run_charge_def charge_counts_def)
  next
    case ended
    then have "recorded_counts u k = recorded_counts ?s k" using h terminal_counts by (simp add: handleEntry_def)
    then show ?thesis using ended by (simp add: s run_charge_def charge_counts_def)
  next
    case used
    then have "on_usage env ?s (en_runId e) v = Inr u" using h by (simp add: handleEntry_def)
    then show ?thesis using usage_counts[of env ?s "en_runId e" v u k] used
      by (simp add: s run_charge_def charge_counts_def)
  qed
qed

end
