(* ===== verification/SessionControls.thy ===== *)
theory SessionControls
  imports SessionInvariants
begin

section \<open>The life of a control authorization\<close>

text \<open>
  A user control (abandon, cancel, scope change) is authorized by an entry, may be bound to one
  provider turn, and ends by being consumed or discarded. \<open>controls_inv\<close> relates the reducer's
  map of controls to the log that produced it.
\<close>

definition ends_control :: "string \<Rightarrow> session_entry \<Rightarrow> bool" where
  "ends_control c e = (case en_data e of Control_consumed i action digest \<Rightarrow> i = c
     | Control_discarded i disposition \<Rightarrow> i = c | _ \<Rightarrow> False)"

definition control_ended :: "control_projection \<Rightarrow> bool" where
  "control_ended ctl \<longleftrightarrow> ct_state ctl \<in> {CS_consumed, CS_discarded}"

definition control_table :: "control_state \<Rightarrow> control_state list" where
  "control_table st = (case st of CS_authorized \<Rightarrow> [CS_turn_bound, CS_consumed]
     | CS_turn_bound \<Rightarrow> [CS_discarded, CS_consumed] | _ \<Rightarrow> [])"

interpretation controls: transition_table control_table "\<lambda>st. st \<in> {CS_consumed, CS_discarded}"
  by unfold_locales (case_tac s, auto simp: control_table_def)

definition controls_inv :: "session_entry list \<Rightarrow> (string \<times> control_projection) list \<Rightarrow> bool" where
  "controls_inv es cs \<longleftrightarrow>
     (\<forall>c. length (filter (ends_control c) es) = (case map_of cs c of None \<Rightarrow> 0 | Some ctl \<Rightarrow> if control_ended ctl then 1 else 0))
     \<and> (\<forall>c ctl. map_of cs c = Some ctl \<longrightarrow> ct_controlEventId ctl = c \<and> cf_controlEventId (ct_fact ctl) = c
          \<and> Control_authorized (ct_authorizationRequestId ctl) (ct_challengeEnvelopeDigest ctl) (ct_fact ctl) \<in> en_data ` set es)
     \<and> (\<forall>e c action digest. e \<in> set es \<longrightarrow> en_data e = Control_consumed c action digest \<longrightarrow>
          (\<exists>ctl. map_of cs c = Some ctl \<and> ct_state ctl = CS_consumed
             \<and> cf_action (ct_fact ctl) = action \<and> cf_targetDigest (ct_fact ctl) = digest))"

text \<open>How an accepted entry changes the map: by one control, along \<open>control_table\<close>.\<close>

lemma control_change:
  assumes "handleEntry env s e = Inr t"
  obtains (kept) "ss_reviewControls t = ss_reviewControls s" "\<And>c. \<not> ends_control c e"
    "\<And>c a d. en_data e \<noteq> Control_consumed c a d"
  | (authorized) r d f where "en_data e = Control_authorized r d f" "map_of (ss_reviewControls s) (cf_controlEventId f) = None"
      "ss_reviewControls t = AList.update (cf_controlEventId f)
         \<lparr>ct_controlEventId = cf_controlEventId f, ct_authorizationRequestId = r, ct_challengeEnvelopeDigest = d, ct_fact = f,
          ct_state = CS_authorized, ct_runId = None, ct_providerTurnId = None, ct_disposition = None\<rparr> (ss_reviewControls s)"
  | (bound) c ctl r p where "en_data e = Control_turn_bound c r p" "map_of (ss_reviewControls s) c = Some ctl"
      "ct_state ctl = CS_authorized"
      "ss_reviewControls t = AList.update (ct_controlEventId ctl)
         (ctl\<lparr>ct_state := CS_turn_bound, ct_runId := Some r, ct_providerTurnId := Some p\<rparr>) (ss_reviewControls s)"
  | (discarded) c ctl d where "en_data e = Control_discarded c d" "map_of (ss_reviewControls s) c = Some ctl"
      "ct_state ctl = CS_turn_bound"
      "ss_reviewControls t = AList.update (ct_controlEventId ctl)
         (ctl\<lparr>ct_state := CS_discarded, ct_disposition := Some d\<rparr>) (ss_reviewControls s)"
  | (consumed) c ctl where "en_data e = Control_consumed c (cf_action (ct_fact ctl)) (cf_targetDigest (ct_fact ctl))"
      "map_of (ss_reviewControls s) c = Some ctl" "ct_state ctl \<in> {CS_authorized, CS_turn_bound}"
      "ss_reviewControls t = AList.update (ct_controlEventId ctl) (ctl\<lparr>ct_state := CS_consumed\<rparr>) (ss_reviewControls s)"
proof (cases "en_data e")
  case (Control_authorized r d f)
  then show ?thesis using assms authorized
    by (auto simp: handleEntry_def on_control_authorized_def Let_def handler_iffs)
next
  case (Control_turn_bound c r p)
  then show ?thesis using assms bound
    by (auto simp: handleEntry_def on_control_bound_def put_control_def handler_iffs split: option.splits)
next
  case (Control_discarded c d)
  then show ?thesis using assms discarded
    by (auto simp: handleEntry_def on_control_discarded_def put_control_def handler_iffs split: option.splits)
next
  case (Control_consumed c a d)
  then show ?thesis using assms consumed
    by (auto simp: handleEntry_def on_control_consumed_def put_control_def handler_iffs split: option.splits)
qed (rule kept, use assms in \<open>auto simp: handleEntry_def handler_defs handler_iffs Let_def ends_control_def
      split: option.splits if_splits\<close>)+

lemma controls_keeps:
  assumes "handleEntry env s e = Inr t" "controls_inv es (ss_reviewControls s)"
  shows "controls_inv (es @ [e]) (ss_reviewControls t)"
  using assms(1)
proof (cases rule: control_change)
  case kept
  then show ?thesis using assms(2) by (auto simp: controls_inv_def)
next
  case (authorized r d f)
  then show ?thesis using assms(2)
    by (simp add: controls_inv_def control_ended_def ends_control_def) (metis option.distinct(1))
next
  case (bound c ctl r p)
  moreover have "ct_controlEventId ctl = c" using assms(2) bound(2) by (simp add: controls_inv_def)
  ultimately show ?thesis using assms(2) by (auto simp: controls_inv_def control_ended_def ends_control_def)
next
  case (discarded c ctl d)
  moreover have "ct_controlEventId ctl = c" using assms(2) discarded(2) by (simp add: controls_inv_def)
  ultimately show ?thesis using assms(2) by (auto simp: controls_inv_def control_ended_def ends_control_def)
next
  case (consumed c ctl)
  moreover have "ct_controlEventId ctl = c" using assms(2) consumed(2) by (simp add: controls_inv_def)
  ultimately show ?thesis using assms(2) by (auto simp: controls_inv_def control_ended_def ends_control_def)
qed

lemma replay_controls: "replaySession env entries = Inr s \<Longrightarrow> controls_inv entries (ss_reviewControls s)"
proof (induction rule: replay_induct)
  case (first e d)
  then show ?case by (auto simp: controls_inv_def initialSession_def ends_control_def)
next
  case (entry es s sid e t)
  have "applyEntry env sid s e = Inr t" using entry by blast
  then obtain u where h: "handleEntry env (s\<lparr>ss_entryIds := ss_entryIds s @ [en_entryId e]\<rparr>) e = Inr u"
    and t: "t = u\<lparr>ss_previous := e\<rparr>" by (rule applyEntryE)
  show ?case using controls_keeps[OF h] entry t by simp
qed

end
