(* ===== verification/SessionProjection.thy ===== *)
theory SessionProjection
  imports SessionInvariants
begin

section \<open>The projection of the Plan\<close>

text \<open>
  \<open>projectPlan\<close> writes the mutable Plan out, validates the text with the Plan contract and asks
  the contract for the ready steps. Reading back what was written gives the same graph, so the
  answer of \<open>readyPlanStepIdsV1\<close> is about the Plan of the ledger.
\<close>

subsection \<open>Reading back\<close>

lemma plan_criterion_same: "validateCriterion (plan_criterion_json c) = Inr d \<Longrightarrow> d = c"
  by (cases c; cases "sc_ref c"; cases "sc_expectedDigest c") (auto simp: validateCriterion_def plan_criterion_json_def plan_object_simps optional_def
      andThen_return_iff if_error_iff split: option.splits)

lemma attempt_same: "validatePlanAttemptV1 (attempt_json a) = Inr b \<Longrightarrow> b = a"
  by (cases a; cases "pa_childRunId a"; cases "pa_resultRef a"; cases "pa_resultDigest a"; cases "pa_verificationRef a")
    (auto simp: validatePlanAttemptV1_def attempt_json_def plan_object_simps optional_def
      andThen_return_iff if_error_iff split: option.splits)

lemma mapR_same:
  "(\<And>x y. x \<in> set xs \<Longrightarrow> f (g x) = Inr y \<Longrightarrow> y = x) \<Longrightarrow> mapR f (map g xs) = Inr ys \<Longrightarrow> ys = xs"
  by (induction xs arbitrary: ys) (auto simp: andThen_return_iff)

lemma criteria_same: "mapR validateCriterion (map plan_criterion_json xs) = Inr ys \<Longrightarrow> ys = xs"
  by (rule mapR_same[of xs validateCriterion plan_criterion_json]) (simp_all add: plan_criterion_same)

lemma mapR_each: "mapR f xs = Inr ys \<Longrightarrow> x \<in> set xs \<Longrightarrow> \<exists>y. f x = Inr y"
  by (induction xs arbitrary: ys) (auto simp: andThen_return_iff)

lemma step_same: "validatePlanStepV1 (step_json s) = Inr t \<Longrightarrow> t = s"
  by (erule step_returnE)
    (auto simp: step_json_def plan_object_simps dest!: idList_same textList_same access_same step_budget_same
      criteria_same)

lemma steps_same: "mapR validatePlanStepV1 (map step_json xs) = Inr ys \<Longrightarrow> ys = xs"
  by (rule mapR_same[of xs validatePlanStepV1 step_json]) (simp_all add: step_same)

lemma attempts_same: "mapR validatePlanAttemptV1 (map attempt_json xs) = Inr ys \<Longrightarrow> ys = xs"
  by (rule mapR_same[of xs validatePlanAttemptV1 attempt_json]) (simp_all add: attempt_same)

lemma graph_same: "validatePlanGraphV1 (graph_json g) = Inr h \<Longrightarrow> h = g"
  by (cases g) (auto simp: validatePlanGraphV1_def graph_json_def plan_object_simps andThen_return_iff if_error_iff
      dest!: steps_same attempts_same)

lemma graph_again: "validatePlanGraphV1 (graph_json g) = Inr h \<Longrightarrow> validatePlanGraphV1 (graph_json h) = Inr h"
  using graph_same by blast

subsection \<open>The steps of the projection\<close>

definition plan_ordered :: "(string \<Rightarrow> string \<Rightarrow> bool) \<Rightarrow> mutable_plan \<Rightarrow> mutable_step list" where
  "plan_ordered le p = sort_by (mutable_step_before le) (map snd (mp_steps p))"

text \<open>The specification of a ready step: pending, an attempt left, every dependency succeeded.\<close>

definition plan_open :: "mutable_plan \<Rightarrow> mutable_step \<Rightarrow> bool" where
  "plan_open p s \<longleftrightarrow> ms_state s = S_pending \<and> length (ms_attempts s) < ms_maxAttempts s
     \<and> (\<forall>d \<in> set (ms_dependencies s). \<exists>t \<in> snd ` set (mp_steps p). ms_stepId t = d \<and> ms_state t = S_succeeded)"

lemma set_plan_ordered [simp]: "set (plan_ordered le p) = snd ` set (mp_steps p)"
  by (simp add: plan_ordered_def)

lemma projectE:
  assumes "projectPlan le (Some p) = Inr r"
  obtains graph ready where "validatePlanGraphV1 (graph_json (plan_graph_of p (plan_ordered le p))) = Inr graph"
    "graph = plan_graph_of p (plan_ordered le p)" "readyPlanStepIdsV1 le (graph_json graph) = Inr ready"
    "assertPlanDependencies (plan_ordered le p) = Inr ()"
    "\<And>s a. s \<in> snd ` set (mp_steps p) \<Longrightarrow> a \<in> snd ` set (ms_attempts s) \<Longrightarrow> assertAttemptResultConsistency a = Inr ()"
    "r = Some \<lparr>gp_planId = mp_planId p, gp_revision = mp_revision p, gp_objective = mp_objective p,
           gp_state = mp_state p, gp_readyStepIds = ready, gp_steps = map project_step (plan_ordered le p)\<rparr>"
proof -
  let ?graph = "graph_json (plan_graph_of p (plan_ordered le p))"
  note def = projectPlan_def Let_def plan_ordered_def[symmetric]
  have d: "assertPlanDependencies (plan_ordered le p) = Inr ()"
    using assms by (cases "assertPlanDependencies (plan_ordered le p)") (simp_all add: def)
  obtain xs where c: "mapR assertAttemptResultConsistency (concat (map ordered_attempts (plan_ordered le p))) = Inr xs"
    using assms d by (cases "mapR assertAttemptResultConsistency (concat (map ordered_attempts (plan_ordered le p)))")
      (simp_all add: def)
  obtain graph where g: "validateReducerPlanGraph ?graph = Inr graph"
    using assms d c by (cases "validateReducerPlanGraph ?graph") (simp_all add: def)
  obtain ready where y: "readyPlanStepIdsV1 le (graph_json graph) = Inr ready"
    using assms d c g by (cases "readyPlanStepIdsV1 le (graph_json graph)") (simp_all add: def)
  have r: "r = Some \<lparr>gp_planId = pg_planId graph, gp_revision = pg_revision graph, gp_objective = pg_objective graph,
           gp_state = pg_state graph, gp_readyStepIds = ready, gp_steps = map project_step (plan_ordered le p)\<rparr>"
    using assms d c g y by (simp add: def)
  have v: "validatePlanGraphV1 (graph_json (plan_graph_of p (plan_ordered le p))) = Inr graph"
    using g by (auto simp: validateReducerPlanGraph_def split: sum.splits)
  have "assertAttemptResultConsistency a = Inr ()" if "s \<in> snd ` set (mp_steps p)" "a \<in> snd ` set (ms_attempts s)" for s a
  proof -
    have "a \<in> set (concat (map ordered_attempts (plan_ordered le p)))"
      using that by (auto simp: ordered_attempts_def)
    then show ?thesis using mapR_each[OF c] by auto
  qed
  then show ?thesis using that v graph_same[OF v] d y r by (simp add: plan_graph_of_def)
qed

lemma sort_by_sorted: "sorted_wrt le xs \<Longrightarrow> sort_by le xs = xs"
proof (induction xs)
  case (Cons x xs)
  then show ?case by (cases xs) simp_all
qed simp

text \<open>With distinct orders the locale does not matter and the order of the steps is the field \<open>order\<close>.\<close>

lemma plan_ordered_sorted:
  assumes "distinct (map ms_order (map snd (mp_steps p)))"
  shows "sorted_wrt (\<lambda>s t. ms_order s < ms_order t) (plan_ordered le p)"
proof -
  let ?xs = "map snd (mp_steps p)" and ?le = "\<lambda>s t :: mutable_step. ms_order s \<le> ms_order t"
  have d: "distinct ?xs" and i: "inj_on ms_order (set ?xs)" using assms distinct_map by blast+
  have "mutable_step_before le s t = ?le s t" if "s \<in> set ?xs" "t \<in> set ?xs" "s \<noteq> t" for s t
    using inj_onD[OF i _ that(1,2)] that(3) unfolding mutable_step_before_def by linarith
  then have "plan_ordered le p = sort_by ?le ?xs" unfolding plan_ordered_def using d by (intro sort_by_cong)
  moreover have "sorted_wrt ?le (sort_by ?le ?xs)" by (rule sorted_wrt_sort_by) auto
  ultimately have s: "sorted_wrt ?le (plan_ordered le p)" by simp
  have "inj_on ms_order (set (plan_ordered le p))" using i by simp
  moreover have "distinct (plan_ordered le p)" using d unfolding plan_ordered_def distinct_sort_by .
  ultimately have "distinct (map ms_order (plan_ordered le p))" by (intro distinct_map[THEN iffD2] conjI)
  moreover have "sorted (map ms_order (plan_ordered le p))" using s by (simp add: sorted_wrt_map)
  ultimately have "sorted_wrt (<) (map ms_order (plan_ordered le p))" unfolding strict_sorted_iff by simp
  then show ?thesis by (simp add: sorted_wrt_map)
qed

lemma graph_step_simps [simp]:
  "ps_stepId (graph_step s) = ms_stepId s" "ps_order (graph_step s) = ms_order s" "ps_state (graph_step s) = ms_state s"
  "ps_dependencies (graph_step s) = ms_dependencies s" "ps_maxAttempts (graph_step s) = ms_maxAttempts s"
  "length (ps_attemptIds (graph_step s)) = length (ms_attempts s)"
  by (simp_all add: graph_step_def ordered_attempts_def)

lemma graph_open: "step_open (map graph_step (plan_ordered le p)) (graph_step s) \<longleftrightarrow> plan_open p s"
  by (auto simp: step_open_def plan_open_def)

lemma ready_of_plan:
  assumes "projectPlan le (Some p) = Inr (Some g)"
  shows "gp_readyStepIds g = (if mp_state p = P_running then map ms_stepId (filter (plan_open p) (plan_ordered le p)) else [])"
  using assms
proof (rule projectE)
  fix graph ready
  assume v: "validatePlanGraphV1 (graph_json (plan_graph_of p (plan_ordered le p))) = Inr graph"
    and g: "graph = plan_graph_of p (plan_ordered le p)" and y: "readyPlanStepIdsV1 le (graph_json graph) = Inr ready"
    and r: "Some g = Some \<lparr>gp_planId = mp_planId p, gp_revision = mp_revision p, gp_objective = mp_objective p,
           gp_state = mp_state p, gp_readyStepIds = ready, gp_steps = map project_step (plan_ordered le p)\<rparr>"
  have steps: "pg_steps graph = map graph_step (plan_ordered le p)" and st: "pg_state graph = mp_state p"
    by (simp_all add: g plan_graph_of_def)
  have "distinct (map ps_order (pg_steps graph))" using plan_graph_sound[OF v] by (simp add: valid_plan_graph_def)
  then have "distinct (map ms_order (plan_ordered le p))" by (simp add: steps comp_def)
  then have o: "distinct (plan_ordered le p)" "inj_on ms_order (set (plan_ordered le p))" using distinct_map by blast+
  have "distinct (map ms_order (map snd (mp_steps p)))"
    using o(1)[unfolded plan_ordered_def distinct_sort_by] o(2)[unfolded plan_ordered_def set_sort_by]
    by (intro distinct_map[of ms_order "map snd (mp_steps p)", THEN iffD2] conjI)
  then have "sorted_wrt (\<lambda>s t. ms_order s < ms_order t) (plan_ordered le p)" by (rule plan_ordered_sorted)
  then have "sorted_wrt (step_before le) (map graph_step (plan_ordered le p))"
    unfolding sorted_wrt_map by (rule sorted_wrt_mono_rel[rotated]) (simp add: step_before_def)
  then have sorted: "sort_by (step_before le) (map graph_step (filter Q (plan_ordered le p)))
      = map graph_step (filter Q (plan_ordered le p))" for Q
    by (intro sort_by_sorted) (simp add: sorted_wrt_map sorted_wrt_filter)
  show ?thesis
  proof (cases "mp_state p = P_running")
    case True
    then show ?thesis using ready_return[OF graph_again[OF v] _ y] r
      by (simp add: st steps sorted filter_map comp_def graph_open)
  next
    case False
    then show ?thesis using y r graph_again[OF v] by (simp add: readyPlanStepIdsV1_def st)
  qed
qed

lemma plan_dependencies_known:
  assumes "assertPlanDependencies steps = Inr u"
  shows "dependencies_known (map graph_step steps)"
  using assms by (auto simp: assertPlanDependencies_def transition_require_def require_return_iff dependencies_known_def
      list_all_iff image_image)

lemma projection_closed: "projectPlan le plan \<noteq> Inl (SESSION_PLAN_FAILURE e)"
proof
  assume a: "projectPlan le plan = Inl (SESSION_PLAN_FAILURE e)"
  then obtain p where p: "plan = Some p" by (cases plan) (auto simp: projectPlan_def)
  note def = projectPlan_def Let_def plan_ordered_def[symmetric] p
  have m: "mapR assertAttemptResultConsistency xs \<noteq> Inl (SESSION_PLAN_FAILURE e)" for xs
    by (induction xs) (auto simp: andThen_error_iff assertAttemptResultConsistency_def transition_require_def require_def)
  obtain graph where d: "assertPlanDependencies (plan_ordered le p) = Inr ()"
    and v: "validatePlanGraphV1 (graph_json (plan_graph_of p (plan_ordered le p))) = Inr graph"
    and f: "\<not> is_ok (readyPlanStepIdsV1 le (graph_json graph))"
    using a m by (auto simp: def andThen_error_iff assertPlanDependencies_def transition_require_def require_def
        validateReducerPlanGraph_def split: sum.splits if_splits)
  have "dependencies_known (pg_steps graph)"
    using plan_dependencies_known[OF d] graph_same[OF v] by (simp add: plan_graph_of_def)
  then show False using f ready_total[OF graph_again[OF v]] by blast
qed

subsection \<open>Results that cannot be projected\<close>

lemma mapR_fails:
  assumes "x \<in> set xs" "\<not> is_ok (f x)" "\<And>y d. f y = Inl d \<Longrightarrow> d = c"
  shows "mapR f xs = Inl c"
  using assms(1)
proof (induction xs)
  case (Cons y ys)
  show ?case
  proof (cases "f y")
    case (Inl d)
    then show ?thesis using assms(3) by simp
  next
    case (Inr z)
    then have "x \<in> set ys" using Cons.prems assms(2) by auto
    then show ?thesis using Inr Cons.IH by simp
  qed
qed simp

lemma consistency_error: "assertAttemptResultConsistency a = Inl d \<Longrightarrow> d = SESSION_REDUCER_TRANSITION_INVALID"
  by (auto simp: assertAttemptResultConsistency_def transition_require_def require_def split: if_splits)

lemma unprojectable:
  assumes "(k, s) \<in> set (mp_steps p)" "(i, a) \<in> set (ms_attempts s)" "ma_resultRef a \<noteq> None" "ma_state a = T_running"
  shows "projectPlan le (Some p) = Inl SESSION_REDUCER_TRANSITION_INVALID"
proof (cases "assertPlanDependencies (plan_ordered le p)")
  case (Inl d)
  then show ?thesis
    by (auto simp: projectPlan_def Let_def plan_ordered_def assertPlanDependencies_def transition_require_def require_def
        split: if_splits)
next
  case (Inr u)
  have "a \<in> set (concat (map ordered_attempts (plan_ordered le p)))"
    using assms(1,2) by (force simp: ordered_attempts_def)
  moreover have "\<not> is_ok (assertAttemptResultConsistency a)"
    using assms(3,4) by (simp add: assertAttemptResultConsistency_def transition_require_def require_def is_ok_def)
  ultimately have "mapR assertAttemptResultConsistency (concat (map ordered_attempts (plan_ordered le p)))
      = Inl SESSION_REDUCER_TRANSITION_INVALID"
    by (rule mapR_fails) (rule consistency_error)
  then show ?thesis using Inr by (simp add: projectPlan_def Let_def plan_ordered_def)
qed

end
