(* ===== verification/SessionSamples.thy ===== *)
theory SessionSamples
  imports SessionJournal
begin

section \<open>A concrete Session\<close>

text \<open>
  A log of one Session that runs a Plan of one step to success, used by the witnesses: the
  hypotheses of the properties hold on it. The digest function is a stand-in for SHA-256.
\<close>

definition sample_env :: "session_env" where
  "sample_env = \<lparr>se_sha256 = (\<lambda>text. take 8 text), se_costAdd = (+), se_hostDate = (\<lambda>_. False)\<rparr>"

definition no_usage :: provider_usage where
  "no_usage = no_provider_usage\<lparr>pu_inputTokens := Some 40\<rparr>"

definition sample_step_data :: mutable_step where
  "sample_step_data = \<lparr>ms_stepId = ''s1'', ms_title = ''Build'', ms_order = 0, ms_state = S_pending, ms_errorCode = None,
     ms_dependencies = [], ms_access = \<lparr>sa_mode = Read_only, sa_paths = []\<rparr>, ms_capabilities = [], ms_conflictKeys = [''db''],
     ms_criteria = [\<lparr>sc_criterionId = ''c1'', sc_kind = snd (hd CRITERION_KINDS), sc_description = ''done'',
       sc_ref = None, sc_expectedDigest = None\<rparr>],
     ms_budget = \<lparr>eb_maxTurns = 4, eb_maxToolCalls = 4, eb_maxTokens = None, eb_maxChildRuns = 0,
       eb_maxParallelChildren = 0, eb_maxDepth = 0, eb_deadlineAt = None\<rparr>, ms_maxAttempts = 2, ms_attempts = []\<rparr>"

definition sample_fact :: control_fact where
  "sample_fact = \<lparr>cf_controlEventId = ''ctl1'', cf_actorId = ''user'', cf_actorBindingDigest = ''d0'', cf_sessionId = ''session'',
     cf_action = C_cancel, cf_reasonCode = ''user_cancelled'', cf_target = JNull, cf_targetDigest = ''d1'',
     cf_challengeId = ''pcc_1'', cf_challengeDigest = ''d2'', cf_tokenDigest = ''d3'', cf_issuedAt = ''t1'', cf_expiresAt = ''t2'',
     cf_runId = Some ''run1'', cf_providerTurnId = None\<rparr>"

definition sample_auth :: step_authority where
  "sample_auth = \<lparr>sy_planId = ''plan1'', sy_planRevision = 1, sy_stepId = ''s1''\<rparr>"

definition sample_summary :: compaction_summary where
  "sample_summary = \<lparr>cs_objective = None, cs_relevantRefs = None, cs_decisions = [], cs_constraints = [], cs_readFiles = [],
     cs_modifiedFiles = [], cs_unresolved = [], cs_activePlan = []\<rparr>"

definition sample_verification :: session_verification where
  "sample_verification = \<lparr>sv_verificationId = ''v1'', sv_verifier = ''mechanical'', sv_status = V_passed,
     sv_evidenceRefs = [''e1''], sv_code = None, sv_retryable = None\<rparr>"

definition sample_entry :: "nat \<Rightarrow> session_data \<Rightarrow> session_entry" where
  "sample_entry n d = \<lparr>en_entryId = ''entry'' @ nat_to_string n, en_sessionId = ''session'', en_sequence = n, en_revision = 1,
     en_timestamp = ''t'', en_runId = Some ''run1'', en_correlation = [(''parentRunId'', ''run1'')], en_data = d\<rparr>"

definition sample_digest :: string where
  "sample_digest = ''sha256:'' @ replicate 64 CHR ''a''"

definition sample_data :: "session_data list" where
  "sample_data = [
     Session_created \<lparr>sc_cwd = ''/w'', sc_provider = ''p'', sc_model = ''m'', sc_name = ''n'', sc_labels = [],
       sc_plannerMode = None, sc_contextLimitTokens = None, sc_fork = None\<rparr>,
     Run_started ''req1'' None,
     Plan_entry (Plan_created ''plan1'' 1 ''Ship it'' P_draft),
     Plan_entry (Step_created sample_auth sample_step_data),
     Plan_entry (Plan_state_changed ''plan1'' 1 P_running),
     Plan_entry (Plan_attempt_created sample_auth ''a1'' 1 T_reserved (Some ''child1'')),
     Plan_entry (Step_state_changed sample_auth S_running None None None),
     Plan_entry (Plan_attempt_state_changed sample_auth ''a1'' T_running None),
     Usage_recorded \<lparr>bu_turns = 2, bu_toolCalls = 1, bu_subagents = 1, bu_provider = no_usage\<rparr>,
     Control_authorized ''ar1'' ''d9'' sample_fact,
     Control_turn_bound ''ctl1'' ''run1'' ''turn1'',
     Control_consumed ''ctl1'' C_cancel ''d1'',
     Plan_entry (Subagent_execution_bound sample_auth ''a1'' ''child1''
       \<lparr>xb_parentRunId = ''run1'', xb_childRunId = ''child1'', xb_packetDigest = ''d4'', xb_retrySafety = ''unknown''\<rparr>),
     Plan_entry (Subagent_result_recorded sample_auth ''a1'' ''child1'' ''ref1'' sample_digest E_succeeded),
     Plan_entry (Attempt_execution_completed sample_auth ''a1'' E_succeeded),
     Plan_entry (Plan_attempt_state_changed sample_auth ''a1'' T_verifying None),
     Plan_entry (Step_state_changed sample_auth S_verifying None None None),
     Plan_entry (Verification_recorded sample_auth ''a1'' sample_verification),
     Plan_entry (Plan_attempt_state_changed sample_auth ''a1'' T_verified None),
     Plan_entry (Step_state_changed sample_auth S_succeeded None None None),
     Compaction_created \<lparr>cd_checkpointId = ''cp1'', cd_coveredStart = 1, cd_coveredEnd = 8, cd_previousCheckpointId = None,
       cd_retainedStart = 9, cd_summary = sample_summary, cd_provenance = JNull,
       cd_summaryDigest = sessionCompactionSummaryDigestV3 (se_sha256 sample_env) sample_summary, cd_summaryTokens = 3,
       cd_reason = ''manual'', cd_checkpoint = None\<rparr>]"

definition sample_log :: "session_entry list" where
  "sample_log = map (\<lambda>(n, d). sample_entry n d) (zip [1..<Suc (length sample_data)] sample_data)"

definition sample_le :: "string \<Rightarrow> string \<Rightarrow> bool" where
  "sample_le a b \<longleftrightarrow> a \<le> b"

lemma sample_replays: "is_ok (replaySession sample_env sample_log)"
  by code_simp

lemma sample_log_reduces: "is_ok (reduceSessionEntriesV3 sample_env sample_le sample_log)"
  by code_simp

end
