(* ===== verification/SessionProperties.thy ===== *)
theory SessionProperties
  imports SessionControls SessionProjection SessionSamples
begin

section \<open>Properties of the Session journal\<close>

text \<open>
  The claims about \<open>session-journal.ts\<close>: what every log the reducer accepts guarantees about
  Runs, Plan steps and attempts, charges, controls and the projected views. Each claim with
  hypotheses has an instance on the sample log.
\<close>

definition sample_session :: "session_state" where
  "sample_session = (case replaySession sample_env sample_log of Inr s \<Rightarrow> s | Inl e \<Rightarrow> undefined)"

lemma sample_session_replays: "replaySession sample_env sample_log = Inr sample_session"
  using sample_replays by (auto simp: sample_session_def is_ok_iff)

text \<open>The facts of the sample the witnesses need, computed once.\<close>

definition sample_step_now :: mutable_step where
  "sample_step_now = (case pl_plan (ss_ledger sample_session) of Some p \<Rightarrow> snd (hd (mp_steps p)) | None \<Rightarrow> undefined)"

definition sample_plan_now :: mutable_plan where
  "sample_plan_now = (case pl_plan (ss_ledger sample_session) of Some p \<Rightarrow> p | None \<Rightarrow> undefined)"

lemma sample_facts: "case replaySession sample_env sample_log of Inl e \<Rightarrow> False | Inr s \<Rightarrow>
    (case pl_plan (ss_ledger s) of None \<Rightarrow> False | Some p \<Rightarrow>
       map fst (mp_steps p) = [''s1''] \<and> ms_state (snd (hd (mp_steps p))) = S_succeeded
       \<and> ms_maxAttempts (snd (hd (mp_steps p))) = 2 \<and> length (ms_attempts (snd (hd (mp_steps p)))) = 1)
    \<and> bu_turns (ss_usage s) = 2 \<and> ss_activeRunId s = Some ''run1''
    \<and> list_all regular_entry sample_log"
  by code_simp

lemma sample_plan_is: "pl_plan (ss_ledger sample_session) = Some sample_plan_now"
  using sample_facts by (auto simp: sample_session_replays sample_plan_now_def split: option.splits)

lemma sample_step_is: "(''s1'', sample_step_now) \<in> set (mp_steps sample_plan_now)" "ms_state sample_step_now = S_succeeded"
proof -
  have "map fst (mp_steps sample_plan_now) = [''s1'']" "ms_state (snd (hd (mp_steps sample_plan_now))) = S_succeeded"
    using sample_facts by (simp_all add: sample_session_replays sample_plan_is)
  moreover have "sample_step_now = snd (hd (mp_steps sample_plan_now))" by (simp add: sample_step_now_def sample_plan_is)
  ultimately show "(''s1'', sample_step_now) \<in> set (mp_steps sample_plan_now)" "ms_state sample_step_now = S_succeeded"
    by (cases "mp_steps sample_plan_now"; auto)+
qed

lemma sample_regular: "list_all regular_entry sample_log"
  using sample_facts by (simp add: sample_session_replays)

subsection \<open>Attempts\<close>

text \<open>C19: After any accepted log the attempts of every Plan step are numbered 1, 2, ... in the
  order they were created, have different ids, and are at most \<open>maxAttempts\<close>.\<close>

theorem session_attempts_bounded:
  fixes p :: mutable_plan and st :: mutable_step
  assumes "replaySession env entries = Inr s" and "pl_plan (ss_ledger s) = Some p" and "(k, st) \<in> set (mp_steps p)"
  shows "length (ms_attempts st) \<le> ms_maxAttempts st
    \<and> map (ma_ordinal \<circ> snd) (ms_attempts st) = [1..<Suc (length (ms_attempts st))]
    \<and> distinct (map fst (ms_attempts st))"
proof -
  have "attempts_numbered st"
    using numbered.replay_all_steps[OF assms(1)] assms(2,3) by (force simp: numbered.all_steps_def)
  then show ?thesis by (simp add: attempts_numbered_def del: upt_Suc)
qed

theorem session_attempts_bounded_witness:
  "length (ms_attempts sample_step_now) \<le> ms_maxAttempts sample_step_now"
  using session_attempts_bounded[OF sample_session_replays sample_plan_is sample_step_is(1)] by blast

text \<open>C16: In a log whose steps are created pending and whose attempts are created reserved, a step
  has succeeded only with a verified attempt, and that attempt has at least one recorded
  verification and only passed ones.\<close>

theorem session_success_verified:
  fixes p :: mutable_plan and st :: mutable_step
  assumes "replaySession env entries = Inr s" and "list_all regular_entry entries"
    and "pl_plan (ss_ledger s) = Some p" and "(k, st) \<in> set (mp_steps p)" and "ms_state st = S_succeeded"
  shows "\<exists>(i, a) \<in> set (ms_attempts st). ma_state a = T_verified \<and> ma_verifications a \<noteq> []
    \<and> list_all (\<lambda>v. sv_status v = V_passed) (ma_verifications a)"
proof -
  have "success_verified st"
    using verified.replay_all_steps[OF assms(1)] assms(2-4) by (force simp: verified.all_steps_def)
  then show ?thesis using assms(5) by (fastforce simp: success_verified_def attempt_judged_def)
qed

theorem session_success_verified_witness:
  "\<exists>(i, a) \<in> set (ms_attempts sample_step_now). ma_state a = T_verified \<and> ma_verifications a \<noteq> []
    \<and> list_all (\<lambda>v. sv_status v = V_passed) (ma_verifications a)"
  using session_success_verified[OF sample_session_replays sample_regular sample_plan_is sample_step_is] by blast

text \<open>C18: Every accepted entry changes the Plan only as the abstract transition system allows:
  the detailed handlers refine \<open>ledger_step\<close>.\<close>

theorem session_refines_ledger_step:
  assumes "replaySession env entries = Inr s" and "applyEntry env sid s e = Inr t"
  shows "ledger_step (regular_entry e) (pl_plan (ss_ledger s)) (pl_plan (ss_ledger t))"
proof -
  obtain u where h: "handleEntry env (s\<lparr>ss_entryIds := ss_entryIds s @ [en_entryId e]\<rparr>) e = Inr u"
    and t: "t = u\<lparr>ss_previous := e\<rparr>" using assms(2) by (rule applyEntryE)
  have keys: "keys_used (ss_ledger s)" using replay_inv[OF assms(1)] by (simp add: session_inv_def ids_inv_def)
  show ?thesis using handle_ledger[OF h] ledger_refines keys
    by (fastforce simp: t regular_entry_def ledger_kept_def intro: ledger_step.same)
qed

lemma sample_next: "is_ok (case replaySession sample_env sample_log of Inl e \<Rightarrow> Inl e | Inr s \<Rightarrow>
    applyEntry sample_env ''session'' s (sample_entry 22 (Plan_entry (Plan_state_changed ''plan1'' 1 P_succeeded))))"
  by code_simp

theorem session_refines_ledger_step_witness:
  "\<exists>t :: session_state. ledger_step (regular_entry (sample_entry 22 (Plan_entry (Plan_state_changed ''plan1'' 1 P_succeeded))))
     (pl_plan (ss_ledger sample_session)) (pl_plan (ss_ledger t))"
proof -
  obtain t where "applyEntry sample_env ''session'' sample_session
      (sample_entry 22 (Plan_entry (Plan_state_changed ''plan1'' 1 P_succeeded))) = Inr t"
    using sample_next by (auto simp: sample_session_replays is_ok_iff)
  from session_refines_ledger_step[OF sample_session_replays this] show ?thesis by blast
qed

subsection \<open>Runs, identifiers, charges\<close>

text \<open>C17: At most one Run is running, it is the active one, and none is once the Session is closed
  or deleted; entry ids and stable ids are used once, and the sequence number counts the entries.\<close>

theorem session_run_exclusive:
  fixes s :: "session_state"
  assumes "replaySession env entries = Inr s"
  shows "{k. \<exists>r. (k, r) \<in> set (ss_runs s) \<and> rn_state r = Run_running} = set_option (ss_activeRunId s)
    \<and> (ss_lifecycle s = L_open \<or> ss_activeRunId s = None)
    \<and> distinct (map fst (ss_runs s)) \<and> distinct (ss_entryIds s) \<and> distinct (pl_stableIds (ss_ledger s))
    \<and> en_sequence (ss_previous s) = length entries"
proof -
  have i: "runs_inv s" "ids_inv s" using replay_inv[OF assms] by (simp_all add: session_inv_def)
  have "{k. \<exists>r. (k, r) \<in> set (ss_runs s) \<and> rn_state r = Run_running} = set_option (ss_activeRunId s)"
    using i(1) by (fastforce simp: runs_inv_def)
  then show ?thesis using i replay_sequence[OF assms] by (auto simp: runs_inv_def ids_inv_def)
qed

theorem session_run_exclusive_witness:
  "{k. \<exists>r. (k, r) \<in> set (ss_runs sample_session) \<and> rn_state r = Run_running} = set_option (ss_activeRunId sample_session)"
  using session_run_exclusive[OF sample_session_replays] by blast



subsection \<open>Controls\<close>

text \<open>C20: A user control ends at most once, and it is consumed only for the action and the target
  digest of the authorization the log holds for it.\<close>

theorem session_control_single_use:
  fixes s :: "session_state"
  assumes "replaySession env entries = Inr s"
  shows "length (filter (ends_control c) entries) \<le> 1
    \<and> (\<forall>e action digest. e \<in> set entries \<longrightarrow> en_data e = Control_consumed c action digest \<longrightarrow>
      (\<exists>a r d f. a \<in> set entries \<and> en_data a = Control_authorized r d f \<and> cf_controlEventId f = c
        \<and> cf_action f = action \<and> cf_targetDigest f = digest))"
proof (intro conjI allI impI)
  have i: "controls_inv entries (ss_reviewControls s)" by (rule replay_controls[OF assms])
  then show "length (filter (ends_control c) entries) \<le> 1" by (simp add: controls_inv_def split: option.splits)
  fix e action digest assume "e \<in> set entries" "en_data e = Control_consumed c action digest"
  then obtain ctl where ctl: "map_of (ss_reviewControls s) c = Some ctl" "cf_action (ct_fact ctl) = action"
    "cf_targetDigest (ct_fact ctl) = digest" using i unfolding controls_inv_def by blast
  have c: "cf_controlEventId (ct_fact ctl) = c"
    and a: "Control_authorized (ct_authorizationRequestId ctl) (ct_challengeEnvelopeDigest ctl) (ct_fact ctl) \<in> en_data ` set entries"
    using i ctl(1) unfolding controls_inv_def by blast+
  from a obtain x where "x \<in> set entries"
    "en_data x = Control_authorized (ct_authorizationRequestId ctl) (ct_challengeEnvelopeDigest ctl) (ct_fact ctl)"
    by (auto simp: image_iff)
  then show "\<exists>a r d f. a \<in> set entries \<and> en_data a = Control_authorized r d f \<and> cf_controlEventId f = c
      \<and> cf_action f = action \<and> cf_targetDigest f = digest" using c ctl(2,3) by blast
qed

lemma sample_consumes: "sample_entry 12 (Control_consumed ''ctl1'' C_cancel ''d1'') = sample_log ! 11 \<and> 11 < length sample_log"
  by code_simp

theorem session_control_single_use_witness:
  "length (filter (ends_control ''ctl1'') sample_log) \<le> 1
    \<and> (\<exists>a r d f. a \<in> set sample_log \<and> en_data a = Control_authorized r d f \<and> cf_controlEventId f = ''ctl1''
        \<and> cf_action f = C_cancel \<and> cf_targetDigest f = ''d1'')"
proof -
  have "sample_entry 12 (Control_consumed ''ctl1'' C_cancel ''d1'') \<in> set sample_log"
    unfolding conjunct1[OF sample_consumes] using sample_consumes by (intro nth_mem) simp
  moreover have "en_data (sample_entry 12 d) = d" for d by (simp add: sample_entry_def)
  ultimately show ?thesis using session_control_single_use[OF sample_session_replays, of "''ctl1''"] by blast
qed

subsection \<open>Projected views\<close>


definition sample_view :: "session_projection" where
  "sample_view = (case reduceSessionEntriesV3 sample_env sample_le sample_log of Inr v \<Rightarrow> v | Inl e \<Rightarrow> undefined)"

lemma sample_view_is: "reduceSessionEntriesV3 sample_env sample_le sample_log = Inr sample_view"
  using sample_log_reduces by (auto simp: sample_view_def is_ok_iff)


text \<open>The ready steps of the projected Plan are exactly the pending steps with an attempt left
  and every dependency succeeded, in the order of the steps, and none unless the Plan runs.\<close>

theorem session_ready_steps:
  fixes p :: mutable_plan
  assumes "projectPlan le (Some p) = Inr (Some g)"
  shows "gp_readyStepIds g = (if mp_state p = P_running
      then map ms_stepId (filter (plan_open p) (plan_ordered le p)) else [])
    \<and> map ms_stepId (gp_steps g) = map ms_stepId (plan_ordered le p)"
proof -
  have "gp_steps g = map project_step (plan_ordered le p)" using assms by (rule projectE) simp
  then show ?thesis using ready_of_plan[OF assms] by (simp add: project_step_def)
qed

lemma sample_plan_projects: "case replaySession sample_env (take 5 sample_log) of Inl e \<Rightarrow> False | Inr s \<Rightarrow>
    (case projectPlan sample_le (pl_plan (ss_ledger s)) of Inr (Some g) \<Rightarrow> gp_readyStepIds g = [''s1''] | _ \<Rightarrow> False)"
  by code_simp

theorem session_ready_steps_witness:
  "\<exists>p g. projectPlan sample_le (Some p) = Inr (Some g) \<and> gp_readyStepIds g = [''s1'']
    \<and> map ms_stepId (gp_steps g) = map ms_stepId (plan_ordered sample_le p)"
proof -
  obtain s :: "session_state" where s: "replaySession sample_env (take 5 sample_log) = Inr s"
    using sample_plan_projects by (cases "replaySession sample_env (take 5 sample_log)") simp_all
  obtain g where g: "projectPlan sample_le (pl_plan (ss_ledger s)) = Inr (Some g)" "gp_readyStepIds g = [''s1'']"
    using sample_plan_projects by (simp add: s split: sum.splits option.splits)
  obtain p where p: "projectPlan sample_le (Some p) = Inr (Some g)"
    using g(1) by (cases "pl_plan (ss_ledger s)") (simp_all add: projectPlan_def)
  then show ?thesis using conjunct2[OF session_ready_steps[OF p]] g(2) by blast
qed


text \<open>A projected Plan is well formed: its graph satisfies every rule of the Plan contract
  (bounded texts and lists, unique ids and orders, linked attempts), all dependencies are steps
  of the Plan, and the dependency relation is acyclic.\<close>

theorem session_plan_wellformed:
  fixes p :: mutable_plan
  assumes "projectPlan le (Some p) = Inr r"
  shows "valid_plan_graph (plan_graph_of p (plan_ordered le p))
    \<and> dependencies_known (map graph_step (plan_ordered le p))
    \<and> acyclic (dep_rel (map (\<lambda>s. (ms_stepId s, ms_dependencies s)) (plan_ordered le p)))"
  using assms
proof (rule projectE)
  fix graph
  assume v: "validatePlanGraphV1 (graph_json (plan_graph_of p (plan_ordered le p))) = Inr graph"
    and g: "graph = plan_graph_of p (plan_ordered le p)" and d: "assertPlanDependencies (plan_ordered le p) = Inr ()"
  have "dfs_ok (map (\<lambda>s. (ms_stepId s, ms_dependencies s)) (plan_ordered le p)) (map ms_stepId (plan_ordered le p))"
    using d by (simp add: assertPlanDependencies_def transition_require_def require_return_iff)
  then have "acyclic (dep_rel (map (\<lambda>s. (ms_stepId s, ms_dependencies s)) (plan_ordered le p)))"
    by (subst (asm) dfs_ok_iff) (auto intro: rev_image_eqI)
  then show ?thesis using plan_graph_sound[OF v] g plan_dependencies_known[OF d] by simp
qed

theorem session_plan_wellformed_witness:
  "\<exists>p. valid_plan_graph (plan_graph_of p (plan_ordered sample_le p)) \<and> mp_steps p \<noteq> []"
proof -
  obtain r where r: "projectPlan sample_le (Some sample_plan_now) = Inr r"
    using sample_view_is sample_plan_is sample_session_replays
    by (auto simp: reduceSessionEntriesV3_def projectSession_def andThen_return_iff split: list.splits session_data.splits)
  have "mp_steps sample_plan_now \<noteq> []" using sample_step_is(1) by auto
  then show ?thesis using session_plan_wellformed[OF r] by blast
qed

text \<open>A log whose last entry is the result of a subagent has no projection, whatever the rest
  holds: a reader of the Session never sees a result of an attempt that still counts as running,
  so the result and the entries that follow it have to be committed together.\<close>

theorem session_result_not_last:
  assumes "replaySession env (entries @ [e]) = Inr (s :: session_state)"
    and "en_data e = Plan_entry (Subagent_result_recorded auth i child ref digest status)"
  shows "reduceSessionEntriesV3 env le (entries @ [e]) = (Inl SESSION_REDUCER_TRANSITION_INVALID :: session_projection session_result)"
proof -
  have "entries \<noteq> []" using assms by (auto elim!: replayE)
  with assms(1) obtain t where a: "applyEntry env (en_sessionId (hd entries)) t e = Inr s" by (rule replay_append)
  obtain u where h: "handleEntry env (t\<lparr>ss_entryIds := ss_entryIds t @ [en_entryId e]\<rparr>) e = Inr u"
    and s: "s = u\<lparr>ss_previous := e\<rparr>" using a by (rule applyEntryE)
  obtain p st w where "pl_plan (ss_ledger s) = Some (p\<lparr>mp_steps := AList.update (sy_stepId auth)
      (st\<lparr>ms_attempts := AList.update i w (ms_attempts st)\<rparr>) (mp_steps p)\<rparr>)"
    and w: "ma_resultRef w = Some ref" "ma_state w = T_running"
    using h assms(2) s by (auto simp: handleEntry_def on_plan_entry_def applyPlanEvent_def on_result_recorded_def Let_def
        andThen_return_iff requireAttemptRevision_iff transition_require_iff)
  then have "projectPlan le (pl_plan (ss_ledger s)) = Inl SESSION_REDUCER_TRANSITION_INVALID"
    by (simp, intro unprojectable[where a = w and i = i]) (auto simp: w intro: update_member)
  moreover obtain first rest d where "entries @ [e] = first # rest" "en_data first = Session_created d"
    using assms(1) by (rule replayE)
  ultimately show ?thesis using assms(1) by (simp add: reduceSessionEntriesV3_def projectSession_def)
qed

lemma sample_result_prefix: "is_ok (replaySession sample_env (take 13 sample_log @ [sample_log ! 13]))
    \<and> en_data (sample_log ! 13) = Plan_entry (Subagent_result_recorded sample_auth ''a1'' ''child1'' ''ref1'' sample_digest E_succeeded)"
  by code_simp

theorem session_result_not_last_witness:
  "reduceSessionEntriesV3 sample_env sample_le (take 13 sample_log @ [sample_log ! 13]) = Inl SESSION_REDUCER_TRANSITION_INVALID"
proof -
  obtain s where "replaySession sample_env (take 13 sample_log @ [sample_log ! 13]) = Inr s"
    using sample_result_prefix by (auto simp: is_ok_iff)
  from session_result_not_last[OF this conjunct2[OF sample_result_prefix]] show ?thesis .
qed

end
