(* ===== verification/DagScheduler.thy ===== *)
theory DagScheduler
  imports SessionJournal
begin

section \<open>The DAG scheduler\<close>

text \<open>
  \<open>DagSchedulerV1.schedule\<close> of \<open>apps/runtime/src/planner/dagScheduler.ts\<close> with
  \<open>currentRunBudgetUsageV1\<close>: it reads one projection of the Session, decides, and either reports
  why no step can be claimed or appends one commit that claims a batch of steps. The model
  returns the decision and the entries of that commit. \<open>createId\<close> is the injected generator:
  its second argument counts the calls made before. The two reads of the clock are the
  arguments \<open>now\<close> and \<open>claimedAt\<close>. \<open>locale_le\<close> is \<open>localeCompare\<close>.

  Quotients of safe integers are exact after \<open>Math.floor\<close>, so \<open>div\<close> on natural numbers is the
  code's division, and \<open>Math.max(0, a - b)\<close> is subtraction of natural numbers.
\<close>

subsection \<open>Data\<close>

datatype dag_error = DAG_SCHEDULER_POLICY_INVALID | DAG_SCHEDULER_INPUT_INVALID | DAG_PLAN_NOT_FOUND
  | DAG_PARENT_RUN_NOT_ACTIVE | DAG_PLAN_STATE_INVALID

datatype failure_mode = Fail_fast | Collect_partial

record dag_input =
  di_sessionId :: string
  di_parentRunId :: string
  di_planId :: string
  di_parentBudget :: execution_budget
  di_failureMode :: failure_mode

record dag_claim =
  dc_stepId :: string
  dc_attemptId :: string
  dc_childRunId :: string
  dc_ordinal :: nat
  dc_budget :: execution_budget

datatype dag_state = DS_claimed | DS_waiting | DS_complete | DS_failed | DS_blocked | DS_cancelled
  | DS_interrupted | DS_budget_exhausted | DS_deadlocked

record capacity_counters =
  cc_cumulativeChildRuns :: nat
  cc_activeChildSlots :: nat
  cc_activeSteps :: nat

record dag_decision =
  dd_state :: dag_state
  dd_claims :: "dag_claim list"
  dd_reasonCode :: "string option"
  dd_revision :: nat
  dd_cumulativeChildRuns :: nat
  dd_activeChildSlots :: nat
  dd_activeSteps :: nat

record step_lease =
  le_step :: mutable_step
  le_budget :: execution_budget

definition MAX_PARALLEL_STEPS :: nat where
  "MAX_PARALLEL_STEPS = 32"

definition schedulerPolicy :: "nat option \<Rightarrow> dag_error + nat" where
  "schedulerPolicy maxParallelSteps = (let n = case_option 2 id maxParallelSteps in
     if \<not> safe_nat n \<or> n < 1 \<or> n > MAX_PARALLEL_STEPS then Inl DAG_SCHEDULER_POLICY_INVALID else Inr n)"

definition active_step :: "mutable_step \<Rightarrow> bool" where
  "active_step s \<longleftrightarrow> ms_state s \<in> {S_running, S_verifying}"

definition active_child :: "mutable_attempt \<Rightarrow> bool" where
  "active_child a \<longleftrightarrow> ma_state a \<in> {T_reserved, T_running}"

subsection \<open>Input and projection checks\<close>

definition validateInput :: "(string \<Rightarrow> bool) \<Rightarrow> dag_input \<Rightarrow> dag_error + unit" where
  "validateInput host_date i = (let b = di_parentBudget i in
     andThen (require (safe_id_string (di_sessionId i) \<and> safe_id_string (di_parentRunId i) \<and> safe_id_string (di_planId i))
       DAG_SCHEDULER_INPUT_INVALID) (\<lambda>_.
     andThen (require (list_all safe_nat [eb_maxTurns b, eb_maxToolCalls b, eb_maxChildRuns b, eb_maxParallelChildren b,
       eb_maxDepth b]) DAG_SCHEDULER_INPUT_INVALID) (\<lambda>_.
     require (\<not> ((eb_maxTokens b \<noteq> None \<and> \<not> safe_nat (the (eb_maxTokens b)))
       \<or> (eb_deadlineAt b \<noteq> None \<and> \<not> timestamp host_date (JStr (the (eb_deadlineAt b))))))
       DAG_SCHEDULER_INPUT_INVALID)))"

definition requireProjectedPlan :: "session_projection \<Rightarrow> string \<Rightarrow> dag_error + session_plan_graph" where
  "requireProjectedPlan projection planId = (case sp_planGraph projection of None \<Rightarrow> Inl DAG_PLAN_NOT_FOUND
     | Some plan \<Rightarrow> if gp_planId plan \<noteq> planId then Inl DAG_PLAN_NOT_FOUND else Inr plan)"

definition requireActiveRun :: "session_projection \<Rightarrow> string \<Rightarrow> dag_error + unit" where
  "requireActiveRun projection runId = require (list_ex (\<lambda>run. rn_runId run = runId \<and> rn_state run = Run_running)
     (sn_runs (sp_snapshot projection))) DAG_PARENT_RUN_NOT_ACTIVE"

definition currentRunBudgetUsageV1 :: "session_projection \<Rightarrow> string \<Rightarrow> dag_error + budget_usage" where
  "currentRunBudgetUsageV1 projection parentRunId =
     (case List.find (\<lambda>candidate. rn_runId candidate = parentRunId) (sn_runs (sp_snapshot projection)) of
        None \<Rightarrow> Inl DAG_PARENT_RUN_NOT_ACTIVE
      | Some run \<Rightarrow> if rn_state run \<noteq> Run_running then Inl DAG_PARENT_RUN_NOT_ACTIVE
          else Inr (normalizeBudgetUsage (rn_usage run)))"

definition deadlineReached :: "string option \<Rightarrow> string \<Rightarrow> bool" where
  "deadlineReached deadlineAt now = (case deadlineAt of None \<Rightarrow> False | Some d \<Rightarrow> now \<ge> d)"

definition maxInstant :: "string \<Rightarrow> string \<Rightarrow> string" where
  "maxInstant left right = (if left \<ge> right then left else right)"

subsection \<open>Capacity, conflicts and leases\<close>

definition countCapacity :: "session_plan_graph \<Rightarrow> capacity_counters" where
  "countCapacity plan = \<lparr>cc_cumulativeChildRuns = (\<Sum>step\<leftarrow>gp_steps plan. length (ms_attempts step)),
     cc_activeChildSlots = (\<Sum>step\<leftarrow>gp_steps plan. length (filter (\<lambda>(_, a). active_child a) (ms_attempts step))),
     cc_activeSteps = length (filter active_step (gp_steps plan))\<rparr>"

fun select_loop :: "nat \<Rightarrow> string list \<Rightarrow> mutable_step list \<Rightarrow> mutable_step list \<Rightarrow> mutable_step list" where
  "select_loop capacity claimedKeys [] selected = selected"
| "select_loop capacity claimedKeys (step # rest) selected =
     (if length selected \<ge> capacity then selected
      else if list_ex (\<lambda>key. key \<in> set claimedKeys) (ms_conflictKeys step)
      then select_loop capacity claimedKeys rest selected
      else select_loop capacity (claimedKeys @ ms_conflictKeys step) rest (selected @ [step]))"

definition selectConflictFree :: "mutable_step list \<Rightarrow> string list \<Rightarrow> nat \<Rightarrow> mutable_step list" where
  "selectConflictFree ready activeKeys capacity = select_loop capacity activeKeys ready []"

definition hasMinimumExecutionBudget :: "execution_budget \<Rightarrow> bool" where
  "hasMinimumExecutionBudget remaining \<longleftrightarrow> eb_maxTurns remaining > 0
     \<and> (case eb_maxTokens remaining of None \<Rightarrow> True | Some t \<Rightarrow> t > 0)"

definition subtractExecutionBudget :: "execution_budget \<Rightarrow> execution_budget \<Rightarrow> execution_budget" where
  "subtractExecutionBudget remaining requested = remaining\<lparr>
     eb_maxTurns := eb_maxTurns remaining - eb_maxTurns requested,
     eb_maxToolCalls := eb_maxToolCalls remaining - eb_maxToolCalls requested,
     eb_maxTokens := map_option (\<lambda>t. t - case_option t id (eb_maxTokens requested)) (eb_maxTokens remaining)\<rparr>"

definition remainingExecutionBudget :: "execution_budget \<Rightarrow> budget_usage \<Rightarrow> mutable_step list \<Rightarrow> execution_budget" where
  "remainingExecutionBudget parent usage active =
     (let usedTokens = case_option 0 id (pu_inputTokens (bu_provider usage)) + case_option 0 id (pu_outputTokens (bu_provider usage));
          remaining = parent\<lparr>eb_maxTurns := eb_maxTurns parent - bu_turns usage,
            eb_maxToolCalls := eb_maxToolCalls parent - bu_toolCalls usage,
            eb_maxTokens := map_option (\<lambda>t. t - usedTokens) (eb_maxTokens parent)\<rparr> in
      foldl (\<lambda>r step. subtractExecutionBudget r (ms_budget step)) remaining active)"

text \<open>The lease of one step when \<open>slots\<close> steps, this one included, still wait for one.\<close>

definition lease_budget :: "execution_budget \<Rightarrow> nat \<Rightarrow> execution_budget \<Rightarrow> execution_budget" where
  "lease_budget remaining slots b = b\<lparr>
     eb_maxTurns := min (eb_maxTurns b) (max 1 (eb_maxTurns remaining div slots)),
     eb_maxToolCalls := min (eb_maxToolCalls b) (max 0 (eb_maxToolCalls remaining div slots)),
     eb_maxTokens := (case eb_maxTokens remaining of None \<Rightarrow> eb_maxTokens b
       | Some t \<Rightarrow> Some (min (case_option t id (eb_maxTokens b)) (max 1 (t div slots))))\<rparr>"

fun lease_loop :: "execution_budget \<Rightarrow> mutable_step list \<Rightarrow> step_lease list" where
  "lease_loop remaining [] = []"
| "lease_loop remaining (step # rest) =
     (let budget = lease_budget remaining (length (step # rest)) (ms_budget step) in
      if eb_maxTurns budget < 1 then []
      else \<lparr>le_step = step, le_budget = budget\<rparr> # lease_loop (subtractExecutionBudget remaining budget) rest)"

definition allocateBudgetLeases :: "mutable_step list \<Rightarrow> execution_budget \<Rightarrow> step_lease list" where
  "allocateBudgetLeases steps available =
     (if \<not> hasMinimumExecutionBudget available then [] else lease_loop available steps)"

definition activeConflictKeys :: "session_plan_graph \<Rightarrow> string list" where
  "activeConflictKeys plan = concat (map ms_conflictKeys (filter active_step (gp_steps plan)))"

definition hasAttemptLimitBlock :: "session_plan_graph \<Rightarrow> bool" where
  "hasAttemptLimitBlock plan = list_ex (\<lambda>step. ms_state step = S_pending \<and> length (ms_attempts step) \<ge> ms_maxAttempts step)
     (gp_steps plan)"

subsection \<open>Decisions\<close>

definition dag_decide :: "dag_state \<Rightarrow> session_projection \<Rightarrow> capacity_counters \<Rightarrow> string option \<Rightarrow> dag_decision" where
  "dag_decide state projection counters reasonCode = \<lparr>dd_state = state, dd_claims = [], dd_reasonCode = reasonCode,
     dd_revision = sn_revision (sp_snapshot projection), dd_cumulativeChildRuns = cc_cumulativeChildRuns counters,
     dd_activeChildSlots = cc_activeChildSlots counters, dd_activeSteps = cc_activeSteps counters\<rparr>"

definition terminalDecision :: "session_plan_graph \<Rightarrow> session_projection \<Rightarrow> capacity_counters \<Rightarrow> dag_error + dag_decision" where
  "terminalDecision plan projection counters = (case gp_state plan of
       P_succeeded \<Rightarrow> Inr (dag_decide DS_complete projection counters None)
     | P_failed \<Rightarrow> Inr (dag_decide DS_failed projection counters None)
     | P_blocked \<Rightarrow> Inr (dag_decide DS_blocked projection counters None)
     | P_cancelled \<Rightarrow> Inr (dag_decide DS_cancelled projection counters None)
     | P_interrupted \<Rightarrow> Inr (dag_decide DS_interrupted projection counters None)
     | P_draft \<Rightarrow> Inr (dag_decide DS_blocked projection counters (Some ''DAG_PLAN_NOT_STARTED''))
     | P_running \<Rightarrow> Inl DAG_PLAN_STATE_INVALID)"

subsection \<open>Claiming\<close>

definition claimEvents :: "session_plan_graph \<Rightarrow> mutable_step \<Rightarrow> dag_claim \<Rightarrow> plan_event list" where
  "claimEvents plan step claim = (let authority = \<lparr>sy_planId = gp_planId plan, sy_planRevision = gp_revision plan,
       sy_stepId = ms_stepId step\<rparr> in
     [Plan_attempt_created authority (dc_attemptId claim) (dc_ordinal claim) T_reserved (Some (dc_childRunId claim)),
      Step_state_changed authority S_running None None None,
      Plan_attempt_state_changed authority (dc_attemptId claim) T_running None])"

definition claimCorrelation :: "dag_input \<Rightarrow> session_plan_graph \<Rightarrow> mutable_step \<Rightarrow> dag_claim \<Rightarrow> (string \<times> string) list" where
  "claimCorrelation input plan step claim = [(''parentRunId'', di_parentRunId input), (''childRunId'', dc_childRunId claim),
     (''planId'', gp_planId plan), (''stepId'', ms_stepId step), (''attemptId'', dc_attemptId claim)]"

definition claim_of :: "(string \<Rightarrow> nat \<Rightarrow> string) \<Rightarrow> nat \<Rightarrow> step_lease \<Rightarrow> dag_claim" where
  "claim_of createId index lease = \<lparr>dc_stepId = ms_stepId (le_step lease), dc_attemptId = createId ''attempt'' (2 * index),
     dc_childRunId = createId ''child-run'' (2 * index + 1), dc_ordinal = length (ms_attempts (le_step lease)) + 1,
     dc_budget = le_budget lease\<rparr>"

definition claims_of :: "(string \<Rightarrow> nat \<Rightarrow> string) \<Rightarrow> step_lease list \<Rightarrow> dag_claim list" where
  "claims_of createId leased = map (\<lambda>(index, lease). claim_of createId index lease) (enumerate 0 leased)"

definition claimDrafts :: "dag_input \<Rightarrow> session_plan_graph \<Rightarrow> step_lease list \<Rightarrow> dag_claim list
    \<Rightarrow> (plan_event \<times> (string \<times> string) list) list" where
  "claimDrafts input plan leased claims = concat (map (\<lambda>(lease, claim).
     map (\<lambda>e. (e, claimCorrelation input plan (le_step lease) claim)) (claimEvents plan (le_step lease) claim))
     (zip leased claims))"

definition claim_entries :: "(string \<Rightarrow> nat \<Rightarrow> string) \<Rightarrow> string \<Rightarrow> dag_input \<Rightarrow> session_projection \<Rightarrow> session_plan_graph
    \<Rightarrow> step_lease list \<Rightarrow> session_entry list" where
  "claim_entries createId claimedAt input projection plan leased =
     (let claims = claims_of createId leased;
          claimTime = maxInstant claimedAt (sl_updatedAt (sp_catalog projection)) in
      map (\<lambda>(index, event, correlation).
        \<lparr>en_entryId = createId ''entry'' (2 * length leased + 1 + index), en_sessionId = di_sessionId input,
         en_sequence = sn_sequence (sp_snapshot projection) + index + 1,
         en_revision = sn_revision (sp_snapshot projection) + 1, en_timestamp = claimTime,
         en_runId = Some (di_parentRunId input), en_correlation = correlation, en_data = Plan_entry event\<rparr>)
        (enumerate 0 (claimDrafts input plan leased claims)))"

definition claim_decision :: "(string \<Rightarrow> nat \<Rightarrow> string) \<Rightarrow> session_projection \<Rightarrow> step_lease list \<Rightarrow> capacity_counters
    \<Rightarrow> dag_decision" where
  "claim_decision createId projection leased counters = (let claims = claims_of createId leased in
     \<lparr>dd_state = DS_claimed, dd_claims = claims, dd_reasonCode = None,
      dd_revision = sn_revision (sp_snapshot projection) + 1,
      dd_cumulativeChildRuns = cc_cumulativeChildRuns counters + length claims,
      dd_activeChildSlots = cc_activeChildSlots counters + length claims,
      dd_activeSteps = cc_activeSteps counters + length claims\<rparr>)"

subsection \<open>Scheduling\<close>

definition orderedReady :: "(string \<Rightarrow> string \<Rightarrow> bool) \<Rightarrow> session_plan_graph \<Rightarrow> mutable_step list" where
  "orderedReady locale_le plan = sort_by (mutable_step_before locale_le)
     (filter (\<lambda>step. ms_stepId step \<in> set (gp_readyStepIds plan)) (gp_steps plan))"

definition failed_reason :: "mutable_step option \<Rightarrow> string" where
  "failed_reason failedStep = (case failedStep of None \<Rightarrow> ''DAG_STEP_FAILED''
     | Some step \<Rightarrow> case_option ''DAG_STEP_FAILED'' id (ms_errorCode step))"

text \<open>The decision when nothing was claimed, in the order of the code.\<close>

definition idleDecision :: "dag_input \<Rightarrow> session_projection \<Rightarrow> session_plan_graph \<Rightarrow> capacity_counters \<Rightarrow> string
    \<Rightarrow> mutable_step list \<Rightarrow> execution_budget \<Rightarrow> dag_decision" where
  "idleDecision input projection plan counters now ready remaining =
     (let failedStep = List.find (\<lambda>step. ms_state step \<in> {S_failed, S_interrupted}) (gp_steps plan);
          blocked = list_ex (\<lambda>step. ms_state step = S_blocked) (gp_steps plan);
          expired = filter (\<lambda>step. deadlineReached (eb_deadlineAt (ms_budget step)) now) ready;
          live = filter (\<lambda>step. \<not> deadlineReached (eb_deadlineAt (ms_budget step)) now) ready in
      if cc_activeSteps counters > 0 \<or> cc_activeChildSlots counters > 0
      then dag_decide DS_waiting projection counters (Some ''DAG_ACTIVE_WORK'')
      else if list_all (\<lambda>step. ms_state step = S_succeeded) (gp_steps plan)
      then dag_decide DS_complete projection counters None
      else if expired \<noteq> [] then dag_decide DS_blocked projection counters (Some ''DAG_STEP_DEADLINE_EXCEEDED'')
      else if eb_maxChildRuns (di_parentBudget input) - cc_cumulativeChildRuns counters = 0
        \<or> eb_maxParallelChildren (di_parentBudget input) = 0
      then dag_decide DS_budget_exhausted projection counters (Some ''DAG_CHILD_BUDGET_EXHAUSTED'')
      else if live \<noteq> [] \<and> \<not> (live \<noteq> [] \<and> hasMinimumExecutionBudget remaining)
      then dag_decide DS_budget_exhausted projection counters (Some ''DAG_EXECUTION_BUDGET_EXHAUSTED'')
      else if blocked then dag_decide DS_blocked projection counters (Some ''DAG_STEP_BLOCKED'')
      else if failedStep \<noteq> None then dag_decide DS_failed projection counters (Some (failed_reason failedStep))
      else if hasAttemptLimitBlock plan then dag_decide DS_blocked projection counters (Some ''DAG_ATTEMPT_LIMIT_REACHED'')
      else dag_decide DS_deadlocked projection counters (Some ''DAG_NO_READY_STEP''))"

text \<open>The batch to lease: empty when the capacity is 0 or no conflict-free step is ready.\<close>

definition batch :: "nat \<Rightarrow> dag_input \<Rightarrow> session_plan_graph \<Rightarrow> capacity_counters \<Rightarrow> string \<Rightarrow> mutable_step list
    \<Rightarrow> execution_budget \<Rightarrow> step_lease list" where
  "batch maxParallelSteps input plan counters now ready remaining =
     (let stepCapacity = maxParallelSteps - cc_activeSteps counters;
          childCapacity = eb_maxParallelChildren (di_parentBudget input) - cc_activeChildSlots counters;
          cumulativeCapacity = eb_maxChildRuns (di_parentBudget input) - cc_cumulativeChildRuns counters;
          capacity = min stepCapacity (min childCapacity cumulativeCapacity) in
      if capacity > 0
      then (let selected = selectConflictFree
                  (filter (\<lambda>step. \<not> deadlineReached (eb_deadlineAt (ms_budget step)) now) ready)
                  (activeConflictKeys plan) capacity in
            if selected = [] then [] else allocateBudgetLeases selected remaining)
      else [])"

definition schedule :: "(string \<Rightarrow> bool) \<Rightarrow> (string \<Rightarrow> string \<Rightarrow> bool) \<Rightarrow> nat \<Rightarrow> (string \<Rightarrow> nat \<Rightarrow> string) \<Rightarrow> string \<Rightarrow> string
    \<Rightarrow> dag_input \<Rightarrow> session_projection \<Rightarrow> dag_error + (dag_decision \<times> session_entry list)" where
  "schedule host_date locale_le maxParallelSteps createId now claimedAt input projection =
     andThen (validateInput host_date input) (\<lambda>_.
     andThen (requireProjectedPlan projection (di_planId input)) (\<lambda>plan.
     let counters = countCapacity plan in
     if gp_state plan \<noteq> P_running
     then andThen (terminalDecision plan projection counters) (\<lambda>d. Inr (d, []))
     else
       andThen (requireActiveRun projection (di_parentRunId input)) (\<lambda>_.
       let failedStep = List.find (\<lambda>step. ms_state step \<in> {S_failed, S_interrupted}) (gp_steps plan);
           blocked = list_ex (\<lambda>step. ms_state step = S_blocked) (gp_steps plan);
           ready = orderedReady locale_le plan in
       if di_failureMode input = Fail_fast \<and> (failedStep \<noteq> None \<or> blocked)
       then Inr (dag_decide (if blocked then DS_blocked else DS_failed) projection counters
         (Some (if blocked then ''DAG_STEP_BLOCKED'' else failed_reason failedStep)), [])
       else if di_failureMode input = Fail_fast
         \<and> filter (\<lambda>step. deadlineReached (eb_deadlineAt (ms_budget step)) now) ready \<noteq> []
       then Inr (dag_decide DS_blocked projection counters (Some ''DAG_STEP_DEADLINE_EXCEEDED''), [])
       else if cc_activeSteps counters > 0 \<or> cc_activeChildSlots counters > 0
       then Inr (dag_decide DS_waiting projection counters (Some ''DAG_ACTIVE_WORK''), [])
       else
         andThen (currentRunBudgetUsageV1 projection (di_parentRunId input)) (\<lambda>usage.
         let remaining = remainingExecutionBudget (di_parentBudget input) usage (filter active_step (gp_steps plan));
             leased = batch maxParallelSteps input plan counters now ready remaining in
         if leased \<noteq> []
         then Inr (claim_decision createId projection leased counters,
           claim_entries createId claimedAt input projection plan leased)
         else Inr (idleDecision input projection plan counters now ready remaining, [])))))"

end
