(* ===== verification/DagSelection.thy ===== *)
theory DagSelection
  imports DagScheduler SessionProjection
begin

section \<open>What the scheduler selects and leases\<close>

text \<open>
  The loops of \<open>selectConflictFree\<close> and \<open>allocateBudgetLeases\<close>: a selection is a part of the
  ready steps, at most as long as the capacity, whose conflict keys are pairwise disjoint and
  disjoint from the active ones; a batch of leases never gives a step more than its own budget,
  never leases more tool calls than remain, and more turns than remain only when fewer turns
  than steps are left. \<open>schedule_claimedE\<close> is the elimination rule of a claiming decision.
\<close>

subsection \<open>Selection\<close>

definition keys_disjoint :: "mutable_step \<Rightarrow> mutable_step \<Rightarrow> bool" where
  "keys_disjoint s t \<longleftrightarrow> set (ms_conflictKeys s) \<inter> set (ms_conflictKeys t) = {}"

lemma select_loop_split:
  "select_loop capacity claimed steps selected = selected @ select_loop (capacity - length selected) claimed steps []"
proof (induction steps arbitrary: capacity claimed selected)
  case (Cons step rest)
  have one: "select_loop n (claimed @ ms_conflictKeys step) rest [step]
      = step # select_loop (n - 1) (claimed @ ms_conflictKeys step) rest []" for n
    using Cons.IH[of n "claimed @ ms_conflictKeys step" "[step]"] by simp
  show ?case using Cons.IH[of capacity claimed selected]
      Cons.IH[of capacity "claimed @ ms_conflictKeys step" "selected @ [step]"]
    by (simp add: one)
qed simp

lemma select_loop_Cons:
  "select_loop capacity claimed (step # rest) [] = (if capacity = 0 then []
     else if set (ms_conflictKeys step) \<inter> set claimed \<noteq> {} then select_loop capacity claimed rest []
     else step # select_loop (capacity - 1) (claimed @ ms_conflictKeys step) rest [])"
  using select_loop_split[of capacity "claimed @ ms_conflictKeys step" rest "[step]"]
  by (auto simp: list_ex_iff)

lemma select_free:
  "list_all (\<lambda>s. set (ms_conflictKeys s) \<inter> set claimed = {}) (select_loop capacity claimed steps [])
    \<and> sorted_wrt keys_disjoint (select_loop capacity claimed steps [])"
proof (induction steps arbitrary: capacity claimed)
  case (Cons step rest)
  show ?case using Cons.IH[of claimed capacity] Cons.IH[of "claimed @ ms_conflictKeys step" "capacity - 1"]
    unfolding select_loop_Cons by (auto simp: list_all_iff keys_disjoint_def)
qed simp

lemma select_length: "length (select_loop capacity claimed steps []) \<le> capacity"
proof (induction steps arbitrary: capacity claimed)
  case (Cons step rest)
  show ?case using Cons.IH[of capacity claimed] Cons.IH[of "capacity - 1" "claimed @ ms_conflictKeys step"]
    unfolding select_loop_Cons by auto
qed simp

lemma select_part:
  "set (select_loop capacity claimed steps []) \<subseteq> set steps
    \<and> (distinct (map f steps) \<longrightarrow> distinct (map f (select_loop capacity claimed steps [])))"
proof (induction steps arbitrary: capacity claimed)
  case (Cons step rest)
  show ?case using Cons.IH[of capacity claimed] Cons.IH[of "capacity - 1" "claimed @ ms_conflictKeys step"]
    unfolding select_loop_Cons by (auto simp: image_iff)
qed simp

lemma select_nonempty: "0 < capacity \<Longrightarrow> steps \<noteq> [] \<Longrightarrow> select_loop capacity [] steps [] \<noteq> []"
  by (cases steps) (simp_all only: select_loop_Cons, auto)

subsection \<open>Leases\<close>

definition lease_within :: "step_lease \<Rightarrow> bool" where
  "lease_within l \<longleftrightarrow> (let b = le_budget l; s = ms_budget (le_step l) in
     1 \<le> eb_maxTurns b \<and> eb_maxTurns b \<le> eb_maxTurns s \<and> eb_maxToolCalls b \<le> eb_maxToolCalls s
     \<and> (\<forall>t. eb_maxTokens s = Some t \<longrightarrow> (\<exists>u \<le> t. eb_maxTokens b = Some u))
     \<and> eb_maxChildRuns b = eb_maxChildRuns s \<and> eb_maxParallelChildren b = eb_maxParallelChildren s
     \<and> eb_maxDepth b = eb_maxDepth s \<and> eb_deadlineAt b = eb_deadlineAt s)"

lemma subtract_fields [simp]:
  "eb_maxTurns (subtractExecutionBudget remaining b) = eb_maxTurns remaining - eb_maxTurns b"
  "eb_maxToolCalls (subtractExecutionBudget remaining b) = eb_maxToolCalls remaining - eb_maxToolCalls b"
  by (simp_all add: subtractExecutionBudget_def)

lemma leases_within: "list_all lease_within (lease_loop remaining steps)"
proof (induction steps arbitrary: remaining)
  case (Cons step rest)
  then show ?case by (auto simp: Let_def lease_within_def lease_budget_def split: option.splits)
qed simp

lemma leases_part:
  "\<exists>n. map le_step (lease_loop remaining steps) = take n steps"
proof (induction steps arbitrary: remaining)
  case (Cons step rest)
  obtain n where "map le_step (lease_loop (subtractExecutionBudget remaining
      (lease_budget remaining (length (step # rest)) (ms_budget step))) rest) = take n rest" using Cons.IH by blast
  then have "map le_step (lease_loop remaining (step # rest)) = take (Suc n) (step # rest)
      \<or> map le_step (lease_loop remaining (step # rest)) = take 0 (step # rest)" by (simp add: Let_def)
  then show ?case by blast
qed simp

lemma leases_tool_calls:
  "(\<Sum>l\<leftarrow>lease_loop remaining steps. eb_maxToolCalls (le_budget l)) \<le> eb_maxToolCalls remaining"
proof (induction steps arbitrary: remaining)
  case (Cons step rest)
  let ?b = "lease_budget remaining (length (step # rest)) (ms_budget step)"
  have "eb_maxToolCalls ?b \<le> eb_maxToolCalls remaining div length (step # rest)" by (simp add: lease_budget_def)
  also have "... \<le> eb_maxToolCalls remaining" by (rule div_le_dividend)
  finally show ?case using Cons.IH[of "subtractExecutionBudget remaining ?b"]
    by (auto simp: Let_def)
qed simp

lemma share_leaves: "Suc n \<le> r \<Longrightarrow> n \<le> r - r div Suc n" for n r :: nat
proof -
  assume "Suc n \<le> r"
  have "r div Suc n * Suc n \<le> r" by (rule div_times_less_eq_dividend)
  then have "r div Suc n + r div Suc n * n \<le> r" by simp
  moreover have "1 \<le> r div Suc n" using \<open>Suc n \<le> r\<close> by (simp add: Suc_le_eq div_greater_zero_iff)
  then have "n \<le> r div Suc n * n" by simp
  ultimately show ?thesis by linarith
qed

lemma leases_turns:
  "(\<Sum>l\<leftarrow>lease_loop remaining steps. eb_maxTurns (le_budget l))
    \<le> (if length steps \<le> eb_maxTurns remaining then eb_maxTurns remaining else length (lease_loop remaining steps))"
proof (induction steps arbitrary: remaining)
  case (Cons step rest)
  let ?b = "lease_budget remaining (length (step # rest)) (ms_budget step)" and ?r = "eb_maxTurns remaining"
  let ?next = "lease_loop (subtractExecutionBudget remaining ?b) rest"
  have b: "eb_maxTurns ?b \<le> max 1 (?r div Suc (length rest))" by (simp add: lease_budget_def)
  have i: "(\<Sum>l\<leftarrow>?next. eb_maxTurns (le_budget l))
      \<le> (if length rest \<le> ?r - eb_maxTurns ?b then ?r - eb_maxTurns ?b else length ?next)"
    using Cons.IH[of "subtractExecutionBudget remaining ?b"] unfolding subtract_fields .
  show ?case
  proof (cases "Suc (length rest) \<le> ?r")
    case True
    then have "1 \<le> ?r div Suc (length rest)" by (simp add: Suc_le_eq div_greater_zero_iff)
    then have le: "eb_maxTurns ?b \<le> ?r div Suc (length rest)" using b by simp
    then have "length rest \<le> ?r - eb_maxTurns ?b" using share_leaves[OF True] by linarith
    then have "(\<Sum>l\<leftarrow>?next. eb_maxTurns (le_budget l)) \<le> ?r - eb_maxTurns ?b" using i by (simp only: if_True)
    moreover have "eb_maxTurns ?b \<le> ?r" using le div_le_dividend[of ?r "Suc (length rest)"] by (rule order_trans)
    ultimately show ?thesis using True by (auto simp: Let_def)
  next
    case False
    then have one: "eb_maxTurns ?b \<le> 1" using b by simp
    show ?thesis
    proof (cases "eb_maxTurns ?b < 1")
      case True
      then show ?thesis by (simp add: Let_def)
    next
      case b: False
      have "(\<Sum>l\<leftarrow>?next. eb_maxTurns (le_budget l)) \<le> length ?next"
      proof (cases "length rest \<le> ?r - eb_maxTurns ?b")
        case True
        then have "?r - eb_maxTurns ?b = 0" using b False by linarith
        then show ?thesis using i True by simp
      qed (use i in simp)
      moreover have "lease_loop remaining (step # rest) = \<lparr>le_step = step, le_budget = ?b\<rparr> # ?next" using b by (simp add: Let_def)
      ultimately show ?thesis using False one by (simp del: lease_loop.simps)
    qed
  qed
qed simp

text \<open>With fewer turns left than steps to lease, every step gets one: the batch leases more than remains.\<close>

lemma leases_scarce:
  assumes "eb_maxTurns remaining \<le> length steps" "list_all (\<lambda>s. 1 \<le> eb_maxTurns (ms_budget s)) steps"
  shows "(\<Sum>l\<leftarrow>lease_loop remaining steps. eb_maxTurns (le_budget l)) = length steps"
  using assms
proof (induction steps arbitrary: remaining)
  case (Cons step rest)
  let ?b = "lease_budget remaining (length (step # rest)) (ms_budget step)"
  have "eb_maxTurns remaining div Suc (length rest) \<le> 1"
    using Cons.prems(1) by (metis div_le_mono div_self length_Cons nat.distinct(1))
  then have b: "eb_maxTurns ?b = 1" using Cons.prems(2) by (simp add: lease_budget_def)
  have "eb_maxTurns (subtractExecutionBudget remaining ?b) \<le> length rest"
    using Cons.prems(1) b by simp
  then show ?case using Cons.IH Cons.prems(2) b by (simp add: Let_def)
qed simp

lemma leases_nonempty: "steps \<noteq> [] \<Longrightarrow> 1 \<le> eb_maxTurns (ms_budget (hd steps)) \<Longrightarrow> lease_loop remaining steps \<noteq> []"
  by (cases steps) (auto simp: Let_def lease_budget_def)

lemma allocate_loop: "l \<in> set (allocateBudgetLeases steps available) \<Longrightarrow> allocateBudgetLeases steps available = lease_loop available steps"
  by (auto simp: allocateBudgetLeases_def)

subsection \<open>Claiming decisions\<close>

lemma decide_state [simp]: "dd_state (dag_decide st projection counters reason) = st"
  by (simp add: dag_decide_def)

lemma idle_not_claimed: "dd_state (idleDecision i projection plan counters now ready remaining) \<noteq> DS_claimed"
  by (simp add: idleDecision_def Let_def)

lemma terminal_not_claimed: "terminalDecision plan projection counters = Inr d \<Longrightarrow> dd_state d \<noteq> DS_claimed"
  by (auto simp: terminalDecision_def split: plan_state.splits)

definition remaining_of :: "dag_input \<Rightarrow> budget_usage \<Rightarrow> session_plan_graph \<Rightarrow> execution_budget" where
  "remaining_of i usage plan = remainingExecutionBudget (di_parentBudget i) usage (filter active_step (gp_steps plan))"

definition live_ready :: "(string \<Rightarrow> string \<Rightarrow> bool) \<Rightarrow> session_plan_graph \<Rightarrow> string \<Rightarrow> mutable_step list" where
  "live_ready le plan now = filter (\<lambda>step. \<not> deadlineReached (eb_deadlineAt (ms_budget step)) now) (orderedReady le plan)"

definition free_capacity :: "nat \<Rightarrow> dag_input \<Rightarrow> session_plan_graph \<Rightarrow> nat" where
  "free_capacity maxParallelSteps i plan = min maxParallelSteps (min (eb_maxParallelChildren (di_parentBudget i))
     (eb_maxChildRuns (di_parentBudget i) - cc_cumulativeChildRuns (countCapacity plan)))"

lemma no_active: "cc_activeSteps (countCapacity plan) = 0 \<Longrightarrow> activeConflictKeys plan = [] \<and> filter active_step (gp_steps plan) = []"
  by (simp add: countCapacity_def activeConflictKeys_def)

lemma nothing_active:
  assumes "cc_activeSteps (countCapacity plan) = 0" "cc_activeChildSlots (countCapacity plan) = 0"
  shows "\<forall>s \<in> set (gp_steps plan). \<not> active_step s \<and> \<not> list_ex active_child (map snd (ms_attempts s))"
  using assms by (fastforce simp: countCapacity_def filter_empty_conv list_ex_iff sum_list_eq_0_iff)

lemma idle_batch:
  assumes "cc_activeSteps (countCapacity plan) = 0" "cc_activeChildSlots (countCapacity plan) = 0"
  shows "batch n i plan (countCapacity plan) now (orderedReady le plan) remaining =
    allocateBudgetLeases (select_loop (free_capacity n i plan) [] (live_ready le plan now) []) remaining"
proof (cases "free_capacity n i plan = 0")
  case True
  have "select_loop 0 [] steps [] = []" for steps by (cases steps) simp_all
  moreover have "\<not> (0 < n \<and> 0 < eb_maxParallelChildren (di_parentBudget i)
      \<and> cc_cumulativeChildRuns (countCapacity plan) < eb_maxChildRuns (di_parentBudget i))"
    using True by (auto simp: free_capacity_def)
  ultimately show ?thesis using True assms
    by (auto simp: batch_def Let_def allocateBudgetLeases_def)
next
  case False
  then show ?thesis using assms no_active[OF assms(1)]
    by (auto simp: batch_def Let_def free_capacity_def live_ready_def selectConflictFree_def allocateBudgetLeases_def)
qed

lemma schedule_claimedE:
  fixes projection :: "session_projection"
  assumes "schedule host_date le n createId now claimedAt i projection = Inr (d, es)" and "dd_state d = DS_claimed"
  obtains plan usage leased where "sp_planGraph projection = Some plan" "gp_planId plan = di_planId i" "gp_state plan = P_running"
    "cc_activeSteps (countCapacity plan) = 0" "cc_activeChildSlots (countCapacity plan) = 0"
    "currentRunBudgetUsageV1 projection (di_parentRunId i) = Inr usage"
    "leased = allocateBudgetLeases (select_loop (free_capacity n i plan) [] (live_ready le plan now) []) (remaining_of i usage plan)"
    "leased \<noteq> []" "d = claim_decision createId projection leased (countCapacity plan)"
    "es = claim_entries createId claimedAt i projection plan leased"
proof -
  obtain plan where p: "requireProjectedPlan projection (di_planId i) = Inr plan"
    using assms(1) by (auto simp: schedule_def andThen_return_iff)
  then have p': "sp_planGraph projection = Some plan" "gp_planId plan = di_planId i"
    by (auto simp: requireProjectedPlan_def split: option.splits if_splits)
  have r: "gp_state plan = P_running"
  proof (rule ccontr)
    assume "gp_state plan \<noteq> P_running"
    then have "terminalDecision plan projection (countCapacity plan) = Inr d"
      using assms(1) p by (auto simp: schedule_def andThen_return_iff Let_def)
    then show False using terminal_not_claimed assms(2) by blast
  qed
  have a: "cc_activeSteps (countCapacity plan) = 0" "cc_activeChildSlots (countCapacity plan) = 0"
    using assms p r by (auto simp: schedule_def andThen_return_iff Let_def split: if_splits)
  obtain usage where u: "currentRunBudgetUsageV1 projection (di_parentRunId i) = Inr usage"
    using assms p r a by (auto simp: schedule_def andThen_return_iff Let_def split: if_splits)
  let ?leased = "batch n i plan (countCapacity plan) now (orderedReady le plan) (remaining_of i usage plan)"
  have "?leased \<noteq> [] \<and> d = claim_decision createId projection ?leased (countCapacity plan)
      \<and> es = claim_entries createId claimedAt i projection plan ?leased"
    using assms p r a u
    by (auto simp: schedule_def andThen_return_iff Let_def remaining_of_def idle_not_claimed split: if_splits)
  then show ?thesis using that p' r a u idle_batch[OF a] by metis
qed

lemma leased_parts:
  assumes "leased = allocateBudgetLeases (select_loop c [] (live_ready le plan now) []) remaining"
  obtains m where "map le_step leased = take m (select_loop c [] (live_ready le plan now) [])"
proof (cases "leased = []")
  case True
  then show ?thesis using that[of 0] by simp
next
  case False
  then show ?thesis using that leases_part assms unfolding allocateBudgetLeases_def by (metis (full_types))
qed

lemma leased_step:
  assumes "leased = allocateBudgetLeases (select_loop c [] (live_ready le plan now) []) remaining" "s \<in> le_step ` set leased"
  shows "s \<in> set (gp_steps plan) \<and> ms_stepId s \<in> set (gp_readyStepIds plan)
    \<and> \<not> deadlineReached (eb_deadlineAt (ms_budget s)) now"
proof -
  obtain m where m: "map le_step leased = take m (select_loop c [] (live_ready le plan now) [])"
    using assms(1) by (rule leased_parts)
  have "s \<in> set (map le_step leased)" using assms(2) by simp
  then have "s \<in> set (select_loop c [] (live_ready le plan now) [])" unfolding m by (rule in_set_takeD)
  then have "s \<in> set (live_ready le plan now)" using select_part[of c "[]" "live_ready le plan now"] by blast
  then show ?thesis by (auto simp: live_ready_def orderedReady_def)
qed

lemma leased_distinct:
  assumes "leased = allocateBudgetLeases (select_loop c [] (live_ready le plan now) []) remaining"
    and "distinct (map ms_stepId (gp_steps plan))"
  shows "distinct (map (ms_stepId \<circ> le_step) leased)"
proof -
  obtain m where m: "map le_step leased = take m (select_loop c [] (live_ready le plan now) [])"
    using assms(1) by (rule leased_parts)
  have "distinct (map ms_stepId (live_ready le plan now))"
    using assms(2) by (auto simp: live_ready_def orderedReady_def distinct_map inj_on_def)
  then have "distinct (map ms_stepId (take m (select_loop c [] (live_ready le plan now) [])))"
    using select_part[of c "[]" "live_ready le plan now" ms_stepId] by (simp add: take_map[symmetric])
  then show "distinct (map (ms_stepId \<circ> le_step) leased)" by (simp add: m[symmetric] del: map_map) (simp add: comp_def)
qed

lemma leased_free:
  assumes "leased = allocateBudgetLeases (select_loop c [] (live_ready le plan now) []) remaining"
  shows "sorted_wrt keys_disjoint (map le_step leased)" "length leased \<le> c"
proof -
  obtain m where m: "map le_step leased = take m (select_loop c [] (live_ready le plan now) [])"
    using assms by (rule leased_parts)
  show "sorted_wrt keys_disjoint (map le_step leased)"
    using select_free[of "[]" c "live_ready le plan now"] by (simp add: m sorted_wrt_take)
  have "length leased = length (take m (select_loop c [] (live_ready le plan now) []))" by (metis m length_map)
  then show "length leased \<le> c" using select_length[of c "[]" "live_ready le plan now"] by simp
qed

lemma claims_length [simp]: "length (claims_of createId leased) = length leased"
  by (simp add: claims_of_def)

lemma claims_nth: "k < length leased \<Longrightarrow> claims_of createId leased ! k = claim_of createId k (leased ! k)"
  by (simp add: claims_of_def nth_enumerate_eq)

lemma claims_map: "(\<And>k l. f (claim_of createId k l) = g l) \<Longrightarrow> map f (claims_of createId leased) = map g leased"
  by (rule nth_equalityI) (simp_all add: claims_nth)

lemma projected_steps_distinct:
  assumes "projectPlan le (Some p) = Inr (Some g)" shows "distinct (map ms_stepId (gp_steps g))"
  using assms
proof (rule projectE)
  fix graph
  assume v: "validatePlanGraphV1 (graph_json (plan_graph_of p (plan_ordered le p))) = Inr graph"
    and g: "graph = plan_graph_of p (plan_ordered le p)"
  have "distinct (map ps_stepId (pg_steps graph))" using plan_graph_sound[OF v] by (simp add: valid_plan_graph_def)
  then have "distinct (map ms_stepId (plan_ordered le p))" by (simp add: g plan_graph_of_def comp_def)
  moreover have "gp_steps g = map project_step (plan_ordered le p)" using assms by (rule projectE) simp
  ultimately show ?thesis by (simp add: comp_def project_step_def)
qed

end
