(* ===== verification/DagClaims.thy ===== *)
theory DagClaims
  imports DagSelection
begin

section \<open>The claim of a batch, seen by the Session reducer\<close>

text \<open>
  The scheduler and the reducer are written independently and meet in the log. Here the commit
  of a claim is replayed: every step of the batch moves from pending to running with one more
  attempt that runs under the claimed child Run, nothing else of the Plan changes, and every
  entry passes the order checks. \<open>attempts_left\<close> is what a Plan can still claim; it is the
  measure that every accepted batch lowers by its length.
\<close>

subsection \<open>Keys of the step map\<close>

definition steps_keyed :: "mutable_plan option \<Rightarrow> bool" where
  "steps_keyed p \<longleftrightarrow> (\<forall>q. p = Some q \<longrightarrow> distinct (map fst (mp_steps q)) \<and> map (ms_stepId \<circ> snd) (mp_steps q) = map fst (mp_steps q))"

lemma step_step_id: "step_step regular s t \<Longrightarrow> ms_stepId t = ms_stepId s"
  by (auto elim: step_stepE)

lemma ledger_keyed:
  assumes "ledger_step regular p q" "steps_keyed p" shows "steps_keyed q"
  using assms
proof cases
  case (revised p' n)
  then have "map (ms_stepId \<circ> snd) (mp_steps n) = map fst (mp_steps n)" by (auto intro!: map_cong)
  then show ?thesis using revised by (simp add: steps_keyed_def)
next
  case (step_added p' k s)
  then show ?thesis using assms(2) by (auto simp: steps_keyed_def map_of_eq_None_iff)
next
  case (step_changed p' k s t)
  then show ?thesis using assms(2) by (fastforce simp: steps_keyed_def distinct_keys_update dest!: in_set_updateD step_step_id map_of_SomeD)
qed (auto simp: steps_keyed_def)

lemma replay_keyed:
  assumes "replaySession env entries = Inr s" shows "steps_keyed (pl_plan (ss_ledger s))"
  using assms
proof (induction rule: replay_induct)
  case (first e d)
  then show ?case by (simp add: steps_keyed_def initialSession_def)
next
  case (entry es s sid e t)
  have a: "applyEntry env sid s e = Inr t" and k: "keys_used (ss_ledger s)" and i: "steps_keyed (pl_plan (ss_ledger s))"
    using entry by (auto simp: session_inv_def ids_inv_def)
  obtain u where h: "handleEntry env (s\<lparr>ss_entryIds := ss_entryIds s @ [en_entryId e]\<rparr>) e = Inr u"
    and t: "t = u\<lparr>ss_previous := e\<rparr>" using a by (rule applyEntryE)
  show ?case using handle_ledger[OF h]
  proof (elim disjE exE conjE)
    fix ev
    assume "applyPlanEvent (map_of (en_correlation e) ''parentRunId'')
      (ss_ledger (s\<lparr>ss_entryIds := ss_entryIds s @ [en_entryId e]\<rparr>)) ev = Inr (ss_ledger u)"
    then have "ledger_step False (pl_plan (ss_ledger s)) (pl_plan (ss_ledger u))" using ledger_refines k by fastforce
    then show ?thesis using ledger_keyed i t by simp
  qed (use i in \<open>simp add: t ledger_kept_def\<close>)
qed

lemma replay_entryIds: "replaySession env entries = Inr s \<Longrightarrow> ss_entryIds s = map en_entryId entries"
proof (induction rule: replay_induct)
  case (first e d)
  then show ?case by (simp add: initialSession_def)
next
  case (entry es s sid e t)
  have a: "applyEntry env sid s e = Inr t" and i: "ss_entryIds s = map en_entryId es" using entry by auto
  show ?case using a by (rule applyEntryE) (use i in \<open>auto dest: handle_entryIds\<close>)
qed

subsection \<open>One claim\<close>

definition claimed_step :: "dag_claim \<Rightarrow> mutable_step \<Rightarrow> mutable_step" where
  "claimed_step c s = s\<lparr>ms_state := S_running, ms_errorCode := None,
     ms_attempts := ms_attempts s @ [(dc_attemptId c, \<lparr>ma_attemptId = dc_attemptId c, ma_ordinal = dc_ordinal c,
       ma_state = T_running, ma_childRunId = Some (dc_childRunId c), ma_resultRef = None, ma_resultDigest = None,
       ma_resultStatus = None, ma_verificationRef = None, ma_errorCode = None, ma_execution = None, ma_verifications = []\<rparr>)]\<rparr>"

definition claimed_ledger :: "plan_ledger \<Rightarrow> mutable_plan \<Rightarrow> string \<Rightarrow> mutable_step \<Rightarrow> dag_claim \<Rightarrow> plan_ledger" where
  "claimed_ledger l p k s c = l\<lparr>pl_stableIds := pl_stableIds l @ [''attempt'' @ '':'' @ dc_attemptId c, ''child-run'' @ '':'' @ dc_childRunId c],
     pl_plan := Some (p\<lparr>mp_steps := AList.update k (claimed_step c s) (mp_steps p)\<rparr>)\<rparr>"

lemma latest_appended:
  "(\<And>x. x \<in> set xs \<Longrightarrow> ma_ordinal x < ma_ordinal a) \<Longrightarrow>
    sort_by (\<lambda>left right. ma_ordinal right \<le> ma_ordinal left) (xs @ [a])
      = a # sort_by (\<lambda>left right. ma_ordinal right \<le> ma_ordinal left) xs"
proof (induction xs)
  case (Cons x xs)
  then have "\<not> ma_ordinal a \<le> ma_ordinal x" by (simp add: not_le)
  then show ?case using Cons by simp
qed simp

lemma numbered_below:
  assumes "attempts_numbered s" "x \<in> set (map snd (ms_attempts s))" shows "ma_ordinal x \<le> length (ms_attempts s)"
proof -
  have "ma_ordinal x \<in> set (map (ma_ordinal \<circ> snd) (ms_attempts s))" using assms(2) by auto
  then show ?thesis using assms(1) unfolding attempts_numbered_def by (simp del: map_map set_map upt_Suc)
qed

lemma claim_applies:
  fixes s :: mutable_step
  assumes "pl_plan l = Some p" "gp_planId g = mp_planId p" "gp_revision g = mp_revision p"
    and s: "map_of (mp_steps p) (ms_stepId st) = Some s" "ms_state s = S_pending" "attempts_numbered s"
    and o: "dc_ordinal c = length (ms_attempts s) + 1" "length (ms_attempts s) < ms_maxAttempts s"
    and fresh: "keys_used l" "''attempt'' @ '':'' @ dc_attemptId c \<notin> set (pl_stableIds l)"
      "''child-run'' @ '':'' @ dc_childRunId c \<notin> set (pl_stableIds l)"
  shows "foldR (applyPlanEvent pr) l (claimEvents g st c) = Inr (claimed_ledger l p (ms_stepId st) s c)"
proof -
  let ?a = "\<lparr>ma_attemptId = dc_attemptId c, ma_ordinal = dc_ordinal c, ma_state = T_reserved,
    ma_childRunId = Some (dc_childRunId c), ma_resultRef = None, ma_resultDigest = None,
    ma_resultStatus = None, ma_verificationRef = None, ma_errorCode = None, ma_execution = None, ma_verifications = []\<rparr>"
  have "(ms_stepId st, s) \<in> set (mp_steps p)" using s(1) by (rule map_of_SomeD)
  then have n: "map_of (ms_attempts s) (dc_attemptId c) = None"
    using fresh(1,2) assms(1) by (force simp: keys_used_def plan_attempt_ids_def map_of_eq_None_iff)
  let ?s = "s\<lparr>ms_attempts := ms_attempts s @ [(dc_attemptId c, ?a)]\<rparr>"
  have l: "latestStepAttempt ?s = Some ?a"
    using latest_appended[of "map snd (ms_attempts s)" ?a] numbered_below[OF s(3)] o(1)
    by (simp add: latestStepAttempt_def less_Suc_eq_le)
  have u: "\<not> list_ex (\<lambda>(_, a). ma_ordinal a = dc_ordinal c) (ms_attempts s)"
    using numbered_below[OF s(3)] o(1) by (fastforce simp: list_ex_iff)
  let ?k = "ms_stepId st" and ?i = "dc_attemptId c"
  let ?ids = "pl_stableIds l @ [''attempt'' @ '':'' @ ?i, ''child-run'' @ '':'' @ dc_childRunId c]"
  let ?auth = "\<lparr>sy_planId = gp_planId g, sy_planRevision = gp_revision g, sy_stepId = ?k\<rparr>"
  let ?p = "p\<lparr>mp_steps := AList.update ?k ?s (mp_steps p)\<rparr>"
  let ?l1 = "l\<lparr>pl_stableIds := ?ids, pl_plan := Some ?p\<rparr>"
  let ?t = "?s\<lparr>ms_state := S_running, ms_errorCode := None\<rparr>"
  let ?q = "p\<lparr>mp_steps := AList.update ?k ?t (mp_steps p)\<rparr>"
  let ?l2 = "l\<lparr>pl_stableIds := ?ids, pl_plan := Some ?q\<rparr>"
  have 1: "on_attempt_created l ?auth ?i (dc_ordinal c) T_reserved (Some (dc_childRunId c)) = Inr ?l1"
  proof -
    have "requireStepRevision (pl_plan l) ?auth = Inr (p, s)" using assms by (simp add: requireStepRevision_iff)
    then show ?thesis using u o fresh n
      by (simp add: on_attempt_created_def transition_require_def useStableId_def useId_def put_attempt_def put_step_def update_fresh)
  qed
  have 2: "on_step_state_changed ?l1 ?auth S_running None None None = Inr ?l2"
  proof -
    have "requireStepRevision (pl_plan ?l1) ?auth = Inr (?p, ?s)" using assms by (simp add: requireStepRevision_iff)
    then show ?thesis using l s(2)
      by (simp add: on_step_state_changed_def Let_def transition_require_def assertReducerTransition_def
          assertPlanStepTransitionV1_def put_step_def)
  qed
  have 3: "on_attempt_state_changed ?l2 ?auth ?i T_running None = Inr (claimed_ledger l p ?k s c)"
  proof -
    have "requireAttemptRevision (pl_plan ?l2) ?auth ?i = Inr (?q, ?t, ?a)"
      using assms n by (simp add: requireAttemptRevision_iff map_add_def)
    then show ?thesis using n
      by (simp add: on_attempt_state_changed_def transition_require_def assertReducerTransition_def
          assertPlanAttemptTransitionV1_def put_attempt_def put_step_def claimed_ledger_def claimed_step_def update_fresh[symmetric])
  qed
  show ?thesis using 1 2 3 by (simp add: claimEvents_def Let_def applyPlanEvent_def)
qed

subsection \<open>A batch of claims\<close>

definition claim_one :: "mutable_plan \<Rightarrow> dag_claim \<Rightarrow> mutable_plan" where
  "claim_one p c = p\<lparr>mp_steps := AList.map_entry (dc_stepId c) (claimed_step c) (mp_steps p)\<rparr>"

definition attempts_left :: "mutable_plan \<Rightarrow> nat" where
  "attempts_left p = (\<Sum>(k, s)\<leftarrow>mp_steps p. ms_maxAttempts s - length (ms_attempts s))"

text \<open>What a claim needs of the Plan it is applied to.\<close>

definition claimable :: "mutable_plan \<Rightarrow> dag_claim \<Rightarrow> bool" where
  "claimable p c \<longleftrightarrow> (\<exists>s. map_of (mp_steps p) (dc_stepId c) = Some s \<and> ms_state s = S_pending \<and> attempts_numbered s
     \<and> dc_ordinal c = length (ms_attempts s) + 1 \<and> length (ms_attempts s) < ms_maxAttempts s)"

definition fresh_claims :: "plan_ledger \<Rightarrow> dag_claim list \<Rightarrow> bool" where
  "fresh_claims l cs \<longleftrightarrow> distinct (map dc_attemptId cs) \<and> distinct (map dc_childRunId cs)
     \<and> (\<forall>c \<in> set cs. ''attempt'' @ '':'' @ dc_attemptId c \<notin> set (pl_stableIds l)
         \<and> ''child-run'' @ '':'' @ dc_childRunId c \<notin> set (pl_stableIds l))"

lemma update_map_entry: "map_of al k = Some s \<Longrightarrow> AList.update k (f s) al = AList.map_entry k f al"
  by (induction al) (auto split: if_splits)

lemma claim_one_fields [simp]:
  "mp_planId (claim_one p c) = mp_planId p" "mp_revision (claim_one p c) = mp_revision p" "mp_state (claim_one p c) = mp_state p"
  "map_of (mp_steps (claim_one p c)) = (map_of (mp_steps p))(dc_stepId c := map_option (claimed_step c) (map_of (mp_steps p) (dc_stepId c)))"
  by (simp_all add: claim_one_def map_of_map_entry map_option_case)

lemma claimable_other: "claimable p d \<Longrightarrow> dc_stepId d \<noteq> dc_stepId c \<Longrightarrow> claimable (claim_one p c) d"
  by (simp add: claimable_def)

lemma foldR_keys_used: "foldR (applyPlanEvent pr) l es = Inr l' \<Longrightarrow> keys_used l \<Longrightarrow> keys_used l'"
  by (induction es arbitrary: l) (auto simp: andThen_return_iff dest: apply_keys_used)

lemma claims_apply:
  assumes "pl_plan l = Some p" "gp_planId g = mp_planId p" "gp_revision g = mp_revision p" "keys_used l"
    and "list_all (\<lambda>(st, c). claimable p c \<and> dc_stepId c = ms_stepId st) xs" "distinct (map (dc_stepId \<circ> snd) xs)"
    and "fresh_claims l (map snd xs)"
  shows "\<exists>l'. foldR (applyPlanEvent pr) l (concat (map (\<lambda>(st, c). claimEvents g st c) xs)) = Inr l'
    \<and> pl_plan l' = Some (foldl claim_one p (map snd xs))"
  using assms
proof (induction xs arbitrary: l p)
  case (Cons x xs)
  obtain st c where x: "x = (st, c)" by (cases x)
  obtain s where s: "map_of (mp_steps p) (dc_stepId c) = Some s" "ms_state s = S_pending" "attempts_numbered s"
    "dc_ordinal c = length (ms_attempts s) + 1" "length (ms_attempts s) < ms_maxAttempts s"
    and k: "dc_stepId c = ms_stepId st" using Cons.prems(5) by (auto simp: x claimable_def)
  let ?l = "claimed_ledger l p (ms_stepId st) s c"
  have one: "foldR (applyPlanEvent pr) l (claimEvents g st c) = Inr ?l"
    using Cons.prems s k by (intro claim_applies) (auto simp: x fresh_claims_def)
  have "\<exists>l'. foldR (applyPlanEvent pr) ?l (concat (map (\<lambda>(st, c). claimEvents g st c) xs)) = Inr l'
    \<and> pl_plan l' = Some (foldl claim_one (claim_one p c) (map snd xs))"
  proof (rule Cons.IH)
    show "pl_plan ?l = Some (claim_one p c)"
      using s(1) k by (simp add: claimed_ledger_def claim_one_def update_map_entry)
    show "keys_used ?l" using one Cons.prems(4) by (rule foldR_keys_used)
    show "list_all (\<lambda>(st, d). claimable (claim_one p c) d \<and> dc_stepId d = ms_stepId st) xs"
      unfolding list_all_iff
    proof (clarify)
      fix st' d assume "(st', d) \<in> set xs"
      then show "claimable (claim_one p c) d \<and> dc_stepId d = ms_stepId st'"
        using Cons.prems(5,6) by (force simp: x list_all_iff intro!: claimable_other)
    qed
    show "fresh_claims ?l (map snd xs)"
      using Cons.prems(7) by (auto simp: x fresh_claims_def claimed_ledger_def image_iff)
  qed (use Cons.prems in \<open>auto simp: x\<close>)
  then show ?case using one by (simp add: x foldR_append)
qed simp

lemma sum_map_entry:
  "map_of al k = Some s \<Longrightarrow> distinct (map fst al) \<Longrightarrow> f (g s) + d = (f s :: nat) \<Longrightarrow>
    (\<Sum>(k, s)\<leftarrow>AList.map_entry k g al. f s) + d = (\<Sum>(k, s)\<leftarrow>al. f s)"
proof (induction al)
  case (Cons y al)
  have "AList.map_entry k g al = al" if "k \<notin> fst ` set al" using that by (induction al) auto
  then show ?case using Cons by (cases y) (auto split: if_splits)
qed simp

lemma claims_left:
  assumes "list_all (claimable p) cs" "distinct (map dc_stepId cs)" "distinct (map fst (mp_steps p))"
  shows "attempts_left (foldl claim_one p cs) + length cs = attempts_left p"
  using assms
proof (induction cs arbitrary: p)
  case (Cons c cs)
  obtain s where s: "map_of (mp_steps p) (dc_stepId c) = Some s" "length (ms_attempts s) < ms_maxAttempts s"
    using Cons.prems(1) by (auto simp: claimable_def)
  have "attempts_left (claim_one p c) + 1 = attempts_left p"
    unfolding attempts_left_def claim_one_def using s Cons.prems(3)
    by (simp, intro sum_map_entry[where d = "Suc 0", simplified]) (auto simp: claimed_step_def)
  moreover have "attempts_left (foldl claim_one (claim_one p c) cs) + length cs = attempts_left (claim_one p c)"
  proof (rule Cons.IH)
    show "list_all (claimable (claim_one p c)) cs"
      using Cons.prems(1,2) by (auto simp: list_all_iff image_iff intro!: claimable_other)
    show "distinct (map fst (mp_steps (claim_one p c)))"
      using Cons.prems(3) by (simp add: claim_one_def distinct_map_entry)
  qed (use Cons.prems in simp)
  ultimately show ?case by simp
qed simp

subsection \<open>Appending the commit\<close>

text \<open>Plan entries in sequence, of one revision and one time, are folded by the Plan handlers.\<close>

lemma entries_apply:
  fixes s :: "session_state"
  assumes entry_def: "\<And>index event correlation. entry (index, event, correlation) = \<lparr>en_entryId = f index,
    en_sessionId = sid, en_sequence = base + index + 1, en_revision = r, en_timestamp = tm, en_runId = run,
    en_correlation = correlation, en_data = Plan_entry event\<rparr>"
    and "foldR (applyPlanEvent pr) (ss_ledger s) (map fst drafts) = Inr l"
    and "list_all (\<lambda>(event, correlation). map_of correlation ''parentRunId'' = pr) drafts"
    and "en_sequence (ss_previous s) = base + n" "en_revision (ss_previous s) \<le> r" "r \<le> en_revision (ss_previous s) + 1"
    and "en_timestamp (ss_previous s) \<le> tm" "ss_lifecycle s = L_open"
    and "inj f" "\<And>k. n \<le> k \<Longrightarrow> f k \<notin> set (ss_entryIds s)"
  shows "\<exists>t. foldR (applyEntry env sid) s (map entry (enumerate n drafts)) = Inr t \<and> ss_ledger t = l"
  using assms(2-)
proof (induction drafts arbitrary: n s)
  case Nil
  then show ?case by simp
next
  case (Cons x drafts)
  obtain event correlation where x: "x = (event, correlation)" by (cases x)
  obtain m where m: "applyPlanEvent pr (ss_ledger s) event = Inr m" "foldR (applyPlanEvent pr) m (map fst drafts) = Inr l"
    using Cons.prems(1) by (auto simp: x andThen_return_iff)
  let ?e = "entry (n, event, correlation)"
  let ?t = "s\<lparr>ss_entryIds := ss_entryIds s @ [f n], ss_ledger := m, ss_previous := ?e\<rparr>"
  have a: "applyEntry env sid s ?e = Inr ?t"
    using Cons.prems(2-8) Cons.prems(9)[of n] m(1)
    by (simp add: x entry_def applyEntry_def checkOrder_def Let_def useId_def handleEntry_def on_plan_entry_def
        transition_require_def not_less)
  have "\<exists>t. foldR (applyEntry env sid) ?t (map entry (enumerate (Suc n) drafts)) = Inr t \<and> ss_ledger t = l"
  proof (rule Cons.IH)
    show "f k \<notin> set (ss_entryIds ?t)" if "Suc n \<le> k" for k
      using that Cons.prems(9)[of k] Cons.prems(8) by (auto dest: injD)
  qed (use Cons.prems m(2) in \<open>auto simp: x entry_def\<close>)
  then show ?case using a by (simp add: x)
qed

subsection \<open>From the projection back to the reducer\<close>

lemma viewE:
  assumes "reduceSessionEntriesV3 env le entries = Inr (view :: session_projection)" and "replaySession env entries = Inr s"
  obtains first rest d where "entries = first # rest" "length entries \<le> MAX_ENTRIES" "en_data first = Session_created d"
    "foldR (applyEntry env (en_sessionId first)) (initialSession first d) rest = Inr s"
    "sp_snapshot view = snapshot_of first d s" "sp_catalog view = catalog_of (snapshot_of first d s)"
    "projectPlan le (pl_plan (ss_ledger s)) = Inr (sp_planGraph view)"
proof -
  obtain first rest d where e: "entries = first # rest" "length entries \<le> MAX_ENTRIES" "en_data first = Session_created d"
    "foldR (applyEntry env (en_sessionId first)) (initialSession first d) rest = Inr s" using assms(2) by (rule replayE)
  have "projectSession le first d s = Inr view" using assms e(1,3) by (simp add: reduceSessionEntriesV3_def)
  then show ?thesis using that e by (auto simp: projectSession_def andThen_return_iff Let_def)
qed

lemma project_step_fields [simp]:
  "ms_stepId (project_step s) = ms_stepId s" "length (ms_attempts (project_step s)) = length (ms_attempts s)"
  "ms_state (project_step s) = ms_state s" "ms_maxAttempts (project_step s) = ms_maxAttempts s"
  by (simp_all add: project_step_def ordered_attempts_def)

lemma projected_ready:
  assumes "projectPlan le (Some p) = Inr (Some g)" "steps_keyed (Some p)" "numbered.all_steps (Some p)"
    and "st \<in> set (gp_steps g)" "ms_stepId st \<in> set (gp_readyStepIds g)"
  obtains s where "map_of (mp_steps p) (ms_stepId st) = Some s" "ms_state s = S_pending" "attempts_numbered s"
    "length (ms_attempts st) = length (ms_attempts s)" "length (ms_attempts s) < ms_maxAttempts s"
proof -
  have g: "gp_steps g = map project_step (plan_ordered le p)" using assms(1) by (rule projectE) simp
  have "ms_stepId st \<in> ms_stepId ` set (filter (plan_open p) (plan_ordered le p))"
    using ready_of_plan[OF assms(1)] assms(5) by (auto split: if_splits)
  then obtain s where s: "s \<in> snd ` set (mp_steps p)" "plan_open p s" "ms_stepId s = ms_stepId st" by force
  obtain w where w: "w \<in> snd ` set (mp_steps p)" "st = project_step w" using assms(4) by (auto simp: g)
  have key: "map_of (mp_steps p) (ms_stepId v) = Some v" if v: "v \<in> snd ` set (mp_steps p)" for v
  proof -
    obtain k where k: "(k, v) \<in> set (mp_steps p)" using v by auto
    then have "ms_stepId v = k" using assms(2) by (auto simp: steps_keyed_def)
    then show ?thesis using k assms(2) by (simp add: steps_keyed_def)
  qed
  have "ms_stepId w = ms_stepId s" using s(3) w(2) by simp
  then have ws: "w = s" using key[OF s(1)] key[OF w(1)] by simp
  have "attempts_numbered s" using assms(3) s(1) by (simp add: numbered.all_steps_def)
  moreover have "ms_state s = S_pending" "length (ms_attempts s) < ms_maxAttempts s"
    using s(2) unfolding plan_open_def by blast+
  moreover have "map_of (mp_steps p) (ms_stepId st) = Some s" using key[OF s(1)] unfolding s(3) .
  moreover have "length (ms_attempts st) = length (ms_attempts s)" unfolding w(2) ws by simp
  ultimately show ?thesis using that by blast
qed

lemma view_steps_distinct:
  assumes "reduceSessionEntriesV3 env le entries = Inr (view :: session_projection)" "sp_planGraph view = Some g"
  shows "distinct (map ms_stepId (gp_steps g))"
proof -
  obtain s where "replaySession env entries = Inr s" using assms(1) by (auto simp: reduceSessionEntriesV3_def andThen_return_iff)
  from viewE[OF assms(1) this] have "projectPlan le (pl_plan (ss_ledger s)) = Inr (Some g)" by (metis assms(2))
  then show ?thesis using projected_steps_distinct by (cases "pl_plan (ss_ledger s)") (auto simp: projectPlan_def)
qed

subsection \<open>The commit of a claim is accepted\<close>

text \<open>The generator gives fresh identifiers: injective, and none was used in the Session before.\<close>

definition fresh_ids :: "(string \<Rightarrow> nat \<Rightarrow> string) \<Rightarrow> session_state \<Rightarrow> bool" where
  "fresh_ids createId s \<longleftrightarrow> inj (createId ''entry'') \<and> inj (createId ''attempt'') \<and> inj (createId ''child-run'')
     \<and> (\<forall>n. createId ''entry'' n \<notin> set (ss_entryIds s)
       \<and> ''attempt'' @ '':'' @ createId ''attempt'' n \<notin> set (pl_stableIds (ss_ledger s))
       \<and> ''child-run'' @ '':'' @ createId ''child-run'' n \<notin> set (pl_stableIds (ss_ledger s)))"

lemma fresh_claims_of:
  assumes "fresh_ids createId s" shows "fresh_claims (ss_ledger s) (claims_of createId leased)"
proof -
  have i: "inj (createId ''attempt'')" "inj (createId ''child-run'')" using assms by (simp_all add: fresh_ids_def)
  have "distinct (map dc_attemptId (claims_of createId leased))" "distinct (map dc_childRunId (claims_of createId leased))"
    by (auto simp: distinct_conv_nth claims_nth claim_of_def dest!: injD[OF i(1)] injD[OF i(2)])
  moreover have "\<exists>k. dc_attemptId c = createId ''attempt'' k" "\<exists>k. dc_childRunId c = createId ''child-run'' k"
    if "c \<in> set (claims_of createId leased)" for c
    using that by (auto simp: claims_of_def claim_of_def in_set_enumerate_eq)
  ultimately show ?thesis using assms unfolding fresh_claims_def fresh_ids_def by metis
qed

lemma claims_claimable:
  assumes g: "projectPlan le (Some p) = Inr (Some g)" "steps_keyed (Some p)" "numbered.all_steps (Some p)"
    and l: "leased = allocateBudgetLeases (select_loop n [] (live_ready le g now) []) remaining"
  shows "list_all (claimable p) (claims_of createId leased)"
proof -
  have "claimable p (claim_of createId k l)" if "l \<in> set leased" for k l
  proof -
    have "le_step l \<in> le_step ` set leased" using that by simp
    from leased_step[OF assms(4) this]
    have st: "le_step l \<in> set (gp_steps g)" "ms_stepId (le_step l) \<in> set (gp_readyStepIds g)" by simp_all
    obtain s where "map_of (mp_steps p) (ms_stepId (le_step l)) = Some s" "ms_state s = S_pending" "attempts_numbered s"
      "length (ms_attempts (le_step l)) = length (ms_attempts s)" "length (ms_attempts s) < ms_maxAttempts s"
      by (rule projected_ready[OF g st])
    then show ?thesis by (simp add: claimable_def claim_of_def)
  qed
  then show ?thesis by (auto simp: list_all_iff claims_of_def in_set_enumerate_eq)
qed

lemma drafts_events:
  "map fst (claimDrafts i g leased cs) = concat (map (\<lambda>(st, c). claimEvents g st c) (zip (map le_step leased) cs))"
  by (simp add: claimDrafts_def map_concat zip_map1 comp_def case_prod_unfold)

lemma length_claim_entries: "length (claim_entries createId claimedAt i view g leased) = 3 * length leased"
  by (simp add: claim_entries_def claimDrafts_def length_concat comp_def case_prod_unfold claimEvents_def Let_def
      sum_list_triv)

lemma drafts_correlation:
  "list_all (\<lambda>(event, correlation). map_of correlation ''parentRunId'' = Some (di_parentRunId i)) (claimDrafts i g leased cs)"
  by (auto simp: claimDrafts_def list_all_iff claimCorrelation_def)

lemma claim_accepted:
  assumes "replaySession env entries = Inr s" and "reduceSessionEntriesV3 env le entries = Inr (view :: session_projection)"
    and "schedule host_date le n createId now claimedAt i view = Inr (d, es)" and "dd_state d = DS_claimed"
    and "di_sessionId i = sn_sessionId (sp_snapshot view)" and "fresh_ids createId s" and "length (entries @ es) \<le> MAX_ENTRIES"
  obtains p t where "replaySession env (entries @ es) = Inr t" "pl_plan (ss_ledger s) = Some p"
    "list_all (claimable p) (dd_claims d)" "distinct (map dc_stepId (dd_claims d))" "distinct (map fst (mp_steps p))"
    "pl_plan (ss_ledger t) = Some (foldl claim_one p (dd_claims d))"
proof -
  obtain first rest dat where v: "entries = first # rest" "en_data first = Session_created dat"
    "foldR (applyEntry env (en_sessionId first)) (initialSession first dat) rest = Inr s"
    "sp_snapshot view = snapshot_of first dat s" "sp_catalog view = catalog_of (snapshot_of first dat s)"
    "projectPlan le (pl_plan (ss_ledger s)) = Inr (sp_planGraph view)" using viewE[OF assms(2,1)] by blast
  obtain g usage leased where g: "sp_planGraph view = Some g"
    and run: "currentRunBudgetUsageV1 view (di_parentRunId i) = Inr usage"
    and l: "leased = allocateBudgetLeases (select_loop (free_capacity n i g) [] (live_ready le g now) []) (remaining_of i usage g)"
    and d: "d = claim_decision createId view leased (countCapacity g)"
    and es: "es = claim_entries createId claimedAt i view g leased" using assms(3,4) by (rule schedule_claimedE)
  let ?cs = "claims_of createId leased" and ?xs = "zip (map le_step leased) (claims_of createId leased)"
  have dc: "dd_claims d = ?cs" by (simp add: d claim_decision_def Let_def)
  obtain p where p: "pl_plan (ss_ledger s) = Some p"
    using v(6) g by (cases "pl_plan (ss_ledger s)") (auto simp: projectPlan_def)
  have j: "projectPlan le (Some p) = Inr (Some g)" using v(6) g p by simp
  have inv: "session_inv s" "steps_keyed (Some p)" "numbered.all_steps (Some p)"
    using replay_inv[OF assms(1)] replay_keyed[OF assms(1)] numbered.replay_all_steps[OF assms(1)] p by simp_all
  have ok: "list_all (claimable p) ?cs" by (rule claims_claimable[OF j inv(2,3) l])
  have ids: "map dc_stepId ?cs = map (ms_stepId \<circ> le_step) leased" by (rule claims_map) (simp add: claim_of_def)
  have dist: "distinct (map dc_stepId ?cs)" using leased_distinct[OF l projected_steps_distinct[OF j]] by (simp only: ids)
  have "list_all (\<lambda>(st, c). claimable p c \<and> dc_stepId c = ms_stepId st) ?xs"
  proof (clarsimp simp: list_all_iff set_zip claims_nth)
    fix k assume k: "k < length leased"
    then show "claimable p (claim_of createId k (leased ! k)) \<and> dc_stepId (claim_of createId k (leased ! k)) = ms_stepId (le_step (leased ! k))"
      using ok claims_nth[OF k, of createId] nth_mem[of k ?cs] by (simp add: list_all_iff claim_of_def)
  qed
  moreover have "gp_planId g = mp_planId p" "gp_revision g = mp_revision p" using j by (auto elim!: projectE)
  moreover have "map snd ?xs = ?cs" by simp
  ultimately obtain m where m: "foldR (applyPlanEvent (Some (di_parentRunId i))) (ss_ledger s)
      (concat (map (\<lambda>(st, c). claimEvents g st c) ?xs)) = Inr m" "pl_plan m = Some (foldl claim_one p ?cs)"
    using claims_apply[OF p, of g ?xs] dist fresh_claims_of[OF assms(6), of leased] inv(1)
    by (auto simp: session_inv_def ids_inv_def map_map[symmetric] simp del: map_map)
  have active: "ss_lifecycle s = L_open"
  proof -
    obtain r where "r \<in> set (sn_runs (sp_snapshot view))" "rn_state r = Run_running"
      using run by (auto simp: currentRunBudgetUsageV1_def split: option.splits if_splits dest!: find_Some_iff_member)
    then show ?thesis using inv(1) by (auto simp: v(4) snapshot_of_def session_inv_def runs_inv_def)
  qed
  have sid: "di_sessionId i = en_sessionId first" using assms(5) by (simp add: v(4) snapshot_of_def)
  have inj: "inj (\<lambda>index. createId ''entry'' (2 * length leased + 1 + index))"
  proof (rule injI)
    fix x y assume "createId ''entry'' (2 * length leased + 1 + x) = createId ''entry'' (2 * length leased + 1 + y)"
    then have "2 * length leased + 1 + x = 2 * length leased + 1 + y" using assms(6) unfolding fresh_ids_def by (blast dest: injD)
    then show "x = y" by simp
  qed
  have new: "createId ''entry'' k \<notin> set (ss_entryIds s)" for k using assms(6) by (simp add: fresh_ids_def)
  have "\<exists>t. foldR (applyEntry env (en_sessionId first)) s es = Inr t \<and> ss_ledger t = m"
    unfolding es claim_entries_def Let_def sid
    by (rule entries_apply[where n = 0 and pr = "Some (di_parentRunId i)"])
      (use m active inj new drafts_correlation[of i g leased ?cs] in
        \<open>auto simp: drafts_events v(4,5) snapshot_of_def catalog_of_def maxInstant_def\<close>)
  then obtain t where "foldR (applyEntry env (en_sessionId first)) s es = Inr t" "ss_ledger t = m" by blast
  moreover have "replaySession env (entries @ es) = foldR (applyEntry env (en_sessionId first)) s es"
    using assms(1,7) v(1-3) by (auto simp: replaySession_def foldR_append split: if_splits)
  ultimately show ?thesis using that p ok dist m(2) inv(2) by (simp add: dc steps_keyed_def)
qed

subsection \<open>Attempts run out\<close>

definition replans :: "plan_event \<Rightarrow> bool" where
  "replans event \<longleftrightarrow> (case event of Plan_created _ _ _ _ \<Rightarrow> True | Plan_revised _ _ _ _ _ _ \<Rightarrow> True | Step_created _ _ \<Rightarrow> True | _ \<Rightarrow> False)"

definition reserves :: "session_entry \<Rightarrow> bool" where
  "reserves e \<longleftrightarrow> (case en_data e of Plan_entry (Plan_attempt_created _ _ _ _ _) \<Rightarrow> True | _ \<Rightarrow> False)"

definition replans_entry :: "session_entry \<Rightarrow> bool" where
  "replans_entry e \<longleftrightarrow> (case en_data e of Plan_entry event \<Rightarrow> replans event | _ \<Rightarrow> False)"

lemma sum_update:
  "map_of al k = Some s \<Longrightarrow> f t + d = (f s :: nat) \<Longrightarrow> (\<Sum>(k, s)\<leftarrow>AList.update k t al. f s) + d = (\<Sum>(k, s)\<leftarrow>al. f s)"
  by (induction al) (auto split: if_splits)

lemma left_put_step:
  assumes "map_of (mp_steps p) k = Some s"
    and "ms_maxAttempts t - length (ms_attempts t) + d = ms_maxAttempts s - length (ms_attempts s)"
  shows "attempts_left (p\<lparr>mp_steps := AList.update k t (mp_steps p)\<rparr>) + d = attempts_left p"
  using sum_update[OF assms(1), of "\<lambda>s. ms_maxAttempts s - length (ms_attempts s)" t d] assms(2)
  by (simp add: attempts_left_def)

lemma left_put_attempt:
  assumes "requireAttemptRevision (Some p) auth i = Inr (q, s, a)"
  shows "attempts_left (q\<lparr>mp_steps := AList.update (sy_stepId auth) (s\<lparr>ms_attempts := AList.update i b (ms_attempts s)\<rparr>) (mp_steps q)\<rparr>)
    = attempts_left p"
  using assms left_put_step[where d = 0] by (auto simp: requireAttemptRevision_iff length_update_existing)

lemma event_attempts_left:
  assumes "applyPlanEvent pr l event = Inr l'" "\<not> replans event" "pl_plan l = Some p" "keys_used l"
  shows "\<exists>q. pl_plan l' = Some q \<and> attempts_left q
    + (case event of Plan_attempt_created _ _ _ _ _ \<Rightarrow> 1 | _ \<Rightarrow> 0) = attempts_left p"
proof (cases event)
  case (Plan_attempt_created auth i n st child)
  let ?a = "\<lparr>ma_attemptId = i, ma_ordinal = n, ma_state = st, ma_childRunId = child, ma_resultRef = None,
    ma_resultDigest = None, ma_resultStatus = None, ma_verificationRef = None, ma_errorCode = None, ma_execution = None,
    ma_verifications = []\<rparr>"
  obtain s where s: "map_of (mp_steps p) (sy_stepId auth) = Some s" "n = length (ms_attempts s) + 1" "n \<le> ms_maxAttempts s"
    and new: "''attempt'' @ '':'' @ i \<notin> set (pl_stableIds l)"
    and l': "pl_plan l' = Some (p\<lparr>mp_steps := AList.update (sy_stepId auth)
      (s\<lparr>ms_attempts := AList.update i ?a (ms_attempts s)\<rparr>) (mp_steps p)\<rparr>)"
    using assms(1,3) Plan_attempt_created by (cases child)
      (auto simp: applyPlanEvent_def on_attempt_created_def andThen_return_iff requireStepRevision_iff useStableId_iff
        transition_require_iff)
  have "i \<notin> fst ` set (ms_attempts s)"
    using new assms(3,4) attempt_ids_step[OF s(1)] by (auto simp: keys_used_def)
  then have "AList.update i ?a (ms_attempts s) = ms_attempts s @ [(i, ?a)]"
    by (intro update_fresh) (simp add: map_of_eq_None_iff)
  then show ?thesis using left_put_step[OF s(1), of "s\<lparr>ms_attempts := AList.update i ?a (ms_attempts s)\<rparr>" 1] s(2,3)
    by (simp add: l' Plan_attempt_created)
next
  case (Step_state_changed auth st reason new code)
  then show ?thesis using assms left_put_step[where d = 0]
    by (auto simp: applyPlanEvent_def on_step_state_changed_def Let_def andThen_return_iff requireStepRevision_iff)
next
  case (Attempt_execution_completed auth i status)
  then show ?thesis using assms left_put_attempt
    by (auto simp: applyPlanEvent_def on_execution_completed_def Let_def andThen_return_iff)
next
  case (Subagent_execution_bound auth i child b)
  then show ?thesis using assms left_put_attempt
    by (auto simp: applyPlanEvent_def on_execution_bound_def Let_def andThen_return_iff)
next
  case (Subagent_result_recorded auth i child ref digest status)
  then show ?thesis using assms left_put_attempt
    by (auto simp: applyPlanEvent_def on_result_recorded_def Let_def andThen_return_iff)
next
  case (Verification_recorded auth i v)
  then show ?thesis using assms left_put_attempt
    by (auto simp: applyPlanEvent_def on_verification_def Let_def andThen_return_iff useStableId_iff)
next
  case (Plan_attempt_state_changed auth i st code)
  then show ?thesis using assms left_put_attempt
    by (auto simp: applyPlanEvent_def on_attempt_state_changed_def Let_def andThen_return_iff)
next
  case (Plan_state_changed i r st)
  then show ?thesis using assms by (auto simp: applyPlanEvent_def on_plan_state_changed_def andThen_return_iff
      requirePlanRevision_iff attempts_left_def)
qed (use assms in \<open>auto simp: applyPlanEvent_def replans_def dest: plan_decision_same\<close>)

lemma entry_attempts_left:
  assumes "applyEntry env sid s e = Inr t" "session_inv s" "\<not> replans_entry e" "pl_plan (ss_ledger s) = Some p"
  shows "\<exists>q. pl_plan (ss_ledger t) = Some q \<and> attempts_left q + (if reserves e then 1 else 0) = attempts_left p"
proof -
  obtain u where h: "handleEntry env (s\<lparr>ss_entryIds := ss_entryIds s @ [en_entryId e]\<rparr>) e = Inr u"
    and t: "t = u\<lparr>ss_previous := e\<rparr>" using assms(1) by (rule applyEntryE)
  have k: "keys_used (ss_ledger s)" using assms(2) by (simp add: session_inv_def ids_inv_def)
  show ?thesis using handle_ledger[OF h]
  proof (elim disjE exE conjE)
    fix ev
    assume e: "en_data e = Plan_entry ev" and a: "applyPlanEvent (map_of (en_correlation e) ''parentRunId'')
      (ss_ledger (s\<lparr>ss_entryIds := ss_entryIds s @ [en_entryId e]\<rparr>)) ev = Inr (ss_ledger u)"
    have "(case ev of Plan_attempt_created _ _ _ _ _ \<Rightarrow> 1 | _ \<Rightarrow> 0) = (if reserves e then 1 else 0 :: nat)"
      by (simp add: reserves_def e split: plan_event.split)
    then show ?thesis using event_attempts_left[OF a, of p] assms(3,4) k by (simp add: e t replans_entry_def del: if_split)
  next
    assume "\<nexists>ev. en_data e = Plan_entry ev"
      and "ledger_kept (ss_ledger (s\<lparr>ss_entryIds := ss_entryIds s @ [en_entryId e]\<rparr>)) (ss_ledger u)"
    then show ?thesis using assms(4) by (auto simp: t ledger_kept_def reserves_def split: session_data.splits)
  qed
qed

lemma log_attempts_left:
  assumes "foldR (applyEntry env sid) s es = Inr t" "session_inv s" "\<not> list_ex replans_entry es" "pl_plan (ss_ledger s) = Some p"
  shows "\<exists>q. pl_plan (ss_ledger t) = Some q \<and> attempts_left q + length (filter reserves es) = attempts_left p"
  using assms
proof (induction es arbitrary: s p)
  case (Cons e es)
  obtain u where u: "applyEntry env sid s e = Inr u" "foldR (applyEntry env sid) u es = Inr t"
    using Cons.prems(1) by (auto simp: andThen_return_iff)
  obtain r where r: "pl_plan (ss_ledger u) = Some r" "attempts_left r + (if reserves e then 1 else 0) = attempts_left p"
    using entry_attempts_left[OF u(1) Cons.prems(2) _ Cons.prems(4)] Cons.prems(3) by auto
  have "session_inv u" using session_log.keeps Cons.prems(2) u(1) by blast
  then obtain q where "pl_plan (ss_ledger t) = Some q" "attempts_left q + length (filter reserves es) = attempts_left r"
    using Cons.IH[OF u(2) _ _ r(1)] Cons.prems(3) by auto
  then show ?case using r(2) by auto
qed simp

end
