(* ===== verification/DagProperties.thy ===== *)
theory DagProperties
  imports DagClaims SessionSamples
begin

section \<open>Properties of the DAG scheduler\<close>

text \<open>
  The claims about \<open>dagScheduler.ts\<close> and about its meeting with the Session reducer. The
  witnesses schedule the sample Session just after its Plan started, when its only step is ready.
\<close>

definition dag_ids :: "string \<Rightarrow> nat \<Rightarrow> string" where
  "dag_ids kind n = ''new-'' @ kind @ ''-'' @ nat_to_string n"

definition dag_sample_input :: dag_input where
  "dag_sample_input = \<lparr>di_sessionId = ''session'', di_parentRunId = ''run1'', di_planId = ''plan1'',
     di_parentBudget = \<lparr>eb_maxTurns = 10, eb_maxToolCalls = 3, eb_maxTokens = Some 100, eb_maxChildRuns = 4,
       eb_maxParallelChildren = 2, eb_maxDepth = 1, eb_deadlineAt = None\<rparr>, di_failureMode = Collect_partial\<rparr>"

definition dag_log :: "session_entry list" where
  "dag_log = take 5 sample_log"

definition dag_session :: "session_state" where
  "dag_session = (case replaySession sample_env dag_log of Inr s \<Rightarrow> s | Inl e \<Rightarrow> undefined)"

definition dag_view :: "session_projection" where
  "dag_view = (case reduceSessionEntriesV3 sample_env sample_le dag_log of Inr v \<Rightarrow> v | Inl e \<Rightarrow> undefined)"

definition dag_result :: "dag_decision \<times> session_entry list" where
  "dag_result = (case schedule (\<lambda>_. False) sample_le 2 dag_ids ''t'' ''t'' dag_sample_input dag_view of Inr r \<Rightarrow> r | Inl e \<Rightarrow> undefined)"

lemma dag_facts: "case replaySession sample_env dag_log of Inl e \<Rightarrow> False | Inr s \<Rightarrow>
  (case reduceSessionEntriesV3 sample_env sample_le dag_log of Inl e \<Rightarrow> False | Inr v \<Rightarrow>
  (case schedule (\<lambda>_. False) sample_le 2 dag_ids ''t'' ''t'' dag_sample_input v of Inl e \<Rightarrow> False | Inr (d, es) \<Rightarrow>
    dd_state d = DS_claimed \<and> map (eb_maxTurns \<circ> dc_budget) (dd_claims d) = [4] \<and> length es = 3
    \<and> sn_sessionId (sp_snapshot v) = ''session''
    \<and> list_all (\<lambda>i. hd i \<noteq> CHR ''n'') (ss_entryIds s)
    \<and> list_all (\<lambda>i. \<forall>k \<in> set [''attempt:'', ''child-run:'']. take (length k) i \<noteq> k) (pl_stableIds (ss_ledger s))))"
  by code_simp

lemma dag_replays: "replaySession sample_env dag_log = Inr dag_session"
  using dag_facts by (cases "replaySession sample_env dag_log") (simp_all add: dag_session_def)

lemma dag_view_is: "reduceSessionEntriesV3 sample_env sample_le dag_log = Inr dag_view"
  using dag_facts by (cases "reduceSessionEntriesV3 sample_env sample_le dag_log") (simp_all add: dag_view_def dag_replays)

lemma dag_schedules:
  "schedule (\<lambda>_. False) sample_le 2 dag_ids ''t'' ''t'' dag_sample_input dag_view = Inr (fst dag_result, snd dag_result)"
  using dag_facts by (cases "schedule (\<lambda>_. False) sample_le 2 dag_ids ''t'' ''t'' dag_sample_input dag_view")
    (simp_all add: dag_result_def dag_replays dag_view_is)

lemma dag_claimed: "dd_state (fst dag_result) = DS_claimed" "map (eb_maxTurns \<circ> dc_budget) (dd_claims (fst dag_result)) = [4]"
  "length (snd dag_result) = 3" "di_sessionId dag_sample_input = sn_sessionId (sp_snapshot dag_view)"
proof -
  have "di_sessionId dag_sample_input = ''session''" by (simp add: dag_sample_input_def)
  then show "dd_state (fst dag_result) = DS_claimed" "map (eb_maxTurns \<circ> dc_budget) (dd_claims (fst dag_result)) = [4]"
    "length (snd dag_result) = 3" "di_sessionId dag_sample_input = sn_sessionId (sp_snapshot dag_view)"
    using dag_facts by (simp_all add: dag_replays dag_view_is dag_schedules case_prod_beta)
qed


subsection \<open>Claims\<close>

text \<open>C26: A batch is claimed only while the Plan runs and nothing of it is active; the claimed steps
  are ready, different and before their deadline, and no two of them share a conflict key.\<close>

theorem dag_claims_safe:
  fixes view :: "session_projection"
  assumes "reduceSessionEntriesV3 env le entries = Inr view"
    and "schedule host_date le' n createId now claimedAt i view = Inr (d, es)" and "dd_state d = DS_claimed"
  shows "\<exists>plan steps. sp_planGraph view = Some plan \<and> gp_state plan = P_running
    \<and> (\<forall>s \<in> set (gp_steps plan). \<not> active_step s \<and> \<not> list_ex active_child (map snd (ms_attempts s)))
    \<and> steps \<noteq> [] \<and> map ms_stepId steps = map dc_stepId (dd_claims d) \<and> distinct (map dc_stepId (dd_claims d))
    \<and> (\<forall>s \<in> set steps. s \<in> set (gp_steps plan) \<and> ms_stepId s \<in> set (gp_readyStepIds plan)
        \<and> \<not> deadlineReached (eb_deadlineAt (ms_budget s)) now)
    \<and> sorted_wrt keys_disjoint steps"
proof -
  obtain plan usage leased where p: "sp_planGraph view = Some plan" "gp_state plan = P_running"
    and idle: "cc_activeSteps (countCapacity plan) = 0" "cc_activeChildSlots (countCapacity plan) = 0"
    and l: "leased = allocateBudgetLeases (select_loop (free_capacity n i plan) [] (live_ready le' plan now) [])
      (remaining_of i usage plan)" "leased \<noteq> []" and d: "d = claim_decision createId view leased (countCapacity plan)"
    using assms(2,3) by (rule schedule_claimedE)
  have dist: "distinct (map ms_stepId (gp_steps plan))" by (rule view_steps_distinct[OF assms(1) p(1)])
  have ids: "map dc_stepId (dd_claims d) = map (ms_stepId \<circ> le_step) leased"
    unfolding d claim_decision_def Let_def dag_decision.simps by (rule claims_map) (simp add: claim_of_def)
  show ?thesis
  proof (intro exI conjI)
    show "sp_planGraph view = Some plan" "gp_state plan = P_running" by fact+
    show "\<forall>s \<in> set (gp_steps plan). \<not> active_step s \<and> \<not> list_ex active_child (map snd (ms_attempts s))"
      using idle by (rule nothing_active)
    show "map le_step leased \<noteq> []" "map ms_stepId (map le_step leased) = map dc_stepId (dd_claims d)"
      "distinct (map dc_stepId (dd_claims d))"
      using l(2) ids leased_distinct[OF l(1) dist] by simp_all
    show "\<forall>s \<in> set (map le_step leased). s \<in> set (gp_steps plan) \<and> ms_stepId s \<in> set (gp_readyStepIds plan)
        \<and> \<not> deadlineReached (eb_deadlineAt (ms_budget s)) now"
      using leased_step[OF l(1)] by simp
    show "sorted_wrt keys_disjoint (map le_step leased)" by (rule leased_free(1)[OF l(1)])
  qed
qed

theorem dag_claims_safe_witness:
  "distinct (map dc_stepId (dd_claims (fst dag_result))) \<and> (\<exists>plan. sp_planGraph dag_view = Some plan \<and> gp_state plan = P_running)"
  using dag_claims_safe[OF dag_view_is dag_schedules dag_claimed(1)] by blast



text \<open>When at most as many turns are left as steps are leased, every step still gets a turn: a
  batch then leases as many turns as it has steps, which can exceed what the Run has left.\<close>

theorem dag_leases_can_exceed:
  assumes "hasMinimumExecutionBudget available" and "eb_maxTurns available \<le> length steps"
    and "list_all (\<lambda>s. 1 \<le> eb_maxTurns (ms_budget s)) steps"
  shows "(\<Sum>l\<leftarrow>allocateBudgetLeases steps available. eb_maxTurns (le_budget l)) = length steps"
  using assms leases_scarce[OF assms(2,3)] by (simp add: allocateBudgetLeases_def)

theorem dag_leases_can_exceed_witness:
  "(\<Sum>l\<leftarrow>allocateBudgetLeases [sample_step_data, sample_step_data] ((ms_budget sample_step_data)\<lparr>eb_maxTurns := 1\<rparr>).
     eb_maxTurns (le_budget l)) = 2"
  using dag_leases_can_exceed[of "(ms_budget sample_step_data)\<lparr>eb_maxTurns := 1\<rparr>" "[sample_step_data, sample_step_data]"]
  by (simp add: hasMinimumExecutionBudget_def sample_step_data_def)

subsection \<open>Progress\<close>

text \<open>C28: On a running Plan the scheduler fails to claim only for a reason: work is active, the mode
  stops on a failed, blocked or expired step, no ready step is before its deadline, a capacity is
  used up, the Run has no turn or token left, or the first such step has a budget without turns.\<close>

theorem dag_progress:
  fixes view :: "session_projection"
  assumes "schedule host_date le n createId now claimedAt i view = Inr (d, es)" and "dd_state d \<noteq> DS_claimed"
    and "sp_planGraph view = Some plan" and "gp_state plan = P_running"
    and "currentRunBudgetUsageV1 view (di_parentRunId i) = Inr usage"
  shows "list_ex active_step (gp_steps plan) \<or> list_ex (\<lambda>s. list_ex active_child (map snd (ms_attempts s))) (gp_steps plan)
    \<or> (di_failureMode i = Fail_fast \<and> (list_ex (\<lambda>s. ms_state s \<in> {S_failed, S_interrupted, S_blocked}) (gp_steps plan)
        \<or> list_ex (\<lambda>s. deadlineReached (eb_deadlineAt (ms_budget s)) now) (orderedReady le plan)))
    \<or> live_ready le plan now = [] \<or> free_capacity n i plan = 0
    \<or> \<not> hasMinimumExecutionBudget (remaining_of i usage plan)
    \<or> eb_maxTurns (ms_budget (hd (live_ready le plan now))) = 0"
proof (rule ccontr)
  assume c: "\<not> ?thesis"
  have "\<not> active_child a" if "s \<in> set (gp_steps plan)" "x \<in> set (ms_attempts s)" "x = (k, a)" for s x k a
    using c that by (fastforce simp: list_ex_iff)
  then have idle: "cc_activeSteps (countCapacity plan) = 0" "cc_activeChildSlots (countCapacity plan) = 0"
    using c by (auto simp: countCapacity_def filter_empty_conv list_ex_iff sum_list_eq_0_iff)
  let ?sel = "select_loop (free_capacity n i plan) [] (live_ready le plan now) []"
  have hd: "?sel \<noteq> [] \<and> hd ?sel = hd (live_ready le plan now)"
    using c by (cases "live_ready le plan now") (auto simp: select_loop_Cons simp del: select_loop.simps)
  then have some: "batch n i plan (countCapacity plan) now (orderedReady le plan) (remaining_of i usage plan) \<noteq> []"
    unfolding idle_batch[OF idle] using c leases_nonempty[of ?sel] by (simp add: allocateBudgetLeases_def)
  have mode: "di_failureMode i = Collect_partial \<or> (List.find (\<lambda>s. ms_state s \<in> {S_failed, S_interrupted}) (gp_steps plan) = None
      \<and> \<not> list_ex (\<lambda>s. ms_state s = S_blocked) (gp_steps plan)
      \<and> filter (\<lambda>s. deadlineReached (eb_deadlineAt (ms_budget s)) now) (orderedReady le plan) = [])"
    using c by (cases "di_failureMode i") (auto simp: list_ex_iff find_None_iff filter_empty_conv)
  obtain u where u: "requireProjectedPlan view (di_planId i) = Inr u"
    using assms(1) by (auto simp: schedule_def andThen_return_iff)
  then have "requireProjectedPlan view (di_planId i) = Inr plan"
    using assms(3) by (auto simp: requireProjectedPlan_def split: option.splits if_splits)
  then have "dd_state d = DS_claimed"
    using assms(1,4,5) mode idle some by (auto simp: schedule_def andThen_return_iff Let_def claim_decision_def
        remaining_of_def split: if_splits)
  then show False using assms(2) by blast
qed

definition dag_spent_input :: dag_input where
  "dag_spent_input = dag_sample_input\<lparr>di_parentBudget := (di_parentBudget dag_sample_input)\<lparr>eb_maxTurns := 0\<rparr>\<rparr>"

lemma dag_spent_facts: "case reduceSessionEntriesV3 sample_env sample_le dag_log of Inl e \<Rightarrow> False | Inr v \<Rightarrow>
  (case schedule (\<lambda>_. False) sample_le 2 dag_ids ''t'' ''t'' dag_spent_input v of Inl e \<Rightarrow> False | Inr (d, es) \<Rightarrow>
    dd_state d = DS_budget_exhausted \<and> is_ok (currentRunBudgetUsageV1 v (di_parentRunId dag_spent_input))
    \<and> (case sp_planGraph v of None \<Rightarrow> False | Some plan \<Rightarrow> gp_state plan = P_running
      \<and> \<not> list_ex active_step (gp_steps plan) \<and> \<not> list_ex (\<lambda>s. list_ex active_child (map snd (ms_attempts s))) (gp_steps plan)
      \<and> live_ready sample_le plan ''t'' \<noteq> [] \<and> free_capacity 2 dag_spent_input plan \<noteq> 0
      \<and> eb_maxTurns (ms_budget (hd (live_ready sample_le plan ''t''))) \<noteq> 0 \<and> di_failureMode dag_spent_input \<noteq> Fail_fast))"
  by code_simp

theorem dag_progress_witness:
  "\<exists>plan usage. sp_planGraph dag_view = Some plan \<and> \<not> hasMinimumExecutionBudget (remaining_of dag_spent_input usage plan)"
proof -
  obtain d es where s: "schedule (\<lambda>_. False) sample_le 2 dag_ids ''t'' ''t'' dag_spent_input dag_view = Inr (d, es)"
    "dd_state d \<noteq> DS_claimed" and ok: "is_ok (currentRunBudgetUsageV1 dag_view (di_parentRunId dag_spent_input))"
    using dag_spent_facts by (auto simp: dag_view_is split: sum.splits prod.splits)
  obtain usage where usage: "currentRunBudgetUsageV1 dag_view (di_parentRunId dag_spent_input) = Inr usage"
    using ok by (auto simp: is_ok_iff)
  obtain plan where p: "sp_planGraph dag_view = Some plan" "gp_state plan = P_running"
    "\<not> list_ex active_step (gp_steps plan)" "\<not> list_ex (\<lambda>s. list_ex active_child (map snd (ms_attempts s))) (gp_steps plan)"
    "live_ready sample_le plan ''t'' \<noteq> []" "free_capacity 2 dag_spent_input plan \<noteq> 0"
    "eb_maxTurns (ms_budget (hd (live_ready sample_le plan ''t''))) \<noteq> 0" "di_failureMode dag_spent_input \<noteq> Fail_fast"
    using dag_spent_facts by (simp only: dag_view_is s(1) sum.case prod.case) (simp split: option.splits)
  show ?thesis using dag_progress[OF s p(1,2) usage] p by blast
qed

subsection \<open>The scheduler and the reducer\<close>



subsection \<open>Attempts run out\<close>

text \<open>C30: While a Plan keeps its steps, whatever entries follow, the attempts they create are exactly
  the attempts the Plan loses: retries and claims end after at most \<open>attempts_left\<close> attempts.\<close>

theorem session_attempts_terminate:
  fixes t :: "session_state"
  assumes "replaySession env entries = Inr s" and "pl_plan (ss_ledger s) = Some p"
    and "replaySession env (entries @ later) = Inr t" and "\<not> list_ex replans_entry later"
  shows "\<exists>q. pl_plan (ss_ledger t) = Some q \<and> attempts_left q + length (filter reserves later) = attempts_left p"
proof -
  obtain first rest d where e: "entries = first # rest" "en_data first = Session_created d"
    "foldR (applyEntry env (en_sessionId first)) (initialSession first d) rest = Inr s" using assms(1) by (rule replayE)
  have "foldR (applyEntry env (en_sessionId first)) s later = Inr t"
    using assms(3) e by (auto simp: replaySession_def foldR_append split: if_splits)
  then show ?thesis using log_attempts_left replay_inv[OF assms(1)] assms(2,4) by blast
qed

lemma sample_later: "take 5 sample_log @ drop 5 sample_log = sample_log \<and> \<not> list_ex replans_entry (drop 5 sample_log)
  \<and> length (filter reserves (drop 5 sample_log)) = 1 \<and> (case replaySession sample_env dag_log of Inl e \<Rightarrow> False
    | Inr s \<Rightarrow> pl_plan (ss_ledger s) \<noteq> None) \<and> is_ok (replaySession sample_env (dag_log @ drop 5 sample_log))"
  by code_simp

theorem session_attempts_terminate_witness:
  "\<exists>p q. attempts_left q + length (filter reserves (drop 5 sample_log)) = attempts_left p"
proof -
  obtain p t where "pl_plan (ss_ledger dag_session) = Some p" "replaySession sample_env (dag_log @ drop 5 sample_log) = Inr t"
    using sample_later by (auto simp: dag_replays is_ok_iff)
  from session_attempts_terminate[OF dag_replays this] show ?thesis using sample_later by blast
qed

end
