(* ===== verification/ReviewPlanFacts.thy ===== *)
theory ReviewPlanFacts
  imports ReviewPlanEvents
begin

section \<open>Facts about review Plans\<close>

text \<open>
  Reads after writes on records, what validated input cannot contain, and the elimination rules
  of the events. \<open>items_all\<close> lifts a property of items to Plans: every event changes at most one
  item, so a property is kept when the item it writes back has it.
\<close>

subsection \<open>Records\<close>

lemma getProp_setProp: "getProp (setProp ps k v) j = (if j = k then v else getProp ps j)"
  by (simp add: getProp_def setProp_def)

lemma getProp_delProp: "getProp (delProp ps k) j = (if j = k then JUndef else getProp ps j)"
  by (simp add: getProp_def delProp_def AList.delete_conv')

lemma spread_simps: "spread ps [] = ps" "spread ps ((k, v) # qs) = spread (setProp ps k v) qs"
    "spread ps (qs @ rs) = spread (spread ps qs) rs"
  by (simp_all add: spread_def)

lemma getProp_optProp: "getProp (optProp k v) j = (if j = k then v else JUndef)"
  by (simp add: optProp_def getProp_Cons)

lemma hasOwn_optProp: "hasOwn (optProp k v) j \<longleftrightarrow> j = k \<and> v \<noteq> JUndef"
  by (simp add: optProp_def hasOwn_Cons)

lemma member_JObj [simp]: "member (JObj r) k = getProp r k"
  by (simp add: member_def)

lemma member_undef [simp]: "member JUndef k = JUndef"
  by (simp add: member_def)

lemmas prop_simps = getProp_setProp getProp_delProp spread_simps

lemma onlyKeys_undef: "onlyKeys r required optionals \<Longrightarrow> k \<notin> set required \<Longrightarrow> k \<notin> set optionals \<Longrightarrow> getProp r k = JUndef"
  by (force simp: onlyKeys_def getProp_def list_all_iff dest: map_of_SomeD split: option.splits)

subsection \<open>Items\<close>

lemma plan_items_set: "plan_items (setProp plan k v) = (if k = ''items'' then the_array v else plan_items plan)"
  by (simp add: plan_items_def getProp_setProp)

lemma plan_items_del: "k \<noteq> ''items'' \<Longrightarrow> plan_items (delProp plan k) = plan_items plan"
  by (simp add: plan_items_def getProp_delProp)

lemma plan_items_put: "plan_items (put_item plan k item) =
    map_first (\<lambda>candidate. member candidate ''id'' = k) (\<lambda>_. JObj item) (plan_items plan)"
  by (simp add: put_item_def plan_items_set)

lemma getProp_put: "j \<noteq> ''items'' \<Longrightarrow> getProp (put_item plan k item) j = getProp plan j"
  by (simp add: put_item_def getProp_setProp)

lemma plan_items_focus [simp]: "plan_items (delete_focus plan a) = plan_items plan"
  by (simp add: delete_focus_def plan_items_del)

lemma getProp_focus: "j \<noteq> ''focusedRootAttemptId'' \<Longrightarrow> getProp (delete_focus plan a) j = getProp plan j"
  by (simp add: delete_focus_def getProp_delProp)

lemmas item_simps = plan_items_set plan_items_del plan_items_put getProp_put getProp_focus

lemma in_map_first: "y \<in> set (map_first P (\<lambda>_. x) xs) \<Longrightarrow> y = x \<or> y \<in> set xs"
  by (induction xs) (auto split: if_splits)

definition items_all :: "(js_record \<Rightarrow> bool) \<Rightarrow> js_record \<Rightarrow> bool" where
  "items_all P plan \<longleftrightarrow> (\<forall>i \<in> set (plan_items plan). P (the_record i))"

lemma items_all_put: "items_all P plan \<Longrightarrow> P item \<Longrightarrow> items_all P (put_item plan k item)"
  by (auto simp: items_all_def plan_items_put dest!: in_map_first)

lemma items_all_set [simp]: "k \<noteq> ''items'' \<Longrightarrow> items_all P (setProp plan k v) = items_all P plan"
  by (simp add: items_all_def plan_items_set)

lemma items_all_del [simp]: "k \<noteq> ''items'' \<Longrightarrow> items_all P (delProp plan k) = items_all P plan"
  by (simp add: items_all_def plan_items_del)

lemma items_all_focus [simp]: "items_all P (delete_focus plan a) = items_all P plan"
  by (simp add: items_all_def)

lemma mutableItemE:
  assumes "mutableItem plan k = Inr item"
  obtains v where "v \<in> set (plan_items plan)" "item = the_record v" "getProp item ''id'' = k"
  using assms by (auto simp: mutableItem_def member_def dest!: find_Some_iff_member split: option.splits)

lemma mutableItem_all: "mutableItem plan k = Inr item \<Longrightarrow> items_all P plan \<Longrightarrow> P item"
  by (erule mutableItemE) (simp add: items_all_def)

lemma requireAttemptE:
  assumes "requireAttempt item k = Inr attempt"
  obtains "getProp item ''currentAttempt'' \<noteq> JUndef" "attempt = the_record (getProp item ''currentAttempt'')"
    "getProp attempt ''itemAttemptId'' = k"
  using assms by (auto simp: requireAttempt_def member_def split: if_splits)

lemma item_attempt_iff [result_iff]: "item_attempt plan k a = Inr (item, attempt) \<longleftrightarrow>
    mutableItem plan k = Inr item \<and> requireAttempt item a = Inr attempt"
  by (auto simp: item_attempt_def result_iff)

lemma review_require_iff [result_iff]: "review_require c = Inr u \<longleftrightarrow> c"
  by (simp add: review_require_def result_iff)

lemma validate_block_iff [result_iff]: "validateReviewPlanBlockV1 h v = Inr w \<longleftrightarrow> validateBlock h v \<and> w = v"
  by (auto simp: validateReviewPlanBlockV1_def)

lemma validate_prepared_iff [result_iff]: "validatePreparedReviewRefV1 v = Inr w \<longleftrightarrow> validatePreparedReview v \<and> w = v"
  by (auto simp: validatePreparedReviewRefV1_def)

lemma validate_decision_iff [result_iff]: "validateReviewDecisionRefV1 v = Inr w \<longleftrightarrow> validateDecisionRef v \<and> w = v"
  by (auto simp: validateReviewDecisionRefV1_def)

lemma assign_block_getProp: "assign_block h target b = Inr t \<Longrightarrow> \<forall>k. k \<noteq> ''block'' \<longrightarrow> getProp t k = getProp target k"
  by (auto simp: assign_block_def result_iff getProp_delProp getProp_setProp split: if_splits)

lemma appendUnique_iff [result_iff]: "appendUnique values v = Inr w \<longleftrightarrow> v \<notin> set (the_array values) \<and> w = JArr (the_array values @ [v])"
  by (auto simp: appendUnique_def)

lemma requirePreparedE:
  assumes "requirePrepared plan k = Inr prepared"
  obtains v where "v \<noteq> JUndef" "prepared = the_record v" "getProp prepared ''preparedReviewId'' = k"
    "v = getProp plan ''finalPreparedReview'' \<or> (\<exists>i \<in> set (plan_items plan). v = member i ''preparedReview'')"
  using assms by (auto simp: requirePrepared_def Let_def or_default_def member_def dest!: find_Some_iff_member
      split: if_splits option.splits)

subsection \<open>Created and revised items\<close>

lemma create_inputE:
  assumes "validatePlanCreateInputV1 v = Inr d"
  obtains items where "member d ''items'' = JArr items" "list_all validateItemDefinition items"
    "distinct (map (\<lambda>i. member i ''id'') items)"
  using assms by (auto simp: validatePlanCreateInputV1_def Let_def getProp_Cons member_def split: if_splits)

lemma definition_keys:
  assumes "validateItemDefinition v" "k \<notin> {''id'', ''title'', ''criterionIds'', ''reviewCheckpoint''}"
  shows "getProp (the_record v) k = JUndef"
  using assms by (auto simp: validateItemDefinition_def Let_def intro: onlyKeys_undef)

lemma fresh_item_props:
  assumes "validateItemDefinition v"
  shows "getProp (the_record (fresh_item v n)) k = (if k = ''order'' then jnat n else if k = ''state'' then JStr ''pending''
    else if k = ''attemptCount'' then jnat 0 else if k = ''taskRefs'' then JArr [] else if k = ''evidenceRefs'' then JArr []
    else if k \<in> {''id'', ''title'', ''criterionIds'', ''reviewCheckpoint''} then member v k else JUndef)"
  using definition_keys[OF assms, of k] by (auto simp: fresh_item_def prop_simps member_def)

lemma revised_item_cases:
  assumes "validateItemDefinition v"
  obtains "revised_item prior v n = fresh_item v n"
  | i where "i \<in> set prior" "member i ''id'' = member v ''id''" "member i ''state'' = JStr ''accepted''"
    "\<And>k. k \<notin> {''order'', ''currentAttempt''} \<Longrightarrow> getProp (the_record (revised_item prior v n)) k = member i k"
proof (cases "revised_item prior v n = fresh_item v n")
  case False
  then obtain i where i: "List.find (\<lambda>item. member item ''id'' = member v ''id'') prior = Some i" "member i ''state'' = JStr ''accepted''"
    and r: "revised_item prior v n = JObj (spread (delProp (the_record i) ''currentAttempt'')
      ([(''order'', jnat n), (''taskRefs'', member i ''taskRefs''), (''evidenceRefs'', member i ''evidenceRefs'')]
        @ carried_attempt (member i ''currentAttempt'')))"
    by (auto simp: revised_item_def split: option.splits if_splits)
  have m: "i \<in> set prior" "member i ''id'' = member v ''id''" using i(1) by (auto dest!: find_Some_iff_member)
  have "getProp (the_record (revised_item prior v n)) k = member i k" if "k \<notin> {''order'', ''currentAttempt''}" for k
    using that by (auto simp: r prop_simps carried_attempt_def member_def)
  then show ?thesis using that(2)[OF m i(2)] by blast
qed (rule that(1))

lemma enumerate_member: "(n, x) \<in> set (enumerate k xs) \<Longrightarrow> x \<in> set xs"
  by (auto simp: enumerate_eq_zip dest: set_zip_rightD)

lemma map_enumerate: "map (\<lambda>(n, x). f x) (enumerate k xs) = map f xs"
  by (induction xs arbitrary: k) auto

lemma created_planE:
  assumes "on_review_created d current data = Inr plan"
  obtains items where "list_all validateItemDefinition items" "distinct (map (\<lambda>i. member i ''id'') items)"
    "plan_items plan = map (\<lambda>(order, item). fresh_item item order) (enumerate 0 items)"
    "getProp plan ''revision'' = jnat 1" "getProp plan ''state'' = JStr ''active''" "getProp plan ''finalPreparedReview'' = JUndef"
    "getProp plan ''attemptCount'' = jnat 0" "getProp plan ''replanCount'' = jnat 0" "getProp plan ''noProgressCount'' = jnat 0"
proof -
  obtain defn policy digest criteria where defn: "validatePlanCreateInputV1 (getProp data ''input'') = Inr defn"
    and plan: "plan = [(''schemaVersion'', jnat 1), (''planId'', getProp data ''planId''), (''revision'', jnat 1),
       (''objective'', member defn ''objective''), (''objectiveDigest'', JStr digest)]
       @ optProp ''taskContract'' (getProp data ''taskContract'')
       @ [(''state'', JStr ''active''), (''policy'', policy), (''criteria'', JArr criteria),
          (''items'', JArr (map (\<lambda>(order, item). fresh_item item order) (enumerate 0 (the_array (member defn ''items''))))),
          (''attemptCount'', jnat 0), (''replanCount'', jnat 0), (''noProgressCount'', jnat 0)]"
    using assms unfolding on_review_created_def Let_def andThen_return_iff by auto
  obtain items where items: "member defn ''items'' = JArr items" "list_all validateItemDefinition items"
    "distinct (map (\<lambda>i. member i ''id'') items)" using create_inputE[OF defn] by blast
  show thesis using items
    by (intro that[of items]) (simp_all add: plan plan_items_def getProp_append getProp_Cons hasOwn_Cons getProp_optProp hasOwn_optProp)
qed

lemma revised_planE:
  assumes "on_review_revised d plan data = Inr plan'"
  obtains items where "list_all validateItemDefinition items" "distinct (map (\<lambda>i. member i ''id'') items)"
    "plan_items plan' = map (\<lambda>(order, item). revised_item (plan_items plan) item order) (enumerate 0 items)"
    "getProp plan' ''revision'' = js_inc (getProp plan ''revision'')" "getProp plan' ''state'' = JStr ''active''"
    "getProp plan' ''finalPreparedReview'' = JUndef" "getProp plan' ''attemptCount'' = getProp plan ''attemptCount''"
    "getProp plan' ''replanCount'' = js_inc (getProp plan ''replanCount'')"
    "getProp plan' ''noProgressCount'' = getProp plan ''noProgressCount''"
proof -
  obtain defn policy digest criteria where defn: "validatePlanCreateInputV1 (getProp data ''input'') = Inr defn"
    and revision: "getProp data ''planRevision'' = js_inc (getProp plan ''revision'')"
    and plan': "plan' = delProp (delProp (spread plan [(''revision'', getProp data ''planRevision''), (''objective'', member defn ''objective''),
       (''objectiveDigest'', JStr digest), (''policy'', policy), (''criteria'', JArr criteria),
       (''items'', JArr (map (\<lambda>(order, item). revised_item (plan_items plan) item order) (enumerate 0 (the_array (member defn ''items''))))),
       (''replanCount'', js_inc (getProp plan ''replanCount'')), (''state'', JStr ''active'')]) ''block'') ''finalPreparedReview''"
    using assms unfolding on_review_revised_def Let_def andThen_return_iff review_require_iff by auto
  obtain items where items: "member defn ''items'' = JArr items" "list_all validateItemDefinition items"
    "distinct (map (\<lambda>i. member i ''id'') items)" using create_inputE[OF defn] by blast
  show thesis using items revision by (intro that[of items]) (simp_all add: plan' plan_items_def prop_simps)
qed

end
