(* ===== verification/ReviewPlanHistory.thy ===== *)
theory ReviewPlanHistory
  imports ReviewPlanFacts SessionInvariants
begin

section \<open>The history of a review Plan\<close>

text \<open>
  The review Plan of a Session is the fold of its reducer over the review Plan entries of the
  log, the \<open>review_log\<close>. The locale \<open>review_invariant\<close> is the interface between a property of
  one event and a property of every log: what holds of a created Plan, is kept by every event
  and does not read the criteria holds of the Plan of every Session that replays.

  Two instances: every prepared review of the Plan was prepared by an earlier entry and every
  accepted item and completed Plan by an accepted decision about such a review
  (\<open>plan_reviewed\<close>), and the counters of the Plan agree with its items (\<open>counts_inv\<close>).
\<close>

type_synonym review_history = "(string \<times> js_value) list"

definition review_log :: "session_entry list \<Rightarrow> review_history" where
  "review_log entries = concat (map (\<lambda>e. case en_data e of Review_plan_entry type data \<Rightarrow> [(type, data)] | _ \<Rightarrow> []) entries)"

definition plan_ok :: "(string \<Rightarrow> bool) \<Rightarrow> (string \<Rightarrow> string) \<Rightarrow> js_record \<Rightarrow> bool" where
  "plan_ok host_date sha256 plan \<longleftrightarrow> (\<exists>criteria. plan_fields_ok host_date sha256 plan criteria)"

lemma plan_ok_criteria [simp]: "plan_ok h d (setProp plan ''criteria'' v) = plan_ok h d plan"
  by (simp add: plan_ok_def plan_fields_ok_def getProp_setProp Let_def)

lemma plan_ok_items:
  assumes "plan_ok h d plan"
  shows "list_all (validateItemProjection h) (plan_items plan)" "distinct (map (\<lambda>i. member i ''id'') (plan_items plan))"
  using assms by (auto simp: plan_ok_def plan_fields_ok_def plan_items_def Let_def)

lemma validate_planE:
  assumes "validateReviewPlanProjectionV1 h d (JObj plan) = Inr v"
  obtains criteria where "the_record v = setProp plan ''criteria'' criteria" "plan_ok h d plan"
  using assms by (fastforce simp: validateReviewPlanProjectionV1_def Let_def plan_ok_def split: if_splits option.splits)

lemma reduceE:
  assumes "reduceReviewPlanEventV1 h d current event = Inr plan'"
  obtains (created) plan criteria where "on_review_created d current (the_record (re_data event)) = Inr plan"
      "re_type event = ''review_plan.created''" "plan' = setProp plan ''criteria'' criteria" "plan_ok h d plan"
  | (changed) plan next' criteria where "current = Some plan" "re_type event \<noteq> ''review_plan.created''"
      "applyReviewPlanEvent h d plan (re_type event) (the_record (re_data event)) = Inr next'"
      "plan' = setProp next' ''criteria'' criteria" "plan_ok h d next'"
proof -
  from assms obtain next' v where valid: "validateReviewPlanProjectionV1 h d (JObj next') = Inr v" "plan' = the_record v"
    and cases': "(if re_type event = ''review_plan.created'' then on_review_created d current (the_record (re_data event))
       else andThen (requireCurrent current (getProp (the_record (re_data event)) ''planId'')
         (getProp (the_record (re_data event)) ''planRevision'') (re_type event)) (\<lambda>plan.
         applyReviewPlanEvent h d plan (re_type event) (the_record (re_data event)))) = Inr next'"
    by (auto simp: reduceReviewPlanEventV1_def validateReviewPlanEventV1_def andThen_return_iff split: if_splits)
  obtain criteria where c: "plan' = setProp next' ''criteria'' criteria" "plan_ok h d next'"
    using validate_planE[OF valid(1)] valid(2) by metis
  show thesis
  proof (cases "re_type event = ''review_plan.created''")
    case True
    then show thesis using created cases' c by simp
  next
    case False
    then obtain plan where "requireCurrent current (getProp (the_record (re_data event)) ''planId'')
         (getProp (the_record (re_data event)) ''planRevision'') (re_type event) = Inr plan"
      "applyReviewPlanEvent h d plan (re_type event) (the_record (re_data event)) = Inr next'"
      using cases' by (auto simp: andThen_return_iff)
    moreover from this(1) have "current = Some plan" by (auto simp: requireCurrent_def split: option.splits if_splits)
    ultimately show thesis using changed False c by simp
  qed
qed

text \<open>An entry of the Session leaves the review Plan or is an event of it.\<close>

lemma handle_review:
  assumes "handleEntry env s e = Inr t"
  obtains (kept) "ss_reviewPlan t = ss_reviewPlan s" "review_log [e] = []"
  | (event) type data plan where "en_data e = Review_plan_entry type data" "ss_reviewPlan t = Some plan"
      "reduceReviewPlanEventV1 (se_hostDate env) (se_sha256 env) (ss_reviewPlan s) \<lparr>re_type = type,
         re_sequence = en_sequence e, re_revision = en_revision e, re_runId = en_runId e, re_correlation = JUndef, re_data = data\<rparr>
         = Inr plan"
proof (cases "en_data e")
  case (Review_plan_entry type data)
  then show ?thesis using assms event by (auto simp: handleEntry_def handler_iffs)
qed (rule kept, use assms in \<open>auto simp: handleEntry_def handler_defs handler_iffs Let_def review_log_def
      split: option.splits if_splits\<close>)+

subsection \<open>Invariants of review Plans\<close>

locale review_invariant =
  fixes inv :: "review_history \<Rightarrow> js_record \<Rightarrow> bool"
  assumes on_created: "on_review_created d current (the_record v) = Inr plan \<Longrightarrow> inv [(''review_plan.created'', v)] plan"
    and on_changed: "inv hist plan \<Longrightarrow> plan_ok h d plan
      \<Longrightarrow> applyReviewPlanEvent h d plan type (the_record v) = Inr next' \<Longrightarrow> inv (hist @ [(type, v)]) next'"
    and criteria: "inv hist (setProp plan ''criteria'' v) = inv hist plan"
begin

lemma reduce:
  assumes "reduceReviewPlanEventV1 h d current event = Inr plan'"
    and "\<And>plan. current = Some plan \<Longrightarrow> inv hist plan \<and> plan_ok h d plan" "current = None \<Longrightarrow> hist = []"
  shows "inv (hist @ [(re_type event, re_data event)]) plan' \<and> plan_ok h d plan'"
  using assms(1)
proof (cases rule: reduceE)
  case (created plan criteria')
  then have "current = None" by (auto simp: on_review_created_def andThen_return_iff review_require_iff)
  then show ?thesis using created on_created[of d None "re_data event" plan] assms(3) criteria by simp
next
  case (changed plan next' criteria')
  then show ?thesis using assms(2) on_changed[of hist plan h d] criteria by simp
qed

lemma replay_some:
  assumes "replaySession env entries = Inr s"
  shows "case ss_reviewPlan s of None \<Rightarrow> review_log entries = []
    | Some plan \<Rightarrow> inv (review_log entries) plan \<and> plan_ok (se_hostDate env) (se_sha256 env) plan"
  using assms
proof (induction rule: replay_induct)
  case (first e d)
  then show ?case by (auto simp: initialSession_def review_log_def)
next
  case (entry es s sid e t)
  have "applyEntry env sid s e = Inr t" using entry by blast
  then obtain u where h: "handleEntry env (s\<lparr>ss_entryIds := ss_entryIds s @ [en_entryId e]\<rparr>) e = Inr u"
    and t: "t = u\<lparr>ss_previous := e\<rparr>" by (rule applyEntryE)
  have log: "review_log (es @ [e]) = review_log es @ review_log [e]" by (simp add: review_log_def)
  have IH: "case ss_reviewPlan s of None \<Rightarrow> review_log es = []
      | Some p \<Rightarrow> inv (review_log es) p \<and> plan_ok (se_hostDate env) (se_sha256 env) p"
    using entry log by auto
  from h show ?case
  proof (cases rule: handle_review)
    case kept
    then show ?thesis using IH t log by (simp split: option.splits)
  next
    case (event type data plan')
    have one: "review_log [e] = [(type, data)]" using event(1) by (simp add: review_log_def)
    then show ?thesis using reduce[OF event(3), of "review_log es"] IH event(2) t log one
      by (simp split: option.splits)
  qed
qed

lemma replay:
  assumes "replaySession env entries = Inr s" "ss_reviewPlan s = Some plan"
  shows "inv (review_log entries) plan" "plan_ok (se_hostDate env) (se_sha256 env) plan"
  using replay_some[OF assms(1)] assms(2) by simp_all

end

subsection \<open>Reviews behind accepted items and completed Plans\<close>

definition prepared_in :: "review_history \<Rightarrow> js_value \<Rightarrow> bool" where
  "prepared_in hist p \<longleftrightarrow> (\<exists>v. (''review_plan.review_prepared'', v) \<in> set hist \<and> member v ''preparedReview'' = p)"

text \<open>\<open>decided hist p d\<close>: the log prepares the review \<open>p\<close> and later records the decision \<open>d\<close> on it.\<close>

definition decided :: "review_history \<Rightarrow> js_value \<Rightarrow> js_value \<Rightarrow> bool" where
  "decided hist p d \<longleftrightarrow> (\<exists>before after v. hist = before @ (''review_plan.review_recorded'', v) # after \<and> prepared_in before p
     \<and> member v ''preparedReviewId'' = member p ''preparedReviewId'' \<and> member v ''decision'' = d)"

definition item_accepted :: "review_history \<Rightarrow> js_record \<Rightarrow> bool" where
  "item_accepted hist item \<longleftrightarrow> (\<exists>p d. decided hist p d \<and> member d ''verdict'' = JStr ''accepted''
     \<and> is_item_scope (the_record p) \<and> scope_item (the_record p) = getProp item ''id''
     \<and> member p ''evidenceRefs'' = getProp item ''acceptedEvidenceRefs''
     \<and> member p ''itemAttemptId'' = getProp item ''acceptedAttemptId'')"

definition plan_accepted :: "review_history \<Rightarrow> bool" where
  "plan_accepted hist \<longleftrightarrow> (\<exists>p d. decided hist p d \<and> member d ''verdict'' = JStr ''accepted'' \<and> \<not> is_item_scope (the_record p))"

definition item_reviewed :: "review_history \<Rightarrow> js_record \<Rightarrow> bool" where
  "item_reviewed hist item \<longleftrightarrow> if_defined (prepared_in hist) (getProp item ''preparedReview'')
     \<and> (getProp item ''acceptedEvidenceRefs'' \<noteq> JUndef \<longrightarrow> item_accepted hist item)"

text \<open>A change of state may also complete the Plan.\<close>

definition completes_unreviewed :: "string \<times> js_value \<Rightarrow> bool" where
  "completes_unreviewed ev \<longleftrightarrow> fst ev = ''review_plan.state_changed'' \<and> member (snd ev) ''state'' = JStr ''completed''"

definition plan_reviewed :: "review_history \<Rightarrow> js_record \<Rightarrow> bool" where
  "plan_reviewed hist plan \<longleftrightarrow> items_all (item_reviewed hist) plan
     \<and> if_defined (prepared_in hist) (getProp plan ''finalPreparedReview'')
     \<and> (getProp plan ''state'' = JStr ''completed'' \<longrightarrow> plan_accepted hist \<or> (\<exists>ev \<in> set hist. completes_unreviewed ev))"

lemma prepared_in_more: "prepared_in hist p \<Longrightarrow> prepared_in (hist @ evs) p"
  by (auto simp: prepared_in_def)

lemma decided_more: "decided hist p d \<Longrightarrow> decided (hist @ evs) p d"
  unfolding decided_def by (elim exE conjE) (intro exI conjI, rule trans[OF arg_cong2[of _ _ _ _ "(@)"]], assumption, simp_all)

lemma item_reviewed_more: "item_reviewed hist item \<Longrightarrow> item_reviewed (hist @ evs) item"
  by (auto simp: item_reviewed_def item_accepted_def if_defined_def intro: prepared_in_more decided_more)

lemma plan_reviewed_more: "plan_reviewed hist plan \<Longrightarrow> plan_reviewed (hist @ evs) plan"
  by (auto simp: plan_reviewed_def items_all_def plan_accepted_def if_defined_def
      intro: item_reviewed_more prepared_in_more decided_more)

lemma item_reviewed_cong:
  assumes "item_reviewed hist item" "getProp new ''id'' = getProp item ''id''"
    "getProp new ''acceptedEvidenceRefs'' = getProp item ''acceptedEvidenceRefs''"
    "getProp new ''acceptedAttemptId'' = getProp item ''acceptedAttemptId''"
    "getProp new ''preparedReview'' \<in> {JUndef, getProp item ''preparedReview''}"
  shows "item_reviewed hist new"
  using assms unfolding item_reviewed_def item_accepted_def if_defined_def by auto

lemma fresh_item_reviewed: "validateItemDefinition v \<Longrightarrow> item_reviewed hist (the_record (fresh_item v n))"
  by (simp add: item_reviewed_def fresh_item_props if_defined_def)

lemma created_reviewed:
  assumes "on_review_created d current data = Inr plan" shows "plan_reviewed hist plan"
  using assms
proof (rule created_planE)
  fix items assume "list_all validateItemDefinition items"
    "plan_items plan = map (\<lambda>(order, item). fresh_item item order) (enumerate 0 items)"
  then have "items_all (item_reviewed hist) plan"
    by (auto simp: items_all_def list_all_iff dest!: enumerate_member intro!: fresh_item_reviewed)
  moreover assume "getProp plan ''finalPreparedReview'' = JUndef" "getProp plan ''state'' = JStr ''active''"
  ultimately show ?thesis by (simp add: plan_reviewed_def if_defined_def)
qed

text \<open>What an event writes elsewhere, or into one item, keeps the reviews.\<close>

lemma reviewed_set [simp]: "k \<notin> {''items'', ''finalPreparedReview'', ''state''} \<Longrightarrow> plan_reviewed hist (setProp plan k v) = plan_reviewed hist plan"
  by (auto simp: plan_reviewed_def getProp_setProp)

lemma reviewed_del [simp]: "k \<notin> {''items'', ''finalPreparedReview'', ''state''} \<Longrightarrow> plan_reviewed hist (delProp plan k) = plan_reviewed hist plan"
  by (auto simp: plan_reviewed_def getProp_delProp)

lemma reviewed_focus [simp]: "plan_reviewed hist (delete_focus plan a) = plan_reviewed hist plan"
  by (simp add: delete_focus_def)

lemma reviewed_state: "plan_reviewed hist plan \<Longrightarrow> v \<noteq> JStr ''completed'' \<or> (\<exists>ev \<in> set hist. completes_unreviewed ev)
    \<Longrightarrow> plan_reviewed hist (setProp plan ''state'' v)"
  by (simp add: plan_reviewed_def getProp_setProp)

lemma reviewed_put: "plan_reviewed hist plan \<Longrightarrow> item_reviewed hist new \<Longrightarrow> plan_reviewed hist (put_item plan k new)"
  by (simp add: plan_reviewed_def getProp_put items_all_put)

lemma reviewed_update:
  assumes "plan_reviewed hist plan" "mutableItem plan k = Inr item" "getProp new ''id'' = getProp item ''id''"
    "getProp new ''acceptedEvidenceRefs'' = getProp item ''acceptedEvidenceRefs''"
    "getProp new ''acceptedAttemptId'' = getProp item ''acceptedAttemptId''"
    "getProp new ''preparedReview'' = getProp item ''preparedReview''"
  shows "plan_reviewed hist (put_item plan k new)"
proof -
  have "item_reviewed hist item" using assms(1,2) by (auto simp: plan_reviewed_def intro: mutableItem_all)
  then show ?thesis using assms by (auto intro!: reviewed_put elim!: item_reviewed_cong)
qed

lemma item_events_reviewed:
  assumes "plan_reviewed hist plan"
  shows "on_item_state_changed h plan data = Inr plan' \<Longrightarrow> plan_reviewed hist plan'"
    "on_item_attempt_started plan data = Inr plan' \<Longrightarrow> plan_reviewed hist plan'"
    "on_item_attempt_focused plan data = Inr plan' \<Longrightarrow> plan_reviewed hist plan'"
    "on_item_attempt_carried plan data = Inr plan' \<Longrightarrow> plan_reviewed hist plan'"
    "on_item_attempt_closed plan data = Inr plan' \<Longrightarrow> plan_reviewed hist plan'"
    "on_attempt_checked plan data = Inr plan' \<Longrightarrow> plan_reviewed hist plan'"
    "on_review_execution_bound plan data = Inr plan' \<Longrightarrow> plan_reviewed hist plan'"
    "on_no_progress plan data = Inr plan' \<Longrightarrow> plan_reviewed hist plan'"
  subgoal by (insert assms; clarsimp simp: on_item_state_changed_def result_iff prop_simps dest!: assign_block_getProp; erule (1) reviewed_update; simp)
  subgoal by (insert assms; clarsimp simp: on_item_attempt_started_def result_iff Let_def prop_simps; erule (1) reviewed_update; simp add: prop_simps)
  subgoal by (insert assms; clarsimp simp: on_item_attempt_focused_def result_iff)
  subgoal by (insert assms; clarsimp simp: on_item_attempt_carried_def result_iff)
  subgoal by (insert assms; clarsimp simp: on_item_attempt_closed_def result_iff Let_def; erule (1) reviewed_update; simp add: prop_simps)
  subgoal by (insert assms; clarsimp simp: on_attempt_checked_def result_iff)
  subgoal by (insert assms; clarsimp simp: on_review_execution_bound_def result_iff; erule (1) reviewed_update; simp add: prop_simps)
  subgoal by (insert assms; clarsimp simp: on_no_progress_def result_iff)
  done

lemma add_evidence_item:
  "add_evidence (item, attempt) ref = Inr (item', attempt') \<Longrightarrow> \<forall>k. k \<noteq> ''evidenceRefs'' \<longrightarrow> getProp item' k = getProp item k"
  by (auto simp: add_evidence_def result_iff getProp_setProp split: if_splits)

lemma tool_recorded_reviewed:
  "plan_reviewed hist plan \<Longrightarrow> on_root_tool_recorded plan data = Inr plan' \<Longrightarrow> plan_reviewed hist plan'"
  by (clarsimp simp: on_root_tool_recorded_def result_iff Let_def dest!: add_evidence_item; erule (1) reviewed_update; simp add: prop_simps)

lemma requirePrepared_in:
  assumes "plan_reviewed hist plan" "requirePrepared plan k = Inr prepared"
  obtains p where "prepared_in hist p" "the_record p = prepared" "member p ''preparedReviewId'' = k"
  using assms(2,1) by (elim requirePreparedE)
    (auto simp: plan_reviewed_def items_all_def item_reviewed_def if_defined_def member_def)

lemma prepared_reviewed:
  assumes "plan_reviewed hist plan" "prepared_in hist (getProp data ''preparedReview'')" "on_review_prepared plan data = Inr plan'"
  shows "plan_reviewed hist plan'"
proof -
  have "item_reviewed hist (setProp item ''preparedReview'' (getProp data ''preparedReview''))"
    if "mutableItem plan k = Inr item" for k item
  proof -
    have "item_reviewed hist item" using that assms(1) by (auto simp: plan_reviewed_def intro: mutableItem_all)
    then show ?thesis using assms(2) by (auto simp: item_reviewed_def if_defined_def item_accepted_def prop_simps)
  qed
  moreover have "plan_reviewed hist (setProp plan ''finalPreparedReview'' (getProp data ''preparedReview''))"
    using assms(1,2) by (simp add: plan_reviewed_def if_defined_def getProp_setProp)
  ultimately show ?thesis using assms(1,3)
    by (auto simp: on_review_prepared_def result_iff Let_def intro: reviewed_put split: if_splits)
qed

lemma requested_reviewed:
  assumes "plan_reviewed hist plan" "on_review_requested plan data = Inr plan'"
  shows "plan_reviewed hist plan'"
proof -
  obtain prepared where p: "requirePrepared plan (getProp data ''preparedReviewId'') = Inr prepared"
    using assms(2) by (auto simp: on_review_requested_def andThen_return_iff)
  show ?thesis
  proof (cases "is_item_scope prepared")
    case True
    then obtain item attempt where item: "mutableItem plan (scope_item prepared) = Inr item"
      "plan' = put_item plan (scope_item prepared) (spread item
         [(''currentAttempt'', JObj (setProp attempt ''state'' (JStr ''review_requested''))), (''state'', JStr ''review_requested'')])"
      using assms(2) p by (auto simp: on_review_requested_def result_iff)
    show ?thesis unfolding item(2) by (rule reviewed_update[OF assms(1) item(1)]) (simp_all add: prop_simps)
  qed (use assms p in \<open>auto simp: on_review_requested_def result_iff intro!: reviewed_state\<close>)
qed

lemma block_resolved_reviewed:
  assumes "plan_reviewed hist plan" "on_block_resolved plan data = Inr plan'"
  shows "plan_reviewed hist plan'"
proof -
  have "item_reviewed hist (the_record candidate)" if "List.find P (plan_items plan) = Some candidate" for P candidate
    using assms(1) find_Some_iff_member[OF that] by (auto simp: plan_reviewed_def items_all_def)
  then have "item_reviewed hist (delProp (the_record candidate) ''block'')"
      "item_reviewed hist (setProp (delProp (the_record candidate) ''block'') ''state'' v)"
    if "List.find P (plan_items plan) = Some candidate" for P candidate v
    by (rule item_reviewed_cong[OF _]; use that in \<open>auto simp: prop_simps\<close>)+
  then show ?thesis using assms
    by (auto simp: on_block_resolved_def Let_def intro!: reviewed_put reviewed_state split: if_splits option.splits)
qed

lemma state_changed_reviewed:
  assumes "plan_reviewed hist plan" "on_review_state_changed h plan data = Inr plan'"
    "getProp data ''state'' \<noteq> JStr ''completed'' \<or> (\<exists>ev \<in> set hist. completes_unreviewed ev)"
  shows "plan_reviewed hist plan'"
proof -
  obtain next' where n: "assign_block h (setProp plan ''state'' (getProp data ''state'')) (getProp data ''block'') = Inr next'"
    "plan' = (if getProp data ''state'' \<in> {JStr ''abandoned'', JStr ''cancelled''}
      then setProp (delProp next' ''finalPreparedReview'') ''items''
        (JArr (map (\<lambda>item. JObj (delProp (the_record item) ''preparedReview'')) (plan_items next'))) else next')"
    using assms(2) by (auto simp: on_review_state_changed_def andThen_return_iff split: if_splits)
  have next': "plan_reviewed hist next'"
    using n(1) reviewed_state[OF assms(1,3)] by (auto simp: assign_block_def result_iff split: if_splits)
  have "items_all (item_reviewed hist) plan'"
    using next' by (auto simp: n(2) plan_reviewed_def items_all_def plan_items_set prop_simps intro: item_reviewed_cong)
  then show ?thesis using next' by (auto simp: n(2) plan_reviewed_def prop_simps if_defined_def)
qed

lemma decided_now: "prepared_in hist p \<Longrightarrow> member v ''preparedReviewId'' = member p ''preparedReviewId''
    \<Longrightarrow> decided (hist @ [(''review_plan.review_recorded'', v)]) p (member v ''decision'')"
  by (force simp: decided_def)

lemma judged_item_props:
  "getProp (judged_item item attempt prepared d) k = (if k \<in> {''preparedReview'', ''currentAttempt''} then JUndef
     else if k = ''lastReview'' then d else if k = ''state'' then itemStateForVerdict (member d ''verdict'')
     else if member d ''verdict'' = JStr ''accepted'' \<and> k \<in> {''acceptedInputDigest'', ''acceptedEvidenceRefs'', ''acceptedAttemptId''}
       then (if k = ''acceptedInputDigest'' then getProp prepared ''reviewInputDigest''
         else if k = ''acceptedEvidenceRefs'' then getProp prepared ''evidenceRefs'' else getProp attempt ''itemAttemptId'')
     else getProp item k)"
  by (simp add: judged_item_def Let_def prop_simps)

lemma item_attemptE:
  assumes "item_attempt plan k a = Inr (item, attempt)"
  shows "mutableItem plan k = Inr item" "getProp item ''id'' = k" "getProp attempt ''itemAttemptId'' = a"
  using assms by (auto simp: item_attempt_iff elim: mutableItemE requireAttemptE)

lemma judged_item_reviewed:
  assumes "plan_reviewed hist plan" "prepared_in hist p" "member v ''preparedReviewId'' = member p ''preparedReviewId''"
    "is_item_scope (the_record p)" "item_attempt plan (scope_item (the_record p)) (member p ''itemAttemptId'') = Inr (item, attempt)"
  shows "item_reviewed (hist @ [(''review_plan.review_recorded'', v)]) (judged_item item attempt (the_record p) (member v ''decision''))"
proof (cases "member (member v ''decision'') ''verdict'' = JStr ''accepted''")
  case True
  then have "item_accepted (hist @ [(''review_plan.review_recorded'', v)]) (judged_item item attempt (the_record p) (member v ''decision''))"
    using decided_now[OF assms(2,3)] assms(4) item_attemptE[OF assms(5)]
    by (auto simp: item_accepted_def judged_item_props member_def)
  then show ?thesis by (simp add: item_reviewed_def judged_item_props if_defined_def)
next
  case False
  have "item_reviewed hist item" using assms(1) item_attemptE(1)[OF assms(5)] by (auto simp: plan_reviewed_def intro: mutableItem_all)
  then show ?thesis using False
    by (intro item_reviewed_cong[OF item_reviewed_more]) (auto simp: judged_item_props)
qed

lemma recorded_reviewed:
  assumes "plan_reviewed hist plan" "on_review_recorded plan (the_record v) = Inr plan'"
  shows "plan_reviewed (hist @ [(''review_plan.review_recorded'', v)]) plan'"
proof -
  let ?hist = "hist @ [(''review_plan.review_recorded'', v)]" and ?d = "member v ''decision''"
  have more: "plan_reviewed ?hist plan" using assms(1) by (rule plan_reviewed_more)
  obtain prepared where "requirePrepared plan (member v ''preparedReviewId'') = Inr prepared"
    using assms(2) by (auto simp: on_review_recorded_def andThen_return_iff member_def)
  then obtain p where p: "prepared_in hist p" "the_record p = prepared" "member v ''preparedReviewId'' = member p ''preparedReviewId''"
    "requirePrepared plan (member v ''preparedReviewId'') = Inr (the_record p)"
    using requirePrepared_in[OF assms(1)] by metis
  show ?thesis
  proof (cases "is_item_scope (the_record p)")
    case True
    then obtain item attempt where
      "item_attempt plan (scope_item (the_record p)) (member p ''itemAttemptId'') = Inr (item, attempt)"
      "plan' = delete_focus (put_item plan (scope_item (the_record p)) (judged_item item attempt (the_record p) ?d)) (getProp attempt ''itemAttemptId'')"
      using assms(2) p by (auto simp: on_review_recorded_def andThen_return_iff validate_decision_iff member_def)
    then show ?thesis using judged_item_reviewed[OF assms(1) p(1,3) True] more by (auto intro: reviewed_put)
  next
    case False
    then have plan': "plan' = setProp (delProp (setProp plan ''lastReview'' ?d) ''finalPreparedReview'') ''state'' (planStateForVerdict (member ?d ''verdict''))"
      using assms(2) p by (auto simp: on_review_recorded_def Let_def andThen_return_iff validate_decision_iff member_def split: if_splits)
    have "plan_accepted ?hist" if "member ?d ''verdict'' = JStr ''accepted''"
      using that False decided_now[OF p(1,3)] by (auto simp: plan_accepted_def)
    then show ?thesis using more
      by (auto simp: plan' plan_reviewed_def prop_simps if_defined_def planStateForVerdict_def)
  qed
qed

lemma revised_reviewed:
  assumes "plan_reviewed hist plan" "on_review_revised d plan data = Inr plan'"
  shows "plan_reviewed hist plan'"
  using assms(2)
proof (rule revised_planE)
  fix items assume items: "list_all validateItemDefinition items"
    "plan_items plan' = map (\<lambda>(order, item). revised_item (plan_items plan) item order) (enumerate 0 items)"
  have "item_reviewed hist (the_record (revised_item (plan_items plan) v n))" if "v \<in> set items" for v n
  proof -
    have v: "validateItemDefinition v" using items(1) that by (simp add: list_all_iff)
    then show ?thesis
    proof (cases rule: revised_item_cases[of v "plan_items plan" n])
      case (2 i)
      then have "item_reviewed hist (the_record i)" using assms(1) by (auto simp: plan_reviewed_def items_all_def)
      then show ?thesis by (rule item_reviewed_cong) (auto simp: 2(4) member_def)
    qed (simp add: fresh_item_reviewed v)
  qed
  then have "items_all (item_reviewed hist) plan'" by (auto simp: items_all_def items(2) dest!: enumerate_member)
  moreover assume "getProp plan' ''finalPreparedReview'' = JUndef" "getProp plan' ''state'' = JStr ''active''"
  ultimately show ?thesis by (simp add: plan_reviewed_def if_defined_def)
qed

lemma result_ifE: "(if c then a else b) = x \<Longrightarrow> (c \<Longrightarrow> a = x \<Longrightarrow> P) \<Longrightarrow> (\<not> c \<Longrightarrow> b = x \<Longrightarrow> P) \<Longrightarrow> P"
  by (cases c) auto

lemma applied_reviewed:
  assumes "plan_reviewed hist plan" "applyReviewPlanEvent h d plan type (the_record v) = Inr plan'"
  shows "plan_reviewed (hist @ [(type, v)]) plan'"
proof (cases "type = ''review_plan.review_recorded''")
  case True
  then show ?thesis using assms(1,2) recorded_reviewed by (simp add: applyReviewPlanEvent_def)
next
  case False
  let ?hist = "hist @ [(type, v)]"
  have more: "plan_reviewed ?hist plan" using assms(1) by (rule plan_reviewed_more)
  have "plan_reviewed ?hist plan'" if type: "type = ''review_plan.review_prepared''"
  proof (rule prepared_reviewed[OF more])
    show "prepared_in ?hist (getProp (the_record v) ''preparedReview'')" by (auto simp: type prepared_in_def member_def)
    show "on_review_prepared plan (the_record v) = Inr plan'" using assms(2) by (simp add: type applyReviewPlanEvent_def)
  qed
  moreover have "plan_reviewed ?hist plan'" if type: "type = ''review_plan.state_changed''"
  proof (rule state_changed_reviewed[OF more])
    show "on_review_state_changed h plan (the_record v) = Inr plan'" using assms(2) by (simp add: type applyReviewPlanEvent_def)
    show "getProp (the_record v) ''state'' \<noteq> JStr ''completed'' \<or> (\<exists>ev \<in> set ?hist. completes_unreviewed ev)"
      by (auto simp: type completes_unreviewed_def member_def)
  qed
  ultimately show ?thesis using assms(2) unfolding applyReviewPlanEvent_def
    by (elim result_ifE) (assumption | erule item_events_reviewed[OF more] tool_recorded_reviewed[OF more]
      requested_reviewed[OF more] block_resolved_reviewed[OF more] revised_reviewed[OF more] | use more False in \<open>simp; fail\<close>)+
qed

interpretation reviewed: review_invariant plan_reviewed
  by unfold_locales (erule created_reviewed, erule (1) applied_reviewed, simp)

end
