(* ===== verification/ReviewPlanCounts.thy ===== *)
theory ReviewPlanCounts
  imports ReviewPlanHistory
begin

section \<open>The counters of a review Plan\<close>

text \<open>
  The counters of the Plan are counts over the log: attempts started, revisions made, no-progress
  rounds recorded. The attempts of the items add up to at most the attempts of the Plan, because a
  revision only drops items or starts them over.
\<close>

definition count_of :: "string \<Rightarrow> review_history \<Rightarrow> nat" where
  "count_of type hist = length (filter (\<lambda>(t, _). t = type) hist)"

definition item_attempts :: "js_record \<Rightarrow> int" where
  "item_attempts plan = sum_list (map (\<lambda>i. the_int (member i ''attemptCount'')) (plan_items plan))"

definition counts_inv :: "review_history \<Rightarrow> js_record \<Rightarrow> bool" where
  "counts_inv hist plan \<longleftrightarrow> getProp plan ''revision'' = jnat (Suc (count_of ''review_plan.revised'' hist))
     \<and> getProp plan ''replanCount'' = jnat (count_of ''review_plan.revised'' hist)
     \<and> getProp plan ''attemptCount'' = jnat (count_of ''review_plan.item_attempt_started'' hist)
     \<and> getProp plan ''noProgressCount'' = jnat (count_of ''review_plan.no_progress_recorded'' hist)
     \<and> item_attempts plan \<le> int (count_of ''review_plan.item_attempt_started'' hist)"

lemma js_inc_jnat [simp]: "js_inc (jnat n) = jnat (Suc n)"
  by (simp add: js_inc_def jnat_def)

lemma count_of_snoc: "count_of type (hist @ [(t, v)]) = count_of type hist + (if t = type then 1 else 0)"
  by (simp add: count_of_def)

subsection \<open>Attempts of items\<close>

lemma sum_map_first:
  assumes "List.find P xs = Some x"
  shows "sum_list (map f (map_first P (\<lambda>_. y) xs)) = sum_list (map f xs) - f x + (f y :: int)"
  using assms by (induction xs) (auto split: if_splits)

lemma item_attempts_put:
  assumes "mutableItem plan k = Inr item"
  shows "item_attempts (put_item plan k new) = item_attempts plan - the_int (getProp item ''attemptCount'') + the_int (getProp new ''attemptCount'')"
proof -
  obtain v where v: "List.find (\<lambda>candidate. member candidate ''id'' = k) (plan_items plan) = Some v" "item = the_record v"
    using assms by (auto simp: mutableItem_def split: option.splits)
  show ?thesis using sum_map_first[OF v(1), of "\<lambda>i. the_int (member i ''attemptCount'')" "JObj new"]
    by (simp add: item_attempts_def plan_items_put v(2) member_def)
qed

lemma item_attempts_set [simp]: "k \<noteq> ''items'' \<Longrightarrow> item_attempts (setProp plan k v) = item_attempts plan"
  by (simp add: item_attempts_def plan_items_set)

lemma item_attempts_del [simp]: "k \<noteq> ''items'' \<Longrightarrow> item_attempts (delProp plan k) = item_attempts plan"
  by (simp add: item_attempts_def plan_items_del)

lemma item_attempts_focus [simp]: "item_attempts (delete_focus plan a) = item_attempts plan"
  by (simp add: item_attempts_def)

lemma find_distinct_key:
  "distinct (map key xs) \<Longrightarrow> x \<in> set xs \<Longrightarrow> List.find (\<lambda>y. key y = key x) xs = Some x"
  by (induction xs) (auto simp: image_iff)

text \<open>Values chosen at most once from a list of naturals add up to at most the whole list.\<close>

lemma sum_of_chosen:
  assumes "distinct (map key xs)" "\<forall>y \<in> set ys. 0 \<le> (f y :: int)"
    "\<forall>x \<in> set xs. g x \<le> 0 \<or> (\<exists>y \<in> set ys. key' y = key x \<and> g x \<le> f y)"
  shows "sum_list (map g xs) \<le> sum_list (map f ys)"
  using assms
proof (induction xs arbitrary: ys)
  case Nil
  then show ?case by (auto intro!: sum_list_nonneg)
next
  case (Cons x xs)
  let ?same = "filter (\<lambda>y. key' y = key x) ys" and ?rest = "filter (\<lambda>y. key' y \<noteq> key x) ys"
  have split: "sum_list (map f ys) = sum_list (map f ?same) + sum_list (map f ?rest)"
    by (induction ys) auto
  have nonneg: "0 \<le> sum_list (map f ?same)" using Cons.prems(2) by (auto intro!: sum_list_nonneg)
  have "\<exists>y \<in> set ?rest. key' y = key z \<and> g z \<le> f y" if z: "z \<in> set xs" "\<not> g z \<le> 0" for z
  proof -
    have "key z \<in> key ` set xs" using z(1) by simp
    then have "key z \<noteq> key x" using Cons.prems(1) by auto
    moreover obtain y where "y \<in> set ys" "key' y = key z" "g z \<le> f y" using z Cons.prems(3) by (meson list.set_intros(2))
    ultimately show ?thesis by force
  qed
  then have "sum_list (map g xs) \<le> sum_list (map f ?rest)" using Cons.prems(1,2) by (intro Cons.IH) auto
  moreover have "g x \<le> sum_list (map f ?same)"
  proof (cases "g x \<le> 0")
    case False
    then obtain y where y: "y \<in> set ?same" "g x \<le> f y" using Cons.prems(3) by auto
    have "f y \<le> sum_list (map f ?same)"
      using y(1) Cons.prems(2) by (intro member_le_sum_list) auto
    then show ?thesis using y(2) by simp
  qed (use nonneg in simp)
  ultimately show ?case by (simp add: split)
qed

lemma revised_attempts:
  assumes "plan_ok h d plan" "on_review_revised e plan data = Inr plan'"
  shows "item_attempts plan' \<le> item_attempts plan"
  using assms(2)
proof (rule revised_planE)
  fix items assume items: "list_all validateItemDefinition items" "distinct (map (\<lambda>i. member i ''id'') items)"
    "plan_items plan' = map (\<lambda>(order, item). revised_item (plan_items plan) item order) (enumerate 0 items)"
  let ?f = "\<lambda>i. the_int (member i ''attemptCount'')" and ?new = "\<lambda>(order, item). revised_item (plan_items plan) item order"
  have "sum_list (map (\<lambda>p. ?f (?new p)) (enumerate 0 items)) \<le> sum_list (map ?f (plan_items plan))"
  proof (rule sum_of_chosen[where key = "\<lambda>(n, i). member i ''id''" and key' = "\<lambda>i. member i ''id''"])
    show "distinct (map (\<lambda>(n, i). member i ''id'') (enumerate 0 items))" using items(2) by (simp add: map_enumerate)
    show "\<forall>y \<in> set (plan_items plan). 0 \<le> ?f y"
      using plan_ok_items(1)[OF assms(1)] by (auto simp: list_all_iff validateItemProjection_def Let_def nonNegativeInteger_def member_def)
    show "\<forall>x \<in> set (enumerate 0 items). ?f (?new x) \<le> 0
        \<or> (\<exists>y \<in> set (plan_items plan). member y ''id'' = (case x of (n, i) \<Rightarrow> member i ''id'') \<and> ?f (?new x) \<le> ?f y)"
    proof
      fix x assume x: "x \<in> set (enumerate 0 items)"
      obtain n v where nv: "x = (n, v)" by (cases x)
      then have v: "validateItemDefinition v" using x items(1) by (auto simp: list_all_iff dest: enumerate_member)
      then show "?f (?new x) \<le> 0 \<or> (\<exists>y \<in> set (plan_items plan). member y ''id'' = (case x of (n, i) \<Rightarrow> member i ''id'') \<and> ?f (?new x) \<le> ?f y)"
      proof (cases rule: revised_item_cases[of v "plan_items plan" n])
        case (2 i)
        then show ?thesis by (auto simp: member_def nv)
      qed (simp add: fresh_item_props v member_def jnat_def nv)
    qed
  qed
  then show ?thesis by (simp add: item_attempts_def items(3) o_def case_prod_unfold)
qed

subsection \<open>Events\<close>

lemma created_counts:
  assumes "on_review_created d current (the_record v) = Inr plan" shows "counts_inv [(''review_plan.created'', v)] plan"
  using assms
proof (rule created_planE)
  fix items assume items: "list_all validateItemDefinition items" "plan_items plan = map (\<lambda>(order, item). fresh_item item order) (enumerate 0 items)"
  have "the_int (member i ''attemptCount'') = 0" if "i \<in> set (plan_items plan)" for i
    using that items by (auto simp: list_all_iff fresh_item_props member_def jnat_def dest!: enumerate_member)
  then have "item_attempts plan = 0" by (simp add: item_attempts_def cong: map_cong)
  moreover assume "getProp plan ''revision'' = jnat 1" "getProp plan ''attemptCount'' = jnat 0" "getProp plan ''replanCount'' = jnat 0"
    "getProp plan ''noProgressCount'' = jnat 0"
  ultimately show ?thesis by (simp add: counts_inv_def count_of_def)
qed

text \<open>An event that writes none of the counters keeps them.\<close>

definition same_counts :: "js_record \<Rightarrow> js_record \<Rightarrow> bool" where
  "same_counts plan plan' \<longleftrightarrow> item_attempts plan' = item_attempts plan
     \<and> (\<forall>k \<in> {''revision'', ''replanCount'', ''attemptCount'', ''noProgressCount''}. getProp plan' k = getProp plan k)"

lemma same_counts_put: "mutableItem plan k = Inr item \<Longrightarrow> getProp new ''attemptCount'' = getProp item ''attemptCount''
    \<Longrightarrow> same_counts plan (put_item plan k new)"
  by (simp add: same_counts_def item_attempts_put getProp_put)

lemma same_counts_focus [simp]: "same_counts plan (delete_focus plan' a) = same_counts plan plan'"
  by (simp add: same_counts_def getProp_focus)

lemma same_counts_set [simp]: "k \<notin> {''items'', ''revision'', ''replanCount'', ''attemptCount'', ''noProgressCount''}
    \<Longrightarrow> same_counts plan (setProp plan' k v) = same_counts plan plan'"
  by (auto simp: same_counts_def getProp_setProp)

lemma same_counts_del [simp]: "k \<notin> {''items'', ''revision'', ''replanCount'', ''attemptCount'', ''noProgressCount''}
    \<Longrightarrow> same_counts plan (delProp plan' k) = same_counts plan plan'"
  by (auto simp: same_counts_def getProp_delProp)

lemma same_counts_refl [simp]: "same_counts plan plan"
  by (simp add: same_counts_def)

lemma item_events_counts:
  "on_item_state_changed h plan data = Inr plan' \<Longrightarrow> same_counts plan plan'"
  "on_item_attempt_focused plan data = Inr plan' \<Longrightarrow> same_counts plan plan'"
  "on_item_attempt_carried plan data = Inr plan' \<Longrightarrow> same_counts plan plan'"
  "on_item_attempt_closed plan data = Inr plan' \<Longrightarrow> same_counts plan plan'"
  "on_attempt_checked plan data = Inr plan' \<Longrightarrow> same_counts plan plan'"
  "on_review_execution_bound plan data = Inr plan' \<Longrightarrow> same_counts plan plan'"
  "on_root_tool_recorded plan data = Inr plan' \<Longrightarrow> same_counts plan plan'"
  subgoal by (clarsimp simp: on_item_state_changed_def result_iff prop_simps dest!: assign_block_getProp; erule same_counts_put; simp)
  subgoal by (clarsimp simp: on_item_attempt_focused_def result_iff)
  subgoal by (clarsimp simp: on_item_attempt_carried_def result_iff)
  subgoal by (clarsimp simp: on_item_attempt_closed_def result_iff Let_def; erule same_counts_put; simp add: prop_simps)
  subgoal by (clarsimp simp: on_attempt_checked_def result_iff)
  subgoal by (clarsimp simp: on_review_execution_bound_def result_iff; erule same_counts_put; simp add: prop_simps)
  subgoal by (clarsimp simp: on_root_tool_recorded_def result_iff Let_def dest!: add_evidence_item; erule same_counts_put; simp add: prop_simps)
  done

lemma plan_events_counts:
  "on_review_prepared plan data = Inr plan' \<Longrightarrow> same_counts plan plan'"
  "on_review_requested plan data = Inr plan' \<Longrightarrow> same_counts plan plan'"
  "on_review_recorded plan data = Inr plan' \<Longrightarrow> same_counts plan plan'"
  "on_block_resolved plan data = Inr plan' \<Longrightarrow> plan_ok h d plan \<Longrightarrow> same_counts plan plan'"
  "on_review_state_changed h plan data = Inr plan' \<Longrightarrow> same_counts plan plan'"
proof -
  show "on_review_prepared plan data = Inr plan' \<Longrightarrow> same_counts plan plan'"
    by (auto simp: on_review_prepared_def result_iff Let_def prop_simps intro!: same_counts_put split: if_splits)
  show "on_review_requested plan data = Inr plan' \<Longrightarrow> same_counts plan plan'"
    by (auto simp: on_review_requested_def result_iff prop_simps intro!: same_counts_put split: if_splits)
  show "on_review_recorded plan data = Inr plan' \<Longrightarrow> same_counts plan plan'"
    by (auto simp: on_review_recorded_def result_iff Let_def prop_simps judged_item_props intro!: same_counts_put split: if_splits)
next
  assume resolved: "on_block_resolved plan data = Inr plan'" and ok: "plan_ok h d plan"
  have "mutableItem plan (member v ''id'') = Inr (the_record v)" if "List.find P (plan_items plan) = Some v" for P v
    using find_Some_iff_member[OF that] find_distinct_key[OF plan_ok_items(2)[OF ok]] by (simp add: mutableItem_def)
  then show "same_counts plan plan'" using resolved
    by (auto simp: on_block_resolved_def Let_def prop_simps member_def intro!: same_counts_put split: if_splits option.splits)
next
  assume "on_review_state_changed h plan data = Inr plan'"
  then obtain next' where n: "assign_block h (setProp plan ''state'' (getProp data ''state'')) (getProp data ''block'') = Inr next'"
    "plan' = (if getProp data ''state'' \<in> {JStr ''abandoned'', JStr ''cancelled''}
      then setProp (delProp next' ''finalPreparedReview'') ''items''
        (JArr (map (\<lambda>item. JObj (delProp (the_record item) ''preparedReview'')) (plan_items next'))) else next')"
    by (auto simp: on_review_state_changed_def andThen_return_iff split: if_splits)
  have "same_counts plan next'" using n(1) by (auto simp: assign_block_def result_iff split: if_splits)
  then show "same_counts plan plan'"
    by (auto simp: n(2) same_counts_def item_attempts_def plan_items_set prop_simps o_def member_def)
qed

subsection \<open>Every event\<close>

lemma counted_event:
  assumes "counts_inv hist plan" "same_counts plan plan'"
    "type \<notin> {''review_plan.revised'', ''review_plan.item_attempt_started'', ''review_plan.no_progress_recorded''}"
  shows "counts_inv (hist @ [(type, v)]) plan'"
  using assms by (auto simp: counts_inv_def same_counts_def count_of_snoc)

lemma started_counted:
  assumes "counts_inv hist plan" "on_item_attempt_started plan data = Inr plan'"
  shows "counts_inv (hist @ [(''review_plan.item_attempt_started'', v)]) plan'"
proof -
  obtain item where item: "mutableItem plan (getProp data ''itemId'') = Inr item"
    and number: "getProp data ''attemptNumber'' = js_inc (getProp item ''attemptCount'')"
    using assms(2) by (auto simp: on_item_attempt_started_def result_iff)
  define new where "new = delProp (spread item [(''currentAttempt'', JObj [(''itemAttemptId'', getProp data ''itemAttemptId''),
      (''attemptNumber'', getProp data ''attemptNumber''), (''state'', JStr ''open''), (''evidenceRefs'', JArr [])]),
      (''attemptCount'', getProp data ''attemptNumber''), (''state'', JStr ''running'')]) ''block''"
  have plan': "plan' = spread (put_item plan (getProp data ''itemId'') new) [(''attemptCount'', js_inc (getProp plan ''attemptCount'')),
      (''focusedRootAttemptId'', getProp data ''itemAttemptId'')]"
    using assms(2) item number unfolding on_item_attempt_started_def Let_def andThen_return_iff review_require_iff
    by (simp add: new_def getProp_put)
  have new: "the_int (getProp new ''attemptCount'') = the_int (getProp item ''attemptCount'') + 1"
    by (simp add: new_def prop_simps number js_inc_def)
  have "item_attempts plan' = item_attempts plan + 1" by (simp add: plan' spread_simps item_attempts_put[OF item] new)
  then show ?thesis using assms(1) by (auto simp: counts_inv_def count_of_snoc plan' prop_simps getProp_put)
qed

lemma applied_counts:
  assumes "counts_inv hist plan" "plan_ok h d plan" "applyReviewPlanEvent h d plan type (the_record v) = Inr plan'"
  shows "counts_inv (hist @ [(type, v)]) plan'"
proof (cases "type \<in> {''review_plan.revised'', ''review_plan.item_attempt_started'', ''review_plan.no_progress_recorded''}")
  case False
  have "same_counts plan plan'" using assms(3) unfolding applyReviewPlanEvent_def
    by (elim result_ifE) (erule item_events_counts plan_events_counts(1-3,5) plan_events_counts(4)[OF _ assms(2)]
      | use False in \<open>simp; fail\<close>)+
  then show ?thesis using assms(1) False by (intro counted_event)
next
  case True
  then consider (revised) "type = ''review_plan.revised''" | (started) "type = ''review_plan.item_attempt_started''"
    | (progress) "type = ''review_plan.no_progress_recorded''" by blast
  then show ?thesis
  proof cases
    case revised
    then have r: "on_review_revised d plan (the_record v) = Inr plan'" using assms(3) by (simp add: applyReviewPlanEvent_def)
    show ?thesis using revised_attempts[OF assms(2) r] assms(1)
      by (rule_tac revised_planE[OF r]) (simp add: counts_inv_def revised count_of_snoc)
  next
    case started
    then have "on_item_attempt_started plan (the_record v) = Inr plan'" using assms(3) by (simp add: applyReviewPlanEvent_def)
    then show ?thesis using started_counted[OF assms(1)] started by simp
  next
    case progress
    then have "on_no_progress plan (the_record v) = Inr plan'" using assms(3) by (simp add: applyReviewPlanEvent_def)
    then show ?thesis using assms(1) progress
      by (auto simp: on_no_progress_def result_iff counts_inv_def prop_simps count_of_snoc)
  qed
qed

interpretation counted: review_invariant counts_inv
  by unfold_locales (erule created_counts, erule (2) applied_counts, simp add: counts_inv_def prop_simps)

end
