(* ===== verification/ReviewPlanSamples.thy ===== *)
theory ReviewPlanSamples
  imports ReviewPlanCounts SessionSamples
begin

section \<open>A concrete review Plan\<close>

text \<open>
  A Session whose review Plan of one item is worked on, reviewed and accepted, and a Session whose
  Plan is completed by a change of state alone. The digest function is a stand-in for SHA-256. The
  Plans after every event are written out, and each event is evaluated on its own.
\<close>

definition review_env :: "session_env" where
  "review_env = sample_env\<lparr>se_sha256 := (\<lambda>_. replicate 64 CHR ''a'')\<rparr>"

definition digest_value :: js_value where
  "digest_value = JStr sample_digest"

definition review_criterion :: js_value where
  "review_criterion = JObj [(''id'', JStr ''c1''), (''description'', JStr ''works''), (''kind'', JStr ''semantic''), (''required'', JBool True)]"

definition review_item :: js_value where
  "review_item = JObj [(''id'', JStr ''i1''), (''title'', JStr ''Build''), (''criterionIds'', JArr [JStr ''c1'']), (''reviewCheckpoint'', JBool True)]"

definition review_input :: js_value where
  "review_input = JObj [(''objective'', JStr ''Ship''), (''acceptanceCriteria'', JArr [review_criterion]), (''items'', JArr [review_item])]"

definition prepared_review :: "string \<Rightarrow> js_record \<Rightarrow> js_record \<Rightarrow> js_value" where
  "prepared_review reviewId scope attempt = JObj ([(''preparedReviewId'', JStr reviewId), (''scope'', JObj scope), (''planRevision'', jnat 1)]
     @ attempt @ [(''criterionIds'', JArr [JStr ''c1'']), (''evidenceRefs'', JArr [JStr ''result-1'']), (''reviewInputDigest'', digest_value),
      (''resultSummaryArtifactRef'', JStr ''art-1''), (''resultSummaryDigest'', digest_value), (''resultSummaryBytes'', jnat 12),
      (''preparedFileInputs'', JArr []), (''triggerReasons'', JArr [])])"

definition item_review :: js_value where
  "item_review = prepared_review ''pr1'' [(''kind'', JStr ''item''), (''itemId'', JStr ''i1'')] [(''itemAttemptId'', JStr ''ia1'')]"

definition final_review :: js_value where
  "final_review = prepared_review ''pr2'' [(''kind'', JStr ''final'')] []"

definition acceptance :: js_value where
  "acceptance = JObj [(''reviewRequestId'', JStr ''rq1''), (''decisionArtifactRef'', JStr ''art-2''), (''decisionDigest'', digest_value),
     (''verdict'', JStr ''accepted'')]"

subsection \<open>Events\<close>

definition review_data :: "js_record \<Rightarrow> js_record" where
  "review_data ps = [(''origin'', JObj [(''kind'', JStr ''runtime''), (''requestId'', JStr ''req''), (''inputDigest'', digest_value)]),
     (''mutationDigest'', digest_value), (''planId'', JStr ''rp1''), (''planRevision'', jnat 1)] @ ps"

definition created_event :: "string \<times> js_record" where
  "created_event = (''review_plan.created'', review_data [(''input'', review_input), (''planHash'', digest_value)])"

definition work_events :: "(string \<times> js_record) list" where
  "work_events = [
     (''review_plan.item_attempt_started'', review_data [(''itemId'', JStr ''i1''), (''itemAttemptId'', JStr ''ia1''), (''attemptNumber'', jnat 1)]),
     (''review_plan.review_prepared'', review_data [(''preparedReview'', item_review)]),
     (''review_plan.review_recorded'', review_data [(''preparedReviewId'', JStr ''pr1''), (''reviewRequestId'', JStr ''rq1''), (''decision'', acceptance)]),
     (''review_plan.review_prepared'', review_data [(''preparedReview'', final_review)]),
     (''review_plan.review_requested'', review_data [(''preparedReviewId'', JStr ''pr2''), (''reviewRequestId'', JStr ''rq1''),
       (''deterministicDigest'', digest_value), (''deterministicAttemptCount'', jnat 1), (''providerAttemptCount'', jnat 0)]),
     (''review_plan.review_recorded'', review_data [(''preparedReviewId'', JStr ''pr2''), (''reviewRequestId'', JStr ''rq1''), (''decision'', acceptance)])]"

text \<open>No attempt, no review, and the only item still pending.\<close>

definition skipping_events :: "(string \<times> js_record) list" where
  "skipping_events = [
     (''review_plan.state_changed'', review_data [(''state'', JStr ''reviewing'')]),
     (''review_plan.state_changed'', review_data [(''state'', JStr ''completed'')])]"

definition review_entries :: "nat \<Rightarrow> (string \<times> js_record) list \<Rightarrow> session_entry list" where
  "review_entries n evs = map (\<lambda>(k, type, r). sample_entry k (Review_plan_entry type (JObj r))) (enumerate n evs)"

definition log_of :: "(string \<times> js_record) list \<Rightarrow> session_entry list" where
  "log_of evs = sample_entry 1 (hd sample_data) # review_entries 2 evs"

definition reviewed_log :: "session_entry list" where
  "reviewed_log = log_of (created_event # work_events)"

definition unreviewed_log :: "session_entry list" where
  "unreviewed_log = log_of (created_event # skipping_events)"

subsection \<open>The Plans after the events\<close>

definition sample_criterion :: js_value where
  "sample_criterion = JObj [(''id'', JStr ''c1''), (''description'', JStr ''works''), (''kind'', JStr ''semantic''), (''required'', JBool True),
     (''definitionDigest'', digest_value), (''status'', JStr ''active'')]"

definition sample_item :: "string \<Rightarrow> nat \<Rightarrow> js_record \<Rightarrow> js_value" where
  "sample_item state n ps = JObj ([(''id'', JStr ''i1''), (''title'', JStr ''Build''), (''criterionIds'', JArr [JStr ''c1'']),
     (''reviewCheckpoint'', JBool True), (''order'', jnat 0), (''state'', JStr state), (''attemptCount'', jnat n), (''taskRefs'', JArr []),
     (''evidenceRefs'', JArr [])] @ ps)"

definition sample_review_plan :: "string \<Rightarrow> js_value \<Rightarrow> nat \<Rightarrow> js_record \<Rightarrow> js_record" where
  "sample_review_plan state item n ps = [(''schemaVersion'', jnat 1), (''planId'', JStr ''rp1''), (''revision'', jnat 1), (''objective'', JStr ''Ship''),
     (''objectiveDigest'', digest_value), (''state'', JStr state), (''policy'', DEFAULT_REVIEW_POLICY_V1), (''criteria'', JArr [sample_criterion]),
     (''items'', JArr [item]), (''attemptCount'', jnat n), (''replanCount'', jnat 0), (''noProgressCount'', jnat 0)] @ ps"

definition open_attempt :: js_value where
  "open_attempt = JObj [(''itemAttemptId'', JStr ''ia1''), (''attemptNumber'', jnat 1), (''state'', JStr ''open''), (''evidenceRefs'', JArr [])]"

definition accepted_item :: js_value where
  "accepted_item = sample_item ''accepted'' 1 [(''lastReview'', acceptance), (''acceptedInputDigest'', digest_value),
     (''acceptedEvidenceRefs'', JArr [JStr ''result-1'']), (''acceptedAttemptId'', JStr ''ia1'')]"

definition work_plans :: "js_record list" where
  "work_plans = [
     sample_review_plan ''active'' (sample_item ''running'' 1 [(''currentAttempt'', open_attempt)]) 1 [(''focusedRootAttemptId'', JStr ''ia1'')],
     sample_review_plan ''active'' (sample_item ''running'' 1 [(''currentAttempt'', open_attempt), (''preparedReview'', item_review)]) 1
       [(''focusedRootAttemptId'', JStr ''ia1'')],
     sample_review_plan ''active'' accepted_item 1 [],
     sample_review_plan ''active'' accepted_item 1 [(''finalPreparedReview'', final_review)],
     sample_review_plan ''reviewing'' accepted_item 1 [(''finalPreparedReview'', final_review)],
     sample_review_plan ''completed'' accepted_item 1 [(''lastReview'', acceptance)]]"

definition skipping_plans :: "js_record list" where
  "skipping_plans = [sample_review_plan ''reviewing'' (sample_item ''pending'' 0 []) 0 [], sample_review_plan ''completed'' (sample_item ''pending'' 0 []) 0 []]"

definition created_plan :: js_record where
  "created_plan = sample_review_plan ''active'' (sample_item ''pending'' 0 []) 0 []"

subsection \<open>Evaluation\<close>

text \<open>Consecutive Plans of a list are related by consecutive events.\<close>

definition review_step :: "js_record option \<Rightarrow> string \<times> js_record \<Rightarrow> js_record \<Rightarrow> bool" where
  "review_step current ev plan' \<longleftrightarrow> isReviewPlanEventTypeV1 (fst ev) \<and> (\<forall>n. 0 < n \<longrightarrow> safe_nat n \<longrightarrow>
     reduceReviewPlanEventV1 (se_hostDate review_env) (se_sha256 review_env) current \<lparr>re_type = fst ev, re_sequence = n, re_revision = 1,
       re_runId = Some ''run1'', re_correlation = JUndef, re_data = JObj (snd ev)\<rparr> = Inr plan')"

fun review_runs :: "js_record option \<Rightarrow> (string \<times> js_record) list \<Rightarrow> js_record list \<Rightarrow> bool" where
  "review_runs current [] [] = True"
| "review_runs current (ev # evs) (plan' # plans) = (review_step current ev plan' \<and> review_runs (Some plan') evs plans)"
| "review_runs _ _ _ = False"

definition review_ready :: "nat \<Rightarrow> js_record option \<Rightarrow> session_state \<Rightarrow> bool" where
  "review_ready n current s \<longleftrightarrow> ss_reviewPlan s = current \<and> en_sequence (ss_previous s) = n \<and> en_revision (ss_previous s) = 1
     \<and> en_timestamp (ss_previous s) = ''t'' \<and> ss_lifecycle s = L_open
     \<and> ss_entryIds s = map (\<lambda>k. ''entry'' @ nat_to_string k) [1..<Suc n]"

lemma step_applies:
  assumes "review_ready n current s" "review_step current (type, r) plan'" "safe_nat (Suc n)"
  shows "\<exists>s'. applyEntry review_env ''session'' s (sample_entry (Suc n) (Review_plan_entry type (JObj r))) = Inr s'
    \<and> review_ready (Suc n) (Some plan') s'"
  using assms by (auto simp: review_ready_def review_step_def applyEntry_def checkOrder_def Let_def sample_entry_def useId_def
      handleEntry_def on_review_plan_def transition_require_def)

lemma runs_apply:
  assumes "review_runs current evs plans" "review_ready n current s" "safe_nat (n + length evs)"
  shows "\<exists>s'. foldR (applyEntry review_env ''session'') s (review_entries (Suc n) evs) = Inr s'
    \<and> ss_reviewPlan s' = (if plans = [] then current else Some (last plans))"
  using assms
proof (induction current evs plans arbitrary: n s rule: review_runs.induct)
  case (2 current ev evs plan' plans)
  have "safe_nat (Suc n)" using "2.prems"(3) by (simp add: safe_nat_def)
  then obtain s' where s': "applyEntry review_env ''session'' s (sample_entry (Suc n) (Review_plan_entry (fst ev) (JObj (snd ev)))) = Inr s'"
    "review_ready (Suc n) (Some plan') s'" using step_applies[of n current s "fst ev" "snd ev" plan'] "2.prems" by auto
  show ?case using "2.IH"[OF _ s'(2)] "2.prems" s'(1) by (cases ev; cases "plans = []") (simp_all add: review_entries_def)
qed (auto simp: review_ready_def review_entries_def)

lemma log_replays:
  assumes "review_runs None evs plans" "evs \<noteq> []" "length evs < 1000"
  shows "\<exists>s. replaySession review_env (log_of evs) = Inr s \<and> ss_reviewPlan s = Some (last plans)"
proof -
  have "review_ready 1 None (initialSession (sample_entry 1 (hd sample_data)) d)" for d
    by (simp add: review_ready_def initialSession_def sample_entry_def)
  moreover obtain d where d: "en_data (sample_entry 1 (hd sample_data)) = Session_created d" by (simp add: sample_entry_def sample_data_def)
  moreover have "plans \<noteq> []" using assms(1,2) by (cases evs; cases plans) auto
  moreover have "safe_nat (1 + length evs)" "length (review_entries 2 evs) < 1000"
    using assms(3) by (simp_all add: safe_nat_def MAX_SAFE_INTEGER_def review_entries_def)
  ultimately show ?thesis using runs_apply[OF assms(1), of 1 "initialSession (sample_entry 1 (hd sample_data)) d"]
    by (simp add: replaySession_def log_of_def MAX_ENTRIES_def numeral_2_eq_2) (simp add: sample_entry_def)
qed

lemma digest_ok: "sha256_digest digest_value" by code_simp

lemma sample_ids: "safe_id_string ''i1''" "safe_id_string ''c1''" "safe_id_string ''ia1''" "safe_id_string ''rp1''" "safe_id_string ''req''"
   "safe_id_string ''pr1''"  "safe_id_string ''pr2''" "safe_id_string ''rq1''" "safe_id_string ''run1''"
  by code_simp+

lemma sample_numbers: "nonNegativeInteger (jnat 0)" "nonNegativeInteger (jnat 1)" "positiveInteger (jnat 1)" "safe_nat 0" "safe_nat (Suc 0)"
  by code_simp+

lemma sample_texts: "text_within (JStr ''Build'') MAX_DESCRIPTION_BYTES" "text_within (JStr ''Ship'') MAX_OBJECTIVE_BYTES"
    "text_within (JStr ''result-1'') 512"
  by code_simp+

lemma sample_valid: "validatePreparedReview item_review" "validatePreparedReview final_review" "validateDecisionRef acceptance"
    "validateItemAttempt open_attempt" "validateReviewPolicyV1 DEFAULT_REVIEW_POLICY_V1"
    "validateCriterionProjection sample_criterion = Some sample_criterion"
  by code_simp+

lemmas sample_reads = Let_def onlyKeys_def record_simps if_defined_def boundedArray_def stringIds_def stringListWithin_def enum_state_def
  sample_ids sample_numbers sample_texts sample_valid digest_ok

lemma digest_defined [simp]: "digest_value \<noteq> JUndef"
  by (simp add: digest_value_def)

lemma objects_defined [simp]: "item_review \<noteq> JUndef" "final_review \<noteq> JUndef" "acceptance \<noteq> JUndef" "open_attempt \<noteq> JUndef"
  by (simp_all add: item_review_def final_review_def prepared_review_def acceptance_def open_attempt_def)

lemma sample_item_valid: "validateItemProjection h (sample_item ''pending'' 0 [])"
    "validateItemProjection h (sample_item ''running'' (Suc 0) [(''currentAttempt'', open_attempt)])"
    "validateItemProjection h (sample_item ''running'' (Suc 0) [(''currentAttempt'', open_attempt), (''preparedReview'', item_review)])"
    "validateItemProjection h accepted_item"
  by (simp_all add: validateItemProjection_def sample_item_def accepted_item_def ITEM_STATES_def REVIEW_MAX_CRITERIA_def
      MAX_REVIEW_EVIDENCE_ITEMS_V1_def sample_reads)

lemma sample_item_reads: "member (sample_item state n ps) ''id'' = JStr ''i1''" "member (sample_item state n ps) ''criterionIds'' = JArr [JStr ''c1'']"
    "member accepted_item ''id'' = JStr ''i1''" "member accepted_item ''criterionIds'' = JArr [JStr ''c1'']" "member sample_criterion ''id'' = JStr ''c1''"
  by (simp_all add: sample_item_def accepted_item_def sample_criterion_def record_simps)

lemma plan_valid:
  assumes "validateItemProjection h item" "member item ''id'' = JStr ''i1''" "member item ''criterionIds'' = JArr [JStr ''c1'']"
    and state: "enum_state (JStr state) REVIEW_PLAN_STATES" and n: "safe_nat n"
    and ps: "ps \<in> {[], [(''focusedRootAttemptId'', JStr ''ia1'')], [(''finalPreparedReview'', final_review)], [(''lastReview'', acceptance)]}"
  shows "validateReviewPlanProjectionV1 h d (JObj (sample_review_plan state item n ps)) = Inr (JObj (sample_review_plan state item n ps))"
proof -
  have fields: "onlyKeys (sample_review_plan state item n ps) [''schemaVersion'', ''planId'', ''revision'', ''objective'', ''objectiveDigest'', ''state'',
           ''policy'', ''criteria'', ''items'', ''attemptCount'', ''replanCount'', ''noProgressCount'']
           [''taskContract'', ''focusedRootAttemptId'', ''block'', ''finalPreparedReview'', ''lastReview'']"
    and optionals: "if_defined safeId (getProp ps ''focusedRootAttemptId'')" "getProp ps ''block'' = JUndef" "getProp ps ''taskContract'' = JUndef"
      "if_defined validatePreparedReview (getProp ps ''finalPreparedReview'')" "if_defined validateDecisionRef (getProp ps ''lastReview'')"
    using ps by (auto simp: sample_review_plan_def onlyKeys_def record_simps if_defined_def sample_ids sample_valid)
  have "getProp (sample_review_plan state item n ps) k = (if k \<in> {''focusedRootAttemptId'', ''block'', ''taskContract'', ''finalPreparedReview'', ''lastReview''}
      then getProp ps k else getProp (sample_review_plan state item n []) k)" for k
    using ps by (auto simp: sample_review_plan_def record_simps)
  note reads = this
  have "plan_fields_ok h d (sample_review_plan state item n ps) [sample_criterion]"
    unfolding plan_fields_ok_def Let_def reads
    by (simp add: sample_review_plan_def record_simps assms(1-3) state n optionals sample_numbers sample_texts sample_ids digest_ok sample_valid
        sample_item_reads MAX_ITEMS_def boundedArray_def, simp add: if_defined_def)
  moreover have "getProp (sample_review_plan state item n ps) ''criteria'' = JArr [sample_criterion]"
    by (simp add: sample_review_plan_def record_simps)
  moreover have "setProp (sample_review_plan state item n ps) ''criteria'' (JArr [sample_criterion]) = sample_review_plan state item n ps"
    by (simp add: sample_review_plan_def setProp_def)
  ultimately show ?thesis using fields
    by (simp add: validateReviewPlanProjectionV1_def Let_def boundedArray_def REVIEW_MAX_CRITERIA_def sample_valid)
qed

text \<open>The events are valid.\<close>

lemma common_valid: "validateCommon (review_data ps)"
  by (simp add: validateCommon_def review_data_def record_simps validateReviewPlanMutationOriginV1_def onlyKeys_def sample_ids sample_numbers digest_ok)

lemma work_valid: "list_all (\<lambda>(type, data). validateEventData h d type data) work_events"
  by (simp add: work_events_def validateEventData_def common_valid)
    (simp add: review_data_def item_ids_def sample_reads)

lemma skipping_valid: "list_all (\<lambda>(type, data). validateEventData h d type data) skipping_events"
  by (simp add: skipping_events_def validateEventData_def common_valid)
    (simp add: review_data_def sample_reads REVIEW_PLAN_STATES_def)

lemma reduce_step:
  assumes "validateEventData h d type r" "isReviewPlanEventTypeV1 type" "type \<noteq> ''review_plan.created''" "type \<noteq> ''review_plan.revised''"
    "getProp r ''planId'' = getProp plan ''planId''" "getProp r ''planRevision'' = getProp plan ''revision''"
    "applyReviewPlanEvent h d plan type r = Inr plan'" "validateReviewPlanProjectionV1 h d (JObj plan') = Inr (JObj plan')" "0 < n" "safe_nat n"
  shows "reduceReviewPlanEventV1 h d (Some plan) \<lparr>re_type = type, re_sequence = n, re_revision = 1,
       re_runId = Some ''run1'', re_correlation = JUndef, re_data = JObj r\<rparr> = Inr plan'"
  using assms by (simp add: reduceReviewPlanEventV1_def validateReviewPlanEventV1_def requireCurrent_def sample_ids sample_numbers if_defined_def)

lemma created_valid: "validateEventData h (\<lambda>_. replicate 64 CHR ''a'') (fst created_event) (snd created_event)"
  by code_simp

lemmas event_eval = applyReviewPlanEvent_def mutableItem_def requireAttempt_def item_attempt_def put_item_def plan_items_def
  setProp_def delProp_def spread_def review_require_def record_simps sample_review_plan_def sample_item_def review_data_def Let_def

lemma review_reads: "is_item_scope (the_record item_review)" "scope_item (the_record item_review) = JStr ''i1''"
    "getProp (the_record item_review) ''itemAttemptId'' = JStr ''ia1''" "getProp (the_record item_review) ''planRevision'' = jnat (Suc 0)"
    "getProp (the_record item_review) ''evidenceRefs'' = JArr [JStr ''result-1'']" "getProp (the_record item_review) ''reviewInputDigest'' = digest_value"
    "getProp (the_record item_review) ''preparedReviewId'' = JStr ''pr1''" "getProp (the_record final_review) ''preparedReviewId'' = JStr ''pr2''"
    "\<not> is_item_scope (the_record final_review)" "getProp (the_record final_review) ''planRevision'' = jnat (Suc 0)"
    "member acceptance ''reviewRequestId'' = JStr ''rq1''" "member acceptance ''verdict'' = JStr ''accepted''"
    "item_review \<noteq> JNull" "final_review \<noteq> JNull"
  by (simp_all add: item_review_def final_review_def prepared_review_def acceptance_def is_item_scope_def scope_item_def record_simps)

lemmas sample_lists = work_events_def work_plans_def created_plan_def validatePreparedReviewRefV1_def validateReviewDecisionRefV1_def
  sample_valid review_reads

lemma item_runs:
  "applyReviewPlanEvent h d created_plan (fst (work_events ! 0)) (snd (work_events ! 0)) = Inr (work_plans ! 0)"
  "applyReviewPlanEvent h d (work_plans ! 0) (fst (work_events ! 1)) (snd (work_events ! 1)) = Inr (work_plans ! 1)"
  "applyReviewPlanEvent h d (work_plans ! 1) (fst (work_events ! 2)) (snd (work_events ! 2)) = Inr (work_plans ! 2)"
  subgoal by (simp add: sample_lists on_item_attempt_started_def event_eval open_attempt_def js_inc_def jnat_def)
  subgoal by (simp add: sample_lists on_review_prepared_def event_eval open_attempt_def)
  subgoal by (simp add: sample_lists on_review_recorded_def requirePrepared_def or_default_def event_eval judged_item_def member_def[of "item_review"]
      open_attempt_def accepted_item_def itemStateForVerdict_def delete_focus_def)
  done

lemma final_runs:
  "applyReviewPlanEvent h d (work_plans ! 2) (fst (work_events ! 3)) (snd (work_events ! 3)) = Inr (work_plans ! 3)"
  "applyReviewPlanEvent h d (work_plans ! 3) (fst (work_events ! 4)) (snd (work_events ! 4)) = Inr (work_plans ! 4)"
  "applyReviewPlanEvent h d (work_plans ! 4) (fst (work_events ! 5)) (snd (work_events ! 5)) = Inr (work_plans ! 5)"
  subgoal by (simp add: sample_lists on_review_prepared_def event_eval)
  subgoal by (simp add: sample_lists on_review_requested_def requirePrepared_def or_default_def event_eval assertReviewPlanTransitionV1_def
      member_def[of "final_review"])
  subgoal by (simp add: sample_lists on_review_recorded_def requirePrepared_def or_default_def event_eval assertReviewPlanTransitionV1_def
      planStateForVerdict_def member_def[of "final_review"])
  done

lemma skipping_runs:
  "applyReviewPlanEvent h d created_plan (fst (skipping_events ! 0)) (snd (skipping_events ! 0)) = Inr (skipping_plans ! 0)"
  "applyReviewPlanEvent h d (skipping_plans ! 0) (fst (skipping_events ! 1)) (snd (skipping_events ! 1)) = Inr (skipping_plans ! 1)"
  by code_simp+

lemma created_runs: "on_review_created (\<lambda>_. replicate 64 CHR ''a'') None (snd created_event) = Inr created_plan"
  by code_simp

lemma review_env_simps: "se_sha256 review_env = (\<lambda>_. replicate 64 CHR ''a'')"
  by (simp add: review_env_def)

lemma created_step: "review_step None created_event created_plan"
proof -
  have "isReviewPlanEventTypeV1 (fst created_event)" "fst created_event = ''review_plan.created''" by code_simp+
  moreover have "validateReviewPlanProjectionV1 h d (JObj created_plan) = Inr (JObj created_plan)" for h d
    unfolding created_plan_def by (rule plan_valid) (simp_all add: sample_item_valid sample_item_reads sample_numbers enum_state_def REVIEW_PLAN_STATES_def)
  ultimately show ?thesis using created_valid created_runs
    by (simp add: review_step_def review_env_simps reduceReviewPlanEventV1_def validateReviewPlanEventV1_def sample_ids sample_numbers if_defined_def)
qed

lemma changed_step:
  assumes "\<And>h d. validateEventData h d type r" "isReviewPlanEventTypeV1 type" "type \<noteq> ''review_plan.created''" "type \<noteq> ''review_plan.revised''"
    "getProp r ''planId'' = getProp plan ''planId''" "getProp r ''planRevision'' = getProp plan ''revision''"
    "\<And>h d. applyReviewPlanEvent h d plan type r = Inr plan'" "\<And>h d. validateReviewPlanProjectionV1 h d (JObj plan') = Inr (JObj plan')"
  shows "review_step (Some plan) (type, r) plan'"
  using assms reduce_step[OF assms(1-8)] by (simp add: review_step_def)

lemma sample_plan_reads: "getProp (sample_review_plan state item n ps) ''planId'' = JStr ''rp1''"
    "getProp (sample_review_plan state item n ps) ''revision'' = jnat 1"
    "getProp (review_data qs) ''planId'' = JStr ''rp1''" "getProp (review_data qs) ''planRevision'' = jnat 1"
  by (simp_all add: sample_review_plan_def review_data_def record_simps)

lemma sample_plans_valid: "list_all (\<lambda>plan. validateReviewPlanProjectionV1 h d (JObj plan) = Inr (JObj plan)) (work_plans @ skipping_plans)"
  by (simp add: work_plans_def skipping_plans_def)
    (intro conjI plan_valid; simp add: sample_item_valid sample_item_reads sample_numbers enum_state_def REVIEW_PLAN_STATES_def)

lemma work_event_types: "list_all (\<lambda>(type, r). isReviewPlanEventTypeV1 type \<and> type \<noteq> ''review_plan.created'' \<and> type \<noteq> ''review_plan.revised'')
    (work_events @ skipping_events)"
  by (simp add: work_events_def skipping_events_def isReviewPlanEventTypeV1_def REVIEW_PLAN_EVENT_TYPES_V1_def)

lemma sample_lengths: "length work_events = 6" "length work_plans = 6" "length skipping_events = 2" "length skipping_plans = 2"
  by (simp_all add: work_events_def work_plans_def skipping_events_def skipping_plans_def)

lemma work_reads: "list_all (\<lambda>plan. getProp plan ''planId'' = JStr ''rp1'' \<and> getProp plan ''revision'' = jnat 1) (created_plan # work_plans @ skipping_plans)"
    "list_all (\<lambda>(type, r). getProp r ''planId'' = JStr ''rp1'' \<and> getProp r ''planRevision'' = jnat 1) (work_events @ skipping_events)"
  by (simp_all add: created_plan_def work_plans_def skipping_plans_def work_events_def skipping_events_def sample_plan_reads)

lemma listed_step:
  assumes "ev \<in> set (work_events @ skipping_events)" "plan \<in> set (created_plan # work_plans @ skipping_plans)"
    "plan' \<in> set (work_plans @ skipping_plans)" "\<And>h d. applyReviewPlanEvent h d plan (fst ev) (snd ev) = Inr plan'"
  shows "review_step (Some plan) ev plan'"
proof -
  have "validateEventData h d (fst ev) (snd ev)" for h d
    using assms(1) work_valid[of h d] skipping_valid[of h d] by (auto simp: list_all_iff)
  moreover have "validateReviewPlanProjectionV1 h d (JObj plan') = Inr (JObj plan')" for h d
    using assms(3) sample_plans_valid[of h d] by (auto simp: list_all_iff)
  ultimately have "review_step (Some plan) (fst ev, snd ev) plan'"
    using assms work_event_types work_reads by (intro changed_step) (auto simp: list_all_iff simp del: set_append)
  then show ?thesis by simp
qed

lemma reviewed_runs: "review_runs None (created_event # work_events) (created_plan # work_plans)"
proof -
  have "review_step (Some created_plan) (work_events ! 0) (work_plans ! 0)"
    "review_step (Some (work_plans ! 0)) (work_events ! 1) (work_plans ! 1)" "review_step (Some (work_plans ! 1)) (work_events ! 2) (work_plans ! 2)"
    "review_step (Some (work_plans ! 2)) (work_events ! 3) (work_plans ! 3)" "review_step (Some (work_plans ! 3)) (work_events ! 4) (work_plans ! 4)"
    "review_step (Some (work_plans ! 4)) (work_events ! 5) (work_plans ! 5)"
    by (rule listed_step, simp add: sample_lengths, simp add: sample_lengths, simp add: sample_lengths, rule item_runs final_runs)+
  then show ?thesis using created_step by (simp add: work_events_def work_plans_def)
qed

lemma skipping_runs_through: "review_runs None (created_event # skipping_events) (created_plan # skipping_plans)"
proof -
  have "review_step (Some created_plan) (skipping_events ! 0) (skipping_plans ! 0)"
    "review_step (Some (skipping_plans ! 0)) (skipping_events ! 1) (skipping_plans ! 1)"
    by (rule listed_step, simp add: sample_lengths, simp add: sample_lengths, simp add: sample_lengths, rule skipping_runs)+
  then show ?thesis using created_step by (simp add: skipping_events_def skipping_plans_def)
qed

lemma reviewed_replays: "\<exists>s. replaySession review_env reviewed_log = Inr s
    \<and> ss_reviewPlan s = Some (sample_review_plan ''completed'' accepted_item 1 [(''lastReview'', acceptance)])"
  using log_replays[OF reviewed_runs] by (simp add: reviewed_log_def work_events_def work_plans_def)

lemma unreviewed_replays: "\<exists>s. replaySession review_env unreviewed_log = Inr s
    \<and> ss_reviewPlan s = Some (sample_review_plan ''completed'' (sample_item ''pending'' 0 []) 0 [])"
  using log_replays[OF skipping_runs_through] by (simp add: unreviewed_log_def skipping_events_def skipping_plans_def)

end
