(* ===== verification/ReviewPlanProperties.thy ===== *)
theory ReviewPlanProperties
  imports ReviewPlanSamples
begin

section \<open>Properties of review Plans\<close>

text \<open>
  What the log of a Session says about its review Plan: an item is accepted, and the Plan
  completed, by recorded decisions about reviews that were prepared before, and the counters of
  the Plan count entries of the log.
\<close>

text \<open>C31: In a Session that replays, every item of the review Plan that is accepted was accepted by a
  review: the log prepares a review of exactly this item and attempt, whose evidence is the evidence
  the item was accepted with, and later records the decision that accepts it.\<close>

theorem review_accept_requires_review:
  assumes "replaySession env entries = Inr s" "ss_reviewPlan s = Some plan" "item \<in> set (plan_items plan)"
    "member item ''state'' = JStr ''accepted''"
  shows "\<exists>before after recorded prepared. review_log entries = before @ (''review_plan.review_recorded'', recorded) # after
    \<and> (\<exists>v. (''review_plan.review_prepared'', v) \<in> set before \<and> member v ''preparedReview'' = prepared)
    \<and> member recorded ''preparedReviewId'' = member prepared ''preparedReviewId''
    \<and> member (member recorded ''decision'') ''verdict'' = JStr ''accepted''
    \<and> member (member prepared ''scope'') ''kind'' = JStr ''item'' \<and> member (member prepared ''scope'') ''itemId'' = member item ''id''
    \<and> member prepared ''itemAttemptId'' = member item ''acceptedAttemptId''
    \<and> member prepared ''evidenceRefs'' = member item ''acceptedEvidenceRefs''"
proof -
  have "validateItemProjection (se_hostDate env) item"
    using plan_ok_items(1)[OF reviewed.replay(2)[OF assms(1,2)]] assms(3) by (simp add: list_all_iff)
  then have "member item ''acceptedEvidenceRefs'' \<noteq> JUndef" using assms(4) by (auto simp: validateItemProjection_def Let_def member_def)
  moreover have "item_reviewed (review_log entries) (the_record item)"
    using reviewed.replay(1)[OF assms(1,2)] assms(3) by (simp add: plan_reviewed_def items_all_def)
  ultimately have "item_accepted (review_log entries) (the_record item)" by (simp add: item_reviewed_def member_def)
  then show ?thesis unfolding item_accepted_def decided_def prepared_in_def is_item_scope_def scope_item_def member_def by blast
qed

text \<open>C32: In a Session that replays, a completed review Plan was completed by a final review, prepared in
  the log and later accepted by a recorded decision, or else by an entry that changes its state to
  completed: the reducer accepts such an entry without any review, so the completion gate of the
  services is the only thing that asks for one.\<close>

theorem review_completion_requires_review:
  assumes "replaySession env entries = Inr s" "ss_reviewPlan s = Some plan" "getProp plan ''state'' = JStr ''completed''"
  shows "(\<exists>before after recorded prepared. review_log entries = before @ (''review_plan.review_recorded'', recorded) # after
      \<and> (\<exists>v. (''review_plan.review_prepared'', v) \<in> set before \<and> member v ''preparedReview'' = prepared)
      \<and> member recorded ''preparedReviewId'' = member prepared ''preparedReviewId''
      \<and> member (member recorded ''decision'') ''verdict'' = JStr ''accepted''
      \<and> member (member prepared ''scope'') ''kind'' \<noteq> JStr ''item'')
    \<or> (\<exists>v. (''review_plan.state_changed'', v) \<in> set (review_log entries) \<and> member v ''state'' = JStr ''completed'')"
proof -
  have "plan_accepted (review_log entries) \<or> (\<exists>ev \<in> set (review_log entries). completes_unreviewed ev)"
    using reviewed.replay(1)[OF assms(1,2)] assms(3) by (simp add: plan_reviewed_def)
  then show ?thesis
  proof
    assume "plan_accepted (review_log entries)"
    then show ?thesis unfolding plan_accepted_def decided_def prepared_in_def is_item_scope_def member_def by blast
  qed (auto simp: completes_unreviewed_def)
qed

text \<open>The second case happens: the Plan is completed with its only item pending.\<close>

lemma completed_without_review:
  "\<exists>s plan. replaySession review_env unreviewed_log = Inr s \<and> ss_reviewPlan s = Some plan \<and> getProp plan ''state'' = JStr ''completed''
     \<and> map (\<lambda>i. member i ''state'') (plan_items plan) = [JStr ''pending'']
     \<and> list_all (\<lambda>(type, _). type \<in> {''review_plan.created'', ''review_plan.state_changed''}) (review_log unreviewed_log)"
proof -
  have "list_all (\<lambda>(type, _). type \<in> {''review_plan.created'', ''review_plan.state_changed''}) (review_log unreviewed_log)"
    by (simp add: review_log_def unreviewed_log_def log_of_def review_entries_def created_event_def skipping_events_def sample_entry_def sample_data_def)
  then show ?thesis using unreviewed_replays
    by (auto simp: sample_review_plan_def sample_item_def plan_items_def record_simps)
qed

text \<open>C33: In a Session that replays, the counters of the review Plan count entries of its log: its
  revision is one more than the revisions made, its attempts are the attempts started, its no-progress
  rounds those recorded; the attempts of its items add up to at most its attempts, and its items have
  distinct ids.\<close>

theorem review_counts_entries:
  assumes "replaySession env entries = Inr s" "ss_reviewPlan s = Some plan"
  shows "getProp plan ''revision'' = jnat (1 + length (filter (\<lambda>(type, _). type = ''review_plan.revised'') (review_log entries)))
    \<and> getProp plan ''replanCount'' = jnat (length (filter (\<lambda>(type, _). type = ''review_plan.revised'') (review_log entries)))
    \<and> getProp plan ''attemptCount'' = jnat (length (filter (\<lambda>(type, _). type = ''review_plan.item_attempt_started'') (review_log entries)))
    \<and> getProp plan ''noProgressCount'' = jnat (length (filter (\<lambda>(type, _). type = ''review_plan.no_progress_recorded'') (review_log entries)))
    \<and> sum_list (map (\<lambda>i. the_int (member i ''attemptCount'')) (plan_items plan)) \<le> the_int (getProp plan ''attemptCount'')
    \<and> distinct (map (\<lambda>i. member i ''id'') (plan_items plan))"
  using counted.replay(1)[OF assms] plan_ok_items(2)[OF counted.replay(2)[OF assms]]
  by (simp add: counts_inv_def count_of_def item_attempts_def jnat_def)

subsection \<open>Witnesses\<close>

lemma review_accept_requires_review_witness:
  "\<exists>before after recorded prepared. review_log reviewed_log = before @ (''review_plan.review_recorded'', recorded) # after
    \<and> (\<exists>v. (''review_plan.review_prepared'', v) \<in> set before \<and> member v ''preparedReview'' = prepared)
    \<and> member recorded ''preparedReviewId'' = member prepared ''preparedReviewId''
    \<and> member (member recorded ''decision'') ''verdict'' = JStr ''accepted''
    \<and> member (member prepared ''scope'') ''kind'' = JStr ''item'' \<and> member (member prepared ''scope'') ''itemId'' = member accepted_item ''id''
    \<and> member prepared ''itemAttemptId'' = member accepted_item ''acceptedAttemptId''
    \<and> member prepared ''evidenceRefs'' = member accepted_item ''acceptedEvidenceRefs''"
proof -
  obtain s where s: "replaySession review_env reviewed_log = Inr s"
    "ss_reviewPlan s = Some (sample_review_plan ''completed'' accepted_item 1 [(''lastReview'', acceptance)])"
    using reviewed_replays by blast
  show ?thesis
    by (rule review_accept_requires_review[OF s])
      (simp_all add: sample_review_plan_def plan_items_def record_simps accepted_item_def sample_item_def)
qed

lemma reviewed_log_types: "map fst (review_log reviewed_log) = map fst (created_event # work_events)"
  by (simp add: review_log_def reviewed_log_def log_of_def review_entries_def created_event_def work_events_def sample_entry_def sample_data_def)

lemma review_completion_requires_review_witness:
  "\<exists>before after recorded prepared. review_log reviewed_log = before @ (''review_plan.review_recorded'', recorded) # after
      \<and> (\<exists>v. (''review_plan.review_prepared'', v) \<in> set before \<and> member v ''preparedReview'' = prepared)
      \<and> member recorded ''preparedReviewId'' = member prepared ''preparedReviewId''
      \<and> member (member recorded ''decision'') ''verdict'' = JStr ''accepted''
      \<and> member (member prepared ''scope'') ''kind'' \<noteq> JStr ''item''"
proof -
  obtain s where s: "replaySession review_env reviewed_log = Inr s"
    "ss_reviewPlan s = Some (sample_review_plan ''completed'' accepted_item 1 [(''lastReview'', acceptance)])"
    using reviewed_replays by blast
  have "''review_plan.state_changed'' \<notin> set (map fst (review_log reviewed_log))"
    unfolding reviewed_log_types by (simp add: created_event_def work_events_def)
  then have "(''review_plan.state_changed'', v) \<notin> set (review_log reviewed_log)" for v by force
  moreover have "getProp (sample_review_plan ''completed'' accepted_item 1 [(''lastReview'', acceptance)]) ''state'' = JStr ''completed''"
    by (simp add: sample_review_plan_def record_simps)
  note review_completion_requires_review[OF s this]
  ultimately show ?thesis by blast
qed

lemma review_counts_entries_witness:
  "\<exists>s plan. replaySession review_env reviewed_log = Inr s \<and> ss_reviewPlan s = Some plan
    \<and> getProp plan ''revision'' = jnat (1 + length (filter (\<lambda>(type, _). type = ''review_plan.revised'') (review_log reviewed_log)))
    \<and> getProp plan ''attemptCount'' = jnat (length (filter (\<lambda>(type, _). type = ''review_plan.item_attempt_started'') (review_log reviewed_log)))"
proof -
  obtain s plan where s: "replaySession review_env reviewed_log = Inr s" "ss_reviewPlan s = Some plan"
    using reviewed_replays by blast
  show ?thesis using s review_counts_entries[OF s] by blast
qed

end
