(* ===== verification/CancellationTree.thy ===== *)
theory CancellationTree
  imports Prelude
begin

section \<open>The cancellation tree\<close>

text \<open>
  \<open>CancellationTree\<close> of \<open>packages/core-sdk/src/contracts.ts\<close>: Runs are linked to at most one
  parent, a link that would close a cycle is refused, and cancelling a Run cancels everything below
  it. The array \<open>cancelled\<close> that \<open>cancel\<close> walks while appending to it is the part already
  walked together with the rest. The walk up the parents ends because the links form a forest;
  \<open>wouldCreateCycle\<close> has fuel for one step per link, and \<open>None\<close> is a walk that does not end.
\<close>

subsection \<open>State\<close>

datatype cancellation_reason = User_abort | Deadline_exceeded | Budget_exhausted | Parent_cancelled | Plugin_failure | Runtime_shutdown

datatype cancel_error = CANCELLATION_TREE_CYCLE | CANCELLATION_TREE_MULTIPLE_PARENTS | CANCELLATION_WALK_UNENDING

record cancel_tree =
  tr_children :: "(string \<times> string list) list"
  tr_parents :: "(string \<times> string) list"
  tr_cancelled :: "(string \<times> cancellation_reason) list"

definition empty_tree :: cancel_tree where
  "empty_tree = \<lparr>tr_children = [], tr_parents = [], tr_cancelled = []\<rparr>"

definition children_of :: "(string \<times> string list) list \<Rightarrow> string \<Rightarrow> string list" where
  "children_of children p = (case map_of children p of None \<Rightarrow> [] | Some cs \<Rightarrow> cs)"

subsection \<open>Operations\<close>

text \<open>One round of the inner loop: the children of a Run that are not cancelled yet.\<close>

fun cancel_children :: "(string \<times> cancellation_reason) list \<Rightarrow> string list \<Rightarrow> (string \<times> cancellation_reason) list \<times> string list" where
  "cancel_children cancelled [] = (cancelled, [])"
| "cancel_children cancelled (c # cs) =
     (if map_of cancelled c \<noteq> None then cancel_children cancelled cs
      else (let (after, fresh) = cancel_children (AList.update c Parent_cancelled cancelled) cs in (after, c # fresh)))"

definition uncancelled :: "(string \<times> string list) list \<Rightarrow> (string \<times> cancellation_reason) list \<Rightarrow> string set" where
  "uncancelled children cancelled = {c \<in> set (concat (map snd children)). map_of cancelled c = None}"

lemma cancel_children_spec:
  assumes "cancel_children cancelled cs = (after, fresh)"
  shows "map_of after x = (if x \<in> set fresh then Some Parent_cancelled else map_of cancelled x)
    \<and> distinct fresh \<and> set fresh = {c \<in> set cs. map_of cancelled c = None}"
  using assms
proof (induction cs arbitrary: cancelled after fresh)
  case (Cons c cs)
  show ?case
  proof (cases "map_of cancelled c")
    case None
    obtain after' fresh' where rest: "cancel_children (AList.update c Parent_cancelled cancelled) cs = (after', fresh')"
      by fastforce
    then have "after = after'" "fresh = c # fresh'" using Cons.prems None by auto
    then show ?thesis using Cons.IH[OF rest] None by auto
  qed (use Cons in auto)
qed simp

lemma uncancelled_shrinks:
  assumes "cancel_children cancelled (children_of children p) = (after, fresh)"
  shows "card (uncancelled children after) + length fresh = card (uncancelled children cancelled)"
proof -
  note spec = cancel_children_spec[OF assms]
  have len: "length fresh = card (set fresh)" by (metis distinct_card spec)
  have fin: "finite (uncancelled children cancelled)" for cancelled by (simp add: uncancelled_def)
  have "set (children_of children p) \<subseteq> set (concat (map snd children))"
  proof (cases "map_of children p")
    case (Some cs)
    then have "(p, cs) \<in> set children" by (rule map_of_SomeD)
    then show ?thesis by (force simp: children_of_def Some)
  qed (simp add: children_of_def)
  then have "set fresh \<subseteq> uncancelled children cancelled" using spec by (auto simp: uncancelled_def)
  moreover have "uncancelled children after = uncancelled children cancelled - set fresh"
    using spec by (auto simp: uncancelled_def split: if_splits)
  ultimately show ?thesis using fin[of cancelled] card_mono[OF fin[of cancelled]] by (simp add: len card_Diff_subset finite_subset)
qed

function cancel_walk :: "(string \<times> string list) list \<Rightarrow> (string \<times> cancellation_reason) list \<Rightarrow> string list \<Rightarrow> string list
    \<Rightarrow> (string \<times> cancellation_reason) list \<times> string list" where
  "cancel_walk children cancelled walked [] = (cancelled, walked)"
| "cancel_walk children cancelled walked (p # rest) =
     (let (after, fresh) = cancel_children cancelled (children_of children p) in
      cancel_walk children after (walked @ [p]) (rest @ fresh))"
  by pat_completeness auto
termination
  by (relation "measure (\<lambda>(children, cancelled, walked, rest). card (uncancelled children cancelled) + length rest)")
    (auto dest!: uncancelled_shrinks[OF sym])

definition reported :: "string \<Rightarrow> cancellation_reason \<Rightarrow> string list \<Rightarrow> (string \<times> cancellation_reason) list" where
  "reported runId reason ids = map (\<lambda>i. (i, if i = runId then reason else Parent_cancelled)) ids"

definition cancel_run :: "cancel_tree \<Rightarrow> string \<Rightarrow> cancellation_reason \<Rightarrow> cancel_tree \<times> (string \<times> cancellation_reason) list" where
  "cancel_run tree runId reason = (if map_of (tr_cancelled tree) runId \<noteq> None then (tree, [])
     else (let (after, ids) = cancel_walk (tr_children tree) (AList.update runId reason (tr_cancelled tree)) [] [runId] in
       (tree\<lparr>tr_cancelled := after\<rparr>, reported runId reason ids)))"

fun climbs_to :: "nat \<Rightarrow> (string \<times> string) list \<Rightarrow> string \<Rightarrow> string \<Rightarrow> bool option" where
  "climbs_to 0 parents target candidate = None"
| "climbs_to (Suc fuel) parents target candidate = (if candidate = target then Some True
     else (case map_of parents candidate of None \<Rightarrow> Some False | Some p \<Rightarrow> climbs_to fuel parents target p))"

definition wouldCreateCycle :: "cancel_tree \<Rightarrow> string \<Rightarrow> string \<Rightarrow> bool option" where
  "wouldCreateCycle tree parentRunId childRunId =
     climbs_to (length (tr_parents tree) + 2) (tr_parents tree) childRunId parentRunId"

definition link_run :: "cancel_tree \<Rightarrow> string \<Rightarrow> string \<Rightarrow> cancel_error + cancel_tree" where
  "link_run tree parentRunId childRunId =
     (if parentRunId = childRunId then Inl CANCELLATION_TREE_CYCLE
      else let existingParent = map_of (tr_parents tree) childRunId in
        if existingParent \<noteq> None \<and> existingParent \<noteq> Some parentRunId then Inl CANCELLATION_TREE_MULTIPLE_PARENTS
        else if existingParent = Some parentRunId then Inr tree
        else (case wouldCreateCycle tree parentRunId childRunId of
            None \<Rightarrow> Inl CANCELLATION_WALK_UNENDING
          | Some True \<Rightarrow> Inl CANCELLATION_TREE_CYCLE
          | Some False \<Rightarrow>
              let children = children_of (tr_children tree) parentRunId;
                  tree = tree\<lparr>tr_parents := AList.update childRunId parentRunId (tr_parents tree),
                    tr_children := AList.update parentRunId (if childRunId \<in> set children then children else children @ [childRunId])
                      (tr_children tree)\<rparr> in
              Inr (if map_of (tr_cancelled tree) parentRunId \<noteq> None \<and> map_of (tr_cancelled tree) childRunId = None
                then fst (cancel_run tree childRunId Parent_cancelled) else tree)))"

definition unlink_run :: "cancel_tree \<Rightarrow> string \<Rightarrow> string \<Rightarrow> cancel_tree \<times> bool" where
  "unlink_run tree parentRunId childRunId =
     (if map_of (tr_parents tree) childRunId \<noteq> Some parentRunId then (tree, False)
      else (let siblings = filter (\<lambda>c. c \<noteq> childRunId) (children_of (tr_children tree) parentRunId) in
        (tree\<lparr>tr_parents := AList.delete childRunId (tr_parents tree),
           tr_children := (if map_of (tr_children tree) parentRunId = None then tr_children tree
             else if siblings = [] then AList.delete parentRunId (tr_children tree)
             else AList.update parentRunId siblings (tr_children tree))\<rparr>, True)))"

definition reasonFor :: "cancel_tree \<Rightarrow> string \<Rightarrow> cancellation_reason option" where
  "reasonFor tree runId = map_of (tr_cancelled tree) runId"

definition parentFor :: "cancel_tree \<Rightarrow> string \<Rightarrow> string option" where
  "parentFor tree runId = map_of (tr_parents tree) runId"

subsection \<open>The forest and its invariant\<close>

definition links :: "cancel_tree \<Rightarrow> (string \<times> string) set" where
  "links tree = {(c, p). map_of (tr_parents tree) c = Some p}"

text \<open>The Runs at or below a Run.\<close>

definition below :: "cancel_tree \<Rightarrow> string \<Rightarrow> string set" where
  "below tree r = {x. (x, r) \<in> (links tree)\<^sup>*}"

definition is_cancelled :: "cancel_tree \<Rightarrow> string \<Rightarrow> bool" where
  "is_cancelled tree r \<longleftrightarrow> reasonFor tree r \<noteq> None"

definition tree_inv :: "cancel_tree \<Rightarrow> bool" where
  "tree_inv tree \<longleftrightarrow> (\<forall>p c. c \<in> set (children_of (tr_children tree) p) \<longleftrightarrow> (c, p) \<in> links tree) \<and> acyclic (links tree)
     \<and> (\<forall>(c, p) \<in> links tree. is_cancelled tree p \<longrightarrow> is_cancelled tree c)"

text \<open>Between linking a Run to a cancelled parent and cancelling it, only this link is out of order.\<close>

definition nearly_inv :: "string \<Rightarrow> cancel_tree \<Rightarrow> bool" where
  "nearly_inv r tree \<longleftrightarrow> (\<forall>p c. c \<in> set (children_of (tr_children tree) p) \<longleftrightarrow> (c, p) \<in> links tree) \<and> acyclic (links tree)
     \<and> (\<forall>(c, p) \<in> links tree. is_cancelled tree p \<longrightarrow> is_cancelled tree c \<or> c = r)"

lemma tree_inv_nearly: "tree_inv tree \<Longrightarrow> nearly_inv r tree"
  by (auto simp: tree_inv_def nearly_inv_def)

lemma empty_tree_inv: "tree_inv empty_tree"
  by (simp add: tree_inv_def empty_tree_def links_def children_of_def acyclic_def)

subsection \<open>Cancelling\<close>

lemma cancel_walk_spec:
  assumes "cancel_walk children cancelled walked rest = (after, ids)"
  shows "\<exists>new. ids = walked @ rest @ new \<and> distinct new \<and> (\<forall>x \<in> set new. map_of cancelled x = None)
    \<and> set new \<subseteq> {(p, c). c \<in> set (children_of children p)}\<^sup>+ `` set rest
    \<and> (\<forall>x. map_of after x = (if x \<in> set new then Some Parent_cancelled else map_of cancelled x))
    \<and> (\<forall>p \<in> set rest \<union> set new. \<forall>c \<in> set (children_of children p). map_of after c \<noteq> None)"
  using assms
proof (induction children cancelled walked rest rule: cancel_walk.induct)
  case (2 children cancelled walked p rest)
  let ?E = "{(p, c). c \<in> set (children_of children p)}"
  obtain mid fresh where mid: "cancel_children cancelled (children_of children p) = (mid, fresh)" by fastforce
  note spec = cancel_children_spec[OF mid]
  have "cancel_walk children mid (walked @ [p]) (rest @ fresh) = (after, ids)" using "2.prems" mid by simp
  then obtain new where new: "ids = (walked @ [p]) @ (rest @ fresh) @ new" "distinct new" "\<forall>x \<in> set new. map_of mid x = None"
    "set new \<subseteq> ?E\<^sup>+ `` set (rest @ fresh)" "\<And>x. map_of after x = (if x \<in> set new then Some Parent_cancelled else map_of mid x)"
    "\<forall>q \<in> set (rest @ fresh) \<union> set new. \<forall>c \<in> set (children_of children q). map_of after c \<noteq> None"
    using "2.IH"[OF mid[symmetric] refl] by blast
  have fresh: "set fresh \<subseteq> ?E `` {p}" using spec by auto
  have "set new \<subseteq> ?E\<^sup>+ `` set (p # rest)"
  proof
    fix x assume "x \<in> set new"
    then obtain y where y: "(y, x) \<in> ?E\<^sup>+" "y \<in> set rest \<union> set fresh" using new(4) by auto
    then show "x \<in> ?E\<^sup>+ `` set (p # rest)" using fresh by (auto intro: trancl_into_trancl2)
  qed
  moreover have "set fresh \<subseteq> ?E\<^sup>+ `` set (p # rest)" using fresh by auto
  moreover have "map_of after c \<noteq> None" if "c \<in> set (children_of children p)" for c
    using spec that new(5) by (cases "map_of cancelled c") auto
  ultimately show ?case using new spec by (intro exI[of _ "fresh @ new"]) (auto split: if_splits)
qed simp

lemma cancel_run_spec:
  assumes "nearly_inv r tree" "cancel_run tree r reason = (tree', out)" "\<not> is_cancelled tree r"
  shows "reasonFor tree' x = (if x \<in> below tree r \<and> \<not> is_cancelled tree x then Some (if x = r then reason else Parent_cancelled)
      else reasonFor tree x)"
    "tree' = tree\<lparr>tr_cancelled := tr_cancelled tree'\<rparr>" "distinct out"
    "set out = (\<lambda>x. (x, if x = r then reason else Parent_cancelled)) ` {x \<in> below tree r. \<not> is_cancelled tree x}"
proof -
  obtain after ids where walk: "cancel_walk (tr_children tree) (AList.update r reason (tr_cancelled tree)) [] [r] = (after, ids)" by fastforce
  have none: "map_of (tr_cancelled tree) r = None" using assms(3) by (simp add: is_cancelled_def reasonFor_def)
  then have out: "tree' = tree\<lparr>tr_cancelled := after\<rparr>" "out = reported r reason ids" using assms(2) walk by (auto simp: cancel_run_def)
  have E: "{(p, c). c \<in> set (children_of (tr_children tree) p)} = (links tree)\<inverse>" using assms(1) by (auto simp: nearly_inv_def)
  obtain new where spec: "ids = [] @ [r] @ new" "distinct new" "\<forall>x \<in> set new. map_of (AList.update r reason (tr_cancelled tree)) x = None"
    "set new \<subseteq> ((links tree)\<inverse>)\<^sup>+ `` set [r]"
    "\<forall>x. map_of after x = (if x \<in> set new then Some Parent_cancelled else map_of (AList.update r reason (tr_cancelled tree)) x)"
    "\<forall>p \<in> set [r] \<union> set new. \<forall>c \<in> set (children_of (tr_children tree) p). map_of after c \<noteq> None"
    using cancel_walk_spec[OF walk] unfolding E by blast
  have new: "ids = r # new" "distinct new" "\<forall>x \<in> set new. x \<noteq> r \<and> map_of (tr_cancelled tree) x = None" "set new \<subseteq> ((links tree)\<inverse>)\<^sup>+ `` {r}"
    using spec by (auto split: if_splits)
  have state: "map_of after x = (if x \<in> set new then Some Parent_cancelled else if x = r then Some reason else map_of (tr_cancelled tree) x)" for x
    using spec(5) by simp
  note new = new state
  have closed: "map_of after c \<noteq> None" if "p = r \<or> p \<in> set new" "(c, p) \<in> links tree" for p c
    using spec(6) that assms(1) by (auto simp: nearly_inv_def)
  have known: "map_of after x \<noteq> None" if "(x, r) \<in> (links tree)\<^sup>*" for x
    using that
  proof (induction rule: converse_rtrancl_induct)
    case (step c p)
    show ?case
    proof (cases "p = r \<or> p \<in> set new")
      case False
      then have "is_cancelled tree p" using step.IH new(5) by (auto simp: is_cancelled_def reasonFor_def split: if_splits)
      moreover have "c \<noteq> r" using assms(1) step.hyps by (auto simp: nearly_inv_def acyclic_def dest: rtrancl_into_trancl2)
      ultimately have "is_cancelled tree c" using assms(1) step.hyps(1) by (auto simp: nearly_inv_def)
      then show ?thesis using new(5) by (auto simp: is_cancelled_def reasonFor_def split: if_splits)
    qed (use closed step in blast)
  qed (use new(5) in simp)
  have "set ids = {x \<in> below tree r. \<not> is_cancelled tree x}"
  proof (intro set_eqI iffI)
    fix x assume "x \<in> set ids"
    then show "x \<in> {x \<in> below tree r. \<not> is_cancelled tree x}"
      using new(1,3,4) none by (auto simp: below_def is_cancelled_def reasonFor_def trancl_converse dest: trancl_into_rtrancl)
  next
    fix x assume "x \<in> {x \<in> below tree r. \<not> is_cancelled tree x}"
    then show "x \<in> set ids" using known[of x] new(1,5) by (auto simp: below_def is_cancelled_def reasonFor_def split: if_splits)
  qed
  moreover have "distinct ids" using new(1-3) by auto
  ultimately show "set out = (\<lambda>x. (x, if x = r then reason else Parent_cancelled)) ` {x \<in> below tree r. \<not> is_cancelled tree x}"
      "distinct out" by (auto simp: out reported_def distinct_map inj_on_def)
  show "reasonFor tree' x = (if x \<in> below tree r \<and> \<not> is_cancelled tree x then Some (if x = r then reason else Parent_cancelled)
      else reasonFor tree x)"
    using \<open>set ids = _\<close> new(1,3,5) none by (auto simp: out(1) reasonFor_def is_cancelled_def)
  show "tree' = tree\<lparr>tr_cancelled := tr_cancelled tree'\<rparr>" by (simp add: out(1))
qed

lemma cancel_run_closes:
  assumes inv: "nearly_inv r tree" and c: "cancel_run tree r reason = (tree', out)" and r: "\<not> is_cancelled tree r"
  shows "tree_inv tree'"
proof -
  note spec = cancel_run_spec[OF inv c r]
  have same: "links tree' = links tree" "tr_children tree' = tr_children tree" by (simp_all add: links_def, (subst spec(2), simp)+)
  have "is_cancelled tree' c" if "(c, p) \<in> links tree" "is_cancelled tree' p" for c p
  proof (cases "p \<in> below tree r \<or> c = r")
    case True
    then have "c \<in> below tree r" using that(1) by (auto simp: below_def intro: converse_rtrancl_into_rtrancl)
    then show ?thesis using spec(1)[of c] by (auto simp: is_cancelled_def)
  next
    case False
    then have "is_cancelled tree p" using that(2) spec(1)[of p] by (simp add: is_cancelled_def)
    then have "is_cancelled tree c" using inv that(1) False by (auto simp: nearly_inv_def)
    then show ?thesis using spec(1)[of c] by (auto simp: is_cancelled_def)
  qed
  then show ?thesis using inv by (auto simp: nearly_inv_def tree_inv_def same)
qed

lemma cancel_run_inv: "tree_inv tree \<Longrightarrow> tree_inv (fst (cancel_run tree r reason))"
proof (cases "is_cancelled tree r")
  case False
  assume "tree_inv tree"
  then show ?thesis using cancel_run_closes[OF tree_inv_nearly _ False] by (cases "cancel_run tree r reason") auto
qed (simp add: cancel_run_def is_cancelled_def reasonFor_def)

subsection \<open>Linking and unlinking\<close>

lemma climbs_to_Some: "climbs_to n parents target c = Some b \<Longrightarrow> b \<longleftrightarrow> (c, target) \<in> {(c, p). map_of parents c = Some p}\<^sup>*"
proof (induction n parents target c rule: climbs_to.induct)
  case (2 fuel parents target c)
  let ?L = "{(c, p). map_of parents c = Some p}"
  show ?case
  proof (cases "c = target")
    case False
    then have step: "(c, target) \<in> ?L\<^sup>* \<longleftrightarrow> (\<exists>p. map_of parents c = Some p \<and> (p, target) \<in> ?L\<^sup>*)"
      by (auto elim: converse_rtranclE intro: converse_rtrancl_into_rtrancl)
    then show ?thesis using 2 False by (auto split: option.splits)
  qed (use 2 in auto)
qed simp

text \<open>A walk that uses up its fuel passes that many Runs with a parent.\<close>

lemma climbs_to_None:
  assumes "climbs_to n parents target c = None" "acyclic {(c, p). map_of parents c = Some p}"
  shows "\<exists>xs. length xs = n \<and> distinct xs \<and> set xs \<subseteq> fst ` set parents
    \<and> set xs \<subseteq> {x. (c, x) \<in> {(c, p). map_of parents c = Some p}\<^sup>*}"
  using assms
proof (induction n parents target c rule: climbs_to.induct)
  case (2 fuel parents target c)
  let ?L = "{(c, p). map_of parents c = Some p}"
  obtain p where p: "map_of parents c = Some p" "climbs_to fuel parents target p = None"
    using "2.prems"(1) by (auto split: if_splits option.splits)
  then obtain xs where xs: "length xs = fuel" "distinct xs" "set xs \<subseteq> fst ` set parents" "set xs \<subseteq> {x. (p, x) \<in> ?L\<^sup>*}"
    using 2 by (auto split: if_splits)
  have "(c, c) \<notin> ?L\<^sup>+" using "2.prems"(2) by (simp add: acyclic_def)
  then have "c \<notin> set xs" using p(1) xs(4) by (auto dest: rtrancl_into_trancl2[rotated])
  moreover have "c \<in> fst ` set parents" using p(1) by (force dest: map_of_SomeD)
  ultimately show ?case using xs p(1)
    by (intro exI[of _ "c # xs"]) (auto intro: converse_rtrancl_into_rtrancl)
qed simp

lemma wouldCreateCycle_iff:
  assumes "acyclic (links tree)" shows "wouldCreateCycle tree p c = Some ((p, c) \<in> (links tree)\<^sup>*)"
proof (cases "wouldCreateCycle tree p c")
  case None
  then obtain xs where xs: "length xs = length (tr_parents tree) + 2" "distinct xs" "set xs \<subseteq> fst ` set (tr_parents tree)"
    using climbs_to_None[OF None[unfolded wouldCreateCycle_def] assms[unfolded links_def]] by blast
  have "card (set xs) \<le> card (fst ` set (tr_parents tree))" using xs(3) by (simp add: card_mono)
  also have "\<dots> \<le> length (tr_parents tree)" using card_image_le[of "set (tr_parents tree)" fst] card_length[of "tr_parents tree"] by simp
  finally show ?thesis using xs(1,2) by (simp add: distinct_card)
next
  case (Some b)
  then show ?thesis using climbs_to_Some[OF Some[unfolded wouldCreateCycle_def]] by (simp add: links_def)
qed

lemma children_of_update: "children_of (AList.update p cs children) q = (if q = p then cs else children_of children q)"
  by (simp add: children_of_def)

lemma children_of_delete: "children_of (AList.delete p children) q = (if q = p then [] else children_of children q)"
  by (simp add: children_of_def AList.delete_conv')

lemma link_run_inv:
  assumes "tree_inv tree" "link_run tree p c = Inr tree'" shows "tree_inv tree'"
proof (cases "map_of (tr_parents tree) c = Some p")
  case False
  have cyc: "acyclic (links tree)" using assms(1) by (simp add: tree_inv_def)
  define cs where "cs = children_of (tr_children tree) p"
  define linked where "linked = tree\<lparr>tr_parents := AList.update c p (tr_parents tree),
    tr_children := AList.update p (if c \<in> set cs then cs else cs @ [c]) (tr_children tree)\<rparr>"
  have new: "map_of (tr_parents tree) c = None" "(p, c) \<notin> (links tree)\<^sup>*"
    and tree': "tree' = (if map_of (tr_cancelled linked) p \<noteq> None \<and> map_of (tr_cancelled linked) c = None
      then fst (cancel_run linked c Parent_cancelled) else linked)"
    using assms(2) False wouldCreateCycle_iff[OF cyc]
    by (auto simp: link_run_def Let_def linked_def cs_def split: if_splits option.splits bool.splits)
  have links: "links linked = insert (c, p) (links tree)" using new(1) by (auto simp: links_def linked_def split: if_splits)
  have "set (children_of (tr_children linked) q) = (if q = p then insert c (set cs) else set (children_of (tr_children tree) q))" for q
    by (auto simp: linked_def children_of_update)
  then have kids: "d \<in> set (children_of (tr_children linked) q) \<longleftrightarrow> (d, q) \<in> links linked" for d q
    using assms(1) unfolding links by (auto simp: tree_inv_def cs_def)
  have acyc: "acyclic (links linked)" using cyc new(2) by (simp add: links acyclic_insert)
  have canc: "is_cancelled linked x = is_cancelled tree x" for x by (simp add: is_cancelled_def reasonFor_def linked_def)
  have order: "is_cancelled linked x \<or> x = c" if "(x, y) \<in> links linked" "is_cancelled linked y" for x y
    using that assms(1) by (auto simp: tree_inv_def canc links)
  show ?thesis
  proof (cases "is_cancelled tree p \<and> \<not> is_cancelled tree c")
    case True
    have "nearly_inv c linked" using kids acyc order by (auto simp: nearly_inv_def)
    moreover have "tree' = fst (cancel_run linked c Parent_cancelled)" "\<not> is_cancelled linked c"
      using True tree' canc by (simp_all add: is_cancelled_def reasonFor_def)
    ultimately show ?thesis using cancel_run_closes by (cases "cancel_run linked c Parent_cancelled") auto
  next
    case ok: False
    then have "tree' = linked" using tree' canc[of c] canc[of p] unfolding is_cancelled_def reasonFor_def by presburger
    then show ?thesis using kids acyc ok assms(1) by (auto simp: tree_inv_def canc links)
  qed
qed (use assms in \<open>auto simp: link_run_def Let_def split: if_splits\<close>)

lemma unlink_run_inv:
  assumes "tree_inv tree" shows "tree_inv (fst (unlink_run tree p c))"
proof (cases "map_of (tr_parents tree) c = Some p")
  case True
  define tree' where "tree' = fst (unlink_run tree p c)"
  have links: "links tree' = links tree - {(c, p)}"
    using True by (auto simp: tree'_def unlink_run_def Let_def links_def AList.delete_conv' split: if_splits)
  have "c \<in> set (children_of (tr_children tree) p)" using True assms by (auto simp: tree_inv_def links_def)
  then have "map_of (tr_children tree) p \<noteq> None" by (cases "map_of (tr_children tree) p") (simp_all add: children_of_def)
  then have "set (children_of (tr_children tree') q) = set (children_of (tr_children tree) q) - (if q = p then {c} else {})" for q
    using True by (auto simp: tree'_def unlink_run_def Let_def children_of_update children_of_delete filter_empty_conv)
  moreover have "(c, q) \<notin> links tree" if "q \<noteq> p" for q using True that by (simp add: links_def)
  ultimately have "d \<in> set (children_of (tr_children tree') q) \<longleftrightarrow> (d, q) \<in> links tree'" for d q
    using assms by (auto simp: links tree_inv_def)
  moreover have "acyclic (links tree')" using assms by (auto simp: links tree_inv_def intro: acyclic_subset)
  moreover have "is_cancelled tree' x = is_cancelled tree x" for x
    by (simp add: is_cancelled_def reasonFor_def tree'_def unlink_run_def Let_def)
  ultimately show ?thesis using assms unfolding tree'_def[symmetric] by (auto simp: tree_inv_def links)
qed (use assms in \<open>simp add: unlink_run_def\<close>)

subsection \<open>Every tree that can arise\<close>

datatype tree_call = Link string string | Unlink string string | Cancel string cancellation_reason

fun tree_step :: "cancel_tree \<Rightarrow> tree_call \<Rightarrow> cancel_tree" where
  "tree_step tree (Link p c) = (case link_run tree p c of Inl _ \<Rightarrow> tree | Inr tree' \<Rightarrow> tree')"
| "tree_step tree (Unlink p c) = fst (unlink_run tree p c)"
| "tree_step tree (Cancel r reason) = fst (cancel_run tree r reason)"

lemma tree_step_inv: "tree_inv tree \<Longrightarrow> tree_inv (tree_step tree call)"
  by (cases call) (auto intro: link_run_inv unlink_run_inv cancel_run_inv split: sum.splits)

lemma calls_inv: "tree_inv tree \<Longrightarrow> tree_inv (foldl tree_step tree calls)"
  by (induction calls arbitrary: tree) (auto intro: tree_step_inv)

end
