(* ===== verification/SubagentLedger.thy ===== *)
theory SubagentLedger
  imports SessionJournal CancellationTree
begin

section \<open>The admission ledger of child Runs\<close>

text \<open>
  \<open>InMemorySubagentAdmissionLedger\<close> and the facade \<open>DisabledSubagentRegistry\<close> of
  \<open>apps/runtime/src/subagent/admission.ts\<close>, with \<open>clampChildBudget\<close> of \<open>contracts.ts\<close>. A child
  Run is admitted under a parent: a reservation occupies one child Run and one active slot of the
  parent and of every ancestor, acceptance turns the first into a permanent charge, settlement or
  release gives the slot back.

  An operation may throw after it has written, so it returns the ledger it leaves together with the
  error or the result (\<open>thenL\<close> sequences two of them). Budgets and usages arrive unvalidated, as
  records of JavaScript values; a deadline that is no string is kept as the string \<open>Date.parse\<close> makes
  of it. \<open>parse\<close> is the \<open>Date.parse\<close> of the host, \<open>None\<close> for \<open>NaN\<close>;
  \<open>add\<close> is the addition of costs. The walk up the ancestors has fuel for one step per
  reservation; \<open>ADMISSION_WALK_UNENDING\<close> is no error of the source but a walk that does not end, and
  \<open>REMAINING_UNDEFINED\<close> is the \<open>TypeError\<close> of \<open>clampChildBudget\<close> on an undefined budget.
\<close>

subsection \<open>Budgets and usage\<close>

datatype admission_error =
    SUBAGENT_SCOPE_EXISTS | INVALID_SUBAGENT_ADMISSION_STATE | SUBAGENT_CHILD_CONFLICT | SUBAGENT_CHILD_RUN_BUDGET_EXHAUSTED
  | SUBAGENT_PARALLEL_BUDGET_EXHAUSTED | SUBAGENT_DEPTH_EXHAUSTED | SUBAGENT_EXECUTION_BUDGET_EXHAUSTED
  | SUBAGENT_ADMISSION_NOT_PENDING | SUBAGENT_ADMISSION_NOT_RELEASABLE | SUBAGENT_EXECUTION_NOT_ACCEPTED
  | SUBAGENT_DESCENDANTS_ACTIVE | SUBAGENT_SCOPE_NOT_FOUND | SUBAGENT_ADMISSION_NOT_FOUND | INVALID_EXECUTION_BUDGET
  | INVALID_SUBAGENT_USAGE | SUBAGENT_USAGE_REGRESSION | INVALID_DEADLINE | SUBAGENT_PARENT_CANCELLED
  | SUBAGENT_CANCELLATION cancel_error | REMAINING_UNDEFINED | ADMISSION_WALK_UNENDING

type_synonym 'a admission_result = "admission_error + 'a"

definition opt_value :: "nat option \<Rightarrow> nat" where
  "opt_value v = (case v of None \<Rightarrow> 0 | Some n \<Rightarrow> n)"

definition toTimestamp :: "(string \<Rightarrow> int option) \<Rightarrow> string \<Rightarrow> int admission_result" where
  "toTimestamp parse deadlineAt = (case parse deadlineAt of None \<Rightarrow> Inl INVALID_DEADLINE | Some t \<Rightarrow> Inr t)"

definition earliestDeadline :: "(string \<Rightarrow> int option) \<Rightarrow> string option \<Rightarrow> string option \<Rightarrow> string option admission_result" where
  "earliestDeadline parse requested remaining =
     andThen (optR (toTimestamp parse) requested) (\<lambda>requestedTimestamp.
     andThen (optR (toTimestamp parse) remaining) (\<lambda>remainingTimestamp.
     Inr (case (requestedTimestamp, remainingTimestamp) of (None, None) \<Rightarrow> None | (None, Some _) \<Rightarrow> remaining | (Some _, None) \<Rightarrow> requested
       | (Some r, Some m) \<Rightarrow> if r \<le> m then requested else remaining)))"

definition minOptional :: "nat option \<Rightarrow> nat option \<Rightarrow> nat option" where
  "minOptional requested remaining = (case (requested, remaining) of (None, m) \<Rightarrow> m | (r, None) \<Rightarrow> r | (Some r, Some m) \<Rightarrow> Some (min r m))"

definition clampChildBudget :: "(string \<Rightarrow> int option) \<Rightarrow> execution_budget \<Rightarrow> execution_budget \<Rightarrow> execution_budget admission_result" where
  "clampChildBudget parse requested remaining =
     andThen (earliestDeadline parse (eb_deadlineAt requested) (eb_deadlineAt remaining)) (\<lambda>deadlineAt.
     Inr \<lparr>eb_maxTurns = min (eb_maxTurns requested) (eb_maxTurns remaining),
       eb_maxToolCalls = min (eb_maxToolCalls requested) (eb_maxToolCalls remaining),
       eb_maxTokens = minOptional (eb_maxTokens requested) (eb_maxTokens remaining),
       eb_maxChildRuns = min (eb_maxChildRuns requested) (eb_maxChildRuns remaining),
       eb_maxParallelChildren = min (eb_maxParallelChildren requested) (eb_maxParallelChildren remaining),
       eb_maxDepth = min (eb_maxDepth requested) (eb_maxDepth remaining), eb_deadlineAt = deadlineAt\<rparr>)"

definition validateAdmissionBudget :: "(string \<Rightarrow> int option) \<Rightarrow> js_record \<Rightarrow> execution_budget admission_result" where
  "validateAdmissionBudget parse budget = (let f = getProp budget in
     if \<not> nonNegativeInteger (f ''maxTurns'') \<or> \<not> nonNegativeInteger (f ''maxToolCalls'') \<or> \<not> nonNegativeInteger (f ''maxChildRuns'')
       \<or> \<not> nonNegativeInteger (f ''maxParallelChildren'') \<or> the_nat (f ''maxParallelChildren'') > the_nat (f ''maxChildRuns'')
       \<or> \<not> nonNegativeInteger (f ''maxDepth'') \<or> (f ''maxTokens'' \<noteq> JUndef \<and> \<not> nonNegativeInteger (f ''maxTokens''))
       \<or> (f ''deadlineAt'' \<noteq> JUndef \<and> parse (js_String (f ''deadlineAt'')) = None)
     then Inl INVALID_EXECUTION_BUDGET
     else Inr \<lparr>eb_maxTurns = the_nat (f ''maxTurns''), eb_maxToolCalls = the_nat (f ''maxToolCalls''),
       eb_maxTokens = map_option the_nat (optional (f ''maxTokens'')), eb_maxChildRuns = the_nat (f ''maxChildRuns''),
       eb_maxParallelChildren = the_nat (f ''maxParallelChildren''), eb_maxDepth = the_nat (f ''maxDepth''),
       eb_deadlineAt = map_option js_String (optional (f ''deadlineAt''))\<rparr>)"

record parent_usage =
  su_turns :: nat
  su_toolCalls :: nat
  su_provider :: provider_usage

definition emptyParentUsage :: parent_usage where
  "emptyParentUsage = \<lparr>su_turns = 0, su_toolCalls = 0, su_provider = no_provider_usage\<rparr>"

definition emptyBudgetUsage :: budget_usage where
  "emptyBudgetUsage = \<lparr>bu_turns = 0, bu_toolCalls = 0, bu_subagents = 0, bu_provider = no_provider_usage\<rparr>"

fun finite_cost :: "js_value \<Rightarrow> rat option" where
  "finite_cost (JNum (Whole i)) = (if i < 0 then None else Some (of_int i))"
| "finite_cost (JNum (Fraction q s)) = (if q < 0 then None else Some q)"
| "finite_cost _ = None"

definition normalizeNumericUsage :: "js_record \<Rightarrow> parent_usage admission_result" where
  "normalizeNumericUsage usage = (let f = getProp usage; optional_count = (\<lambda>k. f k = JUndef \<or> nonNegativeInteger (f k));
       count = (\<lambda>k. map_option the_nat (optional (f k))) in
     if \<not> nonNegativeInteger (f ''turns'') \<or> \<not> nonNegativeInteger (f ''toolCalls'') \<or> \<not> optional_count ''inputTokens''
       \<or> \<not> optional_count ''outputTokens'' \<or> \<not> optional_count ''cacheReadTokens'' \<or> \<not> optional_count ''cacheWriteTokens''
       \<or> (f ''costUsd'' \<noteq> JUndef \<and> finite_cost (f ''costUsd'') = None)
     then Inl INVALID_SUBAGENT_USAGE
     else Inr \<lparr>su_turns = the_nat (f ''turns''), su_toolCalls = the_nat (f ''toolCalls''),
       su_provider = \<lparr>pu_inputTokens = count ''inputTokens'', pu_outputTokens = count ''outputTokens'',
         pu_cacheReadTokens = count ''cacheReadTokens'', pu_cacheWriteTokens = count ''cacheWriteTokens'',
         pu_costUsd = finite_cost (f ''costUsd'')\<rparr>\<rparr>)"

definition normalizeTerminalUsage :: "js_record \<Rightarrow> budget_usage admission_result" where
  "normalizeTerminalUsage usage = andThen (normalizeNumericUsage usage) (\<lambda>normalized.
     andThen (require (nonNegativeInteger (getProp usage ''subagents'')) INVALID_SUBAGENT_USAGE) (\<lambda>_.
     Inr \<lparr>bu_turns = su_turns normalized, bu_toolCalls = su_toolCalls normalized,
       bu_subagents = the_nat (getProp usage ''subagents''), bu_provider = su_provider normalized\<rparr>))"

definition usage_regresses :: "parent_usage \<Rightarrow> parent_usage \<Rightarrow> bool" where
  "usage_regresses previous new \<longleftrightarrow> su_turns new < su_turns previous \<or> su_toolCalls new < su_toolCalls previous
     \<or> list_ex (\<lambda>get. opt_value (get (su_provider new)) < opt_value (get (su_provider previous)))
         [pu_inputTokens, pu_outputTokens, pu_cacheReadTokens, pu_cacheWriteTokens]
     \<or> case_option 0 id (pu_costUsd (su_provider new)) < case_option 0 id (pu_costUsd (su_provider previous))"

definition mergeObservedUsage :: "parent_usage \<Rightarrow> js_record \<Rightarrow> parent_usage admission_result" where
  "mergeObservedUsage previous current = andThen (normalizeNumericUsage current) (\<lambda>new.
     if usage_regresses previous new then Inl SUBAGENT_USAGE_REGRESSION else Inr new)"

definition conservativeUsage :: "execution_budget \<Rightarrow> budget_usage" where
  "conservativeUsage budget = \<lparr>bu_turns = eb_maxTurns budget, bu_toolCalls = eb_maxToolCalls budget, bu_subagents = eb_maxChildRuns budget,
     bu_provider = no_provider_usage\<lparr>pu_inputTokens := eb_maxTokens budget\<rparr>\<rparr>"

definition addTerminalUsage :: "(rat \<Rightarrow> rat \<Rightarrow> rat) \<Rightarrow> budget_usage \<Rightarrow> budget_usage \<Rightarrow> budget_usage" where
  "addTerminalUsage add aggregate usage = (let a = bu_provider aggregate; u = bu_provider usage in
     \<lparr>bu_turns = bu_turns aggregate + bu_turns usage, bu_toolCalls = bu_toolCalls aggregate + bu_toolCalls usage,
      bu_subagents = bu_subagents aggregate,
      bu_provider = \<lparr>pu_inputTokens = Some (opt_value (pu_inputTokens a) + opt_value (pu_inputTokens u)),
        pu_outputTokens = Some (opt_value (pu_outputTokens a) + opt_value (pu_outputTokens u)),
        pu_cacheReadTokens = Some (opt_value (pu_cacheReadTokens a) + opt_value (pu_cacheReadTokens u)),
        pu_cacheWriteTokens = Some (opt_value (pu_cacheWriteTokens a) + opt_value (pu_cacheWriteTokens u)),
        pu_costUsd = Some (add (case_option 0 id (pu_costUsd a)) (case_option 0 id (pu_costUsd u)))\<rparr>\<rparr>)"

subsection \<open>State\<close>

datatype subagent_state = Slot_reserved | Execution_accepted | Terminal | Released

datatype usage_disposition = Usage_reported | Usage_conservative_unknown

record scope_state =
  as_depth :: nat
  as_budget :: execution_budget
  as_observedUsage :: parent_usage
  as_reservedChildRuns :: int
  as_chargedChildRuns :: int
  as_activeChildren :: int
  as_terminalUsage :: budget_usage

record reservation =
  rv_reservationId :: string
  rv_parentRunId :: string
  rv_childRunId :: string
  rv_childBudget :: execution_budget
  rv_depth :: nat
  rv_remainingDepth :: nat
  rv_ancestorRunIds :: "string list"
  rv_state :: subagent_state
  rv_terminalUsage :: "budget_usage option"
  rv_usageDisposition :: "usage_disposition option"

datatype admission_event =
    Child_admission_slot_reserved string string string nat
  | Child_execution_accepted_and_charged string string string nat
  | Child_admission_released string string string
  | Child_terminal_settled string string string usage_disposition

record ledger =
  lg_scopes :: "(string \<times> scope_state) list"
  lg_reservations :: "(string \<times> reservation) list"
  lg_nextReservation :: nat
  lg_events :: "admission_event list"

definition empty_ledger :: ledger where
  "empty_ledger = \<lparr>lg_scopes = [], lg_reservations = [], lg_nextReservation = 1, lg_events = []\<rparr>"

type_synonym ('s, 'a) stateful = "'s \<times> 'a admission_result"

definition thenL :: "('s, 'a) stateful \<Rightarrow> ('s \<Rightarrow> 'a \<Rightarrow> ('s, 'b) stateful) \<Rightarrow> ('s, 'b) stateful" where
  "thenL m f = (case m of (s, Inl e) \<Rightarrow> (s, Inl e) | (s, Inr x) \<Rightarrow> f s x)"

subsection \<open>Lookups and walks\<close>

definition requireScope :: "ledger \<Rightarrow> string \<Rightarrow> scope_state admission_result" where
  "requireScope lg runId = (case map_of (lg_scopes lg) runId of None \<Rightarrow> Inl SUBAGENT_SCOPE_NOT_FOUND | Some scope \<Rightarrow> Inr scope)"

definition requireReservation :: "ledger \<Rightarrow> string \<Rightarrow> reservation admission_result" where
  "requireReservation lg reservationId = (case map_of (lg_reservations lg) reservationId of
     None \<Rightarrow> Inl SUBAGENT_ADMISSION_NOT_FOUND | Some r \<Rightarrow> Inr r)"

definition hasReservationForChild :: "ledger \<Rightarrow> string \<Rightarrow> bool" where
  "hasReservationForChild lg childRunId \<longleftrightarrow> list_ex (\<lambda>(_, r). rv_childRunId r = childRunId) (lg_reservations lg)"

definition accepted_parent :: "ledger \<Rightarrow> string \<Rightarrow> string option" where
  "accepted_parent lg current = map_option rv_parentRunId
     (find (\<lambda>r. rv_childRunId r = current \<and> rv_state r = Execution_accepted) (map snd (lg_reservations lg)))"

fun chain_walk :: "nat \<Rightarrow> ledger \<Rightarrow> string \<Rightarrow> string list admission_result" where
  "chain_walk 0 lg current = Inl ADMISSION_WALK_UNENDING"
| "chain_walk (Suc fuel) lg current = andThen (requireScope lg current) (\<lambda>_.
     case accepted_parent lg current of None \<Rightarrow> Inr [current]
     | Some parent \<Rightarrow> andThen (chain_walk fuel lg parent) (\<lambda>chain. Inr (current # chain)))"

definition ancestorChain :: "ledger \<Rightarrow> string \<Rightarrow> string list admission_result" where
  "ancestorChain lg parentRunId = chain_walk (length (lg_reservations lg) + 1) lg parentRunId"

definition candidate_budget :: "scope_state \<Rightarrow> execution_budget" where
  "candidate_budget scope = (let budget = as_budget scope; observed = as_observedUsage scope; settled = as_terminalUsage scope;
       usedTokens = opt_value (pu_inputTokens (su_provider observed)) + opt_value (pu_outputTokens (su_provider observed))
         + opt_value (pu_inputTokens (bu_provider settled)) + opt_value (pu_outputTokens (bu_provider settled)) in
     \<lparr>eb_maxTurns = eb_maxTurns budget - su_turns observed - bu_turns settled,
       eb_maxToolCalls = eb_maxToolCalls budget - su_toolCalls observed - bu_toolCalls settled,
       eb_maxTokens = map_option (\<lambda>maxTokens. maxTokens - usedTokens) (eb_maxTokens budget),
       eb_maxChildRuns = nat (int (eb_maxChildRuns budget) - as_chargedChildRuns scope - as_reservedChildRuns scope - 1),
       eb_maxParallelChildren = nat (int (eb_maxParallelChildren budget) - as_activeChildren scope - 1),
       eb_maxDepth = eb_maxDepth budget - 1, eb_deadlineAt = eb_deadlineAt budget\<rparr>)"

fun remaining_from :: "(string \<Rightarrow> int option) \<Rightarrow> ledger \<Rightarrow> execution_budget option \<Rightarrow> string list \<Rightarrow> execution_budget option admission_result" where
  "remaining_from parse lg remaining [] = Inr remaining"
| "remaining_from parse lg remaining (runId # rest) = andThen (requireScope lg runId) (\<lambda>scope.
     andThen (case remaining of None \<Rightarrow> Inr (candidate_budget scope) | Some r \<Rightarrow> clampChildBudget parse r (candidate_budget scope))
       (\<lambda>clamped. remaining_from parse lg (Some clamped) rest))"

definition remainingAfterChild :: "(string \<Rightarrow> int option) \<Rightarrow> ledger \<Rightarrow> string list \<Rightarrow> execution_budget admission_result" where
  "remainingAfterChild parse lg ancestorRunIds = andThen (remaining_from parse lg None ancestorRunIds)
     (\<lambda>remaining. case remaining of None \<Rightarrow> Inl REMAINING_UNDEFINED | Some budget \<Rightarrow> Inr budget)"

fun check_capacity :: "ledger \<Rightarrow> string list \<Rightarrow> unit admission_result" where
  "check_capacity lg [] = Inr ()"
| "check_capacity lg (runId # rest) = andThen (requireScope lg runId) (\<lambda>scope.
     if as_chargedChildRuns scope + as_reservedChildRuns scope \<ge> int (eb_maxChildRuns (as_budget scope))
     then Inl SUBAGENT_CHILD_RUN_BUDGET_EXHAUSTED
     else if as_activeChildren scope \<ge> int (eb_maxParallelChildren (as_budget scope)) then Inl SUBAGENT_PARALLEL_BUDGET_EXHAUSTED
     else check_capacity lg rest)"

subsection \<open>Updates\<close>

definition put_scope :: "string \<Rightarrow> scope_state \<Rightarrow> ledger \<Rightarrow> ledger" where
  "put_scope runId scope lg = lg\<lparr>lg_scopes := AList.update runId scope (lg_scopes lg)\<rparr>"

definition put_reservation :: "reservation \<Rightarrow> ledger \<Rightarrow> ledger" where
  "put_reservation r lg = lg\<lparr>lg_reservations := AList.update (rv_reservationId r) r (lg_reservations lg)\<rparr>"

definition emit :: "admission_event \<Rightarrow> ledger \<Rightarrow> ledger" where
  "emit event lg = lg\<lparr>lg_events := lg_events lg @ [event]\<rparr>"

fun each_scope :: "(scope_state \<Rightarrow> scope_state) \<Rightarrow> string list \<Rightarrow> ledger \<Rightarrow> (ledger, unit) stateful" where
  "each_scope f [] lg = (lg, Inr ())"
| "each_scope f (runId # rest) lg = (case requireScope lg runId of Inl e \<Rightarrow> (lg, Inl e)
     | Inr scope \<Rightarrow> each_scope f rest (put_scope runId (f scope) lg))"

definition reserve_slot :: "scope_state \<Rightarrow> scope_state" where
  "reserve_slot s = s\<lparr>as_reservedChildRuns := as_reservedChildRuns s + 1, as_activeChildren := as_activeChildren s + 1\<rparr>"

definition charge_slot :: "scope_state \<Rightarrow> scope_state" where
  "charge_slot s = s\<lparr>as_reservedChildRuns := as_reservedChildRuns s - 1, as_chargedChildRuns := as_chargedChildRuns s + 1\<rparr>"

definition release_slot :: "scope_state \<Rightarrow> scope_state" where
  "release_slot s = s\<lparr>as_reservedChildRuns := as_reservedChildRuns s - 1, as_activeChildren := as_activeChildren s - 1\<rparr>"

definition settle_slot :: "(rat \<Rightarrow> rat \<Rightarrow> rat) \<Rightarrow> budget_usage \<Rightarrow> scope_state \<Rightarrow> scope_state" where
  "settle_slot add usage s = s\<lparr>as_activeChildren := as_activeChildren s - 1, as_terminalUsage := addTerminalUsage add (as_terminalUsage s) usage\<rparr>"

subsection \<open>The operations\<close>

definition reservation_id :: "nat \<Rightarrow> string" where
  "reservation_id n = ''subagent-admission-'' @ nat_to_string n"

definition registerRootScope :: "(string \<Rightarrow> int option) \<Rightarrow> string \<Rightarrow> js_record \<Rightarrow> js_record option \<Rightarrow> js_value \<Rightarrow> ledger \<Rightarrow> (ledger, unit) stateful" where
  "registerRootScope parse runId scopeBudget scopeUsage scopeCharge lg =
     (if map_of (lg_scopes lg) runId \<noteq> None \<or> hasReservationForChild lg runId then (lg, Inl SUBAGENT_SCOPE_EXISTS)
      else (case andThen (validateAdmissionBudget parse scopeBudget) (\<lambda>budget.
          andThen (case scopeUsage of None \<Rightarrow> Inr emptyParentUsage | Some u \<Rightarrow> normalizeNumericUsage u) (\<lambda>usage.
          let charged = (if scopeCharge \<in> {JUndef, JNull} then jnat 0 else scopeCharge) in
          andThen (require (nonNegativeInteger charged \<and> the_nat charged \<le> eb_maxChildRuns budget) INVALID_SUBAGENT_ADMISSION_STATE) (\<lambda>_.
          Inr \<lparr>as_depth = 0, as_budget = budget, as_observedUsage = usage, as_reservedChildRuns = 0,
            as_chargedChildRuns = the_int charged, as_activeChildren = 0, as_terminalUsage = emptyBudgetUsage\<rparr>))) of
        Inl e \<Rightarrow> (lg, Inl e) | Inr scope \<Rightarrow> (put_scope runId scope lg, Inr ())))"

text \<open>The budget of the child, from the budgets and the usage of its ancestors.\<close>

definition admit_budget :: "(string \<Rightarrow> int option) \<Rightarrow> ledger \<Rightarrow> scope_state \<Rightarrow> execution_budget \<Rightarrow> string list \<Rightarrow> execution_budget admission_result" where
  "admit_budget parse lg parent requested ancestorRunIds =
     andThen (check_capacity lg ancestorRunIds) (\<lambda>_.
     andThen (require (eb_maxDepth (as_budget parent) > 0) SUBAGENT_DEPTH_EXHAUSTED) (\<lambda>_.
     andThen (remainingAfterChild parse lg ancestorRunIds) (\<lambda>remaining.
     andThen (clampChildBudget parse requested remaining) (\<lambda>clamped.
     let childBudget = clamped\<lparr>eb_maxParallelChildren := min (eb_maxParallelChildren clamped) (eb_maxChildRuns clamped)\<rparr> in
     if eb_maxTurns childBudget = 0 \<or> eb_maxTokens childBudget = Some 0 then Inl SUBAGENT_EXECUTION_BUDGET_EXHAUSTED else Inr childBudget))))"

definition reserveAdmission :: "(string \<Rightarrow> int option) \<Rightarrow> string \<Rightarrow> string \<Rightarrow> js_record \<Rightarrow> js_record \<Rightarrow> ledger \<Rightarrow> (ledger, reservation) stateful" where
  "reserveAdmission parse parentRunId childRunId requestedBudget parentUsage lg =
     (if map_of (lg_scopes lg) childRunId \<noteq> None \<or> hasReservationForChild lg childRunId then (lg, Inl SUBAGENT_CHILD_CONFLICT)
      else (case andThen (requireScope lg parentRunId) (\<lambda>parent.
          andThen (mergeObservedUsage (as_observedUsage parent) parentUsage) (\<lambda>observed. Inr (parent\<lparr>as_observedUsage := observed\<rparr>))) of
        Inl e \<Rightarrow> (lg, Inl e)
      | Inr parent \<Rightarrow> let lg = put_scope parentRunId parent lg in
         (case andThen (validateAdmissionBudget parse requestedBudget) (\<lambda>requested.
             andThen (ancestorChain lg parentRunId) (\<lambda>ancestorRunIds.
             andThen (admit_budget parse lg parent requested ancestorRunIds) (\<lambda>budget. Inr (ancestorRunIds, budget)))) of
           Inl e \<Rightarrow> (lg, Inl e)
         | Inr (ancestorRunIds, budget) \<Rightarrow> thenL (each_scope reserve_slot ancestorRunIds lg) (\<lambda>lg _.
            let r = \<lparr>rv_reservationId = reservation_id (lg_nextReservation lg), rv_parentRunId = parentRunId,
                  rv_childRunId = childRunId, rv_childBudget = budget, rv_depth = as_depth parent + 1, rv_remainingDepth = eb_maxDepth budget,
                  rv_ancestorRunIds = ancestorRunIds, rv_state = Slot_reserved, rv_terminalUsage = None, rv_usageDisposition = None\<rparr> in
            (emit (Child_admission_slot_reserved (rv_reservationId r) parentRunId childRunId (rv_depth r))
               (put_reservation r (lg\<lparr>lg_nextReservation := lg_nextReservation lg + 1\<rparr>)), Inr r)))))"

definition acceptExecution :: "string \<Rightarrow> ledger \<Rightarrow> (ledger, reservation) stateful" where
  "acceptExecution reservationId lg = (case requireReservation lg reservationId of Inl e \<Rightarrow> (lg, Inl e)
     | Inr r \<Rightarrow> if rv_state r = Execution_accepted then (lg, Inr r)
       else if rv_state r \<noteq> Slot_reserved then (lg, Inl SUBAGENT_ADMISSION_NOT_PENDING)
       else if map_of (lg_scopes lg) (rv_childRunId r) \<noteq> None then (lg, Inl SUBAGENT_CHILD_CONFLICT)
       else thenL (each_scope charge_slot (rv_ancestorRunIds r) lg) (\<lambda>lg _.
         let lg = put_scope (rv_childRunId r) \<lparr>as_depth = rv_depth r, as_budget = rv_childBudget r, as_observedUsage = emptyParentUsage,
               as_reservedChildRuns = 0, as_chargedChildRuns = 0, as_activeChildren = 0, as_terminalUsage = emptyBudgetUsage\<rparr> lg;
             accepted = r\<lparr>rv_state := Execution_accepted\<rparr> in
         (emit (Child_execution_accepted_and_charged reservationId (rv_parentRunId r) (rv_childRunId r) (rv_depth r))
            (put_reservation accepted lg), Inr accepted)))"

definition releaseAdmission :: "string \<Rightarrow> ledger \<Rightarrow> (ledger, unit) stateful" where
  "releaseAdmission reservationId lg = (case requireReservation lg reservationId of Inl e \<Rightarrow> (lg, Inl e)
     | Inr r \<Rightarrow> if rv_state r = Released \<or> rv_state r = Terminal then (lg, Inr ())
       else if rv_state r \<noteq> Slot_reserved then (lg, Inl SUBAGENT_ADMISSION_NOT_RELEASABLE)
       else thenL (each_scope release_slot (rv_ancestorRunIds r) lg) (\<lambda>lg _.
         (emit (Child_admission_released reservationId (rv_parentRunId r) (rv_childRunId r))
            (put_reservation (r\<lparr>rv_state := Released\<rparr>) lg), Inr ())))"

datatype terminal_settlement = Reported js_record | Conservative_unknown

text \<open>A report that is no usage is settled like a missing one.\<close>

definition settled_usage :: "execution_budget \<Rightarrow> terminal_settlement \<Rightarrow> usage_disposition \<times> budget_usage" where
  "settled_usage budget settlement = (case settlement of
     Conservative_unknown \<Rightarrow> (Usage_conservative_unknown, conservativeUsage budget)
   | Reported usage \<Rightarrow> (case normalizeTerminalUsage usage of
       Inl _ \<Rightarrow> (Usage_conservative_unknown, conservativeUsage budget) | Inr u \<Rightarrow> (Usage_reported, u)))"

definition settleTerminal :: "(rat \<Rightarrow> rat \<Rightarrow> rat) \<Rightarrow> string \<Rightarrow> terminal_settlement \<Rightarrow> ledger \<Rightarrow> (ledger, unit) stateful" where
  "settleTerminal add reservationId settlement lg = (case requireReservation lg reservationId of Inl e \<Rightarrow> (lg, Inl e)
     | Inr r \<Rightarrow> if rv_state r = Terminal then (lg, Inr ())
       else if rv_state r \<noteq> Execution_accepted then (lg, Inl SUBAGENT_EXECUTION_NOT_ACCEPTED)
       else (case requireScope lg (rv_childRunId r) of Inl e \<Rightarrow> (lg, Inl e)
         | Inr childScope \<Rightarrow> if as_activeChildren childScope > 0 \<or> as_reservedChildRuns childScope > 0 then (lg, Inl SUBAGENT_DESCENDANTS_ACTIVE)
           else (let (disposition, usage) = settled_usage (rv_childBudget r) settlement;
                lg = put_reservation (r\<lparr>rv_state := Terminal, rv_terminalUsage := Some usage, rv_usageDisposition := Some disposition\<rparr>) lg in
             thenL (each_scope (settle_slot add usage) (rv_ancestorRunIds r) lg) (\<lambda>lg _.
               (emit (Child_terminal_settled reservationId (rv_parentRunId r) (rv_childRunId r) disposition)
                  (lg\<lparr>lg_scopes := AList.delete (rv_childRunId r) (lg_scopes lg)\<rparr>), Inr ())))))"

text \<open>What \<open>scope\<close> shows of a scope, and what \<open>terminalUsage\<close> does.\<close>

record scope_snapshot =
  ss_depth :: nat
  ss_budget :: execution_budget
  ss_reservedChildRuns :: int
  ss_chargedChildRuns :: int
  ss_activeChildren :: int

definition ledger_scope :: "ledger \<Rightarrow> string \<Rightarrow> scope_snapshot option" where
  "ledger_scope lg runId = map_option (\<lambda>scope. \<lparr>ss_depth = as_depth scope, ss_budget = as_budget scope,
     ss_reservedChildRuns = as_reservedChildRuns scope, ss_chargedChildRuns = as_chargedChildRuns scope,
     ss_activeChildren = as_activeChildren scope\<rparr>) (map_of (lg_scopes lg) runId)"

definition ledger_terminalUsage :: "ledger \<Rightarrow> string \<Rightarrow> budget_usage admission_result" where
  "ledger_terminalUsage lg runId = andThen (requireScope lg runId) (\<lambda>scope.
     Inr ((as_terminalUsage scope)\<lparr>bu_subagents := nat (as_chargedChildRuns scope)\<rparr>))"

end
