(* ===== verification/SubagentInvariants.thy ===== *)
theory SubagentInvariants
  imports SubagentLedger
begin

section \<open>The invariant of the admission ledger\<close>

text \<open>
  What holds of every ledger a sequence of calls can produce: the reservations of a child are
  unique, the ancestors of a live reservation are registered scopes and form the chain the source
  walks, the counters of a scope count the reservations below it, and every budget is within the
  budgets above it. The invariant is stated over the two maps of the ledger and the number of
  reservations of each state below a scope.
\<close>

subsection \<open>Counting reservations\<close>

definition claims :: "(string \<times> reservation) list \<Rightarrow> subagent_state \<Rightarrow> string \<Rightarrow> int" where
  "claims reservations st k = int (length (filter (\<lambda>r. rv_state r = st \<and> k \<in> set (rv_ancestorRunIds r)) (map snd reservations)))"

lemma claims_Nil [simp]: "claims [] st k = 0"
  by (simp add: claims_def)

lemma claims_Cons: "claims ((i, r) # rs) st k = of_bool (rv_state r = st \<and> k \<in> set (rv_ancestorRunIds r)) + claims rs st k"
  by (simp add: claims_def)

lemma claims_nonneg [simp]: "0 \<le> claims rs st k"
  by (simp add: claims_def)

lemma claims_new: "map_of rs i = None \<Longrightarrow>
    claims (AList.update i r rs) st k = claims rs st k + of_bool (rv_state r = st \<and> k \<in> set (rv_ancestorRunIds r))"
  by (induction rs) (auto simp: claims_Cons split: if_splits)

lemma claims_update: "map_of rs i = Some r \<Longrightarrow> claims (AList.update i r' rs) st k = claims rs st k
    - of_bool (rv_state r = st \<and> k \<in> set (rv_ancestorRunIds r)) + of_bool (rv_state r' = st \<and> k \<in> set (rv_ancestorRunIds r'))"
  by (induction rs) (auto simp: claims_Cons split: if_splits)

lemma claims_pos: "distinct (map fst rs) \<Longrightarrow> map_of rs i = Some r \<Longrightarrow> rv_state r = st \<Longrightarrow> k \<in> set (rv_ancestorRunIds r) \<Longrightarrow> 0 < claims rs st k"
  by (force simp: claims_def filter_empty_conv dest: map_of_SomeD)

lemma claims_zero:
  assumes "distinct (map fst rs)" "\<And>i r. map_of rs i = Some r \<Longrightarrow> rv_state r = st \<Longrightarrow> k \<notin> set (rv_ancestorRunIds r)"
  shows "claims rs st k = 0"
  using assms by (fastforce simp: claims_def filter_empty_conv)

subsection \<open>Updating the scopes of a chain\<close>

definition touched :: "(scope_state \<Rightarrow> scope_state) \<Rightarrow> string list \<Rightarrow> (string \<Rightarrow> scope_state option) \<Rightarrow> string \<Rightarrow> scope_state option" where
  "touched f ks S k = (if k \<in> set ks then map_option f (S k) else S k)"

lemma each_scope_ok:
  assumes "distinct ks" "\<forall>k \<in> set ks. map_of (lg_scopes lg) k \<noteq> None"
  shows "\<exists>scopes. each_scope f ks lg = (lg\<lparr>lg_scopes := scopes\<rparr>, Inr ()) \<and> map_of scopes = touched f ks (map_of (lg_scopes lg))"
  using assms
proof (induction ks arbitrary: lg)
  case Nil
  show ?case by (rule exI[of _ "lg_scopes lg"]) (simp add: touched_def fun_eq_iff)
next
  case (Cons k ks)
  obtain s where s: "map_of (lg_scopes lg) k = Some s" using Cons.prems by auto
  have known: "\<forall>j \<in> set ks. map_of (lg_scopes (put_scope k (f s) lg)) j \<noteq> None" using Cons.prems by (simp add: put_scope_def)
  obtain scopes where scopes: "each_scope f ks (put_scope k (f s) lg) = ((put_scope k (f s) lg)\<lparr>lg_scopes := scopes\<rparr>, Inr ())"
    "map_of scopes = touched f ks (map_of (lg_scopes (put_scope k (f s) lg)))" using Cons.IH[OF _ known] Cons.prems(1) by auto
  have "map_of scopes = touched f (k # ks) (map_of (lg_scopes lg))"
    using scopes(2) s Cons.prems(1) by (auto simp: touched_def fun_eq_iff put_scope_def)
  then show ?case using scopes(1) s by (auto simp: requireScope_def put_scope_def)
qed

subsection \<open>The invariant\<close>

text \<open>A budget within another, and one level of depth below it.\<close>

definition deadline_within :: "(string \<Rightarrow> int option) \<Rightarrow> string option \<Rightarrow> string option \<Rightarrow> bool" where
  "deadline_within parse inner outer = (case outer of None \<Rightarrow> True | Some d \<Rightarrow> (case inner of None \<Rightarrow> False
     | Some d' \<Rightarrow> d' = d \<or> (case (parse d', parse d) of (Some t', Some t) \<Rightarrow> t' \<le> t | _ \<Rightarrow> False)))"

definition tokens_within :: "nat option \<Rightarrow> nat option \<Rightarrow> bool" where
  "tokens_within inner outer = (case outer of None \<Rightarrow> True | Some n \<Rightarrow> (case inner of None \<Rightarrow> False | Some m \<Rightarrow> m \<le> n))"

definition fits :: "(string \<Rightarrow> int option) \<Rightarrow> execution_budget \<Rightarrow> execution_budget \<Rightarrow> bool" where
  "fits parse inner outer \<longleftrightarrow> eb_maxTurns inner \<le> eb_maxTurns outer \<and> eb_maxToolCalls inner \<le> eb_maxToolCalls outer
     \<and> tokens_within (eb_maxTokens inner) (eb_maxTokens outer) \<and> eb_maxChildRuns inner \<le> eb_maxChildRuns outer
     \<and> eb_maxParallelChildren inner \<le> eb_maxParallelChildren outer \<and> eb_maxDepth inner \<le> eb_maxDepth outer
     \<and> deadline_within parse (eb_deadlineAt inner) (eb_deadlineAt outer)"

definition below_budget :: "(string \<Rightarrow> int option) \<Rightarrow> execution_budget \<Rightarrow> execution_budget \<Rightarrow> bool" where
  "below_budget parse child outer \<longleftrightarrow> fits parse child outer \<and> eb_maxChildRuns child < eb_maxChildRuns outer
     \<and> eb_maxParallelChildren child < eb_maxParallelChildren outer \<and> eb_maxDepth child < eb_maxDepth outer"

lemma fits_trans: "fits parse a b \<Longrightarrow> fits parse b c \<Longrightarrow> fits parse a c"
  by (auto simp: fits_def tokens_within_def deadline_within_def split: option.splits)

lemma minOptional_within: "tokens_within (minOptional r m) r \<and> tokens_within (minOptional r m) m"
  by (auto simp: minOptional_def tokens_within_def split: option.splits)

lemma earliestDeadline_within:
  "earliestDeadline parse r m = Inr d \<Longrightarrow> deadline_within parse d r \<and> deadline_within parse d m"
  by (cases r; cases m) (auto simp: earliestDeadline_def toTimestamp_def deadline_within_def split: option.splits if_splits)

lemma clampChildBudget_fits:
  assumes "clampChildBudget parse requested remaining = Inr b" shows "fits parse b requested \<and> fits parse b remaining"
proof -
  obtain d where "earliestDeadline parse (eb_deadlineAt requested) (eb_deadlineAt remaining) = Inr d" "eb_deadlineAt b = d"
    and b: "eb_maxTurns b = min (eb_maxTurns requested) (eb_maxTurns remaining)" "eb_maxToolCalls b = min (eb_maxToolCalls requested) (eb_maxToolCalls remaining)"
      "eb_maxTokens b = minOptional (eb_maxTokens requested) (eb_maxTokens remaining)" "eb_maxChildRuns b = min (eb_maxChildRuns requested) (eb_maxChildRuns remaining)"
      "eb_maxParallelChildren b = min (eb_maxParallelChildren requested) (eb_maxParallelChildren remaining)" "eb_maxDepth b = min (eb_maxDepth requested) (eb_maxDepth remaining)"
    using assms unfolding clampChildBudget_def andThen_return_iff by fastforce
  then show ?thesis using earliestDeadline_within minOptional_within by (simp add: fits_def)
qed

lemma remaining_from_fits:
  assumes "remaining_from parse lg remaining ks = Inr out"
  shows "(\<forall>r. remaining = Some r \<longrightarrow> (\<exists>b. out = Some b \<and> (b = r \<or> fits parse b r)))
    \<and> (\<forall>k \<in> set ks. \<exists>s b. map_of (lg_scopes lg) k = Some s \<and> out = Some b \<and> (b = candidate_budget s \<or> fits parse b (candidate_budget s)))"
  using assms
proof (induction ks arbitrary: remaining)
  case (Cons k ks)
  obtain s clamped where s: "map_of (lg_scopes lg) k = Some s"
      "(case remaining of None \<Rightarrow> Inr (candidate_budget s) | Some r \<Rightarrow> clampChildBudget parse r (candidate_budget s)) = Inr clamped"
      "remaining_from parse lg (Some clamped) ks = Inr out"
    using Cons.prems by (auto simp: result_iff requireScope_def split: option.splits)
  note IH = Cons.IH[OF s(3)]
  have first: "\<forall>r. remaining = Some r \<longrightarrow> fits parse clamped r" "clamped = candidate_budget s \<or> fits parse clamped (candidate_budget s)"
    using s(2) clampChildBudget_fits by (auto split: option.splits)
  obtain b where b: "out = Some b" "b = clamped \<or> fits parse b clamped" using IH by auto
  then have "remaining = Some r \<Longrightarrow> fits parse b r" for r using first fits_trans by blast
  moreover have "b = candidate_budget s \<or> fits parse b (candidate_budget s)" using b(2) first(2) fits_trans by blast
  ultimately show ?case using b(1) s(1) IH by auto
qed simp

definition live :: "reservation \<Rightarrow> bool" where
  "live r \<longleftrightarrow> rv_state r = Slot_reserved \<or> rv_state r = Execution_accepted"

type_synonym scope_map = "string \<Rightarrow> scope_state option"

type_synonym reservation_map = "string \<Rightarrow> reservation option"

definition accepted_at :: "reservation_map \<Rightarrow> string \<Rightarrow> reservation \<Rightarrow> bool" where
  "accepted_at R k q \<longleftrightarrow> (\<exists>i. R i = Some q) \<and> rv_childRunId q = k \<and> rv_state q = Execution_accepted"

text \<open>The ancestors of a reservation: its parent, then those of the parent's own reservation.\<close>

definition lineage :: "scope_map \<Rightarrow> reservation_map \<Rightarrow> string \<Rightarrow> string list \<Rightarrow> bool" where
  "lineage S R p ks \<longleftrightarrow> ks \<noteq> [] \<and> hd ks = p \<and> (\<forall>q. accepted_at R p q \<longrightarrow> tl ks = rv_ancestorRunIds q)
     \<and> ((\<nexists>q. accepted_at R p q) \<longrightarrow> tl ks = []) \<and> distinct ks \<and> (\<forall>k \<in> set ks. S k \<noteq> None)"

definition attenuated :: "(string \<Rightarrow> int option) \<Rightarrow> scope_map \<Rightarrow> reservation \<Rightarrow> bool" where
  "attenuated parse S r \<longleftrightarrow> (\<forall>k \<in> set (rv_ancestorRunIds r). \<forall>s. S k = Some s \<longrightarrow> below_budget parse (rv_childBudget r) (as_budget s)
     \<and> as_depth s < rv_depth r \<and> rv_depth r + eb_maxDepth (rv_childBudget r) \<le> as_depth s + eb_maxDepth (as_budget s))"

definition live_inv :: "(string \<Rightarrow> int option) \<Rightarrow> scope_map \<Rightarrow> reservation_map \<Rightarrow> bool" where
  "live_inv parse S R \<longleftrightarrow> (\<forall>i r. R i = Some r \<longrightarrow> live r \<longrightarrow> lineage S R (rv_parentRunId r) (rv_ancestorRunIds r)
     \<and> rv_childRunId r \<notin> set (rv_ancestorRunIds r) \<and> rv_depth r = length (rv_ancestorRunIds r) \<and> attenuated parse S r)"

definition child_inv :: "scope_map \<Rightarrow> reservation_map \<Rightarrow> bool" where
  "child_inv S R \<longleftrightarrow> (\<forall>i j r q. R i = Some r \<longrightarrow> R j = Some q \<longrightarrow> rv_childRunId r = rv_childRunId q \<longrightarrow> i = j)
     \<and> (\<forall>i r. R i = Some r \<longrightarrow> (S (rv_childRunId r) \<noteq> None \<longleftrightarrow> rv_state r = Execution_accepted))
     \<and> (\<forall>i r s. R i = Some r \<longrightarrow> S (rv_childRunId r) = Some s \<longrightarrow> as_budget s = rv_childBudget r \<and> as_depth s = rv_depth r)
     \<and> (\<forall>i r. R i = Some r \<longrightarrow> (\<forall>k \<in> set (rv_ancestorRunIds r). S k \<noteq> None \<or> (\<exists>j q. R j = Some q \<and> rv_childRunId q = k \<and> rv_state q = Terminal)))
     \<and> (\<forall>k s. S k = Some s \<longrightarrow> (\<nexists>q. accepted_at R k q) \<longrightarrow> as_depth s = 0)"

definition scope_ok :: "(subagent_state \<Rightarrow> string \<Rightarrow> int) \<Rightarrow> string \<Rightarrow> scope_state \<Rightarrow> bool" where
  "scope_ok C k s \<longleftrightarrow> as_reservedChildRuns s = C Slot_reserved k \<and> as_activeChildren s = C Slot_reserved k + C Execution_accepted k
     \<and> C Execution_accepted k + C Terminal k \<le> as_chargedChildRuns s
     \<and> as_chargedChildRuns s + as_reservedChildRuns s \<le> int (eb_maxChildRuns (as_budget s))
     \<and> as_activeChildren s \<le> int (eb_maxParallelChildren (as_budget s))"

definition count_inv :: "scope_map \<Rightarrow> (subagent_state \<Rightarrow> string \<Rightarrow> int) \<Rightarrow> bool" where
  "count_inv S C \<longleftrightarrow> (\<forall>k s. S k = Some s \<longrightarrow> scope_ok C k s)"

lemma reservation_id_inj [simp]: "reservation_id m = reservation_id n \<longleftrightarrow> m = n"
  by (simp add: reservation_id_def)

definition id_inv :: "ledger \<Rightarrow> bool" where
  "id_inv lg \<longleftrightarrow> distinct (map fst (lg_reservations lg)) \<and> (\<forall>i r. map_of (lg_reservations lg) i = Some r \<longrightarrow> rv_reservationId r = i
     \<and> (\<exists>n < lg_nextReservation lg. i = reservation_id n))"

definition ledger_inv :: "(string \<Rightarrow> int option) \<Rightarrow> ledger \<Rightarrow> bool" where
  "ledger_inv parse lg \<longleftrightarrow> id_inv lg \<and> child_inv (map_of (lg_scopes lg)) (map_of (lg_reservations lg))
     \<and> live_inv parse (map_of (lg_scopes lg)) (map_of (lg_reservations lg)) \<and> count_inv (map_of (lg_scopes lg)) (claims (lg_reservations lg))"

lemma empty_ledger_inv: "ledger_inv parse empty_ledger"
  by (simp add: ledger_inv_def empty_ledger_def id_inv_def child_inv_def live_inv_def count_inv_def)

end
