(* ===== verification/SubagentHistory.thy ===== *)
theory SubagentHistory
  imports SubagentInvariants
begin

section \<open>Every call preserves the invariant of the ledger\<close>

text \<open>
  The walk up the ancestors of a registered scope ends with the lineage of the scope; each operation
  of the ledger, on its success and on every error, leaves the invariant true; the invariant then
  holds of every ledger that a sequence of calls produces.
\<close>

subsection \<open>The walk up the ancestors\<close>

lemma accepted_unique: "child_inv S R \<Longrightarrow> accepted_at R k q \<Longrightarrow> accepted_at R k q' \<Longrightarrow> q' = q"
  unfolding child_inv_def accepted_at_def by (metis option.inject)

lemma accepted_parent_Some:
  assumes "distinct (map fst (lg_reservations lg))" "child_inv S (map_of (lg_reservations lg))" "accepted_at (map_of (lg_reservations lg)) k q"
  shows "accepted_parent lg k = Some (rv_parentRunId q)"
proof -
  let ?P = "\<lambda>r. rv_childRunId r = k \<and> rv_state r = Execution_accepted"
  obtain i where i: "map_of (lg_reservations lg) i = Some q" "?P q" using assms(3) by (auto simp: accepted_at_def)
  have member: "q \<in> set (map snd (lg_reservations lg))" using map_of_SomeD[OF i(1)] by force
  then obtain q' where q': "find ?P (map snd (lg_reservations lg)) = Some q'"
    using i(2) by (cases "find ?P (map snd (lg_reservations lg))") (auto simp: find_None_iff)
  then have "?P q'" "q' \<in> set (map snd (lg_reservations lg))" by (auto simp: find_Some_iff)
  then have "accepted_at (map_of (lg_reservations lg)) k q'" using assms(1) by (fastforce simp: accepted_at_def)
  then have "q' = q" using accepted_unique assms by blast
  then show ?thesis by (simp add: accepted_parent_def q')
qed

lemma accepted_parent_None:
  assumes "distinct (map fst (lg_reservations lg))" "\<nexists>q. accepted_at (map_of (lg_reservations lg)) k q"
  shows "accepted_parent lg k = None"
  using assms by (fastforce simp: accepted_parent_def find_None_iff accepted_at_def)

lemma live_lineage:
  assumes "live_inv parse S R" "accepted_at R k q"
  shows "lineage S R (rv_parentRunId q) (rv_ancestorRunIds q)" "k \<notin> set (rv_ancestorRunIds q)" "rv_depth q = length (rv_ancestorRunIds q)"
    "attenuated parse S q"
  using assms by (auto simp: live_inv_def accepted_at_def live_def)

lemma lineage_exists:
  assumes "live_inv parse S R" "child_inv S R" "S k \<noteq> None"
  shows "\<exists>ks. lineage S R k ks"
proof (cases "\<exists>q. accepted_at R k q")
  case True
  then obtain q where q: "accepted_at R k q" by blast
  have "\<And>q'. accepted_at R k q' \<Longrightarrow> q' = q" using accepted_unique[OF assms(2) q] .
  moreover have "distinct (rv_ancestorRunIds q)" "\<forall>x \<in> set (rv_ancestorRunIds q). S x \<noteq> None"
    using live_lineage(1)[OF assms(1) q] unfolding lineage_def by blast+
  ultimately have "lineage S R k (k # rv_ancestorRunIds q)"
    using live_lineage(2)[OF assms(1) q] q assms(3) unfolding lineage_def by (metis distinct.simps(2) list.discI list.sel(1,3) set_ConsD)
  then show ?thesis by blast
qed (use assms in \<open>auto simp: lineage_def intro!: exI[of _ "[k]"]\<close>)

lemma lineage_inner:
  assumes "live_inv parse S R" "lineage S R k ks" "x \<in> set (butlast ks)"
  shows "\<exists>q. accepted_at R x q"
  using assms(2,3)
proof (induction ks arbitrary: k)
  case (Cons a ks)
  then have a: "a = k" "ks \<noteq> []" by (auto simp: lineage_def split: if_splits)
  then obtain q where q: "accepted_at R k q" "ks = rv_ancestorRunIds q" using Cons.prems(1) by (auto simp: lineage_def)
  then show ?case using Cons.IH[of "rv_parentRunId q"] live_lineage[OF assms(1) q(1)] Cons.prems(2) a by auto
qed simp

lemma lineage_length:
  assumes "live_inv parse S (map_of rs)" "lineage S (map_of rs) k ks"
  shows "length ks \<le> length rs + 1"
proof -
  have "set (butlast ks) \<subseteq> rv_childRunId ` set (map snd rs)"
    using lineage_inner[OF assms] by (force simp: accepted_at_def dest: map_of_SomeD)
  then have "card (set (butlast ks)) \<le> card (rv_childRunId ` set (map snd rs))" by (intro card_mono) auto
  also have "\<dots> \<le> length rs" by (metis card_image_le card_length finite_set le_trans length_map)
  finally show ?thesis using assms(2) distinct_card[of "butlast ks"] by (simp add: lineage_def distinct_butlast)
qed

lemma chain_walk_lineage:
  assumes "distinct (map fst (lg_reservations lg))" "child_inv (map_of (lg_scopes lg)) (map_of (lg_reservations lg))"
    "live_inv parse (map_of (lg_scopes lg)) (map_of (lg_reservations lg))"
    "lineage (map_of (lg_scopes lg)) (map_of (lg_reservations lg)) k ks" "length ks \<le> fuel"
  shows "chain_walk fuel lg k = Inr ks"
  using assms(4,5)
proof (induction ks arbitrary: k fuel)
  case (Cons a ks)
  let ?S = "map_of (lg_scopes lg)" and ?R = "map_of (lg_reservations lg)"
  obtain f where f: "fuel = Suc f" "length ks \<le> f" using Cons.prems(2) by (cases fuel) auto
  have a: "a = k" using Cons.prems(1) by (simp add: lineage_def)
  obtain s where s: "requireScope lg k = Inr s" using Cons.prems(1) a by (auto simp: lineage_def requireScope_def)
  show ?case
  proof (cases "\<exists>q. accepted_at ?R k q")
    case True
    then obtain q where q: "accepted_at ?R k q" by blast
    then have "ks = rv_ancestorRunIds q" using Cons.prems(1) by (auto simp: lineage_def)
    then have "chain_walk f lg (rv_parentRunId q) = Inr ks" using Cons.IH f(2) live_lineage(1)[OF assms(3) q] by blast
    then show ?thesis using accepted_parent_Some[OF assms(1,2) q] s f a by simp
  next
    case False
    then have "ks = []" using Cons.prems(1) by (auto simp: lineage_def)
    then show ?thesis using accepted_parent_None[OF assms(1) False] s f a by simp
  qed
qed (simp add: lineage_def)

lemma ancestorChain_ends:
  assumes "ledger_inv parse lg" "map_of (lg_scopes lg) k \<noteq> None"
  shows "\<exists>ks. ancestorChain lg k = Inr ks \<and> lineage (map_of (lg_scopes lg)) (map_of (lg_reservations lg)) k ks"
proof -
  have inv: "distinct (map fst (lg_reservations lg))" "child_inv (map_of (lg_scopes lg)) (map_of (lg_reservations lg))"
    "live_inv parse (map_of (lg_scopes lg)) (map_of (lg_reservations lg))" using assms(1) by (simp_all add: ledger_inv_def id_inv_def)
  obtain ks where ks: "lineage (map_of (lg_scopes lg)) (map_of (lg_reservations lg)) k ks" using lineage_exists[OF inv(3,2) assms(2)] by blast
  then show ?thesis using chain_walk_lineage[OF inv ks] lineage_length[OF inv(3) ks] by (auto simp: ancestorChain_def simp del: chain_walk.simps)
qed

subsection \<open>Scopes whose budgets and depths stay\<close>

definition keeps_frame :: "(scope_state \<Rightarrow> scope_state) \<Rightarrow> bool" where
  "keeps_frame f \<longleftrightarrow> (\<forall>s. as_budget (f s) = as_budget s \<and> as_depth (f s) = as_depth s)"

lemma slot_frames [simp]: "keeps_frame reserve_slot" "keeps_frame charge_slot" "keeps_frame release_slot" "keeps_frame (settle_slot add usage)"
  "keeps_frame (as_observedUsage_update f)"
  by (simp_all add: keeps_frame_def reserve_slot_def charge_slot_def release_slot_def settle_slot_def)

lemma touched_None [simp]: "touched f ks S k = None \<longleftrightarrow> S k = None"
  by (simp add: touched_def)

lemma touched_SomeE:
  assumes "touched f ks S k = Some s" "keeps_frame f"
  obtains s' where "S k = Some s'" "as_budget s = as_budget s'" "as_depth s = as_depth s'"
  using assms by (auto simp: touched_def keeps_frame_def split: if_splits)

lemma lineage_step:
  assumes "lineage S R p ks" "\<And>k. k \<in> set ks \<Longrightarrow> S k \<noteq> None \<Longrightarrow> S' k \<noteq> None" "\<And>q. accepted_at R' p q \<longleftrightarrow> accepted_at R p q"
  shows "lineage S' R' p ks"
  using assms by (auto simp: lineage_def)

lemma lineage_touched [simp]: "lineage (touched f ks S) R p xs = lineage S R p xs"
  by (simp add: lineage_def)

lemma attenuated_touched: "keeps_frame f \<Longrightarrow> attenuated parse S r \<Longrightarrow> attenuated parse (touched f ks S) r"
  by (fastforce simp: attenuated_def elim: touched_SomeE)

lemma live_inv_touched: "keeps_frame f \<Longrightarrow> live_inv parse S R \<Longrightarrow> live_inv parse (touched f ks S) R"
  by (auto simp: live_inv_def attenuated_touched)

lemma child_inv_touched:
  assumes "keeps_frame f" "child_inv S R"
  shows "child_inv (touched f ks S) R"
proof -
  have "as_budget s = rv_childBudget r \<and> as_depth s = rv_depth r" if "R i = Some r" "touched f ks S (rv_childRunId r) = Some s" for i r s
    by (rule touched_SomeE[OF that(2) assms(1)]) (use assms(2) that(1) in \<open>unfold child_inv_def, metis\<close>)
  moreover have "as_depth s = 0" if "touched f ks S k = Some s" "\<nexists>q. accepted_at R k q" for k s
    by (rule touched_SomeE[OF that(1) assms(1)]) (use assms(2) that(2) in \<open>unfold child_inv_def, metis\<close>)
  ultimately show ?thesis using assms(2) by (simp add: child_inv_def)
qed

subsection \<open>Counters\<close>

text \<open>Moving the claim on the chain \<open>ks\<close> from one state to another.\<close>

definition moved :: "string list \<Rightarrow> subagent_state option \<Rightarrow> subagent_state \<Rightarrow> (subagent_state \<Rightarrow> string \<Rightarrow> int) \<Rightarrow> subagent_state \<Rightarrow> string \<Rightarrow> int" where
  "moved ks source target C st k = C st k - of_bool (source = Some st \<and> k \<in> set ks) + of_bool (target = st \<and> k \<in> set ks)"

lemma count_reserve:
  assumes "count_inv S C" "\<And>k s. k \<in> set ks \<Longrightarrow> S k = Some s \<Longrightarrow> as_chargedChildRuns s + as_reservedChildRuns s < int (eb_maxChildRuns (as_budget s))
      \<and> as_activeChildren s < int (eb_maxParallelChildren (as_budget s))"
  shows "count_inv (touched reserve_slot ks S) (moved ks None Slot_reserved C)"
  using assms by (fastforce simp: count_inv_def scope_ok_def touched_def reserve_slot_def moved_def split: if_splits)

lemma count_accept: "count_inv S C \<Longrightarrow> count_inv (touched charge_slot ks S) (moved ks (Some Slot_reserved) Execution_accepted C)"
  by (fastforce simp: count_inv_def scope_ok_def touched_def charge_slot_def moved_def split: if_splits)

lemma count_release: "count_inv S C \<Longrightarrow> count_inv (touched release_slot ks S) (moved ks (Some Slot_reserved) Released C)"
  by (fastforce simp: count_inv_def scope_ok_def touched_def release_slot_def moved_def split: if_splits)

lemma count_settle: "count_inv S C \<Longrightarrow> count_inv (touched (settle_slot add usage) ks S) (moved ks (Some Execution_accepted) Terminal C)"
  by (fastforce simp: count_inv_def scope_ok_def touched_def settle_slot_def moved_def split: if_splits)

lemma count_observe: "count_inv S C \<Longrightarrow> count_inv (touched (as_observedUsage_update f) ks S) C"
  by (fastforce simp: count_inv_def scope_ok_def touched_def split: if_splits)

lemma claims_moved:
  "map_of rs i = Some r \<Longrightarrow> rv_ancestorRunIds r' = rv_ancestorRunIds r
    \<Longrightarrow> claims (AList.update i r' rs) = moved (rv_ancestorRunIds r) (Some (rv_state r)) (rv_state r') (claims rs)"
  "map_of rs i = None \<Longrightarrow> claims (AList.update i r' rs) = moved (rv_ancestorRunIds r') None (rv_state r') (claims rs)"
  by (auto simp: fun_eq_iff claims_update claims_new moved_def)

subsection \<open>Reservations\<close>

lemma accepted_at_put:
  assumes "child_inv S R" "R i = None \<and> (\<forall>j q. R j = Some q \<longrightarrow> rv_childRunId q \<noteq> rv_childRunId r') \<or> (\<exists>r. R i = Some r \<and> rv_childRunId r = rv_childRunId r')"
  shows "accepted_at (R(i \<mapsto> r')) k q \<longleftrightarrow> (if k = rv_childRunId r' then rv_state r' = Execution_accepted \<and> q = r' else accepted_at R k q)"
proof (cases "k = rv_childRunId r'")
  case True
  then show ?thesis using assms unfolding child_inv_def accepted_at_def by (metis fun_upd_apply option.inject)
next
  case False
  have "R i \<noteq> Some q \<or> rv_childRunId q \<noteq> k" using assms(2) False by auto
  then show ?thesis using False by (auto simp: accepted_at_def)
qed

lemma child_inv_new:
  assumes "child_inv S R" "R i = None" "\<forall>j q. R j = Some q \<longrightarrow> rv_childRunId q \<noteq> rv_childRunId r" "S (rv_childRunId r) = None"
    "rv_state r = Slot_reserved" "\<forall>k \<in> set (rv_ancestorRunIds r). S k \<noteq> None"
  shows "child_inv S (R(i \<mapsto> r))"
proof -
  have acc: "accepted_at (R(i \<mapsto> r)) k q \<longleftrightarrow> accepted_at R k q" for k q
    using accepted_at_put[OF assms(1), of i r k q] assms(2,3,5) by (auto simp: accepted_at_def)
  show ?thesis unfolding child_inv_def acc
  proof (intro conjI allI impI ballI)
    fix j q x assume j: "(R(i \<mapsto> r)) j = Some q" and x: "x \<in> set (rv_ancestorRunIds q)"
    show "S x \<noteq> None \<or> (\<exists>j q. (R(i \<mapsto> r)) j = Some q \<and> rv_childRunId q = x \<and> rv_state q = Terminal)"
    proof (cases "j = i")
      case False
      then have "S x \<noteq> None \<or> (\<exists>j q. R j = Some q \<and> rv_childRunId q = x \<and> rv_state q = Terminal)"
        using assms(1) j x unfolding child_inv_def by simp
      then show ?thesis using assms(2) by (metis fun_upd_apply option.distinct(1))
    qed (use j x assms(6) in auto)
  next
    fix k s assume "S k = Some s" "\<nexists>q. accepted_at R k q"
    then show "as_depth s = 0" using assms(1) unfolding child_inv_def by metis
  qed (use assms in \<open>auto simp: child_inv_def split: if_splits\<close>)
qed

text \<open>What changing the state of one reservation has to respect.\<close>

lemma child_inv_put:
  assumes inv: "child_inv S R" and r: "R i = Some r" "rv_childRunId r' = rv_childRunId r" "rv_childBudget r' = rv_childBudget r" "rv_depth r' = rv_depth r"
      "rv_ancestorRunIds r' = rv_ancestorRunIds r" "rv_state r \<noteq> Terminal"
    and S': "\<And>k. k \<noteq> rv_childRunId r \<Longrightarrow> S' k = S k"
      "case S' (rv_childRunId r) of None \<Rightarrow> rv_state r' \<noteq> Execution_accepted \<and> (S (rv_childRunId r) = None \<or> rv_state r' = Terminal)
        | Some s \<Rightarrow> rv_state r' = Execution_accepted \<and> as_budget s = rv_childBudget r \<and> as_depth s = rv_depth r"
  shows "child_inv S' (R(i \<mapsto> r'))"
proof -
  have acc: "accepted_at (R(i \<mapsto> r')) k q \<longleftrightarrow> (if k = rv_childRunId r then rv_state r' = Execution_accepted \<and> q = r' else accepted_at R k q)" for k q
    using accepted_at_put[OF inv, of i r' k q] r by auto
  have unique: "j = i" if "R j = Some q" "rv_childRunId q = rv_childRunId r" for j q
    using inv r(1) that unfolding child_inv_def by metis
  show ?thesis unfolding child_inv_def
  proof (intro conjI allI impI ballI)
    fix j k a b assume "(R(i \<mapsto> r')) j = Some a" "(R(i \<mapsto> r')) k = Some b" "rv_childRunId a = rv_childRunId b"
    then show "j = k" using inv r(1,2) unfolding child_inv_def by (metis fun_upd_apply option.inject)
  next
    fix j q assume j: "(R(i \<mapsto> r')) j = Some q"
    show "(S' (rv_childRunId q) \<noteq> None) = (rv_state q = Execution_accepted)"
    proof (cases "j = i")
      case False
      then have "rv_childRunId q \<noteq> rv_childRunId r" using unique j by auto
      then show ?thesis using inv j False S'(1) unfolding child_inv_def by simp
    qed (use j r(2) S'(2) in \<open>auto split: option.splits\<close>)
  next
    fix j q s assume j: "(R(i \<mapsto> r')) j = Some q" and s: "S' (rv_childRunId q) = Some s"
    have "as_budget s = rv_childBudget q \<and> as_depth s = rv_depth q"
    proof (cases "j = i")
      case False
      then have "rv_childRunId q \<noteq> rv_childRunId r" using unique j by auto
      then show ?thesis using inv j s False S'(1) unfolding child_inv_def by simp
    qed (use j s r S'(2) in auto)
    then show "as_budget s = rv_childBudget q" "as_depth s = rv_depth q" by simp_all
  next
    fix j q x assume j: "(R(i \<mapsto> r')) j = Some q" and x: "x \<in> set (rv_ancestorRunIds q)"
    have "\<exists>j q. R j = Some q \<and> x \<in> set (rv_ancestorRunIds q)" using j x r by (auto split: if_splits)
    then have "S x \<noteq> None \<or> (\<exists>j q. R j = Some q \<and> rv_childRunId q = x \<and> rv_state q = Terminal)"
      using inv unfolding child_inv_def by blast
    moreover have "x = rv_childRunId r \<Longrightarrow> S x \<noteq> None \<Longrightarrow> S' x \<noteq> None \<or> rv_state r' = Terminal" using S'(2) by (auto split: option.splits)
    ultimately show "S' x \<noteq> None \<or> (\<exists>j q. (R(i \<mapsto> r')) j = Some q \<and> rv_childRunId q = x \<and> rv_state q = Terminal)"
      using S'(1) r(1,2,6) by (metis fun_upd_apply option.inject)
  next
    fix k s assume s: "S' k = Some s" "\<nexists>q. accepted_at (R(i \<mapsto> r')) k q"
    then have "k \<noteq> rv_childRunId r" using S'(2) acc by (auto split: option.splits)
    then show "as_depth s = 0" using inv s acc S'(1) unfolding child_inv_def by (metis (full_types))
  qed
qed

lemma live_inv_new:
  assumes "live_inv parse S R" "child_inv S R" "R i = None" "\<forall>j q. R j = Some q \<longrightarrow> rv_childRunId q \<noteq> rv_childRunId r" "S (rv_childRunId r) = None"
    "rv_state r = Slot_reserved" "lineage S R (rv_parentRunId r) (rv_ancestorRunIds r)" "rv_depth r = length (rv_ancestorRunIds r)" "attenuated parse S r"
  shows "live_inv parse S (R(i \<mapsto> r))"
proof -
  have acc: "accepted_at (R(i \<mapsto> r)) k q \<longleftrightarrow> accepted_at R k q" for k q
    using accepted_at_put[OF assms(2), of i r k q] assms(3,4,6) by (auto simp: accepted_at_def)
  have "lineage S (R(i \<mapsto> r)) p ks \<longleftrightarrow> lineage S R p ks" for p ks by (simp add: lineage_def acc)
  moreover have "rv_childRunId r \<notin> set (rv_ancestorRunIds r)" using assms(5,7) by (auto simp: lineage_def)
  ultimately show ?thesis using assms(1,7-9) by (simp add: live_inv_def)
qed

lemma live_inv_put:
  assumes inv: "live_inv parse S R" "child_inv S R" and r: "R i = Some r" "live r" "rv_childRunId r' = rv_childRunId r" "rv_childBudget r' = rv_childBudget r"
      "rv_depth r' = rv_depth r" "rv_ancestorRunIds r' = rv_ancestorRunIds r" "rv_parentRunId r' = rv_parentRunId r"
    and S': "\<And>k. k \<noteq> rv_childRunId r \<Longrightarrow> S' k = S k" and free: "\<And>j q. R j = Some q \<Longrightarrow> live q \<Longrightarrow> rv_childRunId r \<notin> set (rv_ancestorRunIds q)"
  shows "live_inv parse S' (R(i \<mapsto> r'))"
proof -
  have acc: "accepted_at (R(i \<mapsto> r')) k q \<longleftrightarrow> accepted_at R k q" if "k \<noteq> rv_childRunId r" for k q
    using accepted_at_put[OF inv(2), of i r' k q] r that by auto
  have old: "lineage S' (R(i \<mapsto> r')) (rv_parentRunId q) (rv_ancestorRunIds q) \<and> rv_childRunId q \<notin> set (rv_ancestorRunIds q)
      \<and> rv_depth q = length (rv_ancestorRunIds q) \<and> attenuated parse S' q" if q: "R j = Some q" "live q" for j q
  proof -
    have ok: "lineage S R (rv_parentRunId q) (rv_ancestorRunIds q)" "rv_childRunId q \<notin> set (rv_ancestorRunIds q)"
      "rv_depth q = length (rv_ancestorRunIds q)" "attenuated parse S q" using inv(1) q by (simp_all add: live_inv_def)
    have other: "k \<noteq> rv_childRunId r" if "k \<in> set (rv_ancestorRunIds q)" for k using free[OF q] that by auto
    moreover have "rv_parentRunId q \<in> set (rv_ancestorRunIds q)" using ok(1) by (metis hd_in_set lineage_def)
    ultimately have "lineage S' (R(i \<mapsto> r')) (rv_parentRunId q) (rv_ancestorRunIds q)"
      using lineage_step[OF ok(1)] acc S' by simp
    moreover have "attenuated parse S' q" using ok(4) other S' by (simp add: attenuated_def)
    ultimately show ?thesis using ok by simp
  qed
  have "attenuated parse S' r' = attenuated parse S' r" using r by (simp add: attenuated_def)
  then show ?thesis using old r by (auto simp: live_inv_def)
qed

lemma ids_put: "id_inv lg \<Longrightarrow> map_of (lg_reservations lg) (rv_reservationId r) \<noteq> None \<Longrightarrow> id_inv (put_reservation r lg)"
  by (auto simp: id_inv_def put_reservation_def distinct_update update_conv' split: if_splits)

lemma ids_new:
  assumes "id_inv lg" "rv_reservationId r = reservation_id (lg_nextReservation lg)"
  shows "map_of (lg_reservations lg) (rv_reservationId r) = None"
    "id_inv (put_reservation r (lg\<lparr>lg_nextReservation := lg_nextReservation lg + 1\<rparr>))"
proof -
  show none: "map_of (lg_reservations lg) (rv_reservationId r) = None"
  proof (rule ccontr)
    assume "map_of (lg_reservations lg) (rv_reservationId r) \<noteq> None"
    then obtain n where "n < lg_nextReservation lg" "rv_reservationId r = reservation_id n"
      using assms(1) unfolding id_inv_def by blast
    then show False using assms(2) by simp
  qed
  show "id_inv (put_reservation r (lg\<lparr>lg_nextReservation := lg_nextReservation lg + 1\<rparr>))"
    using assms by (fastforce simp: id_inv_def put_reservation_def distinct_update less_Suc_eq)
qed

end
