(* ===== verification/SubagentOperations.thy ===== *)
theory SubagentOperations
  imports SubagentHistory
begin

section \<open>The operations of the ledger on a ledger that arises\<close>

text \<open>
  The step of each operation preserves the invariant, and on a ledger where it holds the outcome of
  every operation is a function of the reservation alone: no scope of a chain is ever missing, the
  walk up the ancestors ends, and an operation that fails leaves the accounts as they were.
\<close>

subsection \<open>The budget of an admitted child\<close>

lemma check_capacity_iff: "check_capacity lg ks = Inr u \<longleftrightarrow> (\<forall>k \<in> set ks. \<exists>s. map_of (lg_scopes lg) k = Some s
    \<and> as_chargedChildRuns s + as_reservedChildRuns s < int (eb_maxChildRuns (as_budget s))
    \<and> as_activeChildren s < int (eb_maxParallelChildren (as_budget s)))"
  by (induction ks) (auto simp: result_iff requireScope_def not_le split: option.splits if_splits)

lemma candidate_below:
  assumes "fits parse b (candidate_budget s)" "0 \<le> as_chargedChildRuns s" "0 \<le> as_reservedChildRuns s" "0 \<le> as_activeChildren s"
    "as_chargedChildRuns s + as_reservedChildRuns s < int (eb_maxChildRuns (as_budget s))"
    "as_activeChildren s < int (eb_maxParallelChildren (as_budget s))" "0 < eb_maxDepth (as_budget s)"
  shows "below_budget parse b (as_budget s)"
proof -
  let ?c = "candidate_budget s"
  have c: "eb_maxTurns ?c \<le> eb_maxTurns (as_budget s)" "eb_maxToolCalls ?c \<le> eb_maxToolCalls (as_budget s)"
    "tokens_within (eb_maxTokens ?c) (eb_maxTokens (as_budget s))" "eb_maxChildRuns ?c < eb_maxChildRuns (as_budget s)"
    "eb_maxParallelChildren ?c < eb_maxParallelChildren (as_budget s)" "eb_maxDepth ?c < eb_maxDepth (as_budget s)"
    "deadline_within parse (eb_deadlineAt ?c) (eb_deadlineAt (as_budget s))"
    using assms(2-7) by (auto simp: candidate_budget_def Let_def tokens_within_def deadline_within_def split: option.splits)
  then have "fits parse ?c (as_budget s)" by (simp add: fits_def)
  then show ?thesis using fits_trans[OF assms(1)] c assms(1) unfolding below_budget_def fits_def by (meson le_less_trans)
qed

lemma admit_budget_facts:
  assumes "admit_budget parse lg parent requested ks = Inr b"
  shows "fits parse b requested \<and> 0 < eb_maxTurns b \<and> 0 < eb_maxDepth (as_budget parent) \<and> eb_maxParallelChildren b \<le> eb_maxChildRuns b
    \<and> (\<forall>k \<in> set ks. \<exists>s. map_of (lg_scopes lg) k = Some s \<and> fits parse b (candidate_budget s)
      \<and> as_chargedChildRuns s + as_reservedChildRuns s < int (eb_maxChildRuns (as_budget s))
      \<and> as_activeChildren s < int (eb_maxParallelChildren (as_budget s)))"
proof -
  obtain u remaining clamped where steps: "check_capacity lg ks = Inr u" "0 < eb_maxDepth (as_budget parent)"
      "remaining_from parse lg None ks = Inr (Some remaining)" "clampChildBudget parse requested remaining = Inr clamped"
    and b: "b = clamped\<lparr>eb_maxParallelChildren := min (eb_maxParallelChildren clamped) (eb_maxChildRuns clamped)\<rparr>" "eb_maxTurns b \<noteq> 0"
    using assms by (auto simp: admit_budget_def remainingAfterChild_def result_iff Let_def split: option.splits if_splits)
  have clamped: "fits parse clamped requested" "fits parse clamped remaining" using clampChildBudget_fits[OF steps(4)] by simp_all
  have le: "fits parse clamped c \<Longrightarrow> fits parse b c" for c by (auto simp: fits_def b(1) intro: min.coboundedI1)
  have "\<exists>s. map_of (lg_scopes lg) k = Some s \<and> fits parse b (candidate_budget s)" if "k \<in> set ks" for k
    using remaining_from_fits[OF steps(3)] that clamped(2) fits_trans le by (metis option.inject)
  then show ?thesis using steps(1,2) b clamped(1) le unfolding check_capacity_iff by fastforce
qed

subsection \<open>Operations on the ledger\<close>

lemma ledger_invD:
  assumes "ledger_inv parse lg"
  shows "id_inv lg" "distinct (map fst (lg_reservations lg))" "child_inv (map_of (lg_scopes lg)) (map_of (lg_reservations lg))"
    "live_inv parse (map_of (lg_scopes lg)) (map_of (lg_reservations lg))" "count_inv (map_of (lg_scopes lg)) (claims (lg_reservations lg))"
  using assms by (simp_all add: ledger_inv_def id_inv_def)

lemma ledger_invI:
  assumes "id_inv lg" "map_of (lg_scopes lg) = S" "map_of (lg_reservations lg) = R" "claims (lg_reservations lg) = C"
    "child_inv S R" "live_inv parse S R" "count_inv S C"
  shows "ledger_inv parse lg"
  using assms by (simp add: ledger_inv_def)

lemma ledger_views [simp]:
  "lg_reservations (emit e lg) = lg_reservations lg" "lg_scopes (emit e lg) = lg_scopes lg" "id_inv (emit e lg) = id_inv lg"
  "lg_scopes (put_reservation r lg) = lg_scopes lg" "lg_reservations (put_scope k s lg) = lg_reservations lg"
  "lg_reservations (put_reservation r lg) = AList.update (rv_reservationId r) r (lg_reservations lg)"
  "lg_scopes (put_scope k s lg) = AList.update k s (lg_scopes lg)"
  "id_inv (lg\<lparr>lg_scopes := scopes\<rparr>) = id_inv lg" "id_inv (put_scope k s lg) = id_inv lg"
  by (simp_all add: emit_def put_reservation_def put_scope_def id_inv_def)

lemma hasReservationForChild_iff:
  "id_inv lg \<Longrightarrow> hasReservationForChild lg c \<longleftrightarrow> (\<exists>i r. map_of (lg_reservations lg) i = Some r \<and> rv_childRunId r = c)"
  by (auto simp: hasReservationForChild_def list_ex_iff id_inv_def)

lemma claims_fresh:
  assumes "distinct (map fst rs)" "child_inv S (map_of rs)" "S k = None" "\<And>i r. map_of rs i = Some r \<Longrightarrow> rv_childRunId r = k \<Longrightarrow> rv_state r \<noteq> Terminal"
  shows "claims rs st k = 0"
proof (rule claims_zero[OF assms(1)])
  fix i r assume "map_of rs i = Some r"
  then show "k \<notin> set (rv_ancestorRunIds r)" using assms(2-4) unfolding child_inv_def by metis
qed

lemma observe_inv:
  assumes "ledger_inv parse lg" "map_of (lg_scopes lg) p = Some s"
  shows "ledger_inv parse (put_scope p (s\<lparr>as_observedUsage := u\<rparr>) lg)"
proof -
  have "map_of (lg_scopes (put_scope p (s\<lparr>as_observedUsage := u\<rparr>) lg)) = touched (as_observedUsage_update (\<lambda>_. u)) [p] (map_of (lg_scopes lg))"
    using assms(2) by (auto simp: touched_def fun_eq_iff put_scope_def)
  then show ?thesis unfolding ledger_inv_def using ledger_invD[OF assms(1)]
    by (simp add: child_inv_touched live_inv_touched count_observe)
qed

lemma root_scope_inv:
  assumes inv: "ledger_inv parse lg" and k: "map_of (lg_scopes lg) k = None" "\<not> hasReservationForChild lg k"
    and s: "as_depth s = 0" "as_reservedChildRuns s = 0" "as_activeChildren s = 0" "0 \<le> as_chargedChildRuns s"
      "as_chargedChildRuns s \<le> int (eb_maxChildRuns (as_budget s))"
  shows "ledger_inv parse (put_scope k s lg)"
proof -
  let ?S = "map_of (lg_scopes lg)" and ?R = "map_of (lg_reservations lg)"
  note parts = ledger_invD[OF inv]
  have none: "rv_childRunId r \<noteq> k" if "?R i = Some r" for i r using k(2) that parts(1) by (auto simp: hasReservationForChild_iff)
  have zero: "claims (lg_reservations lg) st k = 0" for st using claims_fresh[OF parts(2,3) k(1)] none by blast
  have "child_inv (?S(k \<mapsto> s)) ?R" unfolding child_inv_def
  proof (intro conjI allI impI ballI)
    fix i r assume r: "?R i = Some r"
    show "((?S(k \<mapsto> s)) (rv_childRunId r) \<noteq> None) = (rv_state r = Execution_accepted)"
      using none[OF r] r parts(3) unfolding child_inv_def by simp
    fix s' assume "(?S(k \<mapsto> s)) (rv_childRunId r) = Some s'"
    then have "?S (rv_childRunId r) = Some s'" using none[OF r] by simp
    then show "as_budget s' = rv_childBudget r" "as_depth s' = rv_depth r" using r parts(3) unfolding child_inv_def by metis+
  next
    fix i r x assume "?R i = Some r" "x \<in> set (rv_ancestorRunIds r)"
    then show "(?S(k \<mapsto> s)) x \<noteq> None \<or> (\<exists>j q. ?R j = Some q \<and> rv_childRunId q = x \<and> rv_state q = Terminal)"
      using parts(3) unfolding child_inv_def by (metis fun_upd_apply option.distinct(1))
  next
    fix x s' assume "(?S(k \<mapsto> s)) x = Some s'" "\<nexists>q. accepted_at ?R x q"
    then show "as_depth s' = 0" using parts(3) s(1) unfolding child_inv_def by (metis fun_upd_apply option.inject)
  qed (use parts(3) in \<open>unfold child_inv_def, metis\<close>)
  moreover have "live_inv parse (?S(k \<mapsto> s)) ?R" unfolding live_inv_def
  proof (intro allI impI)
    fix i r assume r: "?R i = Some r" "live r"
    then have ok: "lineage ?S ?R (rv_parentRunId r) (rv_ancestorRunIds r)" "rv_childRunId r \<notin> set (rv_ancestorRunIds r)"
      "rv_depth r = length (rv_ancestorRunIds r)" "attenuated parse ?S r" using parts(4) by (simp_all add: live_inv_def)
    then have "k \<notin> set (rv_ancestorRunIds r)" using k(1) by (auto simp: lineage_def)
    then have "attenuated parse (?S(k \<mapsto> s)) r" using ok(4) by (auto simp: attenuated_def)
    moreover have "lineage (?S(k \<mapsto> s)) ?R (rv_parentRunId r) (rv_ancestorRunIds r)" by (rule lineage_step[OF ok(1)]) simp_all
    ultimately show "lineage (?S(k \<mapsto> s)) ?R (rv_parentRunId r) (rv_ancestorRunIds r) \<and> rv_childRunId r \<notin> set (rv_ancestorRunIds r)
      \<and> rv_depth r = length (rv_ancestorRunIds r) \<and> attenuated parse (?S(k \<mapsto> s)) r" using ok by simp
  qed
  moreover have "scope_ok (claims (lg_reservations lg)) k s" using s zero by (simp add: scope_ok_def)
  then have "count_inv (?S(k \<mapsto> s)) (claims (lg_reservations lg))" using parts(5) by (simp add: count_inv_def)
  ultimately show ?thesis using parts(1) by (simp add: ledger_inv_def update_conv')
qed

lemma registerRootScope_inv:
  assumes "ledger_inv parse lg" shows "ledger_inv parse (fst (registerRootScope parse k budget usage charge lg))"
proof (cases "snd (registerRootScope parse k budget usage charge lg)")
  case (Inr u)
  then show ?thesis using assms
    by (auto simp: registerRootScope_def Let_def result_iff nonNegativeInteger_def the_nat_def nat_le_iff split: sum.splits if_splits intro!: root_scope_inv)
qed (use assms in \<open>auto simp: registerRootScope_def split: if_splits sum.splits\<close>)

lemma scope_ok_nonneg: "scope_ok (claims rs) k s \<Longrightarrow> 0 \<le> as_chargedChildRuns s \<and> 0 \<le> as_reservedChildRuns s \<and> 0 \<le> as_activeChildren s"
  using claims_nonneg[of rs Slot_reserved k] claims_nonneg[of rs Execution_accepted k] claims_nonneg[of rs Terminal k] unfolding scope_ok_def by linarith

lemma reserve_step:
  assumes inv: "ledger_inv parse lg" and fresh: "map_of (lg_scopes lg) c = None" "\<not> hasReservationForChild lg c"
    and parent: "map_of (lg_scopes lg) p = Some parent" and chain: "ancestorChain lg p = Inr ks"
    and budget: "admit_budget parse lg parent requested ks = Inr b"
    and r: "rv_reservationId r = reservation_id (lg_nextReservation lg)" "rv_parentRunId r = p" "rv_childRunId r = c" "rv_childBudget r = b"
      "rv_depth r = as_depth parent + 1" "rv_ancestorRunIds r = ks" "rv_state r = Slot_reserved"
  shows "\<exists>scopes. each_scope reserve_slot ks lg = (lg\<lparr>lg_scopes := scopes\<rparr>, Inr ())
    \<and> map_of scopes = touched reserve_slot ks (map_of (lg_scopes lg))
    \<and> ledger_inv parse (put_reservation r (lg\<lparr>lg_scopes := scopes, lg_nextReservation := lg_nextReservation lg + 1\<rparr>))"
proof -
  let ?S = "map_of (lg_scopes lg)" and ?R = "map_of (lg_reservations lg)"
  note parts = ledger_invD[OF inv]
  have line: "lineage ?S ?R p ks" using ancestorChain_ends[OF inv, of p] parent chain by simp
  have none: "rv_childRunId q \<noteq> c" if "?R i = Some q" for i q using fresh(2) that parts(1) by (auto simp: hasReservationForChild_iff)
  obtain scopes where scopes: "each_scope reserve_slot ks lg = (lg\<lparr>lg_scopes := scopes\<rparr>, Inr ())" "map_of scopes = touched reserve_slot ks ?S"
    using each_scope_ok[of ks lg reserve_slot] line unfolding lineage_def by blast
  note facts = admit_budget_facts[OF budget]
  have counters: "scope_ok (claims (lg_reservations lg)) k s" if "?S k = Some s" for k s using parts(5) that by (simp add: count_inv_def)
  have p: "p \<in> set ks" using line by (metis hd_in_set lineage_def)
  have upper: "k = p \<or> (\<exists>q. accepted_at ?R p q \<and> k \<in> set (rv_ancestorRunIds q) \<and> attenuated parse ?S q \<and> rv_childBudget q = as_budget parent
      \<and> rv_depth q = as_depth parent)" if "k \<in> set ks" for k
  proof (cases "\<exists>q. accepted_at ?R p q")
    case True
    then obtain q where q: "accepted_at ?R p q" by blast
    then have "ks = p # rv_ancestorRunIds q" using line by (metis lineage_def list.collapse)
    moreover have "rv_childBudget q = as_budget parent \<and> rv_depth q = as_depth parent"
      using q parts(3) parent unfolding accepted_at_def child_inv_def by metis
    ultimately show ?thesis using that q live_lineage(4)[OF parts(4) q] by auto
  next
    case False
    then have "ks = [p]" using line by (metis lineage_def list.collapse)
    then show ?thesis using that by simp
  qed
  have within: "below_budget parse b (as_budget s)" if "k \<in> set ks" "?S k = Some s" "0 < eb_maxDepth (as_budget s)" for k s
    using candidate_below[of parse b s] facts that scope_ok_nonneg[OF counters[OF that(2)]] by force
  have "below_budget parse b (as_budget s) \<and> as_depth s < rv_depth r \<and> rv_depth r + eb_maxDepth b \<le> as_depth s + eb_maxDepth (as_budget s)"
    if k: "k \<in> set ks" and s: "?S k = Some s" for k s
  proof -
    have up: "k = p \<or> as_depth s < as_depth parent \<and> as_depth parent + eb_maxDepth (as_budget parent) \<le> as_depth s + eb_maxDepth (as_budget s)"
      using upper[OF k] s unfolding attenuated_def by metis
    have "0 < eb_maxDepth (as_budget parent)" using facts by simp
    moreover from this have "0 < eb_maxDepth (as_budget s)" using up s parent by auto
    ultimately have "below_budget parse b (as_budget s)" "below_budget parse b (as_budget parent)" using within k s p parent by blast+
    then show ?thesis using up s parent r(5) by (auto simp: below_budget_def)
  qed
  then have attenuated: "attenuated parse ?S r" using r by (simp add: attenuated_def)
  have depth: "rv_depth r = length ks"
  proof (cases "\<exists>q. accepted_at ?R p q")
    case True
    then obtain q where q: "accepted_at ?R p q" by blast
    then have "ks = p # rv_ancestorRunIds q" using line by (metis lineage_def list.collapse)
    moreover have "rv_depth q = as_depth parent" using q parts(3) parent unfolding accepted_at_def child_inv_def by metis
    ultimately show ?thesis using r(5) live_lineage(3)[OF parts(4) q] by simp
  next
    case False
    then have "ks = [p]" using line by (metis lineage_def list.collapse)
    then show ?thesis using r(5) False parent parts(3) unfolding child_inv_def by force
  qed
  have new: "?R (rv_reservationId r) = None" using ids_new[OF parts(1) r(1)] by simp
  have anc: "\<forall>k \<in> set ks. ?S k \<noteq> None" using line by (simp add: lineage_def)
  let ?lg = "put_reservation r (lg\<lparr>lg_scopes := scopes, lg_nextReservation := lg_nextReservation lg + 1\<rparr>)"
  have "ledger_inv parse ?lg"
  proof (rule ledger_invI)
    have "?lg = (put_reservation r (lg\<lparr>lg_nextReservation := lg_nextReservation lg + 1\<rparr>))\<lparr>lg_scopes := scopes\<rparr>" by (simp add: put_reservation_def)
    then show "id_inv ?lg" using ids_new(2)[OF parts(1) r(1)] by (simp only: ledger_views)
    show "map_of (lg_scopes ?lg) = touched reserve_slot ks ?S" using scopes by simp
    show "map_of (lg_reservations ?lg) = ?R(rv_reservationId r \<mapsto> r)" by (simp add: update_conv')
    show "claims (lg_reservations ?lg) = moved ks None Slot_reserved (claims (lg_reservations lg))" using claims_moved(2)[OF new, of r] r by simp
    show "child_inv (touched reserve_slot ks ?S) (?R(rv_reservationId r \<mapsto> r))"
      by (rule child_inv_touched[OF slot_frames(1) child_inv_new[OF parts(3) new]]) (simp_all add: none fresh(1) r anc del: not_None_eq)
    show "live_inv parse (touched reserve_slot ks ?S) (?R(rv_reservationId r \<mapsto> r))"
      by (rule live_inv_touched[OF slot_frames(1) live_inv_new[OF parts(4,3) new]]) (use none fresh(1) r(2-4,6,7) line attenuated depth in simp_all)
    show "count_inv (touched reserve_slot ks ?S) (moved ks None Slot_reserved (claims (lg_reservations lg)))"
      by (rule count_reserve[OF parts(5)]) (use facts in fastforce)
  qed
  then show ?thesis using scopes by blast
qed

lemma live_facts:
  assumes "ledger_inv parse lg" "map_of (lg_reservations lg) i = Some r" "live r"
  shows "rv_reservationId r = i" "distinct (rv_ancestorRunIds r)" "\<forall>k \<in> set (rv_ancestorRunIds r). map_of (lg_scopes lg) k \<noteq> None"
    "rv_childRunId r \<notin> set (rv_ancestorRunIds r)"
  using assms by (auto simp: ledger_inv_def id_inv_def live_inv_def lineage_def)

lemma each_live_scope:
  assumes "ledger_inv parse lg" "map_of (lg_reservations lg) i = Some r" "live r" "lg_scopes lg' = lg_scopes lg"
  obtains scopes where "each_scope f (rv_ancestorRunIds r) lg' = (lg'\<lparr>lg_scopes := scopes\<rparr>, Inr ())"
    "map_of scopes = touched f (rv_ancestorRunIds r) (map_of (lg_scopes lg))"
proof -
  have "\<forall>k \<in> set (rv_ancestorRunIds r). map_of (lg_scopes lg') k \<noteq> None" using live_facts(3)[OF assms(1-3)] assms(4) by simp
  then show ?thesis using each_scope_ok[OF live_facts(2)[OF assms(1-3)], of lg' f] assms(4) that by metis
qed

text \<open>No live reservation lies below the child of a pending one.\<close>

lemma pending_child_free:
  assumes "ledger_inv parse lg" "map_of (lg_reservations lg) i = Some r" "rv_state r = Slot_reserved"
  shows "map_of (lg_scopes lg) (rv_childRunId r) = None"
    "\<And>j q. map_of (lg_reservations lg) j = Some q \<Longrightarrow> live q \<Longrightarrow> rv_childRunId r \<notin> set (rv_ancestorRunIds q)"
proof -
  have "child_inv (map_of (lg_scopes lg)) (map_of (lg_reservations lg))" using ledger_invD(3)[OF assms(1)] .
  then have "map_of (lg_scopes lg) (rv_childRunId r) \<noteq> None \<longleftrightarrow> rv_state r = Execution_accepted" using assms(2) unfolding child_inv_def by metis
  then show none: "map_of (lg_scopes lg) (rv_childRunId r) = None" using assms(3) by simp
  fix j q assume "map_of (lg_reservations lg) j = Some q" "live q"
  then show "rv_childRunId r \<notin> set (rv_ancestorRunIds q)" using live_facts(3)[OF assms(1)] none by blast
qed

lemma idle_child_free:
  assumes "ledger_inv parse lg" "map_of (lg_scopes lg) c = Some s" "as_activeChildren s \<le> 0"
    "map_of (lg_reservations lg) j = Some q" "live q"
  shows "c \<notin> set (rv_ancestorRunIds q)"
proof
  assume "c \<in> set (rv_ancestorRunIds q)"
  then have "0 < claims (lg_reservations lg) (rv_state q) c" using claims_pos[OF ledger_invD(2)[OF assms(1)] assms(4) refl] by blast
  moreover have "as_activeChildren s = claims (lg_reservations lg) Slot_reserved c + claims (lg_reservations lg) Execution_accepted c"
    using ledger_invD(5)[OF assms(1)] assms(2) by (simp add: count_inv_def scope_ok_def)
  ultimately show False using assms(3,5) claims_nonneg[of "lg_reservations lg" Slot_reserved c] claims_nonneg[of "lg_reservations lg" Execution_accepted c]
    unfolding live_def by (elim disjE) (simp_all del: claims_nonneg)
qed

lemma accept_step:
  assumes inv: "ledger_inv parse lg" and r: "map_of (lg_reservations lg) i = Some r" "rv_state r = Slot_reserved"
    and scopes: "map_of scopes = touched charge_slot (rv_ancestorRunIds r) (map_of (lg_scopes lg))"
    and s: "as_depth s = rv_depth r" "as_budget s = rv_childBudget r" "as_reservedChildRuns s = 0" "as_chargedChildRuns s = 0" "as_activeChildren s = 0"
  shows "ledger_inv parse (put_reservation (r\<lparr>rv_state := Execution_accepted\<rparr>) (put_scope (rv_childRunId r) s (lg\<lparr>lg_scopes := scopes\<rparr>)))"
proof -
  let ?S = "map_of (lg_scopes lg)" and ?R = "map_of (lg_reservations lg)" and ?c = "rv_childRunId r" and ?ks = "rv_ancestorRunIds r"
  let ?r = "r\<lparr>rv_state := Execution_accepted\<rparr>"
  note parts = ledger_invD[OF inv]
  have live: "live r" using r(2) by (simp add: live_def)
  note facts = live_facts[OF inv r(1) live] and free = pending_child_free[OF inv r]
  have unique: "rv_state q \<noteq> Terminal" if "?R j = Some q" "rv_childRunId q = ?c" for j q
    using parts(3) r that unfolding child_inv_def by (metis option.inject subagent_state.distinct(3))
  have zero: "claims (lg_reservations lg) st ?c = 0" for st using claims_fresh[OF parts(2,3) free(1)] unique by blast
  let ?T = "touched charge_slot ?ks ?S" and ?C = "moved ?ks (Some Slot_reserved) Execution_accepted (claims (lg_reservations lg))"
  let ?lg = "put_reservation ?r (put_scope ?c s (lg\<lparr>lg_scopes := scopes\<rparr>))"
  show ?thesis
  proof (rule ledger_invI)
    show "id_inv ?lg" using parts(1) r facts(1) by (intro ids_put) simp_all
    show "map_of (lg_scopes ?lg) = ?T(?c \<mapsto> s)" using scopes by (simp add: update_conv')
    show "map_of (lg_reservations ?lg) = ?R(i \<mapsto> ?r)" using facts(1) by (simp add: update_conv')
    show "claims (lg_reservations ?lg) = ?C" using claims_moved(1)[OF r(1), of ?r] facts(1) r(2) by simp
    show "child_inv (?T(?c \<mapsto> s)) (?R(i \<mapsto> ?r))"
      by (rule child_inv_put[OF child_inv_touched[OF slot_frames(2) parts(3)] r(1)]) (use r(2) s in simp_all)
    show "live_inv parse (?T(?c \<mapsto> s)) (?R(i \<mapsto> ?r))"
      by (rule live_inv_put[OF live_inv_touched[OF slot_frames(2) parts(4)] child_inv_touched[OF slot_frames(2) parts(3)] r(1) live])
        (use free in simp_all)
    have "scope_ok ?C ?c s" using facts(4) zero s by (simp add: scope_ok_def moved_def)
    then show "count_inv (?T(?c \<mapsto> s)) ?C" using count_accept[OF parts(5)] by (simp add: count_inv_def)
  qed
qed

lemma release_step:
  assumes inv: "ledger_inv parse lg" and r: "map_of (lg_reservations lg) i = Some r" "rv_state r = Slot_reserved"
    and scopes: "map_of scopes = touched release_slot (rv_ancestorRunIds r) (map_of (lg_scopes lg))"
  shows "ledger_inv parse (put_reservation (r\<lparr>rv_state := Released\<rparr>) (lg\<lparr>lg_scopes := scopes\<rparr>))"
proof -
  let ?S = "map_of (lg_scopes lg)" and ?R = "map_of (lg_reservations lg)" and ?ks = "rv_ancestorRunIds r" and ?r = "r\<lparr>rv_state := Released\<rparr>"
  note parts = ledger_invD[OF inv]
  have live: "live r" using r(2) by (simp add: live_def)
  note facts = live_facts[OF inv r(1) live] and free = pending_child_free[OF inv r]
  let ?T = "touched release_slot ?ks ?S" and ?lg = "put_reservation ?r (lg\<lparr>lg_scopes := scopes\<rparr>)"
  show ?thesis
  proof (rule ledger_invI)
    show "id_inv ?lg" using parts(1) r facts(1) by (intro ids_put) simp_all
    show "map_of (lg_scopes ?lg) = ?T" using scopes by simp
    show "map_of (lg_reservations ?lg) = ?R(i \<mapsto> ?r)" using facts(1) by (simp add: update_conv')
    show "claims (lg_reservations ?lg) = moved ?ks (Some Slot_reserved) Released (claims (lg_reservations lg))"
      using claims_moved(1)[OF r(1), of ?r] facts(1) r(2) by simp
    show "child_inv ?T (?R(i \<mapsto> ?r))"
      by (rule child_inv_put[OF child_inv_touched[OF slot_frames(3) parts(3)] r(1)]) (use r(2) free in \<open>simp_all add: touched_def\<close>)
    show "live_inv parse ?T (?R(i \<mapsto> ?r))"
      by (rule live_inv_put[OF live_inv_touched[OF slot_frames(3) parts(4)] child_inv_touched[OF slot_frames(3) parts(3)] r(1) live])
        (use free in simp_all)
    show "count_inv ?T (moved ?ks (Some Slot_reserved) Released (claims (lg_reservations lg)))" by (rule count_release[OF parts(5)])
  qed
qed

lemma settle_step:
  assumes inv: "ledger_inv parse lg" and r: "map_of (lg_reservations lg) i = Some r" "rv_state r = Execution_accepted"
    and idle: "map_of (lg_scopes lg) (rv_childRunId r) = Some s" "as_activeChildren s \<le> 0"
    and scopes: "map_of scopes = touched (settle_slot add usage) (rv_ancestorRunIds r) (map_of (lg_scopes lg))"
    and r': "rv_reservationId r' = i" "rv_parentRunId r' = rv_parentRunId r" "rv_childRunId r' = rv_childRunId r" "rv_childBudget r' = rv_childBudget r"
      "rv_depth r' = rv_depth r" "rv_ancestorRunIds r' = rv_ancestorRunIds r" "rv_state r' = Terminal"
  shows "ledger_inv parse ((put_reservation r' lg)\<lparr>lg_scopes := AList.delete (rv_childRunId r) scopes\<rparr>)"
proof -
  let ?S = "map_of (lg_scopes lg)" and ?R = "map_of (lg_reservations lg)" and ?c = "rv_childRunId r" and ?ks = "rv_ancestorRunIds r"
  note parts = ledger_invD[OF inv]
  have live: "live r" using r(2) by (simp add: live_def)
  note free = idle_child_free[OF inv idle]
  let ?T = "touched (settle_slot add usage) ?ks ?S" and ?C = "moved ?ks (Some Execution_accepted) Terminal (claims (lg_reservations lg))"
  let ?lg = "(put_reservation r' lg)\<lparr>lg_scopes := AList.delete ?c scopes\<rparr>"
  show ?thesis
  proof (rule ledger_invI)
    have "id_inv (put_reservation r' lg)" using parts(1) r r'(1) by (intro ids_put) simp_all
    then show "id_inv ?lg" by simp
    show "map_of (lg_scopes ?lg) = ?T(?c := None)" using scopes by (simp add: delete_conv')
    show "map_of (lg_reservations ?lg) = ?R(i \<mapsto> r')" using r'(1) by (simp add: update_conv')
    show "claims (lg_reservations ?lg) = ?C" using claims_moved(1)[OF r(1), of r'] r' r(2) by simp
    show "child_inv (?T(?c := None)) (?R(i \<mapsto> r'))"
      by (rule child_inv_put[OF child_inv_touched[OF slot_frames(4) parts(3)] r(1)]) (use r' r(2) in simp_all)
    show "live_inv parse (?T(?c := None)) (?R(i \<mapsto> r'))"
      by (rule live_inv_put[OF live_inv_touched[OF slot_frames(4) parts(4)] child_inv_touched[OF slot_frames(4) parts(3)] r(1) live])
        (use free r' in simp_all)
    show "count_inv (?T(?c := None)) ?C" using count_settle[OF parts(5)] by (auto simp: count_inv_def)
  qed
qed

subsection \<open>Outcomes\<close>

lemma thenL_simps [simp]: "thenL (s, Inl e) f = (s, Inl e)" "thenL (s, Inr x) f = f s x"
  by (simp_all add: thenL_def)

lemma emit_inv [simp]: "ledger_inv parse (emit e lg) = ledger_inv parse lg"
  by (simp add: ledger_inv_def)

text \<open>On a ledger that arises, each operation after the reservation ends by the state of the reservation alone.\<close>

lemma accept_outcome:
  assumes "ledger_inv parse lg" "acceptExecution i lg = (lg', res)"
  shows "ledger_inv parse lg' \<and> (\<forall>e. res = Inl e \<longrightarrow> lg' = lg) \<and> res = (case map_of (lg_reservations lg) i of None \<Rightarrow> Inl SUBAGENT_ADMISSION_NOT_FOUND
    | Some r \<Rightarrow> if live r then Inr (r\<lparr>rv_state := Execution_accepted\<rparr>) else Inl SUBAGENT_ADMISSION_NOT_PENDING)"
proof (cases "map_of (lg_reservations lg) i")
  case (Some r)
  show ?thesis
  proof (cases "rv_state r = Slot_reserved")
    case True
    have live: "live r" using True by (simp add: live_def)
    obtain scopes where scopes: "each_scope charge_slot (rv_ancestorRunIds r) lg = (lg\<lparr>lg_scopes := scopes\<rparr>, Inr ())"
        "map_of scopes = touched charge_slot (rv_ancestorRunIds r) (map_of (lg_scopes lg))"
      by (rule each_live_scope[OF assms(1) Some live refl])
    show ?thesis using assms Some True pending_child_free(1)[OF assms(1) Some True] accept_step[OF assms(1) Some True scopes(2)] scopes(1) live
      by (auto simp: acceptExecution_def requireReservation_def Let_def)
  next
    case False
    then show ?thesis using assms Some by (auto simp: acceptExecution_def requireReservation_def live_def split: if_splits)
  qed
qed (use assms in \<open>auto simp: acceptExecution_def requireReservation_def\<close>)

lemma release_outcome:
  assumes "ledger_inv parse lg" "releaseAdmission i lg = (lg', res)"
  shows "ledger_inv parse lg' \<and> (\<forall>e. res = Inl e \<longrightarrow> lg' = lg) \<and> res = (case map_of (lg_reservations lg) i of None \<Rightarrow> Inl SUBAGENT_ADMISSION_NOT_FOUND
    | Some r \<Rightarrow> if rv_state r = Execution_accepted then Inl SUBAGENT_ADMISSION_NOT_RELEASABLE else Inr ())"
proof (cases "map_of (lg_reservations lg) i")
  case (Some r)
  show ?thesis
  proof (cases "rv_state r = Slot_reserved")
    case True
    have live: "live r" using True by (simp add: live_def)
    obtain scopes where scopes: "each_scope release_slot (rv_ancestorRunIds r) lg = (lg\<lparr>lg_scopes := scopes\<rparr>, Inr ())"
        "map_of scopes = touched release_slot (rv_ancestorRunIds r) (map_of (lg_scopes lg))"
      by (rule each_live_scope[OF assms(1) Some live refl])
    show ?thesis using assms Some True release_step[OF assms(1) Some True scopes(2)] scopes(1)
      by (auto simp: releaseAdmission_def requireReservation_def)
  next
    case False
    then have "rv_state r \<in> {Released, Terminal, Execution_accepted}" by (cases "rv_state r") simp_all
    then show ?thesis using assms Some by (auto simp: releaseAdmission_def requireReservation_def)
  qed
qed (use assms in \<open>auto simp: releaseAdmission_def requireReservation_def\<close>)

lemma settle_outcome:
  assumes "ledger_inv parse lg" "settleTerminal add i settlement lg = (lg', res)"
  shows "ledger_inv parse lg' \<and> (\<forall>e. res = Inl e \<longrightarrow> lg' = lg) \<and> res = (case map_of (lg_reservations lg) i of None \<Rightarrow> Inl SUBAGENT_ADMISSION_NOT_FOUND
    | Some r \<Rightarrow> if rv_state r = Terminal then Inr () else if rv_state r \<noteq> Execution_accepted then Inl SUBAGENT_EXECUTION_NOT_ACCEPTED
      else if list_ex (\<lambda>(_, q). live q \<and> rv_childRunId r \<in> set (rv_ancestorRunIds q)) (lg_reservations lg) then Inl SUBAGENT_DESCENDANTS_ACTIVE else Inr ())"
proof (cases "map_of (lg_reservations lg) i")
  case (Some r)
  show ?thesis
  proof (cases "rv_state r = Execution_accepted")
    case True
    have live: "live r" using True by (simp add: live_def)
    note parts = ledger_invD[OF assms(1)]
    have "map_of (lg_scopes lg) (rv_childRunId r) \<noteq> None" using parts(3) Some True unfolding child_inv_def by metis
    then obtain s where s: "map_of (lg_scopes lg) (rv_childRunId r) = Some s" by auto
    have ok: "scope_ok (claims (lg_reservations lg)) (rv_childRunId r) s" using parts(5) s by (simp add: count_inv_def)
    have busy: "(as_activeChildren s > 0 \<or> as_reservedChildRuns s > 0) \<longleftrightarrow> list_ex (\<lambda>(_, q). live q \<and> rv_childRunId r \<in> set (rv_ancestorRunIds q)) (lg_reservations lg)"
      (is "_ \<longleftrightarrow> ?ex")
    proof
      assume "as_activeChildren s > 0 \<or> as_reservedChildRuns s > 0"
      then have "claims (lg_reservations lg) Slot_reserved (rv_childRunId r) \<noteq> 0 \<or> claims (lg_reservations lg) Execution_accepted (rv_childRunId r) \<noteq> 0"
        using ok unfolding scope_ok_def by linarith
      then show ?ex unfolding claims_def by (force simp: list_ex_iff live_def filter_empty_conv)
    next
      assume ?ex
      then obtain j q where "map_of (lg_reservations lg) j = Some q" "live q" "rv_childRunId r \<in> set (rv_ancestorRunIds q)"
        using parts(2) by (auto simp: list_ex_iff)
      then have "\<not> as_activeChildren s \<le> 0" using idle_child_free[OF assms(1) s] by blast
      then show "as_activeChildren s > 0 \<or> as_reservedChildRuns s > 0" by simp
    qed
    show ?thesis
    proof (cases ?ex)
      case False
      then have idle: "as_activeChildren s \<le> 0" "\<not> (as_activeChildren s > 0 \<or> as_reservedChildRuns s > 0)" using busy by auto
      obtain disposition usage where u: "settled_usage (rv_childBudget r) settlement = (disposition, usage)" by fastforce
      let ?r = "r\<lparr>rv_state := Terminal, rv_terminalUsage := Some usage, rv_usageDisposition := Some disposition\<rparr>"
      obtain scopes where scopes: "each_scope (settle_slot add usage) (rv_ancestorRunIds r) (put_reservation ?r lg) = ((put_reservation ?r lg)\<lparr>lg_scopes := scopes\<rparr>, Inr ())"
          "map_of scopes = touched (settle_slot add usage) (rv_ancestorRunIds r) (map_of (lg_scopes lg))"
        by (rule each_live_scope[OF assms(1) Some live, of "put_reservation ?r lg" "settle_slot add usage"]) simp_all
      have "settleTerminal add i settlement lg = (emit (Child_terminal_settled i (rv_parentRunId r) (rv_childRunId r) disposition)
          ((put_reservation ?r lg)\<lparr>lg_scopes := AList.delete (rv_childRunId r) scopes\<rparr>), Inr ())"
        using Some True s idle(2) u scopes(1) by (simp add: settleTerminal_def requireReservation_def requireScope_def)
      moreover have "ledger_inv parse ((put_reservation ?r lg)\<lparr>lg_scopes := AList.delete (rv_childRunId r) scopes\<rparr>)"
        by (rule settle_step[OF assms(1) Some True s idle(1) scopes(2)]) (simp_all add: live_facts(1)[OF assms(1) Some live])
      ultimately show ?thesis using assms(2) Some True False by (simp only: prod.inject emit_inv option.case if_True if_False refl) auto
    next
      case ex: True
      then have "settleTerminal add i settlement lg = (lg, Inl SUBAGENT_DESCENDANTS_ACTIVE)"
        using Some True s busy by (simp add: settleTerminal_def requireReservation_def requireScope_def)
      then show ?thesis using assms Some True ex by simp
    qed
  next
    case False
    then show ?thesis using assms Some by (auto simp: settleTerminal_def requireReservation_def split: if_splits)
  qed
qed (use assms in \<open>auto simp: settleTerminal_def requireReservation_def\<close>)

subsection \<open>Reserving\<close>

text \<open>The accounts of a ledger: what \<open>scope\<close> shows of every Run.\<close>

definition same_accounts :: "ledger \<Rightarrow> ledger \<Rightarrow> bool" where
  "same_accounts lg lg' \<longleftrightarrow> ledger_scope lg' = ledger_scope lg"

lemma same_accounts_refl [simp]: "same_accounts lg lg"
  by (simp add: same_accounts_def)

lemma observe_accounts:
  "map_of (lg_scopes lg) p = Some s \<Longrightarrow> same_accounts lg (put_scope p (s\<lparr>as_observedUsage := u\<rparr>) lg)"
  by (auto simp: same_accounts_def ledger_scope_def fun_eq_iff)

definition internal_errors :: "admission_error set" where
  "internal_errors = {SUBAGENT_SCOPE_NOT_FOUND, ADMISSION_WALK_UNENDING, REMAINING_UNDEFINED}"

lemma external_errors [simp]: "SUBAGENT_DEPTH_EXHAUSTED \<notin> internal_errors" "SUBAGENT_EXECUTION_BUDGET_EXHAUSTED \<notin> internal_errors"
  "SUBAGENT_CHILD_CONFLICT \<notin> internal_errors"
  by (simp_all add: internal_errors_def)

lemma check_capacity_errors:
  "\<forall>k \<in> set ks. map_of (lg_scopes lg) k \<noteq> None \<Longrightarrow> check_capacity lg ks = Inl e \<Longrightarrow> e \<notin> internal_errors"
  by (induction ks) (auto simp: requireScope_def internal_errors_def split: if_splits option.splits)

lemma clamp_errors: "clampChildBudget parse a b = Inl e \<Longrightarrow> e \<notin> internal_errors"
  by (auto simp: clampChildBudget_def earliestDeadline_def toTimestamp_def optR_def andThen_error_iff internal_errors_def split: option.splits)

lemma remaining_from_errors:
  "\<forall>k \<in> set ks. map_of (lg_scopes lg) k \<noteq> None \<Longrightarrow> remaining_from parse lg r ks = Inl e \<Longrightarrow> e \<notin> internal_errors"
  by (induction ks arbitrary: r) (auto simp: requireScope_def andThen_error_iff dest: clamp_errors split: option.splits)

lemma admit_budget_errors:
  assumes "\<forall>k \<in> set ks. map_of (lg_scopes lg) k \<noteq> None" "ks \<noteq> []" "admit_budget parse lg parent requested ks = Inl e"
  shows "e \<notin> internal_errors"
proof -
  have some: "remaining_from parse lg None ks \<noteq> Inr None"
    using assms(2) remaining_from_fits[of parse lg None ks None] by (cases ks) auto
  have "remainingAfterChild parse lg ks = Inl e \<Longrightarrow> e \<notin> internal_errors"
    using some remaining_from_errors[OF assms(1)] by (auto simp: remainingAfterChild_def andThen_error_iff split: option.splits)
  then show ?thesis using assms(3) check_capacity_errors[OF assms(1)] clamp_errors
    by (auto simp: admit_budget_def andThen_error_iff require_def Let_def split: if_splits)
qed

lemma usage_errors: "mergeObservedUsage u r = Inl e \<Longrightarrow> e \<notin> internal_errors" "validateAdmissionBudget parse r = Inl e \<Longrightarrow> e \<notin> internal_errors"
  by (auto simp: mergeObservedUsage_def normalizeNumericUsage_def validateAdmissionBudget_def andThen_error_iff Let_def internal_errors_def split: if_splits)

lemma reserve_outcome:
  assumes inv: "ledger_inv parse lg" and run: "reserveAdmission parse p c budget usage lg = (lg', res)"
  shows "ledger_inv parse lg' \<and> (case res of
      Inl e \<Rightarrow> same_accounts lg lg' \<and> lg_reservations lg' = lg_reservations lg \<and> (e \<in> internal_errors \<longrightarrow> e = SUBAGENT_SCOPE_NOT_FOUND \<and> map_of (lg_scopes lg) p = None)
    | Inr r \<Rightarrow> map_of (lg_reservations lg') (rv_reservationId r) = Some r \<and> rv_state r = Slot_reserved \<and> rv_parentRunId r = p \<and> rv_childRunId r = c
        \<and> map_of (lg_reservations lg) (rv_reservationId r) = None
        \<and> lg_reservations lg' = AList.update (rv_reservationId r) r (lg_reservations lg)
        \<and> (\<exists>u. map_of (lg_scopes lg') = touched reserve_slot (rv_ancestorRunIds r) (touched (as_observedUsage_update (\<lambda>_. u)) [p] (map_of (lg_scopes lg)))))"
proof (cases "map_of (lg_scopes lg) c \<noteq> None \<or> hasReservationForChild lg c")
  case False
  then have fresh: "map_of (lg_scopes lg) c = None" "\<not> hasReservationForChild lg c" by auto
  define seen where "seen = andThen (requireScope lg p) (\<lambda>parent. andThen (mergeObservedUsage (as_observedUsage parent) usage)
      (\<lambda>observed. Inr (parent\<lparr>as_observedUsage := observed\<rparr>)))"
  show ?thesis
  proof (cases seen)
    case (Inl e)
    then have "lg' = lg" "res = Inl e" using run fresh by (simp_all add: reserveAdmission_def seen_def[symmetric])
    moreover have "e \<in> internal_errors \<Longrightarrow> e = SUBAGENT_SCOPE_NOT_FOUND \<and> map_of (lg_scopes lg) p = None"
      using Inl usage_errors(1) by (auto simp: seen_def andThen_error_iff requireScope_def split: option.splits)
    ultimately show ?thesis using inv by simp
  next
    case (Inr parent)
    then obtain s u where s: "map_of (lg_scopes lg) p = Some s" "parent = s\<lparr>as_observedUsage := u\<rparr>"
      by (auto simp: seen_def result_iff requireScope_def split: option.splits)
    let ?lg = "put_scope p parent lg"
    have inv': "ledger_inv parse ?lg" using observe_inv[OF inv s(1)] s(2) by simp
    have same: "same_accounts lg ?lg" using observe_accounts[OF s(1)] s(2) by simp
    have scopes1: "map_of (lg_scopes ?lg) = touched (as_observedUsage_update (\<lambda>_. u)) [p] (map_of (lg_scopes lg))"
      using s by (auto simp: touched_def fun_eq_iff)
    have c: "c \<noteq> p" using fresh(1) s(1) by auto
    define admitted where "admitted = andThen (validateAdmissionBudget parse budget) (\<lambda>requested. andThen (ancestorChain ?lg p) (\<lambda>ks.
       andThen (admit_budget parse ?lg parent requested ks) (\<lambda>b. Inr (ks, b))))"
    obtain ks where ks: "ancestorChain ?lg p = Inr ks" "lineage (map_of (lg_scopes ?lg)) (map_of (lg_reservations ?lg)) p ks"
      using ancestorChain_ends[OF inv', of p] s by auto
    show ?thesis
    proof (cases admitted)
      case (Inl e)
      then have "lg' = ?lg" "res = Inl e" using run fresh Inr by (simp_all add: reserveAdmission_def seen_def[symmetric] admitted_def[symmetric])
      moreover have "ks \<noteq> []" "\<forall>k \<in> set ks. map_of (lg_scopes ?lg) k \<noteq> None" using ks(2) unfolding lineage_def by blast+
      moreover have "validateAdmissionBudget parse budget = Inl e \<or> (\<exists>requested. admit_budget parse ?lg parent requested ks = Inl e)"
        using Inl unfolding admitted_def andThen_error_iff ks(1) by fast
      ultimately have "lg' = ?lg" "res = Inl e" "e \<notin> internal_errors" using usage_errors(2) admit_budget_errors by blast+
      then show ?thesis using inv' same by simp
    next
      case admit: (Inr x)
      then obtain requested b where b: "x = (ks, b)" "admit_budget parse ?lg parent requested ks = Inr b"
        using ks(1) by (auto simp: admitted_def result_iff)
      define r where "r = \<lparr>rv_reservationId = reservation_id (lg_nextReservation lg), rv_parentRunId = p, rv_childRunId = c, rv_childBudget = b,
          rv_depth = as_depth parent + 1, rv_remainingDepth = eb_maxDepth b, rv_ancestorRunIds = ks, rv_state = Slot_reserved,
          rv_terminalUsage = None, rv_usageDisposition = None\<rparr>"
      have fresh': "map_of (lg_scopes ?lg) c = None" "\<not> hasReservationForChild ?lg c" "map_of (lg_scopes ?lg) p = Some parent"
        "lg_nextReservation ?lg = lg_nextReservation lg" using fresh c by (simp_all add: hasReservationForChild_def put_scope_def)
      obtain scopes where scopes: "each_scope reserve_slot ks ?lg = (?lg\<lparr>lg_scopes := scopes\<rparr>, Inr ())"
          "map_of scopes = touched reserve_slot ks (map_of (lg_scopes ?lg))"
          "ledger_inv parse (put_reservation r (?lg\<lparr>lg_scopes := scopes, lg_nextReservation := lg_nextReservation ?lg + 1\<rparr>))"
      proof -
        have "\<exists>scopes. each_scope reserve_slot ks ?lg = (?lg\<lparr>lg_scopes := scopes\<rparr>, Inr ())
            \<and> map_of scopes = touched reserve_slot ks (map_of (lg_scopes ?lg))
            \<and> ledger_inv parse (put_reservation r (?lg\<lparr>lg_scopes := scopes, lg_nextReservation := lg_nextReservation ?lg + 1\<rparr>))"
          by (rule reserve_step[OF inv' fresh'(1-3) ks(1) b(2)]) (simp_all only: r_def fresh'(4) reservation.simps)
        then show ?thesis using that by blast
      qed
      have "lg' = emit (Child_admission_slot_reserved (rv_reservationId r) p c (rv_depth r))
          (put_reservation r (?lg\<lparr>lg_scopes := scopes, lg_nextReservation := lg_nextReservation ?lg + 1\<rparr>))" "res = Inr r"
        using run fresh Inr admit b(1) scopes(1) fresh'(4)
        by (simp_all add: reserveAdmission_def seen_def[symmetric] admitted_def[symmetric] r_def Let_def)
      moreover have "map_of (lg_reservations lg) (rv_reservationId r) = None" using ids_new(1)[OF ledger_invD(1)[OF inv], of r] by (simp add: r_def)
      moreover have "rv_ancestorRunIds r = ks" "rv_state r = Slot_reserved" "rv_parentRunId r = p" "rv_childRunId r = c" by (simp_all add: r_def)
      moreover have "map_of (lg_scopes lg') = touched reserve_slot ks (touched (as_observedUsage_update (\<lambda>_. u)) [p] (map_of (lg_scopes lg)))"
        using calculation(1) scopes(2) scopes1 by simp
      ultimately show ?thesis using scopes(3) by (simp del: ledger_views(7)) blast
    qed
  qed
qed (use inv run in \<open>auto simp: reserveAdmission_def\<close>)

lemma release_effect:
  assumes "ledger_inv parse lg" "map_of (lg_reservations lg) i = Some r" "rv_state r = Slot_reserved" "releaseAdmission i lg = (lg', res)"
  shows "map_of (lg_scopes lg') = touched release_slot (rv_ancestorRunIds r) (map_of (lg_scopes lg))"
    "map_of (lg_reservations lg') i = Some (r\<lparr>rv_state := Released\<rparr>)"
proof -
  have live: "live r" using assms(3) by (simp add: live_def)
  obtain scopes where "each_scope release_slot (rv_ancestorRunIds r) lg = (lg\<lparr>lg_scopes := scopes\<rparr>, Inr ())"
      "map_of scopes = touched release_slot (rv_ancestorRunIds r) (map_of (lg_scopes lg))"
    by (rule each_live_scope[OF assms(1,2) live refl])
  then show "map_of (lg_scopes lg') = touched release_slot (rv_ancestorRunIds r) (map_of (lg_scopes lg))"
    "map_of (lg_reservations lg') i = Some (r\<lparr>rv_state := Released\<rparr>)"
    using assms live_facts(1)[OF assms(1,2) live] by (auto simp: releaseAdmission_def requireReservation_def)
qed

text \<open>A reservation that is given back leaves the accounts as they were before it.\<close>

lemma reserve_release_accounts:
  assumes inv: "ledger_inv parse lg" and reserved: "reserveAdmission parse p c budget usage lg = (lg1, Inr r)"
  shows "\<exists>lg2. releaseAdmission (rv_reservationId r) lg1 = (lg2, Inr ()) \<and> ledger_inv parse lg2 \<and> same_accounts lg lg2
    \<and> releaseAdmission (rv_reservationId r) lg2 = (lg2, Inr ())"
proof -
  obtain u where r: "ledger_inv parse lg1" "map_of (lg_reservations lg1) (rv_reservationId r) = Some r" "rv_state r = Slot_reserved"
      "map_of (lg_scopes lg1) = touched reserve_slot (rv_ancestorRunIds r) (touched (as_observedUsage_update (\<lambda>_. u)) [p] (map_of (lg_scopes lg)))"
    using reserve_outcome[OF inv reserved] by auto
  obtain lg2 res where lg2: "releaseAdmission (rv_reservationId r) lg1 = (lg2, res)" by fastforce
  note effect = release_effect[OF r(1-3) lg2]
  have "same_accounts lg lg2" unfolding same_accounts_def ledger_scope_def effect(1) r(4)
    by (auto simp: fun_eq_iff touched_def reserve_slot_def release_slot_def option.map_comp intro!: option.map_cong0)
  moreover have "res = Inr ()" "ledger_inv parse lg2" using release_outcome[OF r(1) lg2] r(2,3) by simp_all
  moreover have "releaseAdmission (rv_reservationId r) lg2 = (lg2, Inr ())" using effect(2) by (simp add: releaseAdmission_def requireReservation_def)
  ultimately show ?thesis using lg2 by simp
qed

end
