(* ===== verification/SubagentHost.thy ===== *)
theory SubagentHost
  imports SubagentOperations
begin

section \<open>Preparing, running and settling a child Run\<close>

text \<open>
  The facade \<open>DisabledSubagentRegistry\<close> of \<open>admission.ts\<close> over the two interfaces it is given, the
  ledger (\<open>SubagentAdmissionLedger\<close>) and the cancellation tree (\<open>SubagentCancellationPort\<close>). What it
  needs of them is the locale \<open>spawn_ports\<close>; the in-memory ledger and the tree of the Runtime provide
  it. The port operations are arguments of \<open>prepareSpawn\<close>, as they are fields of the request.
\<close>

subsection \<open>The facade\<close>

record prepared_subagent =
  pp_parentRunId :: string
  pp_childRunId :: string
  pp_budget :: execution_budget
  pp_depth :: nat
  pp_remainingDepth :: nat
  pp_reservationId :: string

text \<open>The handler of \<open>prepareSpawn\<close>: an error of the release replaces the error caught.\<close>

definition rollbackSpawn :: "(string \<Rightarrow> 'l \<Rightarrow> ('l, unit) stateful) \<Rightarrow> ('t \<Rightarrow> string \<Rightarrow> string \<Rightarrow> 't \<times> bool)
    \<Rightarrow> string \<Rightarrow> string \<Rightarrow> string \<Rightarrow> admission_error \<Rightarrow> 'l \<times> 't \<Rightarrow> ('l \<times> 't, 'a) stateful" where
  "rollbackSpawn release unlink reservationId parentRunId childRunId failure = (\<lambda>(l, t).
     case release reservationId l of (l', Inl e) \<Rightarrow> ((l', t), Inl e) | (l', Inr _) \<Rightarrow> ((l', fst (unlink t parentRunId childRunId)), Inl failure))"

definition prepareSpawn :: "(string \<Rightarrow> string \<Rightarrow> js_record \<Rightarrow> js_record \<Rightarrow> 'l \<Rightarrow> ('l, reservation) stateful) \<Rightarrow> (string \<Rightarrow> 'l \<Rightarrow> ('l, unit) stateful)
    \<Rightarrow> ('t \<Rightarrow> string \<Rightarrow> string \<Rightarrow> cancel_error + 't) \<Rightarrow> ('t \<Rightarrow> string \<Rightarrow> string \<Rightarrow> 't \<times> bool) \<Rightarrow> ('t \<Rightarrow> string \<Rightarrow> cancellation_reason option)
    \<Rightarrow> string \<Rightarrow> string \<Rightarrow> js_record \<Rightarrow> js_record \<Rightarrow> 'l \<times> 't \<Rightarrow> ('l \<times> 't, prepared_subagent) stateful" where
  "prepareSpawn reserve release link unlink reason_for parentRunId childRunId requestedBudget parentUsage = (\<lambda>(l, t).
     case reserve parentRunId childRunId requestedBudget parentUsage l of
       (l1, Inl e) \<Rightarrow> ((l1, t), Inl e)
     | (l1, Inr r) \<Rightarrow> let i = rv_reservationId r; failed = rollbackSpawn release unlink i parentRunId childRunId in
         (case link t parentRunId childRunId of
            Inl e \<Rightarrow> failed (SUBAGENT_CANCELLATION e) (l1, t)
          | Inr t1 \<Rightarrow> if reason_for t1 childRunId \<noteq> None
              then (case release i l1 of (l2, Inl e) \<Rightarrow> failed e (l2, t1)
                | (l2, Inr _) \<Rightarrow> failed SUBAGENT_PARENT_CANCELLED (l2, fst (unlink t1 parentRunId childRunId)))
              else ((l1, t1), Inr \<lparr>pp_parentRunId = parentRunId, pp_childRunId = childRunId, pp_budget = rv_childBudget r,
                pp_depth = rv_depth r, pp_remainingDepth = rv_remainingDepth r, pp_reservationId = i\<rparr>)))"

type_synonym host_state = "ledger \<times> cancel_tree"

definition hostPrepareSpawn :: "(string \<Rightarrow> int option) \<Rightarrow> string \<Rightarrow> string \<Rightarrow> js_record \<Rightarrow> js_record \<Rightarrow> host_state \<Rightarrow> (host_state, prepared_subagent) stateful" where
  "hostPrepareSpawn parse = prepareSpawn (reserveAdmission parse) releaseAdmission link_run unlink_run reasonFor"

definition hostAcceptExecution :: "prepared_subagent \<Rightarrow> host_state \<Rightarrow> (host_state, unit) stateful" where
  "hostAcceptExecution prepared = (\<lambda>(l, t). case acceptExecution (pp_reservationId prepared) l of
     (l', Inl e) \<Rightarrow> ((l', t), Inl e) | (l', Inr _) \<Rightarrow> ((l', t), Inr ()))"

definition hostReleaseAdmission :: "prepared_subagent \<Rightarrow> host_state \<Rightarrow> (host_state, unit) stateful" where
  "hostReleaseAdmission prepared = (\<lambda>(l, t). case releaseAdmission (pp_reservationId prepared) l of
     (l', Inl e) \<Rightarrow> ((l', t), Inl e) | (l', Inr _) \<Rightarrow> ((l', fst (unlink_run t (pp_parentRunId prepared) (pp_childRunId prepared))), Inr ()))"

definition hostSettleTerminal :: "(rat \<Rightarrow> rat \<Rightarrow> rat) \<Rightarrow> prepared_subagent \<Rightarrow> terminal_settlement \<Rightarrow> host_state \<Rightarrow> (host_state, unit) stateful" where
  "hostSettleTerminal add prepared settlement = (\<lambda>(l, t). case settleTerminal add (pp_reservationId prepared) settlement l of
     (l', Inl e) \<Rightarrow> ((l', t), Inl e) | (l', Inr _) \<Rightarrow> ((l', fst (unlink_run t (pp_parentRunId prepared) (pp_childRunId prepared))), Inr ()))"

definition propagateCancellation :: "prepared_subagent \<Rightarrow> cancellation_reason \<Rightarrow> host_state \<Rightarrow> host_state \<times> (string \<times> cancellation_reason) list" where
  "propagateCancellation prepared reason = (\<lambda>(l, t). let (t', out) = cancel_run t (pp_parentRunId prepared) reason in ((l, t'), out))"

text \<open>\<open>spawn\<close> always rejects: with the error of the release, or with \<open>SUBAGENT_DISABLED\<close>, here \<open>Inr ()\<close>.\<close>

definition disabledSpawn :: "prepared_subagent \<Rightarrow> cancellation_reason \<Rightarrow> host_state \<Rightarrow> (host_state, unit) stateful" where
  "disabledSpawn prepared failureReason state = thenL (hostReleaseAdmission prepared state)
     (\<lambda>(l, t) _. ((l, fst (cancel_run t (pp_childRunId prepared) failureReason)), Inr ()))"

subsection \<open>What the facade needs of its ports\<close>

locale spawn_ports =
  fixes linv :: "'l \<Rightarrow> bool" and accounts :: "'l \<Rightarrow> 'v"
    and reserve :: "string \<Rightarrow> string \<Rightarrow> js_record \<Rightarrow> js_record \<Rightarrow> 'l \<Rightarrow> ('l, reservation) stateful"
    and release :: "string \<Rightarrow> 'l \<Rightarrow> ('l, unit) stateful"
    and tinv :: "'t \<Rightarrow> bool" and parents :: "'t \<Rightarrow> string \<Rightarrow> string option"
    and link :: "'t \<Rightarrow> string \<Rightarrow> string \<Rightarrow> cancel_error + 't" and unlink :: "'t \<Rightarrow> string \<Rightarrow> string \<Rightarrow> 't \<times> bool"
    and reason_for :: "'t \<Rightarrow> string \<Rightarrow> cancellation_reason option"
  assumes reserve_fails: "linv l \<Longrightarrow> reserve p c b u l = (l', Inl e) \<Longrightarrow> linv l' \<and> accounts l' = accounts l"
    and reserve_done: "linv l \<Longrightarrow> reserve p c b u l = (l', Inr r) \<Longrightarrow> linv l'"
    and reserve_release: "linv l \<Longrightarrow> reserve p c b u l = (l', Inr r) \<Longrightarrow> \<exists>l''. release (rv_reservationId r) l' = (l'', Inr ())
      \<and> linv l'' \<and> accounts l'' = accounts l \<and> release (rv_reservationId r) l'' = (l'', Inr ())"
    and link_done: "tinv t \<Longrightarrow> link t p c = Inr t' \<Longrightarrow> tinv t' \<and> parents t' = (parents t)(c \<mapsto> p)"
    and link_once: "tinv t \<Longrightarrow> link t p c = Inr t' \<Longrightarrow> parents t c \<noteq> None \<Longrightarrow> parents t c = Some p"
    and unlink_done: "tinv t \<Longrightarrow> tinv (fst (unlink t p c))
      \<and> parents (fst (unlink t p c)) = (if parents t c = Some p then (parents t)(c := None) else parents t)"
begin

abbreviation prepare :: "string \<Rightarrow> string \<Rightarrow> js_record \<Rightarrow> js_record \<Rightarrow> 'l \<times> 't \<Rightarrow> ('l \<times> 't, prepared_subagent) stateful" where
  "prepare \<equiv> prepareSpawn reserve release link unlink reason_for"

lemma prepare_cases:
  assumes "linv l" "tinv t" "prepare p c b u (l, t) = ((l', t'), res)"
  shows "linv l' \<and> tinv t' \<and> (case res of
      Inl e \<Rightarrow> accounts l' = accounts l \<and> (parents t c \<noteq> Some p \<longrightarrow> parents t' = parents t)
    | Inr prepared \<Rightarrow> parents t' = (parents t)(c \<mapsto> p) \<and> reason_for t' c = None)"
proof (cases "reserve p c b u l")
  case reserved: (Pair l1 out)
  show ?thesis
  proof (cases out)
    case (Inl e)
    then show ?thesis using assms reserved reserve_fails by (auto simp: prepareSpawn_def)
  next
    case (Inr r)
    note reserved = reserved[unfolded Inr]
    obtain l2 where l2: "release (rv_reservationId r) l1 = (l2, Inr ())" "linv l2" "accounts l2 = accounts l"
      "release (rv_reservationId r) l2 = (l2, Inr ())" using reserve_release[OF assms(1) reserved] by blast
    note undone = unlink_done[OF assms(2), of p c]
    show ?thesis
    proof (cases "link t p c")
      case (Inl e)
      then have "l' = l2" "t' = fst (unlink t p c)" "res = Inl (SUBAGENT_CANCELLATION e)"
        using assms(3) reserved l2(1) by (auto simp: prepareSpawn_def rollbackSpawn_def Let_def)
      then show ?thesis using undone l2 by auto
    next
      case linked: (Inr t1)
      have t1: "tinv t1" "parents t1 = (parents t)(c \<mapsto> p)" using link_done[OF assms(2) linked] by auto
      show ?thesis
      proof (cases "reason_for t1 c")
        case None
        then show ?thesis using assms(3) reserved linked t1 reserve_done[OF assms(1) reserved] by (auto simp: prepareSpawn_def Let_def)
      next
        case (Some reason)
        define t2 where "t2 = fst (unlink t1 p c)"
        have t2: "tinv t2" "parents t2 = (parents t)(c := None)" using unlink_done[OF t1(1), of p c] t1(2) by (auto simp: t2_def)
        then have t3: "tinv (fst (unlink t2 p c))" "parents (fst (unlink t2 p c)) = (parents t)(c := None)" using unlink_done[OF t2(1), of p c] by auto
        have "(parents t)(c := None) = parents t \<or> parents t c \<noteq> None" by auto
        moreover have "parents t c \<noteq> None \<Longrightarrow> parents t c = Some p"
          using linked link_once[OF assms(2)] by blast
        ultimately show ?thesis
          using assms(3) reserved linked Some l2 t3 by (auto simp: prepareSpawn_def rollbackSpawn_def Let_def t2_def)
      qed
    qed
  qed
qed

end

lemma cancel_run_frame: "tr_parents (fst (cancel_run tree r reason)) = tr_parents tree"
  by (simp add: cancel_run_def split: prod.splits)

lemma link_run_parents: "link_run tree p c = Inr tree' \<Longrightarrow> parentFor tree' = (parentFor tree)(c \<mapsto> p) \<and> parentFor tree c \<in> {None, Some p}"
  by (auto simp: link_run_def Let_def parentFor_def fun_eq_iff cancel_run_frame update_conv' split: if_splits option.splits bool.splits)

lemma unlink_run_parents:
  "parentFor (fst (unlink_run tree p c)) = (if parentFor tree c = Some p then (parentFor tree)(c := None) else parentFor tree)"
  by (auto simp: unlink_run_def Let_def parentFor_def fun_eq_iff delete_conv')

interpretation spawned: spawn_ports "ledger_inv parse" ledger_scope "reserveAdmission parse" releaseAdmission tree_inv parentFor link_run unlink_run reasonFor
proof
  show "ledger_inv parse l' \<and> ledger_scope l' = ledger_scope l" if "ledger_inv parse l" "reserveAdmission parse p c b u l = (l', Inl e)" for l p c b u l' e
    using reserve_outcome[OF that] by (simp add: same_accounts_def)
  show "ledger_inv parse l'" if "ledger_inv parse l" "reserveAdmission parse p c b u l = (l', Inr r)" for l p c b u l' r
    using reserve_outcome[OF that] by simp
  show "\<exists>l''. releaseAdmission (rv_reservationId r) l' = (l'', Inr ()) \<and> ledger_inv parse l'' \<and> ledger_scope l'' = ledger_scope l
      \<and> releaseAdmission (rv_reservationId r) l'' = (l'', Inr ())"
    if "ledger_inv parse l" "reserveAdmission parse p c b u l = (l', Inr r)" for l p c b u l' r
    using reserve_release_accounts[OF that] by (simp add: same_accounts_def)
  show "tree_inv t' \<and> parentFor t' = (parentFor t)(c \<mapsto> p)" if "tree_inv t" "link_run t p c = Inr t'" for t p c t'
    using link_run_inv[OF that] link_run_parents[OF that(2)] by simp
  show "parentFor t c = Some p" if "link_run t p c = Inr t'" "parentFor t c \<noteq> None" for t p c t'
    using link_run_parents[OF that(1)] that(2) by simp
  show "tree_inv (fst (unlink_run t p c)) \<and> parentFor (fst (unlink_run t p c)) = (if parentFor t c = Some p then (parentFor t)(c := None) else parentFor t)"
    if "tree_inv t" for t p c using unlink_run_inv[OF that] unlink_run_parents by simp
qed

subsection \<open>Every host that can arise\<close>

datatype host_call =
    Host_root string js_record "js_record option" js_value
  | Host_prepare string string js_record js_record
  | Host_accept prepared_subagent
  | Host_release prepared_subagent
  | Host_settle prepared_subagent terminal_settlement
  | Host_propagate prepared_subagent cancellation_reason
  | Host_spawn prepared_subagent cancellation_reason
  | Host_tree tree_call

fun host_step :: "(string \<Rightarrow> int option) \<Rightarrow> (rat \<Rightarrow> rat \<Rightarrow> rat) \<Rightarrow> host_state \<Rightarrow> host_call \<Rightarrow> host_state" where
  "host_step parse add (l, t) (Host_root k budget usage charge) = (fst (registerRootScope parse k budget usage charge l), t)"
| "host_step parse add state (Host_prepare p c budget usage) = fst (hostPrepareSpawn parse p c budget usage state)"
| "host_step parse add state (Host_accept prepared) = fst (hostAcceptExecution prepared state)"
| "host_step parse add state (Host_release prepared) = fst (hostReleaseAdmission prepared state)"
| "host_step parse add state (Host_settle prepared settlement) = fst (hostSettleTerminal add prepared settlement state)"
| "host_step parse add state (Host_propagate prepared reason) = fst (propagateCancellation prepared reason state)"
| "host_step parse add state (Host_spawn prepared reason) = fst (disabledSpawn prepared reason state)"
| "host_step parse add (l, t) (Host_tree call) = (l, tree_step t call)"

definition run_host :: "(string \<Rightarrow> int option) \<Rightarrow> (rat \<Rightarrow> rat \<Rightarrow> rat) \<Rightarrow> host_call list \<Rightarrow> host_state" where
  "run_host parse add calls = foldl (host_step parse add) (empty_ledger, empty_tree) calls"

definition host_inv :: "(string \<Rightarrow> int option) \<Rightarrow> host_state \<Rightarrow> bool" where
  "host_inv parse state \<longleftrightarrow> ledger_inv parse (fst state) \<and> tree_inv (snd state)"

lemma hostRelease_inv: "host_inv parse state \<Longrightarrow> host_inv parse (fst (hostReleaseAdmission prepared state))"
  by (cases state) (auto simp: host_inv_def hostReleaseAdmission_def unlink_run_inv dest: release_outcome split: prod.splits sum.splits)

lemma host_step_inv:
  assumes "host_inv parse state" shows "host_inv parse (host_step parse add state call)"
proof (cases state)
  case (Pair l t)
  then have inv: "ledger_inv parse l" "tree_inv t" using assms by (simp_all add: host_inv_def)
  show ?thesis
  proof (cases call)
    case (Host_prepare p c budget usage)
    obtain l' t' res where "hostPrepareSpawn parse p c budget usage (l, t) = ((l', t'), res)" by (metis prod.collapse)
    then show ?thesis using spawned.prepare_cases[OF inv, of p c budget usage l' t' res] Pair Host_prepare
      by (simp add: hostPrepareSpawn_def host_inv_def)
  next
    case (Host_spawn prepared reason)
    obtain l' t' res where run: "hostReleaseAdmission prepared (l, t) = ((l', t'), res)" by (metis prod.collapse)
    then have "ledger_inv parse l'" "tree_inv t'" using hostRelease_inv[OF assms, of prepared] Pair by (simp_all add: host_inv_def)
    then show ?thesis using run Pair Host_spawn cancel_run_inv by (cases res) (auto simp: disabledSpawn_def host_inv_def)
  next
    case (Host_propagate prepared reason)
    then show ?thesis using inv Pair cancel_run_inv[OF inv(2), of "pp_parentRunId prepared" reason]
      by (cases "cancel_run t (pp_parentRunId prepared) reason") (simp add: host_inv_def propagateCancellation_def)
  qed (use inv Pair in \<open>auto simp: host_inv_def registerRootScope_inv hostAcceptExecution_def hostSettleTerminal_def
      unlink_run_inv tree_step_inv hostRelease_inv[unfolded host_inv_def]
      dest: accept_outcome settle_outcome split: prod.splits sum.splits\<close>)
qed

lemma run_host_inv: "host_inv parse (run_host parse add calls)"
proof -
  have "host_inv parse state \<Longrightarrow> host_inv parse (foldl (host_step parse add) state calls)" for state
    by (induction calls arbitrary: state) (simp_all add: host_step_inv)
  then show ?thesis unfolding run_host_def by (simp add: host_inv_def empty_ledger_inv empty_tree_inv)
qed

end
