(* ===== verification/SubagentProperties.thy ===== *)
theory SubagentProperties
  imports SubagentHost
begin

section \<open>Properties of the admission of child Runs\<close>

text \<open>
  What holds of the ledger and of the cancellation tree after any sequence of calls of the host, with
  a sample host on which every property is applied: a root, an accepted child and a pending
  grandchild.
\<close>

definition no_dates :: "string \<Rightarrow> int option" where
  "no_dates d = None"

definition sample_limits :: "nat \<Rightarrow> js_record" where
  "sample_limits depth = [(''maxTurns'', jnat 10), (''maxToolCalls'', jnat 20), (''maxChildRuns'', jnat 4), (''maxParallelChildren'', jnat 2),
     (''maxDepth'', jnat depth)]"

definition sample_usage :: js_record where
  "sample_usage = [(''turns'', jnat 1), (''toolCalls'', jnat 0)]"

definition sample_kid :: prepared_subagent where
  "sample_kid = \<lparr>pp_parentRunId = ''root'', pp_childRunId = ''kid'', pp_budget = \<lparr>eb_maxTurns = 9, eb_maxToolCalls = 20, eb_maxTokens = None,
     eb_maxChildRuns = 3, eb_maxParallelChildren = 1, eb_maxDepth = 1, eb_deadlineAt = None\<rparr>, pp_depth = 1, pp_remainingDepth = 1,
     pp_reservationId = ''subagent-admission-1''\<rparr>"

definition sample_host_calls :: "host_call list" where
  "sample_host_calls = [Host_root ''root'' (sample_limits 2) None JUndef, Host_prepare ''root'' ''kid'' (sample_limits 5) sample_usage,
     Host_accept sample_kid, Host_prepare ''kid'' ''grandkid'' (sample_limits 5) sample_usage]"

abbreviation ledger_of :: "host_state \<Rightarrow> ledger" where
  "ledger_of \<equiv> fst"

abbreviation tree_of :: "host_state \<Rightarrow> cancel_tree" where
  "tree_of \<equiv> snd"

lemmas host_facts = run_host_inv[unfolded host_inv_def, THEN conjunct1] run_host_inv[unfolded host_inv_def, THEN conjunct2]

text \<open>C34: the counters of every scope are the numbers of reservations below it: pending ones, live
  ones, and at least the accepted and settled ones; the children ever charged or reserved stay within
  \<open>maxChildRuns\<close> and the active ones within \<open>maxParallelChildren\<close>, for every ancestor at once.\<close>

theorem subagent_capacity:
  assumes "map_of (lg_scopes (ledger_of (run_host parse add calls))) k = Some s"
  defines "count \<equiv> claims (lg_reservations (ledger_of (run_host parse add calls)))"
  shows "as_reservedChildRuns s = count Slot_reserved k \<and> as_activeChildren s = count Slot_reserved k + count Execution_accepted k
    \<and> count Execution_accepted k + count Terminal k \<le> as_chargedChildRuns s
    \<and> as_chargedChildRuns s + as_reservedChildRuns s \<le> int (eb_maxChildRuns (as_budget s))
    \<and> as_activeChildren s \<le> int (eb_maxParallelChildren (as_budget s))"
  using ledger_invD(5)[OF host_facts(1)] assms unfolding count_inv_def scope_ok_def by blast

theorem subagent_capacity_witness:
  "\<exists>s. map_of (lg_scopes (ledger_of (run_host no_dates (+) sample_host_calls))) ''root'' = Some s \<and> as_activeChildren s = 2
    \<and> as_reservedChildRuns s = claims (lg_reservations (ledger_of (run_host no_dates (+) sample_host_calls))) Slot_reserved ''root''
    \<and> as_activeChildren s \<le> int (eb_maxParallelChildren (as_budget s))"
proof -
  have "map_option as_activeChildren (map_of (lg_scopes (ledger_of (run_host no_dates (+) sample_host_calls))) ''root'') = Some 2" by code_simp
  then obtain s where "map_of (lg_scopes (ledger_of (run_host no_dates (+) sample_host_calls))) ''root'' = Some s" "as_activeChildren s = 2" by auto
  then show ?thesis using subagent_capacity by blast
qed

text \<open>C35: a child that is pending or running has, in every resource, at most the budget of each of its
  ancestors, and strictly less depth, child Runs and parallel children; all its ancestors are registered
  scopes, and a chain of descendants is never longer than the depth its topmost ancestor was given.\<close>

theorem subagent_attenuation:
  assumes "map_of (lg_reservations (ledger_of (run_host parse add calls))) i = Some r" "live r" "k \<in> set (rv_ancestorRunIds r)"
  shows "\<exists>s. map_of (lg_scopes (ledger_of (run_host parse add calls))) k = Some s \<and> below_budget parse (rv_childBudget r) (as_budget s)
    \<and> length (rv_ancestorRunIds r) + eb_maxDepth (rv_childBudget r) \<le> as_depth s + eb_maxDepth (as_budget s)"
proof -
  note facts = ledger_invD(4)[OF host_facts(1), of parse add calls, unfolded live_inv_def, rule_format, OF assms(1,2)]
  then obtain s where "map_of (lg_scopes (ledger_of (run_host parse add calls))) k = Some s" using assms(3) unfolding lineage_def by blast
  then show ?thesis using facts assms(3) unfolding attenuated_def by metis
qed

theorem subagent_attenuation_witness:
  "\<exists>r s. map_of (lg_reservations (ledger_of (run_host no_dates (+) sample_host_calls))) (reservation_id 2) = Some r \<and> rv_ancestorRunIds r = [''kid'', ''root'']
    \<and> map_of (lg_scopes (ledger_of (run_host no_dates (+) sample_host_calls))) ''root'' = Some s \<and> below_budget no_dates (rv_childBudget r) (as_budget s)"
proof -
  have "map_option (\<lambda>r. (rv_ancestorRunIds r, rv_state r)) (map_of (lg_reservations (ledger_of (run_host no_dates (+) sample_host_calls))) (reservation_id 2))
      = Some ([''kid'', ''root''], Slot_reserved)" by code_simp
  then obtain r where "map_of (lg_reservations (ledger_of (run_host no_dates (+) sample_host_calls))) (reservation_id 2) = Some r"
    "rv_ancestorRunIds r = [''kid'', ''root'']" "live r" by (auto simp: live_def)
  then show ?thesis using subagent_attenuation[of no_dates "(+)" sample_host_calls "reservation_id 2" r "''root''"] by auto
qed

text \<open>C36: the walk from a registered scope up the accepted reservations ends, and for a child that is
  pending or running it still gives the ancestors that were stored when it was admitted.\<close>

theorem subagent_chain_stable:
  assumes "map_of (lg_scopes (ledger_of (run_host parse add calls))) k \<noteq> None"
  shows "\<exists>ks. ancestorChain (ledger_of (run_host parse add calls)) k = Inr ks
    \<and> (\<forall>i r. map_of (lg_reservations (ledger_of (run_host parse add calls))) i = Some r \<longrightarrow> live r \<longrightarrow> rv_parentRunId r = k \<longrightarrow> rv_ancestorRunIds r = ks)"
proof -
  let ?l = "ledger_of (run_host parse add calls)"
  note parts = ledger_invD[OF host_facts(1), of parse add calls]
  obtain ks where ks: "ancestorChain ?l k = Inr ks" using ancestorChain_ends[OF host_facts(1) assms] by blast
  have "rv_ancestorRunIds r = ks" if "map_of (lg_reservations ?l) i = Some r" "live r" "rv_parentRunId r = k" for i r
  proof -
    have line: "lineage (map_of (lg_scopes ?l)) (map_of (lg_reservations ?l)) k (rv_ancestorRunIds r)" using parts(4) that by (auto simp: live_inv_def)
    have "ancestorChain ?l k = Inr (rv_ancestorRunIds r)" unfolding ancestorChain_def
      by (rule chain_walk_lineage[OF parts(2,3,4) line lineage_length[OF parts(4) line]])
    then show ?thesis using ks by simp
  qed
  then show ?thesis using ks by blast
qed

theorem subagent_chain_stable_witness:
  "map_of (lg_scopes (ledger_of (run_host no_dates (+) sample_host_calls))) ''kid'' \<noteq> None
    \<and> ancestorChain (ledger_of (run_host no_dates (+) sample_host_calls)) ''kid'' = Inr [''kid'', ''root'']"
proof -
  have known: "map_of (lg_scopes (ledger_of (run_host no_dates (+) sample_host_calls))) ''kid'' \<noteq> None" by code_simp
  have "map_option (\<lambda>r. (rv_ancestorRunIds r, rv_state r, rv_parentRunId r)) (map_of (lg_reservations (ledger_of (run_host no_dates (+) sample_host_calls))) (reservation_id 2))
      = Some ([''kid'', ''root''], Slot_reserved, ''kid'')" by code_simp
  then obtain r where "map_of (lg_reservations (ledger_of (run_host no_dates (+) sample_host_calls))) (reservation_id 2) = Some r"
    "rv_ancestorRunIds r = [''kid'', ''root'']" "live r" "rv_parentRunId r = ''kid''" by (auto simp: live_def)
  then show ?thesis using subagent_chain_stable[OF known] known by metis
qed



text \<open>C38: an accepted child can be settled exactly when no pending or running child lies below it; a
  settlement that is refused changes nothing.\<close>

theorem settle_needs_idle_descendants:
  assumes "map_of (lg_reservations (ledger_of (run_host parse add calls))) i = Some r" "rv_state r = Execution_accepted"
    "settleTerminal add i settlement (ledger_of (run_host parse add calls)) = (l', res)"
  shows "res = (if list_ex (\<lambda>(_, q). live q \<and> rv_childRunId r \<in> set (rv_ancestorRunIds q)) (lg_reservations (ledger_of (run_host parse add calls)))
      then Inl SUBAGENT_DESCENDANTS_ACTIVE else Inr ())
    \<and> (res \<noteq> Inr () \<longrightarrow> l' = ledger_of (run_host parse add calls))"
  using settle_outcome[OF host_facts(1) assms(3)] assms(1,2) by auto

theorem settle_needs_idle_descendants_witness:
  "settleTerminal (+) (reservation_id 1) Conservative_unknown (ledger_of (run_host no_dates (+) sample_host_calls))
    = (ledger_of (run_host no_dates (+) sample_host_calls), Inl SUBAGENT_DESCENDANTS_ACTIVE)"
proof -
  let ?l = "ledger_of (run_host no_dates (+) sample_host_calls)"
  have "map_option (\<lambda>r. (rv_childRunId r, rv_state r)) (map_of (lg_reservations ?l) (reservation_id 1)) = Some (''kid'', Execution_accepted)" by code_simp
  then obtain r where r: "map_of (lg_reservations ?l) (reservation_id 1) = Some r" "rv_childRunId r = ''kid''" "rv_state r = Execution_accepted" by auto
  obtain l' res where run: "settleTerminal (+) (reservation_id 1) Conservative_unknown ?l = (l', res)" by fastforce
  have "list_ex (\<lambda>(_, q). (rv_state q = Slot_reserved \<or> rv_state q = Execution_accepted) \<and> ''kid'' \<in> set (rv_ancestorRunIds q)) (lg_reservations ?l)"
    by code_simp
  then show ?thesis using settle_needs_idle_descendants[OF r(1,3) run] run r(2) by (simp add: live_def)
qed

text \<open>C39: cancelling a Run cancels exactly the Runs at or below it that were not cancelled, the Run with
  the reason given and the others as \<open>parent_cancelled\<close>, reports each of them once, and keeps every other
  reason and every link.\<close>

theorem cancellation_exact:
  assumes "cancel_run (tree_of (run_host parse add calls)) r reason = (tree', out)" "\<not> is_cancelled (tree_of (run_host parse add calls)) r"
  defines "tree \<equiv> tree_of (run_host parse add calls)"
  shows "reasonFor tree' x = (if x \<in> below tree r \<and> \<not> is_cancelled tree x then Some (if x = r then reason else Parent_cancelled) else reasonFor tree x)
    \<and> distinct out \<and> set out = (\<lambda>x. (x, if x = r then reason else Parent_cancelled)) ` {x \<in> below tree r. \<not> is_cancelled tree x}
    \<and> parentFor tree' = parentFor tree"
proof -
  have inv: "nearly_inv r tree" unfolding tree_def by (rule tree_inv_nearly[OF host_facts(2)])
  note spec = cancel_run_spec[OF inv assms(1,2)[folded tree_def]]
  have "parentFor tree' = parentFor tree" by (subst spec(2)) (simp add: parentFor_def fun_eq_iff)
  then show ?thesis using spec(1,3,4) by blast
qed

theorem cancellation_exact_witness:
  "\<exists>tree' out. cancel_run (tree_of (run_host no_dates (+) sample_host_calls)) ''root'' User_abort = (tree', out)
    \<and> out = [(''root'', User_abort), (''kid'', Parent_cancelled), (''grandkid'', Parent_cancelled)] \<and> distinct out
    \<and> parentFor tree' = parentFor (tree_of (run_host no_dates (+) sample_host_calls))"
proof -
  have none: "\<not> is_cancelled (tree_of (run_host no_dates (+) sample_host_calls)) ''root''" by code_simp
  have "snd (cancel_run (tree_of (run_host no_dates (+) sample_host_calls)) ''root'' User_abort)
      = [(''root'', User_abort), (''kid'', Parent_cancelled), (''grandkid'', Parent_cancelled)]" by code_simp
  then obtain tree' where run: "cancel_run (tree_of (run_host no_dates (+) sample_host_calls)) ''root'' User_abort
      = (tree', [(''root'', User_abort), (''kid'', Parent_cancelled), (''grandkid'', Parent_cancelled)])" by (metis prod.collapse)
  then show ?thesis using cancellation_exact[OF run none] by blast
qed

text \<open>C40: the links form a forest, no Run below a cancelled one stays uncancelled, and linking always
  answers: the search for a cycle ends, and it reports one exactly when the child is at or above the parent.\<close>

theorem cancellation_forest:
  "acyclic (links (tree_of (run_host parse add calls)))
    \<and> (x \<in> below (tree_of (run_host parse add calls)) r \<and> is_cancelled (tree_of (run_host parse add calls)) r \<longrightarrow> is_cancelled (tree_of (run_host parse add calls)) x)
    \<and> wouldCreateCycle (tree_of (run_host parse add calls)) p c = Some (p \<in> below (tree_of (run_host parse add calls)) c)"
proof -
  let ?t = "tree_of (run_host parse add calls)"
  have inv: "tree_inv ?t" by (rule host_facts(2))
  have "is_cancelled ?t x" if "(x, r) \<in> (links ?t)\<^sup>*" "is_cancelled ?t r"
    using that by (induction rule: converse_rtrancl_induct) (use inv in \<open>auto simp: tree_inv_def\<close>)
  then show ?thesis using inv wouldCreateCycle_iff by (auto simp: below_def tree_inv_def)
qed

theorem cancellation_forest_witness:
  "''kid'' \<in> below (tree_of (run_host no_dates (+) (sample_host_calls @ [Host_tree (Cancel ''root'' User_abort)]))) ''root''
    \<and> is_cancelled (tree_of (run_host no_dates (+) (sample_host_calls @ [Host_tree (Cancel ''root'' User_abort)]))) ''kid''"
proof -
  let ?t = "tree_of (run_host no_dates (+) (sample_host_calls @ [Host_tree (Cancel ''root'' User_abort)]))"
  have root: "is_cancelled ?t ''root''" by code_simp
  have "parentFor ?t ''kid'' = Some ''root''" by code_simp
  then have "''kid'' \<in> below ?t ''root''" by (auto simp: below_def links_def parentFor_def)
  then show ?thesis using root cancellation_forest by blast
qed

end
