(* ===== verification/SessionEntries.thy ===== *)
theory SessionEntries
  imports SessionJournal
begin

section \<open>The validator of journal entries\<close>

text \<open>
  \<open>validateSessionEntryV3\<close> and \<open>validatePayload\<close> of \<open>packages/core-sdk/src/session-journal.ts\<close>, with
  the validators they call in \<open>working-plan.ts\<close>, \<open>subagent.ts\<close> and \<open>llm.ts\<close>. An entry is any JavaScript
  value; objects have the prototype of \<open>Object\<close>. Every check of the file that fails throws
  \<open>SESSION_ENTRY_INVALID\<close>, so the checks are predicates; what other files throw is kept apart. The
  entry that is returned is the clone of the input.

  \<open>entry_host\<close> is the host: \<open>Date.parse\<close> on strings that are not canonical, SHA-256, and \<open>Number\<close> of a
  string, which only the comparison of two values of different types needs.
\<close>

record entry_host =
  eh_date :: "string \<Rightarrow> bool"
  eh_sha256 :: "string \<Rightarrow> string"
  eh_number :: "string \<Rightarrow> js_number"

datatype entry_error =
    SESSION_ENTRY_INVALID
  | SESSION_ENTRY_VERSION_UNSUPPORTED
  | WORKING_PLAN_INVALID
  | ENTRY_REVIEW_FAILURE review_error

type_synonym 'a entry_result = "entry_error + 'a"

definition SESSION_TEXT_BYTES :: nat where "SESSION_TEXT_BYTES = 8 * 1024"
definition MAX_CONTENT_BLOCK_TEXT_BYTES :: nat where "MAX_CONTENT_BLOCK_TEXT_BYTES = 768 * 1024"
definition MAX_LIST_ITEMS :: nat where "MAX_LIST_ITEMS = 256"

subsection \<open>JSON values\<close>

fun finite_number :: "js_number \<Rightarrow> bool" where
  "finite_number (Whole i) = True"
| "finite_number (Fraction q s) = True"
| "finite_number NaN = False"
| "finite_number (Infinite neg) = False"

fun assertJsonValue :: "nat \<Rightarrow> js_value \<Rightarrow> bool"
  and assertJsonElems :: "nat \<Rightarrow> js_value list \<Rightarrow> bool"
  and assertJsonProps :: "nat \<Rightarrow> (string \<times> js_value) list \<Rightarrow> bool" where
  "assertJsonValue depth JUndef = False"
| "assertJsonValue depth JNull = (depth \<le> 64)"
| "assertJsonValue depth (JBool b) = (depth \<le> 64)"
| "assertJsonValue depth (JNum n) = (depth \<le> 64 \<and> finite_number n)"
| "assertJsonValue depth (JStr s) = (depth \<le> 64)"
| "assertJsonValue depth (JArr xs) = (depth \<le> 64 \<and> assertJsonElems (depth + 1) xs)"
| "assertJsonValue depth (JObj ps) = (depth \<le> 64 \<and> assertJsonProps (depth + 1) ps)"
| "assertJsonElems depth [] = True"
| "assertJsonElems depth (x # xs) = (assertJsonValue depth x \<and> assertJsonElems depth xs)"
| "assertJsonProps depth [] = True"
| "assertJsonProps depth ((k, v) # ps) = (assertJsonValue depth v \<and> assertJsonProps depth ps)"

subsection \<open>Scalars and lists\<close>

definition entry_text :: "js_value \<Rightarrow> bool" where
  "entry_text value \<longleftrightarrow> is_string value \<and> utf8_length (the_string value) \<le> SESSION_TEXT_BYTES"

definition boundedContentText :: "js_value \<Rightarrow> bool" where
  "boundedContentText value \<longleftrightarrow> is_string value \<and> utf8_length (the_string value) \<le> MAX_CONTENT_BLOCK_TEXT_BYTES"

definition entry_strings :: "js_value \<Rightarrow> bool" where
  "entry_strings value \<longleftrightarrow> is_array value \<and> length (the_array value) \<le> MAX_LIST_ITEMS \<and> list_all entry_text (the_array value)"

definition exact_keys :: "js_record \<Rightarrow> string list \<Rightarrow> bool" where
  "exact_keys value keys \<longleftrightarrow> length value = length keys \<and> list_all (hasOwn value) keys"

definition records :: "nat \<Rightarrow> (js_record \<Rightarrow> bool) \<Rightarrow> js_value \<Rightarrow> bool" where
  "records maximum check value \<longleftrightarrow> is_array value \<and> length (the_array value) \<le> maximum
     \<and> list_all (\<lambda>v. is_record v \<and> check (the_record v)) (the_array value)"

definition validCorrelation :: "js_value \<Rightarrow> bool" where
  "validCorrelation value \<longleftrightarrow> is_record value \<and> the_record value \<noteq> []
     \<and> onlyKeys (the_record value) [] [''traceId'', ''parentRunId'', ''childRunId'', ''planId'', ''stepId'', ''attemptId'', ''toolCallId'',
         ''commandId'', ''itemId'', ''itemAttemptId'', ''executionRequestId'', ''reviewRequestId'', ''invocationId'', ''runtimeRequestId'',
         ''controlEventId'', ''resolutionRequestId'']
     \<and> list_all (\<lambda>(k, v). safeId v) (the_record value)"

definition entry_plan_state :: "js_value \<Rightarrow> bool" where
  "entry_plan_state value \<longleftrightarrow> enum_state value [''draft'', ''running'', ''blocked'', ''succeeded'', ''failed'', ''cancelled'', ''interrupted'']"

definition entry_step_state :: "js_value \<Rightarrow> bool" where
  "entry_step_state value \<longleftrightarrow> enum_state value [''pending'', ''running'', ''verifying'', ''succeeded'', ''failed'', ''blocked'', ''cancelled'',
     ''interrupted'']"

definition entry_attempt_state :: "js_value \<Rightarrow> bool" where
  "entry_attempt_state value \<longleftrightarrow> enum_state value [''reserved'', ''running'', ''execution_succeeded'', ''execution_failed'', ''verifying'',
     ''verified'', ''rejected'', ''cancelled'', ''interrupted'']"

subsection \<open>Usage and artifacts\<close>

fun cost_value :: "js_value \<Rightarrow> bool" where
  "cost_value (JNum (Whole i)) = (0 \<le> i)"
| "cost_value (JNum (Fraction q s)) = (0 \<le> q)"
| "cost_value _ = False"

definition validateUsageCounts :: "js_record \<Rightarrow> bool" where
  "validateUsageCounts value \<longleftrightarrow> list_all (\<lambda>(key, count). if key = ''costUsd'' then cost_value count else nonNegativeInteger count) value"

definition providerUsageValue :: "js_value \<Rightarrow> bool" where
  "providerUsageValue value \<longleftrightarrow> is_record value
     \<and> onlyKeys (the_record value) [] [''inputTokens'', ''outputTokens'', ''cacheReadTokens'', ''cacheWriteTokens'', ''costUsd'']
     \<and> validateUsageCounts (the_record value)"

definition budgetUsageValue :: "js_value \<Rightarrow> bool" where
  "budgetUsageValue value \<longleftrightarrow> is_record value
     \<and> onlyKeys (the_record value) [''turns'', ''toolCalls'', ''subagents''] [''inputTokens'', ''outputTokens'', ''cacheReadTokens'',
         ''cacheWriteTokens'', ''costUsd'']
     \<and> validateUsageCounts (the_record value)"

definition entry_artifact :: "js_value \<Rightarrow> bool" where
  "entry_artifact value \<longleftrightarrow> is_record value \<and> (let r = the_record value in
     onlyKeys r [''artifactId'', ''digest'', ''mimeType'', ''bytes''] [] \<and> safeId (getProp r ''artifactId'') \<and> sha256_digest (getProp r ''digest'')
     \<and> entry_text (getProp r ''mimeType'') \<and> nonNegativeInteger (getProp r ''bytes''))"

subsection \<open>Controls\<close>

text \<open>The operator \<open><=\<close>: two strings by code units, anything else by their numbers.\<close>

fun to_primitive :: "js_value \<Rightarrow> js_value" where
  "to_primitive (JArr xs) = JStr (js_String (JArr xs))"
| "to_primitive (JObj ps) = JStr (js_String (JObj ps))"
| "to_primitive v = v"

fun to_number :: "(string \<Rightarrow> js_number) \<Rightarrow> js_value \<Rightarrow> js_number" where
  "to_number number (JNum n) = n"
| "to_number number JNull = Whole 0"
| "to_number number (JBool b) = Whole (if b then 1 else 0)"
| "to_number number (JStr s) = number s"
| "to_number number v = NaN"

fun number_value :: "js_number \<Rightarrow> rat" where
  "number_value (Whole i) = of_int i"
| "number_value (Fraction q s) = q"
| "number_value n = 0"

fun number_le :: "js_number \<Rightarrow> js_number \<Rightarrow> bool" where
  "number_le NaN n = False"
| "number_le m NaN = False"
| "number_le (Infinite neg) n = (neg \<or> n = Infinite False)"
| "number_le m (Infinite neg) = (\<not> neg)"
| "number_le m n = (number_value m \<le> number_value n)"

definition js_le :: "(string \<Rightarrow> js_number) \<Rightarrow> js_value \<Rightarrow> js_value \<Rightarrow> bool" where
  "js_le number a b = (case (to_primitive a, to_primitive b) of (JStr s, JStr t) \<Rightarrow> s \<le> t
     | (p, q) \<Rightarrow> number_le (to_number number p) (to_number number q))"

definition controlReasonMatches :: "string \<Rightarrow> string \<Rightarrow> bool" where
  "controlReasonMatches action reason \<longleftrightarrow> (case map_of [(''abandon'', [''user_requested_abandon'']),
       (''scope_change'', [''user_changed_scope'', ''host_policy_override'']), (''resolve_block'', [''user_resolved_block'', ''host_policy_override'']),
       (''cancel'', [''user_cancelled'', ''host_policy_override'']), (''session_close'', [''user_closed_session''])] action of
     None \<Rightarrow> False | Some reasons \<Rightarrow> reason \<in> set reasons)"

definition planControlBinding :: "js_value \<Rightarrow> bool" where
  "planControlBinding value \<longleftrightarrow> value = JNull \<or> is_record value \<and> (let r = the_record value in
     onlyKeys r [''planId'', ''planRevision'', ''stateDigest''] [] \<and> safeId (getProp r ''planId'') \<and> positiveInteger (getProp r ''planRevision'')
     \<and> sha256_digest (getProp r ''stateDigest''))"

definition planControlTarget :: "js_value \<Rightarrow> bool" where
  "planControlTarget value \<longleftrightarrow> is_record value \<and> (let r = the_record value; f = getProp r in
     if f ''kind'' = JStr ''plan'' then onlyKeys r [''kind'', ''planId'', ''expectedPlanRevision'', ''planStateDigest''] [] \<and> safeId (f ''planId'')
       \<and> positiveInteger (f ''expectedPlanRevision'') \<and> sha256_digest (f ''planStateDigest'')
     else if f ''kind'' = JStr ''run'' then onlyKeys r [''kind'', ''runId'', ''runStateDigest'', ''planBinding''] [] \<and> safeId (f ''runId'')
       \<and> sha256_digest (f ''runStateDigest'') \<and> planControlBinding (f ''planBinding'')
     else if f ''kind'' = JStr ''session'' then onlyKeys r [''kind'', ''sessionStateDigest'', ''planBinding''] []
       \<and> sha256_digest (f ''sessionStateDigest'') \<and> planControlBinding (f ''planBinding'')
     else False)"

definition CONTROL_ACTIONS :: "(string \<times> control_action) list" where
  "CONTROL_ACTIONS = [(''abandon'', C_abandon), (''scope_change'', C_scope_change), (''resolve_block'', C_resolve_block), (''cancel'', C_cancel),
     (''session_close'', C_session_close)]"

text \<open>The two calls of \<open>instant\<close> discard their result, so they check nothing.\<close>

definition verifiedPlanControlFact :: "entry_host \<Rightarrow> js_value \<Rightarrow> bool" where
  "verifiedPlanControlFact host value \<longleftrightarrow> is_record value \<and> (let r = the_record value; f = getProp r in
     onlyKeys r [''controlEventId'', ''actorId'', ''actorBindingDigest'', ''sessionId'', ''action'', ''reasonCode'', ''target'', ''targetDigest'',
       ''challengeId'', ''challengeDigest'', ''tokenDigest'', ''issuedAt'', ''expiresAt''] [''runId'', ''providerTurnId'']
     \<and> list_all (\<lambda>key. safeId (f key)) [''controlEventId'', ''actorId'', ''sessionId'']
     \<and> list_all (\<lambda>key. sha256_digest (f key)) [''actorBindingDigest'', ''targetDigest'', ''challengeDigest'', ''tokenDigest'']
     \<and> is_string (f ''challengeId'') \<and> starts_with ''pcc_'' (the_string (f ''challengeId''))
     \<and> enum_state (f ''action'') (map fst CONTROL_ACTIONS)
     \<and> enum_state (f ''reasonCode'') [''user_requested_abandon'', ''user_changed_scope'', ''user_resolved_block'', ''user_cancelled'',
         ''user_closed_session'', ''host_policy_override'']
     \<and> controlReasonMatches (the_string (f ''action'')) (the_string (f ''reasonCode''))
     \<and> \<not> js_le (eh_number host) (f ''expiresAt'') (f ''issuedAt'')
     \<and> if_defined safeId (f ''runId'') \<and> if_defined safeId (f ''providerTurnId'') \<and> planControlTarget (f ''target''))"

subsection \<open>Messages\<close>

text \<open>The digest is tested as \<open>String(value.digest)\<close>.\<close>

definition skillInvocation :: "js_value \<Rightarrow> bool" where
  "skillInvocation value \<longleftrightarrow> is_record value \<and> (let r = the_record value; f = getProp r in
     onlyKeys r [] [''type'', ''version'', ''capabilityId'', ''origin'', ''digest'', ''arguments'', ''content'']
     \<and> f ''type'' = JStr ''skill_invocation'' \<and> f ''version'' = jnat 1 \<and> safeId (f ''capabilityId'') \<and> is_string (f ''origin'')
     \<and> sha256_string (js_String (f ''digest'')) \<and> is_string (f ''arguments'') \<and> is_string (f ''content'')
     \<and> entry_text (f ''origin'') \<and> entry_text (f ''arguments'') \<and> entry_text (f ''content''))"

definition providerContentBlock :: "js_record \<Rightarrow> bool" where
  "providerContentBlock r \<longleftrightarrow> (let f = getProp r in
     if f ''type'' = JStr ''text'' \<or> f ''type'' = JStr ''reasoning'' then onlyKeys r [''type'', ''text''] [] \<and> boundedContentText (f ''text'')
     else if f ''type'' = JStr ''image_ref'' then onlyKeys r [''type'', ''artifactId''] [''mimeType'', ''alt''] \<and> safeId (f ''artifactId'')
       \<and> if_defined entry_text (f ''mimeType'') \<and> if_defined entry_text (f ''alt'')
     else if f ''type'' = JStr ''audio_ref'' then onlyKeys r [''type'', ''artifactId''] [''mimeType'', ''transcript''] \<and> safeId (f ''artifactId'')
       \<and> if_defined entry_text (f ''mimeType'') \<and> if_defined entry_text (f ''transcript'')
     else if f ''type'' = JStr ''citation'' then onlyKeys r [''type''] [''title'', ''url'', ''artifactId'', ''startIndex'', ''endIndex'']
       \<and> \<not> (f ''title'' = JUndef \<and> f ''url'' = JUndef \<and> f ''artifactId'' = JUndef)
       \<and> if_defined entry_text (f ''title'') \<and> if_defined entry_text (f ''url'') \<and> if_defined safeId (f ''artifactId'')
       \<and> if_defined nonNegativeInteger (f ''startIndex'') \<and> if_defined nonNegativeInteger (f ''endIndex'')
       \<and> \<not> (f ''startIndex'' \<noteq> JUndef \<and> f ''endIndex'' \<noteq> JUndef \<and> the_int (f ''endIndex'') < the_int (f ''startIndex''))
     else if f ''type'' = JStr ''tool_call'' then onlyKeys r [''type'', ''id'', ''name'', ''input''] [] \<and> safeId (f ''id'') \<and> safeId (f ''name'')
     else False)"

definition providerContent :: "js_value \<Rightarrow> bool" where
  "providerContent value \<longleftrightarrow> is_string value \<or> records MAX_LIST_ITEMS providerContentBlock value"

definition providerToolCalls :: "js_value \<Rightarrow> bool" where
  "providerToolCalls value \<longleftrightarrow> records MAX_LIST_ITEMS (\<lambda>r. onlyKeys r [''id'', ''name'', ''input''] [] \<and> safeId (getProp r ''id'')
     \<and> safeId (getProp r ''name'')) value"

definition providerMessage :: "js_value \<Rightarrow> bool" where
  "providerMessage value \<longleftrightarrow> is_record value \<and> (let r = the_record value; f = getProp r in
     if f ''role'' = JStr ''user'' then onlyKeys r [''role'', ''content''] [''intent'', ''trust'', ''skillInvocation''] \<and> providerContent (f ''content'')
       \<and> if_defined (\<lambda>v. enum_state v [''prompt'', ''follow_up'', ''steer'', ''context'']) (f ''intent'')
       \<and> if_defined (\<lambda>v. enum_state v [''user'', ''low'']) (f ''trust'') \<and> if_defined skillInvocation (f ''skillInvocation'')
     else if f ''role'' = JStr ''assistant'' then onlyKeys r [''role'', ''content''] [''toolCalls''] \<and> providerContent (f ''content'')
       \<and> if_defined providerToolCalls (f ''toolCalls'')
     else if f ''role'' = JStr ''tool'' then onlyKeys r [''role'', ''toolCallId'', ''name'', ''content''] [''skillInvocation'']
       \<and> safeId (f ''toolCallId'') \<and> safeId (f ''name'') \<and> providerContent (f ''content'') \<and> if_defined skillInvocation (f ''skillInvocation'')
     else False)"

subsection \<open>Compaction\<close>

definition compactionSummary :: "js_value \<Rightarrow> bool" where
  "compactionSummary value \<longleftrightarrow> is_record value \<and> (let r = the_record value; f = getProp r in
     onlyKeys r [''schemaVersion'', ''trust'', ''decisions'', ''constraints'', ''readFiles'', ''modifiedFiles'', ''unresolved'', ''activePlan'']
       [''objective'', ''relevantRefs'']
     \<and> f ''schemaVersion'' = jnat 1 \<and> f ''trust'' = JStr ''low'' \<and> if_defined entry_text (f ''objective'')
     \<and> if_defined entry_strings (f ''relevantRefs'')
     \<and> list_all (\<lambda>field. entry_strings (f field)) [''decisions'', ''constraints'', ''readFiles'', ''modifiedFiles'', ''unresolved'', ''activePlan''])"

definition summary_of :: "js_record \<Rightarrow> compaction_summary" where
  "summary_of r = (let strings = (\<lambda>k. map the_string (the_array (getProp r k))) in
     \<lparr>cs_objective = map_option the_string (optional (getProp r ''objective'')),
      cs_relevantRefs = map_option (\<lambda>v. map the_string (the_array v)) (optional (getProp r ''relevantRefs'')),
      cs_decisions = strings ''decisions'', cs_constraints = strings ''constraints'', cs_readFiles = strings ''readFiles'',
      cs_modifiedFiles = strings ''modifiedFiles'', cs_unresolved = strings ''unresolved'', cs_activePlan = strings ''activePlan''\<rparr>)"

definition compactionGeneratorIdentity :: "js_value \<Rightarrow> bool" where
  "compactionGeneratorIdentity value \<longleftrightarrow> is_record value \<and> (let r = the_record value; f = getProp r in
     if f ''kind'' = JStr ''deterministic'' then onlyKeys r [''kind'', ''id''] [] \<and> safeId (f ''id'')
     else if f ''kind'' = JStr ''model'' then onlyKeys r [''kind'', ''id'', ''provider'', ''model''] [] \<and> safeId (f ''id'')
       \<and> safeId (f ''provider'') \<and> safeId (f ''model'')
     else False)"

definition compactionProvenance :: "js_value \<Rightarrow> bool" where
  "compactionProvenance value \<longleftrightarrow> is_record value \<and> (let r = the_record value; f = getProp r in
     onlyKeys r [''schemaVersion'', ''generator''] [''fallbackFrom'', ''failureCode'', ''failedGeneratorDurationMs'']
     \<and> f ''schemaVersion'' = jnat 1 \<and> compactionGeneratorIdentity (f ''generator'') \<and> if_defined compactionGeneratorIdentity (f ''fallbackFrom'')
     \<and> if_defined safeId (f ''failureCode'') \<and> if_defined nonNegativeInteger (f ''failedGeneratorDurationMs'')
     \<and> \<not> ((f ''failureCode'' \<noteq> JUndef \<or> f ''failedGeneratorDurationMs'' \<noteq> JUndef) \<and> f ''fallbackFrom'' = JUndef))"

text \<open>The pattern \<open>[A-Za-z0-9][A-Za-z0-9._:/@+-]{0,255}\<close>.\<close>

definition safeNativeContextId :: "js_value \<Rightarrow> bool" where
  "safeNativeContextId value \<longleftrightarrow> is_string value \<and> (case the_string value of [] \<Rightarrow> False
     | c # cs \<Rightarrow> is_alnum c \<and> length cs \<le> 255 \<and> list_all (\<lambda>d. is_alnum d \<or> d \<in> set ''._:/@+-'') cs)"

definition isProviderNativeContext :: "entry_host \<Rightarrow> js_value \<Rightarrow> bool" where
  "isProviderNativeContext host value \<longleftrightarrow> is_record value \<and> (let r = the_record value; f = getProp r in
     onlyKeys r [] [''schemaVersion'', ''provider'', ''model'', ''format'', ''items'', ''messageStart'', ''messageEnd'', ''sourceDigest'',
       ''instructionsDigest'', ''estimatedTokens'', ''createdAt'']
     \<and> f ''schemaVersion'' = jnat 1 \<and> safeNativeContextId (f ''provider'') \<and> safeNativeContextId (f ''model'')
     \<and> safeNativeContextId (f ''format'') \<and> records 2048 (\<lambda>_. True) (f ''items'') \<and> the_array (f ''items'') \<noteq> []
     \<and> nonNegativeInteger (f ''messageStart'') \<and> isSafeInteger (f ''messageEnd'') \<and> the_int (f ''messageStart'') \<le> the_int (f ''messageEnd'')
     \<and> sha256_digest (f ''sourceDigest'') \<and> sha256_digest (f ''instructionsDigest'') \<and> nonNegativeInteger (f ''estimatedTokens'')
     \<and> timestamp (eh_date host) (f ''createdAt''))"

definition checkpointValue :: "entry_host \<Rightarrow> js_value \<Rightarrow> bool" where
  "checkpointValue host value \<longleftrightarrow> is_record value \<and> (let r = the_record value; f = getProp r in
     onlyKeys r [''messageStart'', ''messageEnd'', ''content'', ''digest''] [''estimatedGainTokens'', ''scope'', ''skillInvocations'', ''nativeContext'']
     \<and> nonNegativeInteger (f ''messageStart'') \<and> nonNegativeInteger (f ''messageEnd'')
     \<and> \<not> the_int (f ''messageEnd'') < the_int (f ''messageStart'') \<and> entry_text (f ''content'') \<and> sha256_digest (f ''digest'')
     \<and> if_defined nonNegativeInteger (f ''estimatedGainTokens'')
     \<and> if_defined (\<lambda>v. is_record v \<and> onlyKeys (the_record v) [''kind'', ''sessionId''] [] \<and> enum_state (getProp (the_record v) ''kind'') [''parent'', ''child'']
         \<and> safeId (getProp (the_record v) ''sessionId'')) (f ''scope'')
     \<and> if_defined (\<lambda>v. is_array v \<and> length (the_array v) \<le> MAX_LIST_ITEMS \<and> list_all skillInvocation (the_array v)) (f ''skillInvocations'')
     \<and> if_defined (isProviderNativeContext host) (f ''nativeContext''))"

definition compactPlanValue :: "js_value \<Rightarrow> bool" where
  "compactPlanValue value \<longleftrightarrow> is_record value \<and> (let r = the_record value; f = getProp r in
     onlyKeys r [''objective'', ''steps'', ''revision'', ''updatedAt''] [] \<and> entry_text (f ''objective'') \<and> nonNegativeInteger (f ''revision'')
     \<and> canonicalInstant (f ''updatedAt'')
     \<and> records MAX_LIST_ITEMS (\<lambda>step. onlyKeys step [''id'', ''title'', ''state''] [] \<and> safeId (getProp step ''id'') \<and> entry_text (getProp step ''title'')
         \<and> enum_state (getProp step ''state'') [''pending'', ''in_progress'', ''completed'', ''blocked'']) (f ''steps''))"

subsection \<open>Plans and subagents\<close>

definition replanReuseProofs :: "js_value \<Rightarrow> bool" where
  "replanReuseProofs value \<longleftrightarrow> records 64 (\<lambda>r. onlyKeys r [''stepId'', ''previousInputDigest'', ''nextInputDigest''] [] \<and> safeId (getProp r ''stepId'')
       \<and> sha256_digest (getProp r ''previousInputDigest'') \<and> sha256_digest (getProp r ''nextInputDigest'')) value
     \<and> distinct (map (\<lambda>proof. getProp (the_record proof) ''stepId'') (the_array value))"

definition plan_step_object :: "js_record \<Rightarrow> js_value" where
  "plan_step_object data = JObj (map (\<lambda>k. (k, getProp data k)) [''stepId'', ''title'', ''order'', ''state'', ''dependencies'', ''access'',
     ''capabilities'', ''conflictKeys'', ''criteria'', ''budget'', ''maxAttempts''] @ [(''attemptIds'', JArr [])])"

definition validatePlanStepPayload :: "js_record \<Rightarrow> bool" where
  "validatePlanStepPayload data = is_ok (validatePlanStepV1 (plan_step_object data))"

definition versionedRef :: "string \<Rightarrow> nat \<Rightarrow> js_value \<Rightarrow> bool" where
  "versionedRef kind version input \<longleftrightarrow> is_record input \<and> (let r = the_record input; f = getProp r in
     exact_keys r [''schemaVersion'', ''kind'', ''id'', ''version'', ''digest''] \<and> f ''schemaVersion'' = jnat 1 \<and> f ''kind'' = JStr kind
     \<and> safeId (f ''id'') \<and> f ''version'' = jnat version \<and> sha256_digest (f ''digest''))"

definition validateSubagentExecutionRequestV1 :: "js_value \<Rightarrow> bool" where
  "validateSubagentExecutionRequestV1 input \<longleftrightarrow> is_record input \<and> (let r = the_record input; f = getProp r in
     exact_keys r [''schemaVersion'', ''parentRunId'', ''childRunId'', ''packetRef'', ''profileRef'', ''bundleRef'', ''budgetRef'']
     \<and> f ''schemaVersion'' = jnat 1 \<and> safeId (f ''parentRunId'') \<and> safeId (f ''childRunId'') \<and> f ''parentRunId'' \<noteq> f ''childRunId''
     \<and> versionedRef ''context_packet'' 1 (f ''packetRef'') \<and> versionedRef ''bootstrap_profile'' 3 (f ''profileRef'')
     \<and> versionedRef ''capability_bundle'' 1 (f ''bundleRef'') \<and> versionedRef ''execution_budget'' 1 (f ''budgetRef''))"

subsection \<open>Working Plans\<close>

text \<open>The states and digests of \<open>working-plan.ts\<close> are tested as \<open>String(value)\<close>.\<close>

definition working_text :: "js_value \<Rightarrow> bool" where
  "working_text value \<longleftrightarrow> is_string value \<and> \<not> blank (the_string value)"

definition artifact_string :: "string \<Rightarrow> bool" where
  "artifact_string s \<longleftrightarrow> take 9 s = ''artifact-'' \<and> length s = 73 \<and> list_all is_hex_digit (drop 9 s)"

definition validateWorkingPlanV1 :: "js_value \<Rightarrow> bool" where
  "validateWorkingPlanV1 value \<longleftrightarrow> is_record value \<and> (let p = the_record value; f = getProp p in
     onlyKeys p [''schemaVersion'', ''planId'', ''revision'', ''objective'', ''state'', ''items''] [] \<and> f ''schemaVersion'' = jnat 1
     \<and> positiveInteger (f ''revision'') \<and> safeId (f ''planId'') \<and> working_text (f ''objective'')
     \<and> js_String (f ''state'') \<in> set [''active'', ''done'', ''abandoned''] \<and> is_array (f ''items'')
     \<and> list_all (\<lambda>item. is_record item \<and> (let g = getProp (the_record item) in onlyKeys (the_record item) [''id'', ''title'', ''status''] []
         \<and> safeId (g ''id'') \<and> working_text (g ''title'')
         \<and> js_String (g ''status'') \<in> set [''pending'', ''in_progress'', ''done'', ''blocked'', ''skipped''])) (the_array (f ''items''))
     \<and> distinct (map (\<lambda>item. js_String (getProp (the_record item) ''id'')) (the_array (f ''items''))))"

definition validateWorkingReviewV1 :: "js_value \<Rightarrow> bool" where
  "validateWorkingReviewV1 value \<longleftrightarrow> is_record value \<and> (let r = the_record value; f = getProp r in
     onlyKeys r [''reviewRequestId'', ''operationId'', ''inputDigest'', ''inputRef'', ''requestDigest'', ''planRevision'', ''snapshotSequence'',
       ''evidenceSequence''] [''reportRef'', ''verdict'']
     \<and> safeId (f ''reviewRequestId'') \<and> safeId (f ''operationId'')
     \<and> list_all (\<lambda>key. sha256_string (js_String (f key))) [''inputDigest'', ''requestDigest'']
     \<and> list_all (\<lambda>key. if_defined (\<lambda>v. artifact_string (js_String v)) (f key)) [''inputRef'', ''reportRef'']
     \<and> (f ''planRevision'' = JNull \<or> positiveInteger (f ''planRevision''))
     \<and> list_all (\<lambda>key. nonNegativeInteger (f key)) [''snapshotSequence'', ''evidenceSequence'']
     \<and> \<not> the_int (f ''snapshotSequence'') < the_int (f ''evidenceSequence'')
     \<and> (f ''verdict'' = JUndef \<longleftrightarrow> f ''reportRef'' = JUndef)
     \<and> if_defined (\<lambda>v. js_String v \<in> set [''accepted'', ''needs_fix'', ''replan'', ''blocked'', ''unavailable'']) (f ''verdict''))"

definition validateWorkingPlanEventV1 :: "string \<Rightarrow> js_record \<Rightarrow> unit entry_result" where
  "validateWorkingPlanEventV1 type data =
     andThen (require (if type = ''working_plan.saved''
         then onlyKeys data [''operationId'', ''inputDigest'', ''plan''] [] \<and> safeId (getProp data ''operationId'')
           \<and> sha256_string (js_String (getProp data ''inputDigest'')) \<and> validateWorkingPlanV1 (getProp data ''plan'')
         else onlyKeys data [''review''] [] \<and> validateWorkingReviewV1 (getProp data ''review'')
           \<and> (type = ''working_plan.reviewed'' \<longleftrightarrow> getProp (the_record (getProp data ''review'')) ''reportRef'' \<noteq> JUndef))
       WORKING_PLAN_INVALID) (\<lambda>_.
     case canonicalJsonV1 (JObj data) of Inl failure \<Rightarrow> Inl (ENTRY_REVIEW_FAILURE failure) | Inr _ \<Rightarrow> Inr ())"

subsection \<open>Session and Run payloads\<close>

definition planner_mode_value :: "js_value \<Rightarrow> bool" where
  "planner_mode_value value \<longleftrightarrow> enum_state value [''auto'', ''solo'', ''workflow'', ''direct'', ''supervisor'']"

definition valid_session_created :: "js_record \<Rightarrow> bool" where
  "valid_session_created data \<longleftrightarrow> (let f = getProp data in
     onlyKeys data [''cwd'', ''provider'', ''model'', ''name'', ''labels''] [''fork'', ''plannerMode'', ''contextLimitTokens'']
     \<and> entry_text (f ''cwd'') \<and> safeId (f ''provider'') \<and> safeId (f ''model'') \<and> entry_text (f ''name'') \<and> entry_strings (f ''labels'')
     \<and> if_defined planner_mode_value (f ''plannerMode'') \<and> if_defined positiveInteger (f ''contextLimitTokens'')
     \<and> if_defined (\<lambda>v. is_record v \<and> exact_keys (the_record v) [''parentSessionId'', ''sourceEntryId'']
         \<and> safeId (getProp (the_record v) ''parentSessionId'') \<and> safeId (getProp (the_record v) ''sourceEntryId'')) (f ''fork''))"

definition valid_metadata_updated :: "js_record \<Rightarrow> bool" where
  "valid_metadata_updated data \<longleftrightarrow> (let f = getProp data in
     onlyKeys data [] [''name'', ''labels'', ''provider'', ''model'', ''activeLeafId'', ''plannerMode'', ''contextLimitTokens'']
     \<and> data \<noteq> [] \<and> if_defined entry_text (f ''name'') \<and> if_defined entry_strings (f ''labels'') \<and> if_defined safeId (f ''provider'')
     \<and> if_defined safeId (f ''model'') \<and> if_defined safeId (f ''activeLeafId'') \<and> if_defined planner_mode_value (f ''plannerMode'')
     \<and> if_defined positiveInteger (f ''contextLimitTokens''))"

definition valid_plan_updated :: "js_record \<Rightarrow> bool" where
  "valid_plan_updated data \<longleftrightarrow> onlyKeys data [''plan''] [] \<and> (getProp data ''plan'' = JNull \<or> compactPlanValue (getProp data ''plan''))"

definition valid_reason :: "js_record \<Rightarrow> bool" where
  "valid_reason data \<longleftrightarrow> onlyKeys data [] [''reason''] \<and> if_defined entry_text (getProp data ''reason'')"

definition valid_forked :: "js_record \<Rightarrow> bool" where
  "valid_forked data \<longleftrightarrow> onlyKeys data [''childSessionId'', ''sourceEntryId''] [] \<and> safeId (getProp data ''childSessionId'')
     \<and> safeId (getProp data ''sourceEntryId'')"

definition valid_deleted :: "js_record \<Rightarrow> bool" where
  "valid_deleted data \<longleftrightarrow> (if getProp data ''mode'' = JStr ''tombstone''
     then onlyKeys data [''mode''] [''reason''] \<and> if_defined entry_text (getProp data ''reason'')
     else if getProp data ''mode'' = JStr ''purge_receipt''
     then onlyKeys data [''mode'', ''receiptRef'', ''receiptDigest''] [] \<and> entry_text (getProp data ''receiptRef'')
       \<and> sha256_digest (getProp data ''receiptDigest'')
     else False)"

definition valid_message :: "js_record \<Rightarrow> bool" where
  "valid_message data \<longleftrightarrow> onlyKeys data [''messageId'', ''message''] [] \<and> safeId (getProp data ''messageId'') \<and> providerMessage (getProp data ''message'')"

definition valid_run_started :: "js_value \<Rightarrow> js_record \<Rightarrow> bool" where
  "valid_run_started runId data \<longleftrightarrow> safeId runId \<and> onlyKeys data [''clientRequestId''] [''planPolicy''] \<and> safeId (getProp data ''clientRequestId'')
     \<and> if_defined (\<lambda>v. enum_state v [''optional'', ''required'']) (getProp data ''planPolicy'')"

definition valid_run_terminal :: "js_value \<Rightarrow> js_record \<Rightarrow> bool" where
  "valid_run_terminal runId data \<longleftrightarrow> safeId runId \<and> onlyKeys data [''status'', ''usage''] [''errorCode'']
     \<and> enum_state (getProp data ''status'') [''completed'', ''failed'', ''aborted'', ''interrupted''] \<and> providerUsageValue (getProp data ''usage'')
     \<and> if_defined safeId (getProp data ''errorCode'')"

definition valid_command :: "js_record \<Rightarrow> bool" where
  "valid_command data \<longleftrightarrow> (let f = getProp data in
     onlyKeys data [''commandId'', ''descriptorId'', ''descriptorDigest'', ''persistence''] [''argumentDigest'', ''resultRef'']
     \<and> safeId (f ''commandId'') \<and> safeId (f ''descriptorId'') \<and> sha256_digest (f ''descriptorDigest'')
     \<and> enum_state (f ''persistence'') [''plaintext'', ''redacted'', ''digest'', ''none''] \<and> if_defined sha256_digest (f ''argumentDigest'')
     \<and> if_defined entry_text (f ''resultRef''))"

definition valid_skill :: "js_record \<Rightarrow> bool" where
  "valid_skill data \<longleftrightarrow> onlyKeys data [''invocationId'', ''invocation''] [] \<and> safeId (getProp data ''invocationId'')
     \<and> skillInvocation (getProp data ''invocation'')"

definition valid_permission :: "js_record \<Rightarrow> bool" where
  "valid_permission data \<longleftrightarrow> (let f = getProp data in
     onlyKeys data [''requestId'', ''toolCallId'', ''tool'', ''decision'', ''ruleDigest''] [] \<and> safeId (f ''requestId'') \<and> safeId (f ''toolCallId'')
     \<and> safeId (f ''tool'') \<and> enum_state (f ''decision'') [''allow_once'', ''allow_always'', ''deny''] \<and> sha256_digest (f ''ruleDigest''))"

definition valid_usage :: "js_record \<Rightarrow> bool" where
  "valid_usage data \<longleftrightarrow> onlyKeys data [''source'', ''usage''] [] \<and> enum_state (getProp data ''source'') [''provider'', ''tool'', ''subagent'']
     \<and> budgetUsageValue (getProp data ''usage'')"

definition valid_generation :: "js_value \<Rightarrow> js_record \<Rightarrow> bool" where
  "valid_generation runId data \<longleftrightarrow> (let f = getProp data in
     onlyKeys data [''phase'', ''generatorId'', ''source'', ''status'', ''fallbackUsed''] [''failureCode'', ''fallbackFromCode'', ''route'']
     \<and> enum_state (f ''phase'') [''initial'', ''replan''] \<and> safeId (f ''generatorId'') \<and> enum_state (f ''source'') [''model'', ''fallback'']
     \<and> enum_state (f ''status'') [''succeeded'', ''failed''] \<and> is_bool (f ''fallbackUsed'')
     \<and> if_defined (\<lambda>v. enum_state v [''parent_only'', ''dag'']) (f ''route'') \<and> if_defined safeId (f ''failureCode'')
     \<and> if_defined safeId (f ''fallbackFromCode'')
     \<and> (f ''source'' = JStr ''fallback'' \<longleftrightarrow> the_bool (f ''fallbackUsed'')) \<and> (f ''status'' = JStr ''failed'' \<longleftrightarrow> f ''failureCode'' \<noteq> JUndef)
     \<and> (the_bool (f ''fallbackUsed'') \<longleftrightarrow> f ''fallbackFromCode'' \<noteq> JUndef) \<and> runId \<noteq> JUndef)"

definition valid_compaction :: "entry_host \<Rightarrow> js_record \<Rightarrow> bool" where
  "valid_compaction host data \<longleftrightarrow> (let f = getProp data in
     onlyKeys data [''checkpointId'', ''coveredStartSequence'', ''coveredEndSequence'', ''retainedStartSequence'', ''summary'', ''provenance'',
       ''summaryDigest'', ''summaryTokens'', ''reason''] [''previousCheckpointId'', ''checkpoint'']
     \<and> safeId (f ''checkpointId'') \<and> positiveInteger (f ''coveredStartSequence'') \<and> positiveInteger (f ''coveredEndSequence'')
     \<and> \<not> the_int (f ''coveredEndSequence'') < the_int (f ''coveredStartSequence'') \<and> if_defined safeId (f ''previousCheckpointId'')
     \<and> positiveInteger (f ''retainedStartSequence'') \<and> compactionSummary (f ''summary'') \<and> compactionProvenance (f ''provenance'')
     \<and> sha256_digest (f ''summaryDigest'')
     \<and> f ''summaryDigest'' = JStr (sessionCompactionSummaryDigestV3 (eh_sha256 host) (summary_of (the_record (f ''summary''))))
     \<and> nonNegativeInteger (f ''summaryTokens'') \<and> enum_state (f ''reason'') [''manual'', ''threshold'', ''overflow'']
     \<and> if_defined (checkpointValue host) (f ''checkpoint''))"

definition valid_artifact :: "js_record \<Rightarrow> bool" where
  "valid_artifact data \<longleftrightarrow> onlyKeys data [''owner'', ''artifact''] []
     \<and> enum_state (getProp data ''owner'') [''message'', ''run'', ''command'', ''compaction'', ''subagent'', ''verification'', ''review_plan_definition'',
         ''review_evidence'', ''review_decision'', ''workflow_effect_request'']
     \<and> entry_artifact (getProp data ''artifact'')"

subsection \<open>Plan payloads\<close>

definition plan_fields :: "js_record \<Rightarrow> bool" where
  "plan_fields data \<longleftrightarrow> safeId (getProp data ''planId'') \<and> positiveInteger (getProp data ''planRevision'')"

definition valid_plan_created :: "js_record \<Rightarrow> bool" where
  "valid_plan_created data \<longleftrightarrow> onlyKeys data [''planId'', ''planRevision'', ''objective'', ''state''] [] \<and> plan_fields data
     \<and> entry_text (getProp data ''objective'') \<and> entry_plan_state (getProp data ''state'')"

definition valid_plan_state_changed :: "js_record \<Rightarrow> bool" where
  "valid_plan_state_changed data \<longleftrightarrow> onlyKeys data [''planId'', ''planRevision'', ''state''] [] \<and> plan_fields data \<and> entry_plan_state (getProp data ''state'')"

definition valid_plan_decision :: "js_record \<Rightarrow> bool" where
  "valid_plan_decision data \<longleftrightarrow> (let f = getProp data; action = f ''action''; outcome = f ''outcome''; step = f ''stepId'' in
     onlyKeys data [''planId'', ''planRevision'', ''action'', ''outcome'', ''reasonCode''] [''stepId'', ''attemptId''] \<and> plan_fields data
     \<and> enum_state action [''retry'', ''continue'', ''fresh_worker'', ''replan'', ''ask_user''] \<and> enum_state outcome [''selected'', ''applied'', ''no_progress'']
     \<and> safeId (f ''reasonCode'') \<and> if_defined safeId step \<and> if_defined safeId (f ''attemptId'') \<and> (f ''attemptId'' = JUndef \<longleftrightarrow> step = JUndef)
     \<and> \<not> (action = JStr ''replan'' \<and> \<not> enum_state outcome [''applied'', ''no_progress''])
     \<and> \<not> (action \<noteq> JStr ''replan'' \<and> outcome \<noteq> JStr ''selected'') \<and> \<not> (action = JStr ''replan'' \<and> step \<noteq> JUndef)
     \<and> \<not> (enum_state action [''retry'', ''continue'', ''fresh_worker''] \<and> step = JUndef) \<and> \<not> (action = JStr ''ask_user'' \<and> step \<noteq> JUndef))"

definition valid_plan_revised :: "js_record \<Rightarrow> bool" where
  "valid_plan_revised data \<longleftrightarrow> (let f = getProp data in
     onlyKeys data [''planId'', ''fromRevision'', ''toRevision'', ''objective'', ''state'', ''reuseProofs''] [] \<and> safeId (f ''planId'')
     \<and> positiveInteger (f ''fromRevision'') \<and> positiveInteger (f ''toRevision'') \<and> entry_text (f ''objective'') \<and> f ''state'' = JStr ''running''
     \<and> replanReuseProofs (f ''reuseProofs''))"

definition valid_step_created :: "js_record \<Rightarrow> bool" where
  "valid_step_created data \<longleftrightarrow> (let f = getProp data in
     onlyKeys data [''planId'', ''planRevision'', ''stepId'', ''title'', ''order'', ''state'', ''dependencies'', ''access'', ''capabilities'',
       ''conflictKeys'', ''criteria'', ''budget'', ''maxAttempts''] [] \<and> plan_fields data \<and> safeId (f ''stepId'') \<and> entry_text (f ''title'')
     \<and> nonNegativeInteger (f ''order'') \<and> entry_step_state (f ''state'') \<and> validatePlanStepPayload data)"

definition valid_step_state_changed :: "js_record \<Rightarrow> bool" where
  "valid_step_state_changed data \<longleftrightarrow> (let f = getProp data in
     onlyKeys data [''planId'', ''planRevision'', ''stepId'', ''state''] [''reason'', ''newAttemptId'', ''errorCode''] \<and> plan_fields data
     \<and> safeId (f ''stepId'') \<and> entry_step_state (f ''state'') \<and> (f ''reason'' = JUndef \<longleftrightarrow> f ''newAttemptId'' = JUndef)
     \<and> (f ''reason'' = JUndef \<or> enum_state (f ''reason'') [''retry_approved'', ''recovery_retry_approved'', ''external_condition_changed'']
         \<and> safeId (f ''newAttemptId''))
     \<and> if_defined safeId (f ''errorCode'')
     \<and> \<not> (f ''errorCode'' \<noteq> JUndef \<and> \<not> enum_state (f ''state'') [''failed'', ''blocked'', ''cancelled'', ''interrupted'']))"

definition attempt_fields :: "js_record \<Rightarrow> bool" where
  "attempt_fields data \<longleftrightarrow> plan_fields data \<and> safeId (getProp data ''stepId'') \<and> safeId (getProp data ''attemptId'')"

definition valid_attempt_created :: "js_record \<Rightarrow> bool" where
  "valid_attempt_created data \<longleftrightarrow> onlyKeys data [''planId'', ''planRevision'', ''stepId'', ''attemptId'', ''ordinal'', ''state''] [''childRunId'']
     \<and> attempt_fields data \<and> positiveInteger (getProp data ''ordinal'') \<and> entry_attempt_state (getProp data ''state'')
     \<and> if_defined safeId (getProp data ''childRunId'')"

definition valid_attempt_state_changed :: "js_record \<Rightarrow> bool" where
  "valid_attempt_state_changed data \<longleftrightarrow> (let f = getProp data in
     onlyKeys data [''planId'', ''planRevision'', ''stepId'', ''attemptId'', ''state''] [''errorCode''] \<and> attempt_fields data
     \<and> entry_attempt_state (f ''state'') \<and> if_defined safeId (f ''errorCode'')
     \<and> \<not> (f ''errorCode'' \<noteq> JUndef \<and> \<not> enum_state (f ''state'') [''execution_failed'', ''rejected'', ''cancelled'', ''interrupted'']))"

definition valid_execution_completed :: "js_record \<Rightarrow> bool" where
  "valid_execution_completed data \<longleftrightarrow> onlyKeys data [''planId'', ''planRevision'', ''stepId'', ''attemptId'', ''status''] [] \<and> attempt_fields data
     \<and> enum_state (getProp data ''status'') [''succeeded'', ''failed'', ''cancelled'']"

definition valid_execution_bound :: "js_record \<Rightarrow> bool" where
  "valid_execution_bound data \<longleftrightarrow> (let f = getProp data in
     onlyKeys data [''planId'', ''planRevision'', ''stepId'', ''attemptId'', ''childRunId'', ''request'', ''retrySafety''] [] \<and> attempt_fields data
     \<and> safeId (f ''childRunId'') \<and> enum_state (f ''retrySafety'') [''read_only_idempotent'', ''non_idempotent'', ''unknown'']
     \<and> validateSubagentExecutionRequestV1 (f ''request'') \<and> getProp (the_record (f ''request'')) ''childRunId'' = f ''childRunId'')"

definition valid_result_recorded :: "js_record \<Rightarrow> bool" where
  "valid_result_recorded data \<longleftrightarrow> (let f = getProp data in
     onlyKeys data [''planId'', ''planRevision'', ''stepId'', ''attemptId'', ''childRunId'', ''resultRef'', ''resultDigest'', ''status''] []
     \<and> attempt_fields data \<and> safeId (f ''childRunId'') \<and> entry_text (f ''resultRef'') \<and> sha256_digest (f ''resultDigest'')
     \<and> enum_state (f ''status'') [''succeeded'', ''failed'', ''cancelled''])"

definition valid_verification :: "js_record \<Rightarrow> bool" where
  "valid_verification data \<longleftrightarrow> (let f = getProp data in
     onlyKeys data [''planId'', ''planRevision'', ''stepId'', ''attemptId'', ''verificationId'', ''verifier'', ''status'', ''evidenceRefs''] [''code'', ''retryable'']
     \<and> attempt_fields data \<and> safeId (f ''verificationId'') \<and> enum_state (f ''verifier'') [''mechanical'', ''rule'', ''model'']
     \<and> enum_state (f ''status'') [''passed'', ''failed'', ''blocked''] \<and> entry_strings (f ''evidenceRefs'') \<and> if_defined safeId (f ''code'')
     \<and> if_defined is_bool (f ''retryable''))"

subsection \<open>Control and budget payloads\<close>

definition valid_control_authorized :: "entry_host \<Rightarrow> js_record \<Rightarrow> bool" where
  "valid_control_authorized host data \<longleftrightarrow> onlyKeys data [''authorizationRequestId'', ''challengeEnvelopeDigest'', ''fact''] []
     \<and> safeId (getProp data ''authorizationRequestId'') \<and> sha256_digest (getProp data ''challengeEnvelopeDigest'')
     \<and> verifiedPlanControlFact host (getProp data ''fact'')"

definition valid_control_bound :: "js_record \<Rightarrow> bool" where
  "valid_control_bound data \<longleftrightarrow> onlyKeys data [''controlEventId'', ''runId'', ''providerTurnId''] [] \<and> safeId (getProp data ''controlEventId'')
     \<and> safeId (getProp data ''runId'') \<and> safeId (getProp data ''providerTurnId'')"

definition valid_control_discarded :: "js_record \<Rightarrow> bool" where
  "valid_control_discarded data \<longleftrightarrow> onlyKeys data [''controlEventId'', ''disposition''] [] \<and> safeId (getProp data ''controlEventId'')
     \<and> enum_state (getProp data ''disposition'') [''unused'', ''aborted'', ''timeout'', ''provider_error'', ''run_terminated'']"

definition valid_control_consumed :: "js_record \<Rightarrow> bool" where
  "valid_control_consumed data \<longleftrightarrow> onlyKeys data [''controlEventId'', ''action'', ''targetDigest''] [] \<and> safeId (getProp data ''controlEventId'')
     \<and> enum_state (getProp data ''action'') (map fst CONTROL_ACTIONS) \<and> sha256_digest (getProp data ''targetDigest'')"

definition valid_budget_reserved :: "js_record \<Rightarrow> bool" where
  "valid_budget_reserved data \<longleftrightarrow> onlyKeys data [''reviewRequestId'', ''attemptNumber'', ''reservation''] [] \<and> safeId (getProp data ''reviewRequestId'')
     \<and> positiveInteger (getProp data ''attemptNumber'') \<and> providerUsageValue (getProp data ''reservation'')
     \<and> the_record (getProp data ''reservation'') \<noteq> []"

definition valid_budget_settled :: "js_record \<Rightarrow> bool" where
  "valid_budget_settled data \<longleftrightarrow> onlyKeys data [''reviewRequestId'', ''attemptNumber'', ''disposition'', ''usage''] []
     \<and> safeId (getProp data ''reviewRequestId'') \<and> positiveInteger (getProp data ''attemptNumber'')
     \<and> enum_state (getProp data ''disposition'') [''actual'', ''released_before_provider'', ''remote_outcome_unknown'']
     \<and> providerUsageValue (getProp data ''usage'')"

subsection \<open>Entries\<close>

definition payload_checks :: "entry_host \<Rightarrow> js_value \<Rightarrow> (string \<times> (js_record \<Rightarrow> bool)) list" where
  "payload_checks host runId = [(''session.created'', valid_session_created), (''session.metadata_updated'', valid_metadata_updated),
     (''session.plan_updated'', valid_plan_updated), (''session.closed'', valid_reason), (''session.reopened'', valid_reason),
     (''session.forked'', valid_forked), (''session.deleted'', valid_deleted), (''message.committed'', valid_message),
     (''run.started'', valid_run_started runId), (''run.terminal'', valid_run_terminal runId), (''command.invoked'', valid_command),
     (''skill.invoked'', valid_skill), (''permission.decided'', valid_permission), (''usage.recorded'', valid_usage),
     (''planner.generation_recorded'', valid_generation runId), (''compaction.created'', valid_compaction host),
     (''plan.created'', valid_plan_created), (''plan.state_changed'', valid_plan_state_changed), (''plan.decision_recorded'', valid_plan_decision),
     (''plan.revised'', valid_plan_revised), (''step.created'', valid_step_created), (''step.state_changed'', valid_step_state_changed),
     (''attempt.created'', valid_attempt_created), (''attempt.state_changed'', valid_attempt_state_changed),
     (''attempt.execution_completed'', valid_execution_completed), (''subagent.execution_bound'', valid_execution_bound),
     (''subagent.result_recorded'', valid_result_recorded), (''verification.recorded'', valid_verification),
     (''artifact.referenced'', valid_artifact), (''control.authorized'', valid_control_authorized host),
     (''control.turn_bound'', valid_control_bound), (''control.discarded'', valid_control_discarded),
     (''control.consumed'', valid_control_consumed), (''review_budget.reserved'', valid_budget_reserved),
     (''review_budget.settled'', valid_budget_settled)]"

definition WORKING_PLAN_TYPES :: "string list" where
  "WORKING_PLAN_TYPES = [''working_plan.saved'', ''working_plan.review_requested'', ''working_plan.reviewed'']"

definition validatePayload :: "entry_host \<Rightarrow> string \<Rightarrow> js_record \<Rightarrow> js_value \<Rightarrow> unit entry_result" where
  "validatePayload host type data runId =
     (if type \<in> set WORKING_PLAN_TYPES then validateWorkingPlanEventV1 type data
      else if isReviewPlanEventTypeV1 type
      then (case validateReviewPlanEventV1 (eh_date host) (eh_sha256 host) \<lparr>re_type = type, re_sequence = 1, re_revision = 1,
            re_runId = (if is_string runId then Some (the_string runId) else None), re_correlation = JUndef, re_data = JObj data\<rparr> of
          Inl failure \<Rightarrow> Inl (ENTRY_REVIEW_FAILURE failure) | Inr _ \<Rightarrow> Inr ())
      else (case map_of (payload_checks host runId) type of None \<Rightarrow> Inl SESSION_ENTRY_INVALID
        | Some check \<Rightarrow> require (check data) SESSION_ENTRY_INVALID))"

definition entry_fields_ok :: "js_record \<Rightarrow> bool" where
  "entry_fields_ok input \<longleftrightarrow> (let f = getProp input in
     onlyKeys input [] [''schemaVersion'', ''entryId'', ''sessionId'', ''sequence'', ''revision'', ''timestamp'', ''type'', ''runId'', ''correlation'', ''data'']
     \<and> safeId (f ''entryId'') \<and> safeId (f ''sessionId'') \<and> positiveInteger (f ''sequence'') \<and> positiveInteger (f ''revision'')
     \<and> canonicalInstant (f ''timestamp'') \<and> is_string (f ''type'') \<and> if_defined safeId (f ''runId'') \<and> if_defined validCorrelation (f ''correlation'')
     \<and> is_record (f ''data''))"

definition validateSessionEntryV3 :: "entry_host \<Rightarrow> js_value \<Rightarrow> js_record entry_result" where
  "validateSessionEntryV3 host input = (let r = the_record input; f = getProp r in
     andThen (require (is_record input) SESSION_ENTRY_INVALID) (\<lambda>_.
     andThen (require (f ''schemaVersion'' = jnat 3) SESSION_ENTRY_VERSION_UNSUPPORTED) (\<lambda>_.
     andThen (require (assertJsonValue 0 input) SESSION_ENTRY_INVALID) (\<lambda>_.
     andThen (require (entry_fields_ok r) SESSION_ENTRY_INVALID) (\<lambda>_.
     andThen (validatePayload host (the_string (f ''type'')) (the_record (f ''data'')) (f ''runId'')) (\<lambda>_. Inr r))))))"

end
