(* ===== verification/SessionEntryTypes.thy ===== *)
theory SessionEntryTypes
  imports SessionEntries "HOL-Library.Monad_Syntax"
begin

section \<open>From validated entries to typed entries\<close>

text \<open>
  \<open>validateSessionEntryV3\<close> ends with a cast: it returns the clone of its input as a
  \<open>SessionEntryV3\<close>. Here the cast is written out. \<open>decode_entry\<close> reads a validated object at the types
  the source declares for it, member by member, and is \<open>None\<close> where a member has another type. The
  entries of \<open>SessionJournal\<close> keep the members the reducer reads. \<open>reduceSessionInput\<close> is then the
  reducer on the unvalidated input of the source.
\<close>

subsection \<open>Members\<close>

fun str_of :: "js_value \<Rightarrow> string option" where
  "str_of (JStr s) = Some s"
| "str_of _ = None"

fun bool_of :: "js_value \<Rightarrow> bool option" where
  "bool_of (JBool b) = Some b"
| "bool_of _ = None"

definition nat_of :: "js_value \<Rightarrow> nat option" where
  "nat_of v = (if nonNegativeInteger v then Some (the_nat v) else None)"

fun cost_of :: "js_value \<Rightarrow> rat option" where
  "cost_of (JNum (Whole i)) = Some (of_int i)"
| "cost_of (JNum (Fraction q s)) = Some q"
| "cost_of _ = None"

fun obj_of :: "js_value \<Rightarrow> js_record option" where
  "obj_of (JObj ps) = Some ps"
| "obj_of _ = None"

fun list_of :: "(js_value \<Rightarrow> 'a option) \<Rightarrow> js_value \<Rightarrow> 'a list option" where
  "list_of f (JArr xs) = those (map f xs)"
| "list_of f _ = None"

definition opt_of :: "(js_value \<Rightarrow> 'a option) \<Rightarrow> js_value \<Rightarrow> 'a option option" where
  "opt_of f v = (if v = JUndef then Some None else map_option Some (f v))"

definition PLANNER_MODES :: "(string \<times> planner_mode) list" where
  "PLANNER_MODES = [(''auto'', PM_auto), (''solo'', PM_solo), (''workflow'', PM_workflow), (''direct'', PM_direct), (''supervisor'', PM_supervisor)]"

definition PLAN_POLICIES :: "(string \<times> plan_policy) list" where
  "PLAN_POLICIES = [(''optional'', Plan_optional), (''required'', Plan_required)]"

definition RUN_OUTCOMES :: "(string \<times> run_outcome) list" where
  "RUN_OUTCOMES = [(''completed'', O_completed), (''failed'', O_failed), (''aborted'', O_aborted), (''interrupted'', O_interrupted)]"

definition EXECUTION_STATUSES :: "(string \<times> execution_status) list" where
  "EXECUTION_STATUSES = [(''succeeded'', E_succeeded), (''failed'', E_failed), (''cancelled'', E_cancelled)]"

definition VERIFICATION_STATUSES :: "(string \<times> verification_status) list" where
  "VERIFICATION_STATUSES = [(''passed'', V_passed), (''failed'', V_failed), (''blocked'', V_blocked)]"

definition STEP_CHANGE_REASONS :: "(string \<times> step_change_reason) list" where
  "STEP_CHANGE_REASONS = [(''retry_approved'', Retry_approved), (''recovery_retry_approved'', Recovery_retry_approved),
     (''external_condition_changed'', External_condition_changed)]"

definition CONTROL_DISPOSITIONS :: "(string \<times> control_disposition) list" where
  "CONTROL_DISPOSITIONS = [(''unused'', D_unused), (''aborted'', D_aborted), (''timeout'', D_timeout), (''provider_error'', D_provider_error),
     (''run_terminated'', D_run_terminated)]"

definition BUDGET_DISPOSITIONS :: "(string \<times> budget_disposition) list" where
  "BUDGET_DISPOSITIONS = [(''actual'', B_actual), (''released_before_provider'', B_released_before_provider),
     (''remote_outcome_unknown'', B_remote_outcome_unknown)]"

subsection \<open>Payloads\<close>

definition decode_session_created :: "js_record \<Rightarrow> session_data option" where
  "decode_session_created data = do {
     cwd \<leftarrow> str_of (getProp data ''cwd''); provider \<leftarrow> str_of (getProp data ''provider''); model \<leftarrow> str_of (getProp data ''model'');
     name \<leftarrow> str_of (getProp data ''name''); labels \<leftarrow> list_of str_of (getProp data ''labels'');
     mode \<leftarrow> opt_of (member_of PLANNER_MODES) (getProp data ''plannerMode''); limit \<leftarrow> opt_of nat_of (getProp data ''contextLimitTokens'');
     fork \<leftarrow> opt_of (\<lambda>v. do { r \<leftarrow> obj_of v; p \<leftarrow> str_of (getProp r ''parentSessionId''); s \<leftarrow> str_of (getProp r ''sourceEntryId'');
       Some \<lparr>fk_parentSessionId = p, fk_sourceEntryId = s\<rparr> }) (getProp data ''fork'');
     Some (Session_created \<lparr>sc_cwd = cwd, sc_provider = provider, sc_model = model, sc_name = name, sc_labels = labels, sc_plannerMode = mode,
       sc_contextLimitTokens = limit, sc_fork = fork\<rparr>) }"

definition decode_metadata :: "js_record \<Rightarrow> session_data option" where
  "decode_metadata data = do {
     name \<leftarrow> opt_of str_of (getProp data ''name''); labels \<leftarrow> opt_of (list_of str_of) (getProp data ''labels'');
     provider \<leftarrow> opt_of str_of (getProp data ''provider''); model \<leftarrow> opt_of str_of (getProp data ''model'');
     leaf \<leftarrow> opt_of str_of (getProp data ''activeLeafId''); mode \<leftarrow> opt_of (member_of PLANNER_MODES) (getProp data ''plannerMode'');
     limit \<leftarrow> opt_of nat_of (getProp data ''contextLimitTokens'');
     Some (Session_metadata_updated \<lparr>md_name = name, md_labels = labels, md_provider = provider, md_model = model, md_activeLeafId = leaf,
       md_plannerMode = mode, md_contextLimitTokens = limit\<rparr>) }"

definition decode_provider_usage :: "js_value \<Rightarrow> provider_usage option" where
  "decode_provider_usage v = do {
     r \<leftarrow> obj_of v; i \<leftarrow> opt_of nat_of (getProp r ''inputTokens''); out \<leftarrow> opt_of nat_of (getProp r ''outputTokens'');
     cr \<leftarrow> opt_of nat_of (getProp r ''cacheReadTokens''); cw \<leftarrow> opt_of nat_of (getProp r ''cacheWriteTokens'');
     cost \<leftarrow> opt_of cost_of (getProp r ''costUsd'');
     Some \<lparr>pu_inputTokens = i, pu_outputTokens = out, pu_cacheReadTokens = cr, pu_cacheWriteTokens = cw, pu_costUsd = cost\<rparr> }"

definition decode_budget_usage :: "js_value \<Rightarrow> budget_usage option" where
  "decode_budget_usage v = do {
     r \<leftarrow> obj_of v; turns \<leftarrow> nat_of (getProp r ''turns''); calls \<leftarrow> nat_of (getProp r ''toolCalls''); subs \<leftarrow> nat_of (getProp r ''subagents'');
     p \<leftarrow> decode_provider_usage v;
     Some \<lparr>bu_turns = turns, bu_toolCalls = calls, bu_subagents = subs, bu_provider = p\<rparr> }"

definition decode_run_started :: "js_record \<Rightarrow> session_data option" where
  "decode_run_started data = do {
     client \<leftarrow> str_of (getProp data ''clientRequestId''); policy \<leftarrow> opt_of (member_of PLAN_POLICIES) (getProp data ''planPolicy'');
     Some (Run_started client policy) }"

definition decode_run_terminal :: "js_record \<Rightarrow> session_data option" where
  "decode_run_terminal data = do {
     status \<leftarrow> member_of RUN_OUTCOMES (getProp data ''status''); usage \<leftarrow> decode_provider_usage (getProp data ''usage'');
     code \<leftarrow> opt_of str_of (getProp data ''errorCode''); Some (Run_terminal status usage code) }"

definition decode_generation :: "js_record \<Rightarrow> session_data option" where
  "decode_generation data = do {
     phase \<leftarrow> str_of (getProp data ''phase''); generator \<leftarrow> str_of (getProp data ''generatorId''); source \<leftarrow> str_of (getProp data ''source'');
     status \<leftarrow> str_of (getProp data ''status''); used \<leftarrow> bool_of (getProp data ''fallbackUsed''); route \<leftarrow> opt_of str_of (getProp data ''route'');
     code \<leftarrow> opt_of str_of (getProp data ''failureCode''); origin \<leftarrow> opt_of str_of (getProp data ''fallbackFromCode'');
     Some (Planner_generation_recorded \<lparr>ge_phase = phase, ge_generatorId = generator, ge_source = source, ge_status = status,
       ge_fallbackUsed = used, ge_route = route, ge_failureCode = code, ge_fallbackFromCode = origin\<rparr>) }"

definition decode_summary :: "js_value \<Rightarrow> compaction_summary option" where
  "decode_summary v = do {
     r \<leftarrow> obj_of v; objective \<leftarrow> opt_of str_of (getProp r ''objective''); refs \<leftarrow> opt_of (list_of str_of) (getProp r ''relevantRefs'');
     decisions \<leftarrow> list_of str_of (getProp r ''decisions''); constraints \<leftarrow> list_of str_of (getProp r ''constraints'');
     reads \<leftarrow> list_of str_of (getProp r ''readFiles''); writes \<leftarrow> list_of str_of (getProp r ''modifiedFiles'');
     unresolved \<leftarrow> list_of str_of (getProp r ''unresolved''); active \<leftarrow> list_of str_of (getProp r ''activePlan'');
     Some \<lparr>cs_objective = objective, cs_relevantRefs = refs, cs_decisions = decisions, cs_constraints = constraints, cs_readFiles = reads,
       cs_modifiedFiles = writes, cs_unresolved = unresolved, cs_activePlan = active\<rparr> }"

definition decode_compaction :: "js_record \<Rightarrow> session_data option" where
  "decode_compaction data = do {
     checkpointId \<leftarrow> str_of (getProp data ''checkpointId''); start \<leftarrow> nat_of (getProp data ''coveredStartSequence'');
     finish \<leftarrow> nat_of (getProp data ''coveredEndSequence''); previous \<leftarrow> opt_of str_of (getProp data ''previousCheckpointId'');
     retained \<leftarrow> nat_of (getProp data ''retainedStartSequence''); summary \<leftarrow> decode_summary (getProp data ''summary'');
     digest \<leftarrow> str_of (getProp data ''summaryDigest''); tokens \<leftarrow> nat_of (getProp data ''summaryTokens''); reason \<leftarrow> str_of (getProp data ''reason'');
     Some (Compaction_created \<lparr>cd_checkpointId = checkpointId, cd_coveredStart = start, cd_coveredEnd = finish, cd_previousCheckpointId = previous,
       cd_retainedStart = retained, cd_summary = summary, cd_provenance = getProp data ''provenance'', cd_summaryDigest = digest,
       cd_summaryTokens = tokens, cd_reason = reason, cd_checkpoint = optional (getProp data ''checkpoint'')\<rparr>) }"

definition decode_authority :: "js_record \<Rightarrow> step_authority option" where
  "decode_authority data = do {
     p \<leftarrow> str_of (getProp data ''planId''); n \<leftarrow> nat_of (getProp data ''planRevision''); s \<leftarrow> str_of (getProp data ''stepId'');
     Some \<lparr>sy_planId = p, sy_planRevision = n, sy_stepId = s\<rparr> }"

definition decode_plan_created :: "js_record \<Rightarrow> plan_event option" where
  "decode_plan_created data = do {
     p \<leftarrow> str_of (getProp data ''planId''); n \<leftarrow> nat_of (getProp data ''planRevision''); objective \<leftarrow> str_of (getProp data ''objective'');
     state \<leftarrow> member_of PlanContract.PLAN_STATES (getProp data ''state''); Some (Plan_created p n objective state) }"

definition decode_plan_state_changed :: "js_record \<Rightarrow> plan_event option" where
  "decode_plan_state_changed data = do {
     p \<leftarrow> str_of (getProp data ''planId''); n \<leftarrow> nat_of (getProp data ''planRevision''); state \<leftarrow> member_of PlanContract.PLAN_STATES (getProp data ''state'');
     Some (Plan_state_changed p n state) }"

definition decode_plan_decision :: "js_record \<Rightarrow> plan_event option" where
  "decode_plan_decision data = do {
     p \<leftarrow> str_of (getProp data ''planId''); n \<leftarrow> nat_of (getProp data ''planRevision''); step \<leftarrow> opt_of str_of (getProp data ''stepId'');
     attempt \<leftarrow> opt_of str_of (getProp data ''attemptId''); Some (Plan_decision_recorded p n step attempt) }"

definition decode_plan_revised :: "js_record \<Rightarrow> plan_event option" where
  "decode_plan_revised data = do {
     p \<leftarrow> str_of (getProp data ''planId''); m \<leftarrow> nat_of (getProp data ''fromRevision''); n \<leftarrow> nat_of (getProp data ''toRevision'');
     objective \<leftarrow> str_of (getProp data ''objective''); state \<leftarrow> member_of PlanContract.PLAN_STATES (getProp data ''state'');
     proofs \<leftarrow> list_of (\<lambda>v. do { r \<leftarrow> obj_of v; s \<leftarrow> str_of (getProp r ''stepId''); a \<leftarrow> str_of (getProp r ''previousInputDigest'');
       b \<leftarrow> str_of (getProp r ''nextInputDigest''); Some \<lparr>rf_stepId = s, rf_previousInputDigest = a, rf_nextInputDigest = b\<rparr> })
       (getProp data ''reuseProofs'');
     Some (Plan_revised p m n objective state proofs) }"

text \<open>The step has the values \<open>validatePlanStepV1\<close> reads from the same members.\<close>

definition decode_step_created :: "js_record \<Rightarrow> plan_event option" where
  "decode_step_created data = do {
     authority \<leftarrow> decode_authority data;
     case validatePlanStepV1 (plan_step_object data) of Inl _ \<Rightarrow> None
     | Inr s \<Rightarrow> Some (Step_created authority \<lparr>ms_stepId = ps_stepId s, ms_title = ps_title s, ms_order = ps_order s, ms_state = ps_state s,
         ms_errorCode = None, ms_dependencies = ps_dependencies s, ms_access = ps_access s, ms_capabilities = ps_capabilities s,
         ms_conflictKeys = ps_conflictKeys s, ms_criteria = ps_criteria s, ms_budget = ps_budget s, ms_maxAttempts = ps_maxAttempts s,
         ms_attempts = []\<rparr>) }"

definition decode_step_state_changed :: "js_record \<Rightarrow> plan_event option" where
  "decode_step_state_changed data = do {
     authority \<leftarrow> decode_authority data; state \<leftarrow> member_of PlanContract.STEP_STATES (getProp data ''state'');
     reason \<leftarrow> opt_of (member_of STEP_CHANGE_REASONS) (getProp data ''reason''); attempt \<leftarrow> opt_of str_of (getProp data ''newAttemptId'');
     code \<leftarrow> opt_of str_of (getProp data ''errorCode''); Some (Step_state_changed authority state reason attempt code) }"

definition decode_attempt_created :: "js_record \<Rightarrow> plan_event option" where
  "decode_attempt_created data = do {
     authority \<leftarrow> decode_authority data; attempt \<leftarrow> str_of (getProp data ''attemptId''); ordinal \<leftarrow> nat_of (getProp data ''ordinal'');
     state \<leftarrow> member_of PlanContract.ATTEMPT_STATES (getProp data ''state''); child \<leftarrow> opt_of str_of (getProp data ''childRunId'');
     Some (Plan_attempt_created authority attempt ordinal state child) }"

definition decode_attempt_state_changed :: "js_record \<Rightarrow> plan_event option" where
  "decode_attempt_state_changed data = do {
     authority \<leftarrow> decode_authority data; attempt \<leftarrow> str_of (getProp data ''attemptId''); state \<leftarrow> member_of PlanContract.ATTEMPT_STATES (getProp data ''state'');
     code \<leftarrow> opt_of str_of (getProp data ''errorCode''); Some (Plan_attempt_state_changed authority attempt state code) }"

definition decode_execution_completed :: "js_record \<Rightarrow> plan_event option" where
  "decode_execution_completed data = do {
     authority \<leftarrow> decode_authority data; attempt \<leftarrow> str_of (getProp data ''attemptId''); status \<leftarrow> member_of EXECUTION_STATUSES (getProp data ''status'');
     Some (Attempt_execution_completed authority attempt status) }"

definition decode_execution_bound :: "js_record \<Rightarrow> plan_event option" where
  "decode_execution_bound data = do {
     authority \<leftarrow> decode_authority data; attempt \<leftarrow> str_of (getProp data ''attemptId''); child \<leftarrow> str_of (getProp data ''childRunId'');
     request \<leftarrow> obj_of (getProp data ''request''); parent \<leftarrow> str_of (getProp request ''parentRunId''); bound \<leftarrow> str_of (getProp request ''childRunId'');
     packet \<leftarrow> obj_of (getProp request ''packetRef''); digest \<leftarrow> str_of (getProp packet ''digest''); safety \<leftarrow> str_of (getProp data ''retrySafety'');
     Some (Subagent_execution_bound authority attempt child \<lparr>xb_parentRunId = parent, xb_childRunId = bound, xb_packetDigest = digest,
       xb_retrySafety = safety\<rparr>) }"

definition decode_result_recorded :: "js_record \<Rightarrow> plan_event option" where
  "decode_result_recorded data = do {
     authority \<leftarrow> decode_authority data; attempt \<leftarrow> str_of (getProp data ''attemptId''); child \<leftarrow> str_of (getProp data ''childRunId'');
     ref \<leftarrow> str_of (getProp data ''resultRef''); digest \<leftarrow> str_of (getProp data ''resultDigest'');
     status \<leftarrow> member_of EXECUTION_STATUSES (getProp data ''status''); Some (Subagent_result_recorded authority attempt child ref digest status) }"

definition decode_verification :: "js_record \<Rightarrow> plan_event option" where
  "decode_verification data = do {
     authority \<leftarrow> decode_authority data; attempt \<leftarrow> str_of (getProp data ''attemptId''); i \<leftarrow> str_of (getProp data ''verificationId'');
     verifier \<leftarrow> str_of (getProp data ''verifier''); status \<leftarrow> member_of VERIFICATION_STATUSES (getProp data ''status'');
     refs \<leftarrow> list_of str_of (getProp data ''evidenceRefs''); code \<leftarrow> opt_of str_of (getProp data ''code'');
     retryable \<leftarrow> opt_of bool_of (getProp data ''retryable'');
     Some (Verification_recorded authority attempt \<lparr>sv_verificationId = i, sv_verifier = verifier, sv_status = status, sv_evidenceRefs = refs,
       sv_code = code, sv_retryable = retryable\<rparr>) }"

definition decode_control_fact :: "js_value \<Rightarrow> control_fact option" where
  "decode_control_fact v = do {
     r \<leftarrow> obj_of v; event \<leftarrow> str_of (getProp r ''controlEventId''); actor \<leftarrow> str_of (getProp r ''actorId'');
     binding \<leftarrow> str_of (getProp r ''actorBindingDigest''); session \<leftarrow> str_of (getProp r ''sessionId'');
     action \<leftarrow> member_of CONTROL_ACTIONS (getProp r ''action''); reason \<leftarrow> str_of (getProp r ''reasonCode'');
     target \<leftarrow> str_of (getProp r ''targetDigest''); challenge \<leftarrow> str_of (getProp r ''challengeId'');
     challengeDigest \<leftarrow> str_of (getProp r ''challengeDigest''); token \<leftarrow> str_of (getProp r ''tokenDigest'');
     issued \<leftarrow> str_of (getProp r ''issuedAt''); expires \<leftarrow> str_of (getProp r ''expiresAt'');
     run \<leftarrow> opt_of str_of (getProp r ''runId''); turn \<leftarrow> opt_of str_of (getProp r ''providerTurnId'');
     Some \<lparr>cf_controlEventId = event, cf_actorId = actor, cf_actorBindingDigest = binding, cf_sessionId = session, cf_action = action,
       cf_reasonCode = reason, cf_target = getProp r ''target'', cf_targetDigest = target, cf_challengeId = challenge,
       cf_challengeDigest = challengeDigest, cf_tokenDigest = token, cf_issuedAt = issued, cf_expiresAt = expires, cf_runId = run,
       cf_providerTurnId = turn\<rparr> }"

definition decode_working_plan :: "js_value \<Rightarrow> working_plan option" where
  "decode_working_plan v = do {
     p \<leftarrow> obj_of v; i \<leftarrow> str_of (getProp p ''planId''); n \<leftarrow> nat_of (getProp p ''revision''); objective \<leftarrow> str_of (getProp p ''objective'');
     state \<leftarrow> str_of (getProp p ''state'');
     items \<leftarrow> list_of (\<lambda>item. do { r \<leftarrow> obj_of item; i \<leftarrow> str_of (getProp r ''id''); title \<leftarrow> str_of (getProp r ''title'');
       status \<leftarrow> str_of (getProp r ''status''); Some \<lparr>wi_id = i, wi_title = title, wi_status = status\<rparr> }) (getProp p ''items'');
     Some \<lparr>wp_planId = i, wp_revision = n, wp_objective = objective, wp_state = state, wp_items = items\<rparr> }"

definition decode_working_review :: "js_value \<Rightarrow> working_review option" where
  "decode_working_review v = do {
     r \<leftarrow> obj_of v; i \<leftarrow> str_of (getProp r ''reviewRequestId''); operation \<leftarrow> str_of (getProp r ''operationId'');
     inputDigest \<leftarrow> str_of (getProp r ''inputDigest''); inputRef \<leftarrow> str_of (getProp r ''inputRef''); request \<leftarrow> str_of (getProp r ''requestDigest'');
     revision \<leftarrow> (if getProp r ''planRevision'' = JNull then Some None else map_option Some (nat_of (getProp r ''planRevision'')));
     snapshot \<leftarrow> nat_of (getProp r ''snapshotSequence''); evidence \<leftarrow> nat_of (getProp r ''evidenceSequence'');
     report \<leftarrow> opt_of str_of (getProp r ''reportRef''); verdict \<leftarrow> opt_of str_of (getProp r ''verdict'');
     Some \<lparr>wr_reviewRequestId = i, wr_operationId = operation, wr_inputDigest = inputDigest, wr_inputRef = inputRef, wr_requestDigest = request,
       wr_planRevision = revision, wr_snapshotSequence = snapshot, wr_evidenceSequence = evidence, wr_reportRef = report, wr_verdict = verdict\<rparr> }"

definition decode_budget_reserved :: "js_record \<Rightarrow> session_data option" where
  "decode_budget_reserved data = do {
     i \<leftarrow> str_of (getProp data ''reviewRequestId''); n \<leftarrow> nat_of (getProp data ''attemptNumber'');
     usage \<leftarrow> decode_provider_usage (getProp data ''reservation''); Some (Review_budget_reserved i n usage) }"

definition decode_budget_settled :: "js_record \<Rightarrow> session_data option" where
  "decode_budget_settled data = do {
     i \<leftarrow> str_of (getProp data ''reviewRequestId''); n \<leftarrow> nat_of (getProp data ''attemptNumber'');
     disposition \<leftarrow> member_of BUDGET_DISPOSITIONS (getProp data ''disposition''); usage \<leftarrow> decode_provider_usage (getProp data ''usage'');
     Some (Review_budget_settled i n disposition usage) }"

definition decode_control_authorized :: "js_record \<Rightarrow> session_data option" where
  "decode_control_authorized data = do {
     i \<leftarrow> str_of (getProp data ''authorizationRequestId''); digest \<leftarrow> str_of (getProp data ''challengeEnvelopeDigest'');
     authorized \<leftarrow> decode_control_fact (getProp data ''fact''); Some (Control_authorized i digest authorized) }"

definition decode_artifact :: "js_record \<Rightarrow> session_data option" where
  "decode_artifact data = do {
     artifact \<leftarrow> obj_of (getProp data ''artifact''); i \<leftarrow> str_of (getProp artifact ''artifactId'');
     Some (Artifact_referenced i (getProp data ''artifact'')) }"

definition decode_member :: "string \<Rightarrow> (string \<Rightarrow> session_data) \<Rightarrow> js_record \<Rightarrow> session_data option" where
  "decode_member name build data = map_option build (str_of (getProp data name))"

definition plan_payload :: "(js_record \<Rightarrow> plan_event option) \<Rightarrow> js_record \<Rightarrow> session_data option" where
  "plan_payload decode data = map_option Plan_entry (decode data)"

definition payload_decoders :: "(string \<times> (js_record \<Rightarrow> session_data option)) list" where
  "payload_decoders = [(''session.created'', decode_session_created), (''session.metadata_updated'', decode_metadata),
     (''session.plan_updated'', \<lambda>_. Some Session_plan_updated), (''session.closed'', \<lambda>_. Some Session_closed),
     (''session.reopened'', \<lambda>_. Some Session_reopened),
     (''session.forked'', \<lambda>data. do { c \<leftarrow> str_of (getProp data ''childSessionId''); s \<leftarrow> str_of (getProp data ''sourceEntryId''); Some (Session_forked c s) }),
     (''session.deleted'', \<lambda>_. Some Session_deleted), (''message.committed'', \<lambda>data. decode_member ''messageId'' (\<lambda>i. Message_committed i (getProp data ''message'')) data),
     (''run.started'', decode_run_started), (''run.terminal'', decode_run_terminal),
     (''command.invoked'', \<lambda>data. do { i \<leftarrow> str_of (getProp data ''commandId''); ref \<leftarrow> opt_of str_of (getProp data ''resultRef''); Some (Command_invoked i ref) }),
     (''skill.invoked'', decode_member ''invocationId'' Skill_invoked), (''permission.decided'', decode_member ''requestId'' Permission_decided),
     (''usage.recorded'', \<lambda>data. map_option Usage_recorded (decode_budget_usage (getProp data ''usage''))),
     (''planner.generation_recorded'', decode_generation), (''compaction.created'', decode_compaction),
     (''plan.created'', plan_payload decode_plan_created), (''plan.state_changed'', plan_payload decode_plan_state_changed),
     (''plan.decision_recorded'', plan_payload decode_plan_decision), (''plan.revised'', plan_payload decode_plan_revised),
     (''step.created'', plan_payload decode_step_created), (''step.state_changed'', plan_payload decode_step_state_changed),
     (''attempt.created'', plan_payload decode_attempt_created), (''attempt.state_changed'', plan_payload decode_attempt_state_changed),
     (''attempt.execution_completed'', plan_payload decode_execution_completed), (''subagent.execution_bound'', plan_payload decode_execution_bound),
     (''subagent.result_recorded'', plan_payload decode_result_recorded), (''verification.recorded'', plan_payload decode_verification),
     (''artifact.referenced'', decode_artifact), (''control.authorized'', decode_control_authorized),
     (''control.turn_bound'', \<lambda>data. do { i \<leftarrow> str_of (getProp data ''controlEventId''); r \<leftarrow> str_of (getProp data ''runId'');
        turn \<leftarrow> str_of (getProp data ''providerTurnId''); Some (Control_turn_bound i r turn) }),
     (''control.discarded'', \<lambda>data. do { i \<leftarrow> str_of (getProp data ''controlEventId'');
        d \<leftarrow> member_of CONTROL_DISPOSITIONS (getProp data ''disposition''); Some (Control_discarded i d) }),
     (''control.consumed'', \<lambda>data. do { i \<leftarrow> str_of (getProp data ''controlEventId''); a \<leftarrow> member_of CONTROL_ACTIONS (getProp data ''action'');
        digest \<leftarrow> str_of (getProp data ''targetDigest''); Some (Control_consumed i a digest) }),
     (''review_budget.reserved'', decode_budget_reserved), (''review_budget.settled'', decode_budget_settled)]"

definition decode_payload :: "string \<Rightarrow> js_record \<Rightarrow> session_data option" where
  "decode_payload type data =
     (if type = ''working_plan.saved'' then map_option Working_plan_saved (decode_working_plan (getProp data ''plan''))
      else if type = ''working_plan.review_requested'' then map_option Working_review_requested (decode_working_review (getProp data ''review''))
      else if type = ''working_plan.reviewed'' then map_option Working_reviewed (decode_working_review (getProp data ''review''))
      else if isReviewPlanEventTypeV1 type then Some (Review_plan_entry type (JObj data))
      else case map_of payload_decoders type of None \<Rightarrow> None | Some decode \<Rightarrow> decode data)"

definition decode_correlation :: "js_value \<Rightarrow> (string \<times> string) list option" where
  "decode_correlation v = do { r \<leftarrow> obj_of v; those (map (\<lambda>(k, w). map_option (Pair k) (str_of w)) r) }"

definition decode_entry :: "js_record \<Rightarrow> session_entry option" where
  "decode_entry r = do {
     i \<leftarrow> str_of (getProp r ''entryId''); session \<leftarrow> str_of (getProp r ''sessionId''); sequence \<leftarrow> nat_of (getProp r ''sequence'');
     revision \<leftarrow> nat_of (getProp r ''revision''); time \<leftarrow> str_of (getProp r ''timestamp''); run \<leftarrow> opt_of str_of (getProp r ''runId'');
     correlation \<leftarrow> opt_of decode_correlation (getProp r ''correlation''); type \<leftarrow> str_of (getProp r ''type'');
     data \<leftarrow> obj_of (getProp r ''data''); payload \<leftarrow> decode_payload type data;
     Some \<lparr>en_entryId = i, en_sessionId = session, en_sequence = sequence, en_revision = revision, en_timestamp = time, en_runId = run,
       en_correlation = case_option [] id correlation, en_data = payload\<rparr> }"

subsection \<open>The reducer on its input\<close>

text \<open>
  An entry that is accepted and not typed, which the source goes on with, is the last error; the
  properties say when there is none.
\<close>

datatype input_error =
    Input_rejected entry_error
  | Input_failed session_error
  | Input_untyped

definition entry_host_of :: "session_env \<Rightarrow> (string \<Rightarrow> js_number) \<Rightarrow> entry_host" where
  "entry_host_of env number = \<lparr>eh_date = se_hostDate env, eh_sha256 = se_sha256 env, eh_number = number\<rparr>"

definition read_entries :: "entry_host \<Rightarrow> js_value list \<Rightarrow> (input_error + session_entry list)" where
  "read_entries host input = (case mapR (validateSessionEntryV3 host) input of Inl failure \<Rightarrow> Inl (Input_rejected failure)
     | Inr accepted \<Rightarrow> (case those (map decode_entry accepted) of None \<Rightarrow> Inl Input_untyped | Some entries \<Rightarrow> Inr entries))"

definition reduceSessionInput :: "session_env \<Rightarrow> (string \<Rightarrow> js_number) \<Rightarrow> (string \<Rightarrow> string \<Rightarrow> bool) \<Rightarrow> js_value list
    \<Rightarrow> (input_error + session_projection)" where
  "reduceSessionInput env number locale_le input =
     (if input = [] \<or> MAX_ENTRIES < length input then Inl (Input_failed SESSION_REDUCER_FIRST_ENTRY_INVALID)
      else andThen (read_entries (entry_host_of env number) input) (\<lambda>entries.
        case reduceSessionEntriesV3 env locale_le entries of Inl failure \<Rightarrow> Inl (Input_failed failure) | Inr p \<Rightarrow> Inr p))"

end
