(* ===== verification/SessionEntryTyping.thy ===== *)
theory SessionEntryTyping
  imports SessionEntryTypes
begin

section \<open>Accepted entries have the declared types\<close>

text \<open>
  The cast at the end of \<open>validateSessionEntryV3\<close>: an accepted payload decodes, type by type. The
  exceptions are the members that the validator only tests through \<open>String\<close> or not at all;
  \<open>tested_members\<close> says that they are strings.
\<close>

named_theorems typing \<open>checks that give the type of a member\<close>

definition typed :: "'a option \<Rightarrow> bool" where
  "typed m \<longleftrightarrow> m \<noteq> None"

lemma typed_Some [simp]: "typed (Some x)"
  by (simp add: typed_def)

lemma typed_map [simp]: "typed (map_option f m) = typed m"
  by (simp add: typed_def)

lemma typed_bind: "(\<And>x. typed (f x)) \<Longrightarrow> typed m \<Longrightarrow> typed (m \<bind> f)"
  by (cases m) (simp_all add: typed_def)

lemma typed_obj: "typed (f (the_record v)) \<Longrightarrow> is_record v \<Longrightarrow> typed (obj_of v \<bind> f)"
  by (cases v) (simp_all add: typed_def)

lemma typed_str [simp]: "typed (str_of v) = is_string v"
  by (cases v) (simp_all add: typed_def)

lemma typed_bool [simp]: "typed (bool_of v) = is_bool v"
  by (cases v) (simp_all add: typed_def)

lemma typed_nat [simp]: "typed (nat_of v) = nonNegativeInteger v"
  by (simp add: typed_def nat_of_def)

lemma typed_member [simp]: "typed (member_of table v) = enum_state v (map fst table)"
  by (cases v) (auto simp: typed_def enum_state_def member_of.simps map_of_eq_None_iff)

lemma typed_opt [simp]: "typed (opt_of f v) = if_defined (\<lambda>v. typed (f v)) v"
  by (simp add: opt_of_def if_defined_def)

lemma typed_those: "typed (those ms) = list_all typed ms"
  by (induction ms) (auto simp: typed_def split: option.splits)

lemma typed_list [simp]: "typed (list_of f v) = (is_array v \<and> list_all (\<lambda>x. typed (f x)) (the_array v))"
  by (cases v) (simp_all add: typed_those list.pred_map comp_def, simp_all add: typed_def)

lemma typed_cost: "cost_value v \<Longrightarrow> typed (cost_of v)"
  by (cases v rule: cost_value.cases) auto

lemma obj_of_record: "is_record v \<Longrightarrow> obj_of v = Some (the_record v)"
  by (cases v) auto

lemma if_defined_mono: "if_defined P v \<Longrightarrow> (P v \<Longrightarrow> Q v) \<Longrightarrow> if_defined Q v"
  by (auto simp: if_defined_def)

lemma string_checks [typing]:
  "safeId v \<Longrightarrow> is_string v" "sha256_digest v \<Longrightarrow> is_string v" "entry_text v \<Longrightarrow> is_string v"
  "enum_state v xs \<Longrightarrow> is_string v" "working_text v \<Longrightarrow> is_string v"
  by (auto simp: safeId_iff sha256_digest_iff entry_text_def enum_state_def working_text_def)

lemma positive_nat [typing]: "positiveInteger v \<Longrightarrow> nonNegativeInteger v"
  by (simp add: positiveInteger_def nonNegativeInteger_def)

lemma instant_string [typing]: "canonicalInstant v \<Longrightarrow> is_string v"
  by (cases v) simp_all

lemma string_list_checks [typing]:
  "entry_strings v \<Longrightarrow> is_array v" "entry_strings v \<Longrightarrow> list_all is_string (the_array v)"
  by (auto simp: entry_strings_def entry_text_def list_all_iff)

lemma state_checks [typing]:
  "entry_plan_state v \<Longrightarrow> enum_state v (map fst PlanContract.PLAN_STATES)"
  "entry_step_state v \<Longrightarrow> enum_state v (map fst PlanContract.STEP_STATES)"
  "entry_attempt_state v \<Longrightarrow> enum_state v (map fst PlanContract.ATTEMPT_STATES)"
  "planner_mode_value v \<Longrightarrow> enum_state v (map fst PLANNER_MODES)"
  by (auto simp: entry_plan_state_def entry_step_state_def entry_attempt_state_def planner_mode_value_def enum_state_def
      PlanContract.PLAN_STATES_def PlanContract.STEP_STATES_def PlanContract.ATTEMPT_STATES_def PLANNER_MODES_def)

lemma optional_checks [typing]:
  "if_defined safeId v \<Longrightarrow> if_defined is_string v" "if_defined entry_text v \<Longrightarrow> if_defined is_string v"
  "if_defined planner_mode_value v \<Longrightarrow> if_defined (\<lambda>v. enum_state v (map fst PLANNER_MODES)) v"
  "if_defined positiveInteger v \<Longrightarrow> if_defined nonNegativeInteger v"
  "if_defined entry_strings v \<Longrightarrow> if_defined (\<lambda>v. is_array v \<and> list_all is_string (the_array v)) v"
  by (auto simp: typing elim!: if_defined_mono)

subsection \<open>Payloads\<close>

lemma session_created_typed: "valid_session_created data \<Longrightarrow> typed (decode_session_created data)"
  unfolding valid_session_created_def decode_session_created_def Let_def
  by (elim conjE, (rule typed_obj typed_bind)+; simp (no_asm_simp) add: typing)
    (erule if_defined_mono, elim conjE, (rule typed_obj typed_bind)+; simp (no_asm_simp) add: typing)

lemma metadata_typed: "valid_metadata_updated data \<Longrightarrow> typed (decode_metadata data)"
  unfolding valid_metadata_updated_def decode_metadata_def Let_def
  by ((rule typed_obj typed_bind)+; simp (no_asm_simp) add: typing)

lemma usage_member: "validateUsageCounts r \<Longrightarrow> k \<noteq> ''costUsd'' \<Longrightarrow> if_defined nonNegativeInteger (getProp r k)"
  by (auto simp: validateUsageCounts_def if_defined_def getProp_def list_all_iff split: option.splits dest!: map_of_SomeD)

lemma cost_member: "validateUsageCounts r \<Longrightarrow> if_defined cost_value (getProp r ''costUsd'')"
  by (auto simp: validateUsageCounts_def if_defined_def getProp_def list_all_iff split: option.splits dest!: map_of_SomeD)

lemma usage_counts_typed: "is_record v \<Longrightarrow> validateUsageCounts (the_record v) \<Longrightarrow> typed (decode_provider_usage v)"
  unfolding decode_provider_usage_def
  by ((rule typed_obj typed_bind)+; simp (no_asm_simp) add: usage_member) (auto intro: if_defined_mono[OF cost_member] typed_cost)

lemma provider_usage_typed [typing]: "providerUsageValue v \<Longrightarrow> typed (decode_provider_usage v)"
  by (simp add: providerUsageValue_def usage_counts_typed)

lemma usage_required: "validateUsageCounts r \<Longrightarrow> hasOwn r k \<Longrightarrow> k \<noteq> ''costUsd'' \<Longrightarrow> nonNegativeInteger (getProp r k)"
  by (cases "map_of r k") (auto simp: validateUsageCounts_def hasOwn_def getProp_def list_all_iff dest!: map_of_SomeD)

lemma budget_usage_typed [typing]: "budgetUsageValue v \<Longrightarrow> typed (decode_budget_usage v)"
  unfolding budgetUsageValue_def decode_budget_usage_def
  by (elim conjE, (rule typed_obj typed_bind)+; simp add: usage_required usage_counts_typed onlyKeys_def)

lemma run_started_typed: "valid_run_started runId data \<Longrightarrow> typed (decode_run_started data)"
  unfolding valid_run_started_def decode_run_started_def
  by ((rule typed_obj typed_bind)+; simp (no_asm_simp) add: typing PLAN_POLICIES_def)

lemma run_terminal_typed: "valid_run_terminal runId data \<Longrightarrow> typed (decode_run_terminal data)"
  unfolding valid_run_terminal_def decode_run_terminal_def
  by ((rule typed_obj typed_bind)+; simp (no_asm_simp) add: typing RUN_OUTCOMES_def)

lemma generation_typed: "valid_generation runId data \<Longrightarrow> typed (decode_generation data)"
  unfolding valid_generation_def decode_generation_def Let_def
  by (elim conjE, (rule typed_obj typed_bind)+; simp (no_asm_simp) add: typing) (auto simp: if_defined_def typing)

lemma summary_typed [typing]: "compactionSummary v \<Longrightarrow> typed (decode_summary v)"
  unfolding compactionSummary_def decode_summary_def Let_def list.pred_inject
  by (elim conjE, (rule typed_obj typed_bind)+; simp (no_asm_simp) add: typing)

lemma compaction_typed: "valid_compaction host data \<Longrightarrow> typed (decode_compaction data)"
  unfolding valid_compaction_def decode_compaction_def Let_def
  by (elim conjE, (rule typed_obj typed_bind)+; simp (no_asm_simp) add: typing)

lemma authority_typed [typing]: "plan_fields data \<Longrightarrow> safeId (getProp data ''stepId'') \<Longrightarrow> typed (decode_authority data)"
  unfolding plan_fields_def decode_authority_def by (elim conjE, (rule typed_obj typed_bind)+; simp (no_asm_simp) add: typing)

lemma attempt_authority_typed [typing]: "attempt_fields data \<Longrightarrow> typed (decode_authority data)"
  by (simp add: attempt_fields_def authority_typed)

lemma attempt_id_typed [typing]: "attempt_fields data \<Longrightarrow> is_string (getProp data ''attemptId'')"
  by (simp add: attempt_fields_def typing)

lemma plan_created_typed: "valid_plan_created data \<Longrightarrow> typed (decode_plan_created data)"
  unfolding valid_plan_created_def plan_fields_def decode_plan_created_def by (elim conjE, (rule typed_obj typed_bind)+; simp (no_asm_simp) add: typing)

lemma plan_state_changed_typed: "valid_plan_state_changed data \<Longrightarrow> typed (decode_plan_state_changed data)"
  unfolding valid_plan_state_changed_def plan_fields_def decode_plan_state_changed_def by (elim conjE, (rule typed_obj typed_bind)+; simp (no_asm_simp) add: typing)

lemma plan_decision_typed: "valid_plan_decision data \<Longrightarrow> typed (decode_plan_decision data)"
  unfolding valid_plan_decision_def plan_fields_def decode_plan_decision_def Let_def by (elim conjE, (rule typed_obj typed_bind)+; simp (no_asm_simp) add: typing)

lemma reuse_proof_typed: "is_record v \<and> onlyKeys (the_record v) ks [] \<and> safeId (getProp (the_record v) ''stepId'')
     \<and> sha256_digest (getProp (the_record v) ''previousInputDigest'') \<and> sha256_digest (getProp (the_record v) ''nextInputDigest'') \<Longrightarrow>
   typed (do { r \<leftarrow> obj_of v; s \<leftarrow> str_of (getProp r ''stepId''); a \<leftarrow> str_of (getProp r ''previousInputDigest'');
     b \<leftarrow> str_of (getProp r ''nextInputDigest''); Some \<lparr>rf_stepId = s, rf_previousInputDigest = a, rf_nextInputDigest = b\<rparr> })"
  by (elim conjE, (rule typed_obj typed_bind)+; simp (no_asm_simp) add: typing)

lemma reuse_proofs_typed: "replanReuseProofs v \<Longrightarrow> typed (list_of (\<lambda>v. do { r \<leftarrow> obj_of v; s \<leftarrow> str_of (getProp r ''stepId'');
    a \<leftarrow> str_of (getProp r ''previousInputDigest''); b \<leftarrow> str_of (getProp r ''nextInputDigest'');
    Some \<lparr>rf_stepId = s, rf_previousInputDigest = a, rf_nextInputDigest = b\<rparr> }) v)"
  unfolding replanReuseProofs_def records_def typed_list by (auto elim!: list.pred_mono_strong intro!: reuse_proof_typed)

lemma plan_revised_typed: "valid_plan_revised data \<Longrightarrow> typed (decode_plan_revised data)"
  unfolding valid_plan_revised_def decode_plan_revised_def Let_def
  by (elim conjE, (rule typed_obj typed_bind)+; (rule reuse_proofs_typed, assumption | simp (no_asm_simp) add: typing PlanContract.PLAN_STATES_def enum_state_def))

lemma step_created_typed: "valid_step_created data \<Longrightarrow> typed (decode_step_created data)"
  unfolding valid_step_created_def decode_step_created_def Let_def validatePlanStepPayload_def
  by (elim conjE, (rule typed_obj typed_bind)+) (auto simp: typing split: sum.splits)

lemma step_state_changed_typed: "valid_step_state_changed data \<Longrightarrow> typed (decode_step_state_changed data)"
  unfolding valid_step_state_changed_def decode_step_state_changed_def Let_def
  by (elim conjE, (rule typed_obj typed_bind)+; simp (no_asm_simp) add: typing) (auto simp: if_defined_def typing STEP_CHANGE_REASONS_def)

lemma attempt_created_typed: "valid_attempt_created data \<Longrightarrow> typed (decode_attempt_created data)"
  unfolding valid_attempt_created_def decode_attempt_created_def by (elim conjE, (rule typed_obj typed_bind)+; simp (no_asm_simp) add: typing)

lemma attempt_state_changed_typed: "valid_attempt_state_changed data \<Longrightarrow> typed (decode_attempt_state_changed data)"
  unfolding valid_attempt_state_changed_def decode_attempt_state_changed_def Let_def by (elim conjE, (rule typed_obj typed_bind)+; simp (no_asm_simp) add: typing)

lemma execution_completed_typed: "valid_execution_completed data \<Longrightarrow> typed (decode_execution_completed data)"
  unfolding valid_execution_completed_def decode_execution_completed_def
  by (elim conjE, (rule typed_obj typed_bind)+; simp (no_asm_simp) add: typing EXECUTION_STATUSES_def)

lemma execution_bound_typed: "valid_execution_bound data \<Longrightarrow> typed (decode_execution_bound data)"
  unfolding valid_execution_bound_def validateSubagentExecutionRequestV1_def versionedRef_def decode_execution_bound_def Let_def
  by (elim conjE, (rule typed_obj typed_bind)+; simp (no_asm_simp) add: typing)

lemma result_recorded_typed: "valid_result_recorded data \<Longrightarrow> typed (decode_result_recorded data)"
  unfolding valid_result_recorded_def decode_result_recorded_def Let_def
  by (elim conjE, (rule typed_obj typed_bind)+; simp (no_asm_simp) add: typing EXECUTION_STATUSES_def)

lemma verification_typed: "valid_verification data \<Longrightarrow> typed (decode_verification data)"
  unfolding valid_verification_def decode_verification_def Let_def
  by (elim conjE, (rule typed_obj typed_bind)+; simp (no_asm_simp) add: typing VERIFICATION_STATUSES_def)

lemma budget_reserved_typed: "valid_budget_reserved data \<Longrightarrow> typed (decode_budget_reserved data)"
  unfolding valid_budget_reserved_def decode_budget_reserved_def by (elim conjE, (rule typed_obj typed_bind)+; simp (no_asm_simp) add: typing)

lemma budget_settled_typed: "valid_budget_settled data \<Longrightarrow> typed (decode_budget_settled data)"
  unfolding valid_budget_settled_def decode_budget_settled_def
  by (elim conjE, (rule typed_obj typed_bind)+; simp (no_asm_simp) add: typing BUDGET_DISPOSITIONS_def)

lemma artifact_typed: "valid_artifact data \<Longrightarrow> typed (decode_artifact data)"
  unfolding valid_artifact_def entry_artifact_def decode_artifact_def Let_def by (elim conjE, (rule typed_obj typed_bind)+; simp (no_asm_simp) add: typing)

subsection \<open>The members that are only tested as text\<close>

definition tested_plan :: "js_record \<Rightarrow> bool" where
  "tested_plan plan \<longleftrightarrow> is_string (getProp plan ''state'')
     \<and> list_all (\<lambda>item. is_string (getProp (the_record item) ''status'')) (the_array (getProp plan ''items''))"

definition tested_review :: "js_record \<Rightarrow> bool" where
  "tested_review r \<longleftrightarrow> list_all (\<lambda>k. is_string (getProp r k)) [''inputDigest'', ''inputRef'', ''requestDigest'']
     \<and> list_all (\<lambda>k. if_defined is_string (getProp r k)) [''reportRef'', ''verdict'']"

definition tested_control :: "js_record \<Rightarrow> bool" where
  "tested_control authorized \<longleftrightarrow> is_string (getProp authorized ''issuedAt'') \<and> is_string (getProp authorized ''expiresAt'')"

definition tested_members :: "string \<Rightarrow> js_record \<Rightarrow> bool" where
  "tested_members type data \<longleftrightarrow>
     (type = ''control.authorized'' \<longrightarrow> tested_control (the_record (getProp data ''fact'')))
     \<and> (type = ''working_plan.saved'' \<longrightarrow> tested_plan (the_record (getProp data ''plan'')))
     \<and> (type \<in> {''working_plan.review_requested'', ''working_plan.reviewed''} \<longrightarrow> tested_review (the_record (getProp data ''review'')))"

lemma control_fact_typed: "verifiedPlanControlFact host v \<Longrightarrow> tested_control (the_record v) \<Longrightarrow> typed (decode_control_fact v)"
  unfolding verifiedPlanControlFact_def tested_control_def decode_control_fact_def Let_def list.pred_inject
  by (elim conjE, (rule typed_obj typed_bind)+; simp (no_asm_simp) add: typing)

lemma control_authorized_typed:
  "valid_control_authorized host data \<Longrightarrow> tested_members ''control.authorized'' data \<Longrightarrow> typed (decode_control_authorized data)"
  unfolding valid_control_authorized_def tested_members_def decode_control_authorized_def
  by (elim conjE, (rule typed_obj typed_bind)+; simp (no_asm_simp) add: typing control_fact_typed)

lemma working_item_typed: "is_record item \<and> safeId (getProp (the_record item) ''id'') \<and> working_text (getProp (the_record item) ''title'')
     \<and> is_string (getProp (the_record item) ''status'') \<Longrightarrow>
   typed (do { r \<leftarrow> obj_of item; i \<leftarrow> str_of (getProp r ''id''); title \<leftarrow> str_of (getProp r ''title'');
     status \<leftarrow> str_of (getProp r ''status''); Some \<lparr>wi_id = i, wi_title = title, wi_status = status\<rparr> })"
  by (elim conjE, (rule typed_obj typed_bind)+; simp (no_asm_simp) add: typing)

lemma working_plan_checks: "validateWorkingPlanV1 v \<Longrightarrow> is_record v \<and> safeId (getProp (the_record v) ''planId'')
    \<and> positiveInteger (getProp (the_record v) ''revision'') \<and> working_text (getProp (the_record v) ''objective'')
    \<and> is_array (getProp (the_record v) ''items'') \<and> (\<forall>item \<in> set (the_array (getProp (the_record v) ''items'')).
        is_record item \<and> safeId (getProp (the_record item) ''id'') \<and> working_text (getProp (the_record item) ''title''))"
  by (simp add: validateWorkingPlanV1_def Let_def list_all_iff)

lemma working_items_typed: "validateWorkingPlanV1 v \<Longrightarrow> tested_plan (the_record v) \<Longrightarrow> typed (list_of (\<lambda>item. do { r \<leftarrow> obj_of item;
     i \<leftarrow> str_of (getProp r ''id''); title \<leftarrow> str_of (getProp r ''title''); status \<leftarrow> str_of (getProp r ''status'');
     Some \<lparr>wi_id = i, wi_title = title, wi_status = status\<rparr> }) (getProp (the_record v) ''items''))"
  using working_plan_checks[of v] by (simp add: tested_plan_def list_all_iff working_item_typed)

lemma working_plan_typed:
  assumes v: "validateWorkingPlanV1 v" and tested: "tested_plan (the_record v)"
  shows "typed (decode_working_plan v)"
  unfolding decode_working_plan_def
  by (insert working_plan_checks[OF v] tested[unfolded tested_plan_def], elim conjE, (rule typed_obj typed_bind)+; (rule working_items_typed[OF v tested] | simp (no_asm_simp) add: typing))

lemma working_review_checks: "validateWorkingReviewV1 v \<Longrightarrow> is_record v \<and> safeId (getProp (the_record v) ''reviewRequestId'')
    \<and> safeId (getProp (the_record v) ''operationId'')
    \<and> (getProp (the_record v) ''planRevision'' = JNull \<or> positiveInteger (getProp (the_record v) ''planRevision''))
    \<and> nonNegativeInteger (getProp (the_record v) ''snapshotSequence'') \<and> nonNegativeInteger (getProp (the_record v) ''evidenceSequence'')"
  by (simp add: validateWorkingReviewV1_def Let_def)

lemma working_review_typed:
  assumes "validateWorkingReviewV1 v" and tested: "tested_review (the_record v)"
  shows "typed (decode_working_review v)"
  unfolding decode_working_review_def
  by (insert working_review_checks[OF assms(1)] tested[unfolded tested_review_def list.pred_inject], elim conjE, (rule typed_obj typed_bind)+; simp add: typing) (auto simp: typing)

subsection \<open>Entries\<close>

lemma tables_typed:
  assumes "list_all2 (\<lambda>(k, check) (k', decode). k = k' \<and> (\<forall>data. tested_members k data \<longrightarrow> check data \<longrightarrow> typed (decode data))) checks decoders"
    and "map_of checks type = Some check" and "check data" and "tested_members type data"
  shows "\<exists>decode. map_of decoders type = Some decode \<and> typed (decode data)"
  using assms by (induction rule: list_all2_induct) (auto split: if_splits)

lemma forked_typed: "valid_forked data \<Longrightarrow> typed (do { c \<leftarrow> str_of (getProp data ''childSessionId''); s \<leftarrow> str_of (getProp data ''sourceEntryId'');
    Some (Session_forked c s) })"
  unfolding valid_forked_def by (elim conjE, (rule typed_bind)+; simp (no_asm_simp) add: typing)

lemma command_typed: "valid_command data \<Longrightarrow> typed (do { i \<leftarrow> str_of (getProp data ''commandId''); ref \<leftarrow> opt_of str_of (getProp data ''resultRef'');
    Some (Command_invoked i ref) })"
  unfolding valid_command_def Let_def by (elim conjE, (rule typed_bind)+; simp (no_asm_simp) add: typing)

lemma control_bound_typed: "valid_control_bound data \<Longrightarrow> typed (do { i \<leftarrow> str_of (getProp data ''controlEventId''); r \<leftarrow> str_of (getProp data ''runId'');
    turn \<leftarrow> str_of (getProp data ''providerTurnId''); Some (Control_turn_bound i r turn) })"
  unfolding valid_control_bound_def by (elim conjE, (rule typed_bind)+; simp (no_asm_simp) add: typing)

lemma control_discarded_typed: "valid_control_discarded data \<Longrightarrow> typed (do { i \<leftarrow> str_of (getProp data ''controlEventId'');
    d \<leftarrow> member_of CONTROL_DISPOSITIONS (getProp data ''disposition''); Some (Control_discarded i d) })"
  unfolding valid_control_discarded_def by (elim conjE, (rule typed_bind)+; simp (no_asm_simp) add: typing CONTROL_DISPOSITIONS_def)

lemma control_consumed_typed: "valid_control_consumed data \<Longrightarrow> typed (do { i \<leftarrow> str_of (getProp data ''controlEventId'');
    a \<leftarrow> member_of CONTROL_ACTIONS (getProp data ''action''); digest \<leftarrow> str_of (getProp data ''targetDigest''); Some (Control_consumed i a digest) })"
  unfolding valid_control_consumed_def by (elim conjE, (rule typed_bind)+; simp (no_asm_simp) add: typing)

lemma member_typed:
  "valid_message data \<Longrightarrow> typed (decode_member ''messageId'' m data)" "valid_skill data \<Longrightarrow> typed (decode_member ''invocationId'' s data)"
  "valid_permission data \<Longrightarrow> typed (decode_member ''requestId'' p data)"
  by (simp_all add: valid_message_def valid_skill_def valid_permission_def decode_member_def Let_def typing)

lemma recorded_typed: "valid_usage data \<Longrightarrow> typed (map_option Usage_recorded (decode_budget_usage (getProp data ''usage'')))"
  by (simp add: valid_usage_def typing)

lemma plan_payload_typed: "typed (decode data) \<Longrightarrow> typed (plan_payload decode data)"
  by (simp add: plan_payload_def)

lemmas payload_typed = typed_Some forked_typed command_typed control_bound_typed control_discarded_typed control_consumed_typed
  member_typed recorded_typed
  session_created_typed metadata_typed run_started_typed run_terminal_typed generation_typed compaction_typed
  plan_created_typed plan_state_changed_typed plan_decision_typed plan_revised_typed step_created_typed step_state_changed_typed
  attempt_created_typed attempt_state_changed_typed execution_completed_typed execution_bound_typed result_recorded_typed verification_typed
  budget_reserved_typed budget_settled_typed artifact_typed control_authorized_typed

lemma payload_tables: "list_all2 (\<lambda>(k, check) (k', decode). k = k' \<and> (\<forall>data. tested_members k data \<longrightarrow> check data \<longrightarrow> typed (decode data)))
    (payload_checks host runId) payload_decoders"
  unfolding payload_checks_def payload_decoders_def
  by (simp only: list_all2_Cons list_all2_Nil prod.case simp_thms, intro conjI allI impI)
    ((rule payload_typed plan_payload_typed | assumption)+)

lemma payload_types: "map_of (payload_checks host runId) type = Some check \<Longrightarrow> check data \<Longrightarrow> tested_members type data
    \<Longrightarrow> \<exists>decode. map_of payload_decoders type = Some decode \<and> typed (decode data)"
  by (rule tables_typed[OF payload_tables])

lemma working_event_checks:
  assumes "validateWorkingPlanEventV1 type data = Inr u"
  shows "type = ''working_plan.saved'' \<Longrightarrow> validateWorkingPlanV1 (getProp data ''plan'')"
    and "type \<noteq> ''working_plan.saved'' \<Longrightarrow> validateWorkingReviewV1 (getProp data ''review'')"
  using assms unfolding validateWorkingPlanEventV1_def andThen_return_iff require_return_iff by (simp_all only: if_True if_False) simp_all

lemma tested_event:
  "tested_members ''working_plan.saved'' data = tested_plan (the_record (getProp data ''plan''))"
  "tested_members ''working_plan.review_requested'' data = tested_review (the_record (getProp data ''review''))"
  "tested_members ''working_plan.reviewed'' data = tested_review (the_record (getProp data ''review''))"
  by (simp_all add: tested_members_def)

lemma decode_event:
  "decode_payload ''working_plan.saved'' data = map_option Working_plan_saved (decode_working_plan (getProp data ''plan''))"
  "decode_payload ''working_plan.review_requested'' data = map_option Working_review_requested (decode_working_review (getProp data ''review''))"
  "decode_payload ''working_plan.reviewed'' data = map_option Working_reviewed (decode_working_review (getProp data ''review''))"
  by (simp_all add: decode_payload_def)

lemma working_event_typed:
  assumes ok: "validateWorkingPlanEventV1 type data = Inr u" and type: "type \<in> set WORKING_PLAN_TYPES" and tested: "tested_members type data"
  shows "typed (decode_payload type data)"
proof -
  from type consider "type = ''working_plan.saved''" | "type = ''working_plan.review_requested''" | "type = ''working_plan.reviewed''"
    by (auto simp: WORKING_PLAN_TYPES_def)
  then show ?thesis
  proof cases
    case 1
    show ?thesis using working_event_checks(1)[OF ok 1] tested unfolding 1 tested_event decode_event typed_map by (rule working_plan_typed)
  next
    case 2
    have "validateWorkingReviewV1 (getProp data ''review'')" by (rule working_event_checks(2)[OF ok]) (simp add: 2)
    then show ?thesis using tested unfolding 2 tested_event decode_event typed_map by (rule working_review_typed)
  next
    case 3
    have "validateWorkingReviewV1 (getProp data ''review'')" by (rule working_event_checks(2)[OF ok]) (simp add: 3)
    then show ?thesis using tested unfolding 3 tested_event decode_event typed_map by (rule working_review_typed)
  qed
qed

lemma other_payload: "type \<notin> set WORKING_PLAN_TYPES \<Longrightarrow> decode_payload type data =
    (if isReviewPlanEventTypeV1 type then Some (Review_plan_entry type (JObj data))
     else case map_of payload_decoders type of None \<Rightarrow> None | Some decode \<Rightarrow> decode data)"
  by (simp add: decode_payload_def WORKING_PLAN_TYPES_def)

lemma payload_typed_ok:
  assumes ok: "validatePayload host type data runId = Inr u" and tested: "tested_members type data"
  shows "typed (decode_payload type data)"
proof (cases "type \<in> set WORKING_PLAN_TYPES")
  case True
  with ok have "validateWorkingPlanEventV1 type data = Inr u" by (simp add: validatePayload_def)
  from working_event_typed[OF this True tested] show ?thesis .
next
  case working: False
  show ?thesis
  proof (cases "isReviewPlanEventTypeV1 type")
    case True
    then show ?thesis by (simp add: other_payload[OF working])
  next
    case False
    with ok working obtain check where check: "map_of (payload_checks host runId) type = Some check" "check data"
      by (simp add: validatePayload_def require_return_iff split: option.splits)
    from payload_types[OF check tested] False show ?thesis by (auto simp: other_payload[OF working])
  qed
qed

lemma correlation_typed: "validCorrelation v \<Longrightarrow> typed (decode_correlation v)"
  unfolding validCorrelation_def decode_correlation_def
  by (elim conjE, (rule typed_obj)+) (auto simp: typed_those list_all_iff typing)

lemma entry_typed:
  assumes ok: "validateSessionEntryV3 host input = Inr r"
    and tested: "tested_members (the_string (getProp r ''type'')) (the_record (getProp r ''data''))"
  shows "typed (decode_entry r)"
proof -
  from ok have r: "entry_fields_ok r"
    and payload: "validatePayload host (the_string (getProp r ''type'')) (the_record (getProp r ''data'')) (getProp r ''runId'') = Inr ()"
    by (auto simp: validateSessionEntryV3_def Let_def andThen_return_iff require_return_iff)
  from r have kind: "getProp r ''type'' = JStr (the_string (getProp r ''type''))" by (auto simp: entry_fields_ok_def Let_def elim!: is_stringE)
  note payload = payload_typed_ok[OF payload tested]
  from r show ?thesis unfolding decode_entry_def entry_fields_ok_def Let_def
    apply (subst kind)
    apply (simp only: str_of.simps bind.simps)
    by (elim conjE, (rule typed_obj typed_bind)+; (rule payload | simp (no_asm_simp) add: typing)) (erule if_defined_mono, erule correlation_typed)
qed

end
