(* ===== verification/SessionEntryProperties.thy ===== *)
theory SessionEntryProperties
  imports SessionEntryTyping SessionControls SessionSamples
begin

section \<open>Properties of the journal on its unvalidated input\<close>

text \<open>
  The validator and the reducer composed: what a log of JavaScript values that
  \<open>reduceSessionEntriesV3\<close> accepts looks like, and what its views say about it.
\<close>

subsection \<open>Reading entries\<close>

lemma str_of_iff: "str_of v = Some s \<longleftrightarrow> v = JStr s"
  by (cases v) auto

lemma nat_of_iff: "nat_of v = Some n \<longleftrightarrow> v = jnat n \<and> safe_nat n"
  by (auto simp: nat_of_def nonNegativeInteger_iff)

lemma obj_of_iff: "obj_of v = Some r \<longleftrightarrow> v = JObj r"
  by (cases v) auto

lemmas decode_iffs = bind_eq_Some_conv str_of_iff nat_of_iff obj_of_iff


lemma validate_acceptE:
  assumes "validateSessionEntryV3 host input = Inr r"
  obtains "input = JObj r" "getProp r ''schemaVersion'' = jnat 3" "entry_fields_ok r"
    "validatePayload host (the_string (getProp r ''type'')) (the_record (getProp r ''data'')) (getProp r ''runId'') = Inr ()"
  using assms by (cases input) (auto simp: validateSessionEntryV3_def Let_def andThen_return_iff require_return_iff)









subsection \<open>The order of the log\<close>


subsection \<open>Types of entries\<close>

lemma payload_lookup:
  "validatePayload host ''session.created'' data runId = require (valid_session_created data) SESSION_ENTRY_INVALID"
  "validatePayload host ''control.authorized'' data runId = require (valid_control_authorized host data) SESSION_ENTRY_INVALID"
  "validatePayload host ''control.consumed'' data runId = require (valid_control_consumed data) SESSION_ENTRY_INVALID"
  by (simp_all add: validatePayload_def WORKING_PLAN_TYPES_def isReviewPlanEventTypeV1_def REVIEW_PLAN_EVENT_TYPES_V1_def payload_checks_def)

lemma decode_lookup:
  "decode_payload ''session.created'' data = decode_session_created data"
  "decode_payload ''control.authorized'' data = decode_control_authorized data"
  "decode_payload ''control.consumed'' data = do { i \<leftarrow> str_of (getProp data ''controlEventId''); a \<leftarrow> member_of CONTROL_ACTIONS (getProp data ''action'');
        digest \<leftarrow> str_of (getProp data ''targetDigest''); Some (Control_consumed i a digest) }"
  by (simp_all add: decode_payload_def isReviewPlanEventTypeV1_def REVIEW_PLAN_EVENT_TYPES_V1_def payload_decoders_def)

subsection \<open>Controls of the log\<close>

text \<open>Only an entry of the type \<open>control.authorized\<close> decodes to an authorization.\<close>

definition authorizes :: "session_data \<Rightarrow> bool" where
  "authorizes d \<longleftrightarrow> (case d of Control_authorized _ _ _ \<Rightarrow> True | _ \<Rightarrow> False)"

definition never :: "session_data option \<Rightarrow> bool" where
  "never m \<longleftrightarrow> (\<forall>d. m = Some d \<longrightarrow> \<not> authorizes d)"



lemma never_case: "never m \<Longrightarrow> (\<And>x. never (f x)) \<Longrightarrow> never (case v of None \<Rightarrow> m | Some x \<Rightarrow> f x)"
  by (cases v) simp_all










subsection \<open>A sample log\<close>

definition raw_entry :: "nat \<Rightarrow> string \<Rightarrow> js_record \<Rightarrow> js_record" where
  "raw_entry n type data = [(''schemaVersion'', jnat 3), (''entryId'', JStr (''entry'' @ nat_to_string n)), (''sessionId'', JStr ''session''),
     (''sequence'', jnat n), (''revision'', jnat 1), (''timestamp'', JStr ''2026-01-01T00:00:00.000Z''), (''type'', JStr type), (''data'', JObj data)]"

definition raw_fact :: "js_value \<Rightarrow> js_value \<Rightarrow> js_record" where
  "raw_fact issued expires = [(''controlEventId'', JStr ''ctl1''), (''actorId'', JStr ''user''), (''actorBindingDigest'', JStr sample_digest),
     (''sessionId'', JStr ''session''), (''action'', JStr ''cancel''), (''reasonCode'', JStr ''user_cancelled''),
     (''target'', JObj [(''kind'', JStr ''session''), (''sessionStateDigest'', JStr sample_digest), (''planBinding'', JNull)]),
     (''targetDigest'', JStr sample_digest), (''challengeId'', JStr ''pcc_1''), (''challengeDigest'', JStr sample_digest),
     (''tokenDigest'', JStr sample_digest), (''issuedAt'', issued), (''expiresAt'', expires)]"

definition raw_authorized :: "js_value \<Rightarrow> js_value \<Rightarrow> js_record" where
  "raw_authorized issued expires = raw_entry 2 ''control.authorized'' [(''authorizationRequestId'', JStr ''ask1''),
     (''challengeEnvelopeDigest'', JStr sample_digest), (''fact'', JObj (raw_fact issued expires))]"



definition raw_timed :: js_record where
  "raw_timed = raw_authorized (JStr ''2026-01-01T00:00:00.000Z'') (JStr ''2026-01-01T00:05:00.000Z'')"


definition raw_host :: entry_host where
  "raw_host = entry_host_of sample_env (\<lambda>_. NaN)"

lemma raw_entry_accepted:
  assumes "validatePayload host type data JUndef = Inr ()" and "assertJsonValue 0 (JObj (raw_entry n type data))" and "entry_fields_ok (raw_entry n type data)"
  shows "validateSessionEntryV3 host (JObj (raw_entry n type data)) = Inr (raw_entry n type data)"
  using assms by (simp add: validateSessionEntryV3_def raw_entry_def getProp_Cons andThen_def require_def)


lemma raw_timed_accepted: "validateSessionEntryV3 raw_host (JObj raw_timed) = Inr raw_timed"
  unfolding raw_timed_def raw_authorized_def by (rule raw_entry_accepted, unfold payload_lookup) code_simp+


text \<open>
  The two calls of \<open>instant\<close> check nothing: a control whose times are the numbers 1 and 2 is accepted,
  and it is not a \<open>VerifiedPlanControlFactV1\<close>.
\<close>

lemma control_times_unchecked:
  "validateSessionEntryV3 raw_host (JObj (raw_authorized (jnat 1) (jnat 2))) = Inr (raw_authorized (jnat 1) (jnat 2))
   \<and> decode_entry (raw_authorized (jnat 1) (jnat 2)) = None"
proof
  show "validateSessionEntryV3 raw_host (JObj (raw_authorized (jnat 1) (jnat 2))) = Inr (raw_authorized (jnat 1) (jnat 2))"
    unfolding raw_authorized_def by (rule raw_entry_accepted, unfold payload_lookup) code_simp+
  have "decode_control_fact (JObj (raw_fact (jnat 1) (jnat 2))) = None" by code_simp
  then show "decode_entry (raw_authorized (jnat 1) (jnat 2)) = None"
    by (simp add: raw_authorized_def decode_entry_def raw_entry_def getProp_Cons decode_lookup decode_control_authorized_def bind_eq_None_conv)
qed












subsection \<open>Properties\<close>

text \<open>C23: The cast at the end of \<open>validateSessionEntryV3\<close> is sound: an accepted entry is the input
  itself and has the declared type, with safe identifiers and positive positions, when the members
  the validator only tests as text are strings.\<close>

theorem journal_entry_typed:
  assumes ok: "validateSessionEntryV3 host input = Inr r"
    and tested: "tested_members (the_string (getProp r ''type'')) (the_record (getProp r ''data''))"
  shows "input = JObj r \<and> (\<exists>e. decode_entry r = Some e \<and> safe_id_string (en_entryId e) \<and> safe_id_string (en_sessionId e)
    \<and> 0 < en_sequence e \<and> safe_nat (en_sequence e) \<and> 0 < en_revision e \<and> safe_nat (en_revision e)
    \<and> canonical_instant_string (en_timestamp e))"
proof -
  obtain e where e: "decode_entry r = Some e" using entry_typed[OF ok tested] by (auto simp: typed_def)
  from ok have "entry_fields_ok r" and r: "input = JObj r" by (auto elim: validate_acceptE)
  with e show ?thesis
    by (auto simp: decode_entry_def decode_iffs entry_fields_ok_def Let_def positiveInteger_iff)
qed

theorem journal_entry_typed_witness:
  "\<exists>e. decode_entry raw_timed = Some e \<and> safe_id_string (en_entryId e) \<and> 0 < en_sequence e"
proof -
  have "tested_members (the_string (getProp raw_timed ''type'')) (the_record (getProp raw_timed ''data''))"
    by (simp add: tested_members_def tested_control_def raw_timed_def raw_authorized_def raw_entry_def raw_fact_def getProp_Cons)
  from journal_entry_typed[OF raw_timed_accepted this] show ?thesis by blast
qed










end
