(* ===== verification/Spec2Isabelle.thy ===== *)
theory Spec2Isabelle
  imports WorkflowProperties ReadinessProperties PlanProperties SessionProperties DagProperties ReviewPlanProperties SubagentProperties
    SessionEntryProperties
begin

text \<open>
  Verification of the orchestration core of Praxis, an agent harness written in TypeScript.

  \<^bold>\<open>The program.\<close> Praxis runs language-model agents. What it must get right is durable and
  event-sourced: a Workflow is a graph of nodes whose history is a list of events, a Session is a
  journal of entries, and every public view is the fold of a reducer over such a log. The contracts
  and the reducers are pure functions of \<open>packages/core-sdk/src\<close>; the services of
  \<open>apps/runtime/src\<close> (schedulers, supervisors, storage) read a projection, decide and append. A
  Plan proposed by a model is admitted against the authority of its parent (\<open>planValidator.ts\<close>),
  written to the journal, scheduled by \<open>dagScheduler.ts\<close>, executed by child Runs and verified; a
  review Plan is the stricter contract under which items and the whole task are accepted only by
  reviews.

  \<^bold>\<open>The theories.\<close> Each part has a theory of definitions in the order of its source file, one or
  more theories of lemmas, samples for the witnesses, and a theory of properties.

  \<^item> \<open>Prelude\<close>, \<open>JsValue\<close>, \<open>StateMachines\<close>: results of functions that throw, JavaScript values
    and records, and the interfaces of transition tables and event logs.
  \<^item> \<open>workflow.ts\<close>: \<open>WorkflowSpec\<close> (validation of specifications), \<open>WorkflowMachine\<close> (projection,
    events, replay), \<open>WorkflowReadiness\<close> (readiness of nodes). Lemmas in \<open>WorkflowValidity\<close>,
    \<open>Acyclicity\<close> (Kahn's algorithm and depth-first search decide acyclicity) and
    \<open>WorkflowProjection\<close>; properties in \<open>WorkflowProperties\<close> and \<open>ReadinessProperties\<close>.
  \<^item> \<open>plan.ts\<close> and \<open>planValidator.ts\<close>: \<open>PlanContract\<close> and \<open>PlanAdmission\<close>; lemmas in
    \<open>PlanGraph\<close>; properties in \<open>PlanProperties\<close>.
  \<^item> \<open>session-journal.ts\<close>: \<open>SessionPlan\<close> (the Plan, step, attempt, subagent and verification
    entries), \<open>SessionJournal\<close> (every other entry, the loop and the views). \<open>SessionPlanSteps\<close> is
    the abstract transition system of a Plan and the refinement by the handlers;
    \<open>SessionInvariants\<close>, \<open>SessionControls\<close> and \<open>SessionProjection\<close> hold the invariants;
    properties in \<open>SessionProperties\<close>. \<open>SessionEntries\<close> is the validator of entries with what it
    calls in \<open>working-plan.ts\<close>, \<open>subagent.ts\<close> and \<open>llm.ts\<close>, \<open>SessionEntryTypes\<close> the cast of an
    accepted entry to its declared type and the reducer on its unvalidated input; the cast is
    shown sound in \<open>SessionEntryTyping\<close>, properties in \<open>SessionEntryProperties\<close>.
  \<^item> \<open>review-plan.ts\<close>, \<open>canonical-json.ts\<close>, \<open>review-plan-events.ts\<close>: \<open>ReviewPlan\<close> (validators,
    digests, transition tables) and \<open>ReviewPlanEvents\<close> (the reducer the Session calls).
    \<open>ReviewPlanFacts\<close>, \<open>ReviewPlanHistory\<close> and \<open>ReviewPlanCounts\<close> hold the lemmas; properties
    in \<open>ReviewPlanProperties\<close>.
  \<^item> \<open>dagScheduler.ts\<close>, \<open>runBudgetUsage.ts\<close>: \<open>DagScheduler\<close>; lemmas in \<open>DagSelection\<close> (the two
    loops) and \<open>DagClaims\<close> (the commit of a claim replays in the Session reducer); properties in
    \<open>DagProperties\<close>.
  \<^item> \<open>CancellationTree\<close> of \<open>contracts.ts\<close>: \<open>CancellationTree\<close>. \<open>admission.ts\<close> with the budget
    arithmetic of \<open>contracts.ts\<close>: \<open>SubagentLedger\<close> (the ledger) and \<open>SubagentHost\<close> (the facade over
    the ledger and the tree); lemmas in \<open>SubagentInvariants\<close>, \<open>SubagentHistory\<close> and
    \<open>SubagentOperations\<close>; properties in \<open>SubagentProperties\<close>.

  \<^bold>\<open>How code becomes definitions.\<close> A function keeps its name and the order of its checks. A
  function that throws returns a sum, \<open>Inl\<close> the error code. Untyped input is a \<open>js_value\<close>; an
  object is the list of its own members in order, so validators see missing, extra and
  \<open>undefined\<close> members. Once validated, values become records and datatypes with the members of
  the TypeScript types; review Plans stay records of JavaScript values, because their reducer
  spreads, deletes and revalidates them. A JavaScript \<open>Map\<close> is an association list updated in
  place. Numbers are \<open>int\<close> or \<open>nat\<close> within the checks for safe integers that the source makes.
  Strings are lists of 8-bit characters: of the 16-bit code units of JavaScript only those below
  256 occur, and \<open>utf8_length\<close> counts their bytes.

  Parameters of the model stand for code that is not in the repository: \<open>sha256\<close> (node:crypto),
  the date parser of the host for dates that are not in canonical form, floating-point addition of
  costs, the number a string converts to, and \<open>localeCompare\<close>; properties hold for all of them, unless a hypothesis is stated.

  \<^bold>\<open>What is shown.\<close> Validators accept exactly the well-formed values and accept their own results
  unchanged; cycle checks decide acyclicity; replay keeps the projection invariants, is
  incremental and never applies an event twice; terminal states are final; admission never
  amplifies authority; a step succeeds only with passed verifications; at most one Run is active;
  controls are used once; usage, attempts and revisions are exact counts of the log; schedules are
  conflict-free and within their limits, make progress, and their commits are accepted by the
  Session reducer; accepted items and completed review Plans have their reviews in the log; child
  Runs are admitted within the limits and budgets of all their ancestors, refused ones leave no
  trace in the accounts, and a cancellation reaches exactly the Runs below it; accepted journal
  entries have their declared types (but for members that are only tested as text), and an
  accepted log is ordered and authorizes every control it consumes.

  \<^bold>\<open>Interfaces.\<close> \<open>transition_table\<close> and \<open>event_log\<close> (\<open>StateMachines\<close>) are interpreted on the
  tables and reducers of Workflows, Plans and Sessions; \<open>step_invariant\<close> (\<open>SessionPlanSteps\<close>)
  lifts a property of one step to every log; \<open>review_invariant\<close> (\<open>ReviewPlanHistory\<close>) lifts a
  property of one review event to every log. \<open>spawn_ports\<close> (\<open>SubagentHost\<close>) is what the facade
  of child Runs needs of its ledger and its cancellation tree, interpreted on both.

  \<^bold>\<open>Termination and bounds.\<close> Every definition is total. The worklist loops of the cycle checks
  terminate by the size of the unvisited part of the graph. Two walks up a chain of parents,
  \<open>climbs_to\<close> in the cancellation tree and \<open>chain_walk\<close> in the ledger, end only because the chain
  has no cycle: they have fuel for one step per link or reservation, and that they never run out is
  proved (\<open>cancellation_forest\<close>, \<open>subagent_chain_stable\<close>). The limits of the
  source (entries, nodes, items, bytes) are constants of the same name.

  \<^bold>\<open>Not modelled.\<close> The typed entries of \<open>SessionJournal\<close> leave out members that the reducer
  never reads; the freezing and cloning of results, since values are immutable here. The
  append and locking of the journal, SQL and files, child processes, timers and abort signals, the
  model loop and the providers, tools, plugins, the terminal and the network protocol: they are
  input and output around the functions modelled here. Shared references inside a value that
  \<open>canonicalJsonV1\<close> rejects as repeated cannot occur, since a value is a tree.
\<close>

end
